(* ===== verification/Go_Base.thy ===== *)
theory Go_Base
  imports Main "HOL-Library.Word" "HOL-Library.Sublist" "HOL-Library.Code_Target_Numeral"
begin

text \<open>
  The prelude of the development: what the modelled Go code uses of the language and of its
  \<^verbatim>\<open>strings\<close> and \<^verbatim>\<open>strconv\<close> packages, the type of results of code that can panic, and the
  generic lemmas that the component theories share.

  A Go string is a sequence of bytes and is modelled by \<^typ>\<open>string\<close>, a list of 8-bit
  characters, so that \<^term>\<open>length\<close> is Go's \<^verbatim>\<open>len\<close>.  \<^verbatim>\<open>strings.Fields\<close>, \<^verbatim>\<open>strings.ToLower\<close>
  and \<^verbatim>\<open>strings.ToUpper\<close> are modelled on their ASCII fast path: bytes of 128 and above are
  neither white space nor letters.

  The collection \<open>go_simps\<close> holds the unfolding rules of the string functions, for the
  evaluation of closed terms; \<open>affix_simps\<close> the rules that turn prefix and suffix tests into
  equations between lists.
\<close>

unbundle bit_operations_syntax

named_theorems go_simps
named_theorems affix_simps

section \<open>Panics\<close>

text \<open>A run-time panic of Go.  A function that can panic returns \<open>go_panic + 'a\<close>.\<close>

datatype go_panic = IndexOutOfRange | NilDereference | DivideByZero | StackOverflow | MakesliceOutOfRange

type_synonym 'a go = "go_panic + 'a"

definition bind_go :: "'e + 'a \<Rightarrow> ('a \<Rightarrow> 'e + 'b) \<Rightarrow> 'e + 'b" where
  "bind_go m f = (case m of Inl p \<Rightarrow> Inl p | Inr x \<Rightarrow> f x)"

lemma bind_go_simps [simp]:
  "bind_go (Inl p) f = Inl p"
  "bind_go (Inr x) f = f x"
  by (simp_all add: bind_go_def)

lemma bind_go_split:
  "P (bind_go m f) \<longleftrightarrow> (\<forall>p. m = Inl p \<longrightarrow> P (Inl p)) \<and> (\<forall>x. m = Inr x \<longrightarrow> P (f x))"
  by (cases m) simp_all

lemma bind_go_Inr_iff: "bind_go m f = Inr y \<longleftrightarrow> (\<exists>x. m = Inr x \<and> f x = Inr y)"
  by (cases m) simp_all

section \<open>Bytes and character classes\<close>

type_synonym byte = "8 word"

definition code_of :: "char \<Rightarrow> nat" where
  "code_of c = of_char c"

definition is_digit :: "char \<Rightarrow> bool" where
  "is_digit c \<longleftrightarrow> 48 \<le> code_of c \<and> code_of c \<le> 57"

definition is_upper :: "char \<Rightarrow> bool" where
  "is_upper c \<longleftrightarrow> 65 \<le> code_of c \<and> code_of c \<le> 90"

definition is_lower :: "char \<Rightarrow> bool" where
  "is_lower c \<longleftrightarrow> 97 \<le> code_of c \<and> code_of c \<le> 122"

text \<open>\<^verbatim>\<open>unicode.IsSpace\<close> on ASCII: tab, newline, vertical tab, form feed, return and space.\<close>

definition is_space :: "char \<Rightarrow> bool" where
  "is_space c \<longleftrightarrow> code_of c = 32 \<or> (9 \<le> code_of c \<and> code_of c \<le> 13)"

definition to_lower_char :: "char \<Rightarrow> char" where
  "to_lower_char c = (if is_upper c then char_of (code_of c + 32) else c)"

definition to_upper_char :: "char \<Rightarrow> char" where
  "to_upper_char c = (if is_lower c then char_of (code_of c - 32) else c)"

lemma code_of_char_of [simp]: "n < 256 \<Longrightarrow> code_of (char_of n) = n"
  by (simp add: code_of_def)

lemma char_of_code_of [simp]: "char_of (code_of c) = c"
  by (simp add: code_of_def)

lemma code_of_less [simp]: "code_of c < 256"
  by (simp add: code_of_def)

lemma code_of_eq_iff: "code_of c = code_of d \<longleftrightarrow> c = d"
  by (simp add: code_of_def)

lemma char_of_bits:
  "char_of (n::nat) = Char (odd n) (odd (n div 2)) (odd (n div 4)) (odd (n div 8))
     (odd (n div 16)) (odd (n div 32)) (odd (n div 64)) (odd (n div 128))"
  by (simp add: char_of_def bit_iff_odd)

lemma char_of_numeral [simp]:
  "char_of (numeral k :: nat) = Char (odd (numeral k :: nat)) (odd (numeral k div 2 :: nat))
     (odd (numeral k div 4 :: nat)) (odd (numeral k div 8 :: nat)) (odd (numeral k div 16 :: nat))
     (odd (numeral k div 32 :: nat)) (odd (numeral k div 64 :: nat)) (odd (numeral k div 128 :: nat))"
  by (rule char_of_bits)

lemmas char_class_defs = is_digit_def is_upper_def is_lower_def is_space_def

lemmas char_simps [go_simps] =
  code_of_def to_lower_char_def to_upper_char_def char_class_defs

section \<open>Package strings\<close>

definition HasPrefix :: "string \<Rightarrow> string \<Rightarrow> bool" where
  "HasPrefix s p \<longleftrightarrow> take (length p) s = p"

definition HasSuffix :: "string \<Rightarrow> string \<Rightarrow> bool" where
  "HasSuffix s p \<longleftrightarrow> length p \<le> length s \<and> drop (length s - length p) s = p"

definition TrimPrefix :: "string \<Rightarrow> string \<Rightarrow> string" where
  "TrimPrefix s p = (if HasPrefix s p then drop (length p) s else s)"

definition TrimSuffix :: "string \<Rightarrow> string \<Rightarrow> string" where
  "TrimSuffix s p = (if HasSuffix s p then take (length s - length p) s else s)"

fun Contains :: "string \<Rightarrow> string \<Rightarrow> bool" where
  "Contains [] sub = (sub = [])"
| "Contains (c # s) sub = (HasPrefix (c # s) sub \<or> Contains s sub)"

text \<open>\<^verbatim>\<open>strings.Split\<close> with a separator of one byte: the parts between the separators, never
  an empty list.\<close>

fun Split :: "string \<Rightarrow> char \<Rightarrow> string list" where
  "Split [] sep = [[]]"
| "Split (c # s) sep =
     (if c = sep then [] # Split s sep
      else case Split s sep of [] \<Rightarrow> [[c]] | p # ps \<Rightarrow> (c # p) # ps)"

fun Join :: "string list \<Rightarrow> string \<Rightarrow> string" where
  "Join [] sep = []"
| "Join [p] sep = p"
| "Join (p # q # ps) sep = p @ sep @ Join (q # ps) sep"

text \<open>\<^verbatim>\<open>strings.FieldsFunc\<close>: the maximal runs of bytes that do not satisfy the predicate.\<close>

fun FieldsFunc :: "(char \<Rightarrow> bool) \<Rightarrow> string \<Rightarrow> string \<Rightarrow> string list" where
  "FieldsFunc p acc [] = (if acc = [] then [] else [rev acc])"
| "FieldsFunc p acc (c # s) =
     (if p c then (if acc = [] then FieldsFunc p [] s else rev acc # FieldsFunc p [] s)
      else FieldsFunc p (c # acc) s)"

definition Fields :: "string \<Rightarrow> string list" where
  "Fields s = FieldsFunc is_space [] s"

definition ToLower :: "string \<Rightarrow> string" where
  "ToLower s = map to_lower_char s"

definition ToUpper :: "string \<Rightarrow> string" where
  "ToUpper s = map to_upper_char s"

text \<open>\<^verbatim>\<open>strings.TrimRight\<close> and \<^verbatim>\<open>strings.Trim\<close> with a cutset of one byte.\<close>

definition TrimRight :: "string \<Rightarrow> char \<Rightarrow> string" where
  "TrimRight s c = rev (dropWhile (\<lambda>x. x = c) (rev s))"

definition Trim :: "string \<Rightarrow> char \<Rightarrow> string" where
  "Trim s c = TrimRight (dropWhile (\<lambda>x. x = c) s) c"

lemmas strings_defs [go_simps] =
  HasPrefix_def HasSuffix_def TrimPrefix_def TrimSuffix_def Fields_def ToLower_def ToUpper_def
  TrimRight_def Trim_def

section \<open>Package strconv\<close>

definition digit_val :: "char \<Rightarrow> nat" where
  "digit_val c = code_of c - 48"

definition digits_val :: "string \<Rightarrow> nat" where
  "digits_val s = foldl (\<lambda>n c. 10 * n + digit_val c) 0 s"

text \<open>
  \<^verbatim>\<open>strconv.ParseUint(s, 10, bits)\<close>: \<open>None\<close> for the syntax error (empty string or a byte that is
  no digit; a sign or an underscore is no digit in base 10) and for the range error.
\<close>

definition ParseUint :: "string \<Rightarrow> nat \<Rightarrow> nat option" where
  "ParseUint s bits =
     (if s = [] \<or> \<not> list_all is_digit s then None
      else if digits_val s < 2 ^ bits then Some (digits_val s) else None)"

definition digit_char :: "nat \<Rightarrow> char" where
  "digit_char d = char_of (48 + d)"

text \<open>\<^verbatim>\<open>strconv.Itoa\<close> and \<^verbatim>\<open>strconv.FormatUint\<close> in base 10, on naturals.\<close>

fun Itoa :: "nat \<Rightarrow> string" where
  "Itoa n = (if n < 10 then [digit_char n] else Itoa (n div 10) @ [digit_char (n mod 10)])"

declare Itoa.simps [simp del]

lemmas strconv_defs [go_simps] =
  ParseUint_def digits_val_def digit_val_def digit_char_def Itoa.simps

section \<open>Lemmas on affixes\<close>

lemma HasPrefix_iff_prefix [affix_simps]: "HasPrefix s p \<longleftrightarrow> prefix p s"
  by (metis HasPrefix_def append_eq_conv_conj append_take_drop_id prefixE prefixI)

lemma HasSuffix_iff_suffix [affix_simps]: "HasSuffix s p \<longleftrightarrow> suffix p s"
proof
  assume "HasSuffix s p"
  then show "suffix p s"
    unfolding HasSuffix_def by (metis suffix_drop)
next
  assume "suffix p s"
  then obtain q where "s = q @ p" by (auto elim: suffixE)
  then show "HasSuffix s p" by (simp add: HasSuffix_def)
qed

lemma Contains_iff_sublist [affix_simps]: "Contains s sub \<longleftrightarrow> sublist sub s"
proof (induction s)
  case Nil
  then show ?case by simp
next
  case (Cons c s)
  then show ?case by (auto simp: HasPrefix_iff_prefix sublist_Cons_right)
qed

lemma TrimPrefix_append [simp]: "TrimPrefix (p @ s) p = s"
  by (simp add: TrimPrefix_def HasPrefix_def)

lemma TrimSuffix_append [simp]: "TrimSuffix (s @ p) p = s"
  by (simp add: TrimSuffix_def HasSuffix_def)

section \<open>Lemmas on Split, Join and Fields\<close>

lemma Split_neq_Nil [simp]: "Split s sep \<noteq> []"
  by (cases s) (auto split: list.splits)

lemma Split_no_sep [simp]: "sep \<notin> set s \<Longrightarrow> Split s sep = [s]"
  by (induction s) auto

lemma Split_append_sep [simp]:
  "sep \<notin> set a \<Longrightarrow> Split (a @ sep # s) sep = a # Split s sep"
  by (induction a) auto

lemma Split_parts_no_sep: "p \<in> set (Split s sep) \<Longrightarrow> sep \<notin> set p"
  by (induction s arbitrary: p) (auto split: list.splits if_splits)

lemma Join_Split [simp]: "Join (Split s sep) [sep] = s"
proof (induction s)
  case Nil
  then show ?case by simp
next
  case (Cons c s)
  obtain p ps where ps: "Split s sep = p # ps" by (cases "Split s sep") auto
  with Cons.IH show ?case by (cases ps) auto
qed

lemma Split_Join:
  "ps \<noteq> [] \<Longrightarrow> (\<forall>p \<in> set ps. sep \<notin> set p) \<Longrightarrow> Split (Join ps [sep]) sep = ps"
  by (induction ps "[sep]" rule: Join.induct) auto

lemma FieldsFunc_run:
  "(\<forall>c \<in> set w. \<not> p c) \<Longrightarrow> FieldsFunc p acc (w @ s) = FieldsFunc p (rev w @ acc) s"
  by (induction w arbitrary: acc) auto

lemma Fields_word_space:
  assumes "w \<noteq> []" and "\<forall>c \<in> set w. \<not> is_space c"
  shows "Fields (w @ CHR '' '' # s) = w # Fields s"
proof -
  have sp: "is_space CHR '' ''" by (simp add: is_space_def code_of_def)
  from assms show ?thesis by (simp add: Fields_def FieldsFunc_run sp)
qed

lemma Fields_word:
  assumes "w \<noteq> []" and "\<forall>c \<in> set w. \<not> is_space c"
  shows "Fields w = [w]"
proof -
  have "FieldsFunc is_space [] (w @ []) = FieldsFunc is_space (rev w @ []) []"
    using assms by (intro FieldsFunc_run) auto
  with assms show ?thesis by (simp add: Fields_def)
qed

lemma FieldsFunc_nonempty: "f \<in> set (FieldsFunc p acc s) \<Longrightarrow> f \<noteq> []"
  by (induction p acc s rule: FieldsFunc.induct) (auto split: if_splits)

lemma Fields_nonempty: "f \<in> set (Fields s) \<Longrightarrow> f \<noteq> []"
  by (auto simp: Fields_def dest: FieldsFunc_nonempty)

section \<open>Lemmas on decimal numbers\<close>

lemma is_digit_digit_char [simp]: "d < 10 \<Longrightarrow> is_digit (digit_char d)"
  by (simp add: is_digit_def digit_char_def)

lemma digit_val_digit_char [simp]: "d < 10 \<Longrightarrow> digit_val (digit_char d) = d"
  by (simp add: digit_val_def digit_char_def)

lemma Itoa_neq_Nil [simp]: "Itoa n \<noteq> []"
  by (subst Itoa.simps) simp

lemma Itoa_digits: "list_all is_digit (Itoa n)"
proof (induction n rule: Itoa.induct)
  case (1 n)
  then show ?case by (simp add: Itoa.simps [of n])
qed

lemma digits_val_snoc [simp]: "digits_val (s @ [c]) = 10 * digits_val s + digit_val c"
  by (simp add: digits_val_def)

lemma digits_val_Itoa [simp]: "digits_val (Itoa n) = n"
proof (induction n rule: Itoa.induct)
  case (1 n)
  show ?case
  proof (cases "n < 10")
    case True
    then show ?thesis by (simp add: Itoa.simps [of n] digits_val_def)
  next
    case False
    with 1 show ?thesis by (simp add: Itoa.simps [of n])
  qed
qed

lemma ParseUint_Itoa [simp]: "n < 2 ^ bits \<Longrightarrow> ParseUint (Itoa n) bits = Some n"
  by (simp add: ParseUint_def Itoa_digits)

lemma ParseUint_bound: "ParseUint s bits = Some n \<Longrightarrow> n < 2 ^ bits"
  by (auto simp: ParseUint_def split: if_splits)

lemma digit_not_special:
  assumes "is_digit c"
  shows "c \<noteq> CHR ''/''" and "c \<noteq> CHR ''-''" and "c \<noteq> CHR ''.''" and "c \<noteq> CHR '':''"
    and "c \<noteq> CHR ''*''" and "\<not> is_space c"
  using assms by (auto simp: is_digit_def is_space_def code_of_def)

lemma Itoa_set: "c \<in> set (Itoa n) \<Longrightarrow> is_digit c"
  using Itoa_digits [of n] by (auto simp: list_all_iff)

section \<open>Lemmas on words\<close>

lemma unat_take_bit: "unat (take_bit n a) = take_bit n (unat a)" for a :: "'w::len word"
  by (rule bit_eqI) (auto simp: bit_simps)

lemma and_not_mask_eq: "a AND NOT (mask n) = push_bit n (drop_bit n a)" for a :: "'w::len word"
  by (rule bit_eqI) (auto simp: bit_simps)

lemma unat_and_not_mask: "unat (a AND NOT (mask n)) = 2 ^ n * (unat a div 2 ^ n)" for a :: "'w::len word"
proof -
  have "push_bit n (drop_bit n a) = a - take_bit n a"
    using bits_ident [of n a] by (simp add: eq_diff_eq)
  moreover have le: "take_bit n a \<le> a"
    by (simp add: word_le_nat_alt unat_take_bit take_bit_eq_mod [of _ "unat a"])
  ultimately have "unat (a AND NOT (mask n)) = unat a - unat a mod 2 ^ n"
    by (simp add: and_not_mask_eq unat_sub [OF le] unat_take_bit take_bit_eq_mod [of _ "unat a"])
  then show ?thesis by (simp add: minus_mod_eq_mult_div)
qed

lemma if_merge: "(if P then x else if Q then x else y) = (if P \<or> Q then x else y)" by simp

end
