(* ===== verification/Reference_Tables.thy ===== *)
theory Reference_Tables
  imports Go_Base
begin

text \<open>
  \<^verbatim>\<open>service/network/reference\<close>: the names of well-known ports and IP protocols, both ways.  Port
  and protocol numbers keep their widths (\<^verbatim>\<open>uint16\<close>, \<^verbatim>\<open>uint8\<close>).  The lemmas show that the name of
  a number leads back to the number, whether it is a table name or the decimal form, which is
  what the rule parser relies on.
\<close>

type_synonym port = "16 word"

definition portNames :: "(port \<times> string) list" where
  "portNames =
     [(20, ''FTP-DATA''), (21, ''FTP''), (22, ''SSH''), (23, ''TELNET''), (25, ''SMTP''),
      (43, ''WHOIS''), (53, ''DNS''), (67, ''DHCP_SERVER''), (68, ''DHCP_CLIENT''), (69, ''TFTP''),
      (80, ''HTTP''), (110, ''POP3''), (123, ''NTP''), (143, ''IMAP''), (161, ''SNMP''), (179, ''BGP''),
      (194, ''IRC''), (389, ''LDAP''), (443, ''HTTPS''), (445, ''SMB''), (587, ''SMTP_ALT''),
      (465, ''SMTP_SSL''), (993, ''IMAP_SSL''), (995, ''POP3_SSL'')]"

definition portNumbers :: "(string \<times> port) list" where
  "portNumbers =
     [(''FTP-DATA'', 20), (''FTP'', 21), (''SSH'', 22), (''TELNET'', 23), (''SMTP'', 25),
      (''WHOIS'', 43), (''DNS'', 53), (''DHCP-SERVER'', 67), (''DHCP_SERVER'', 67),
      (''DHCP-CLIENT'', 68), (''DHCP_CLIENT'', 68), (''TFTP'', 69), (''HTTP'', 80), (''POP3'', 110),
      (''NTP'', 123), (''IMAP'', 143), (''SNMP'', 161), (''BGP'', 179), (''IRC'', 194), (''LDAP'', 389),
      (''HTTPS'', 443), (''SMB'', 445), (''SMTP-ALT'', 587), (''SMTP_ALT'', 587), (''SMTP-SSL'', 465),
      (''SMTP_SSL'', 465), (''IMAP-SSL'', 993), (''IMAP_SSL'', 993), (''POP3-SSL'', 995),
      (''POP3_SSL'', 995)]"

definition GetPortName :: "port \<Rightarrow> string" where
  "GetPortName p = (case map_of portNames p of Some name \<Rightarrow> name | None \<Rightarrow> Itoa (unat p))"

definition GetPortNumber :: "string \<Rightarrow> port option" where
  "GetPortNumber s = map_of portNumbers (ToUpper s)"

definition protocolNames :: "(byte \<times> string) list" where
  "protocolNames =
     [(1, ''ICMP''), (2, ''IGMP''), (6, ''TCP''), (17, ''UDP''), (27, ''RDP''), (58, ''ICMP6''),
      (33, ''DCCP''), (136, ''UDP-LITE'')]"

definition protocolNumbers :: "(string \<times> byte) list" where
  "protocolNumbers =
     [(''ICMP'', 1), (''IGMP'', 2), (''TCP'', 6), (''UDP'', 17), (''RDP'', 27), (''DCCP'', 33),
      (''ICMP6'', 58), (''UDP-LITE'', 136)]"

definition GetProtocolName :: "byte \<Rightarrow> string" where
  "GetProtocolName p = (case map_of protocolNames p of Some name \<Rightarrow> name | None \<Rightarrow> Itoa (unat p))"

definition GetProtocolNumber :: "string \<Rightarrow> byte option" where
  "GetProtocolNumber s = map_of protocolNumbers (ToUpper s)"

definition IsPacketProtocol :: "byte \<Rightarrow> bool" where
  "IsPacketProtocol p \<longleftrightarrow> p = 1 \<or> p = 17 \<or> p = 27 \<or> p = 58 \<or> p = 33 \<or> p = 136"

definition IsStreamProtocol :: "byte \<Rightarrow> bool" where
  "IsStreamProtocol p \<longleftrightarrow> p = 6"

definition IsICMP :: "byte \<Rightarrow> bool" where
  "IsICMP p \<longleftrightarrow> p = 1 \<or> p = 58"

lemmas reference_defs [go_simps] =
  portNames_def portNumbers_def GetPortName_def GetPortNumber_def protocolNames_def
  protocolNumbers_def GetProtocolName_def GetProtocolNumber_def IsPacketProtocol_def
  IsStreamProtocol_def IsICMP_def

section \<open>Names lead back to numbers\<close>

text \<open>The numeric form first, the table second, as the rule parser tries them.\<close>

definition port_of :: "string \<Rightarrow> port option" where
  "port_of s = (case ParseUint s 16 of Some n \<Rightarrow> Some (of_nat n) | None \<Rightarrow> GetPortNumber s)"

definition protocol_of :: "string \<Rightarrow> byte option" where
  "protocol_of s = (case ParseUint s 8 of Some n \<Rightarrow> Some (of_nat n) | None \<Rightarrow> GetProtocolNumber s)"

lemma port_of_table: "list_all (\<lambda>(p, n). port_of n = Some p) portNames"
  by code_simp

lemma protocol_of_table: "list_all (\<lambda>(p, n). protocol_of n = Some p) protocolNames"
  by code_simp

lemma port_of_GetPortName [simp]: "port_of (GetPortName p) = Some p"
proof (cases "map_of portNames p")
  case None
  have "unat p < 2 ^ 16" using unsigned_less [of p, where 'a = nat] by simp
  with None show ?thesis by (simp add: GetPortName_def port_of_def)
next
  case (Some n)
  then have "(p, n) \<in> set portNames" by (rule map_of_SomeD)
  with port_of_table have "port_of n = Some p" by (auto simp: list_all_iff)
  with Some show ?thesis by (simp add: GetPortName_def)
qed

lemma protocol_of_GetProtocolName [simp]: "protocol_of (GetProtocolName p) = Some p"
proof (cases "map_of protocolNames p")
  case None
  have "unat p < 2 ^ 8" using unsigned_less [of p, where 'a = nat] by simp
  with None show ?thesis by (simp add: GetProtocolName_def protocol_of_def)
next
  case (Some n)
  then have "(p, n) \<in> set protocolNames" by (rule map_of_SomeD)
  with protocol_of_table have "protocol_of n = Some p" by (auto simp: list_all_iff)
  with Some show ?thesis by (simp add: GetProtocolName_def)
qed

text \<open>No name contains a byte that the rule syntax gives a meaning to.\<close>

definition plain_name :: "string \<Rightarrow> bool" where
  "plain_name s \<longleftrightarrow> s \<noteq> [] \<and> s \<noteq> ''*'' \<and> list_all (\<lambda>c. c \<noteq> CHR ''/'' \<and> \<not> is_space c) s
     \<and> \<not> HasPrefix s ''#''"

lemma plain_tables:
  "list_all (plain_name \<circ> snd) portNames" "list_all (plain_name \<circ> snd) protocolNames"
  by code_simp+

lemma plain_name_Itoa: "plain_name (Itoa n)"
proof -
  have "c \<noteq> CHR ''/'' \<and> c \<noteq> CHR ''*'' \<and> c \<noteq> CHR ''#'' \<and> \<not> is_space c" if "c \<in> set (Itoa n)" for c
    using Itoa_set [OF that] by (auto simp: is_digit_def is_space_def code_of_def)
  then show ?thesis
    by (cases "Itoa n") (auto simp: plain_name_def list_all_iff HasPrefix_def)
qed

lemma plain_GetPortName: "plain_name (GetPortName p)"
  using plain_tables(1) plain_name_Itoa
  by (auto simp: GetPortName_def list_all_iff split: option.split dest!: map_of_SomeD)

lemma plain_GetProtocolName: "plain_name (GetProtocolName p)"
  using plain_tables(2) plain_name_Itoa
  by (auto simp: GetProtocolName_def list_all_iff split: option.split dest!: map_of_SomeD)

text \<open>Port 20 is the only port whose name contains the separator of port ranges.\<close>

lemma dash_table: "list_all (\<lambda>(p, n). p \<noteq> 20 \<longrightarrow> CHR ''-'' \<notin> set n) portNames"
  by code_simp

lemma GetPortName_no_dash: "p \<noteq> 20 \<Longrightarrow> CHR ''-'' \<notin> set (GetPortName p)"
  using dash_table
  by (auto simp: GetPortName_def list_all_iff split: option.split
      dest!: map_of_SomeD dest: Itoa_set digit_not_special)

end
