(* ===== verification/Net_IP.thy ===== *)
theory Net_IP
  imports Go_Base
begin

text \<open>
  IP addresses: what the code uses of Go's \<^verbatim>\<open>net\<close> package.  An address is a byte slice (\<open>[]\<close> is
  nil), with \<^verbatim>\<open>To4\<close>, \<^verbatim>\<open>To16\<close>, \<^verbatim>\<open>Equal\<close>, \<^verbatim>\<open>String\<close>, \<^verbatim>\<open>ParseIP\<close>, \<^verbatim>\<open>ParseCIDR\<close> and
  \<^verbatim>\<open>IPNet.Contains\<close>.
\<close>

section \<open>Package net: addresses\<close>

type_synonym ip = "byte list"

definition v4InV6Prefix :: ip where
  "v4InV6Prefix = [0, 0, 0, 0, 0, 0, 0, 0, 0, 0, 255, 255]"

definition To4 :: "ip \<Rightarrow> ip option" where
  "To4 ip =
     (if length ip = 4 then Some ip
      else if length ip = 16 \<and> take 12 ip = v4InV6Prefix then Some (drop 12 ip)
      else None)"

definition To16 :: "ip \<Rightarrow> ip option" where
  "To16 ip =
     (if length ip = 4 then Some (v4InV6Prefix @ ip)
      else if length ip = 16 then Some ip else None)"

definition IP_Equal :: "ip \<Rightarrow> ip \<Rightarrow> bool" where
  "IP_Equal ip x =
     (if length ip = length x then ip = x
      else if length ip = 4 \<and> length x = 16 then take 12 x = v4InV6Prefix \<and> ip = drop 12 x
      else if length ip = 16 \<and> length x = 4 then take 12 ip = v4InV6Prefix \<and> drop 12 ip = x
      else False)"

definition IPv6zero :: ip where
  "IPv6zero = replicate 16 0"

definition IPv4zero :: ip where
  "IPv4zero = v4InV6Prefix @ [0, 0, 0, 0]"

definition IPv6loopback :: ip where
  "IPv6loopback = replicate 15 0 @ [1]"

record ip_net =
  net_IP :: ip
  net_Mask :: "byte list"

text \<open>\<^verbatim>\<open>networkNumberAndMask\<close>: the network number and mask at the same length, or nil.\<close>

definition networkNumberAndMask :: "ip_net \<Rightarrow> (ip \<times> byte list) option" where
  "networkNumberAndMask n =
     (let ip = (case To4 (net_IP n) of Some x \<Rightarrow> x | None \<Rightarrow> net_IP n); m = net_Mask n
      in if length ip \<noteq> 4 \<and> length ip \<noteq> 16 then None
         else if length m = 4 then (if length ip = 4 then Some (ip, m) else None)
         else if length m = 16 then Some (ip, if length ip = 4 then drop 12 m else m)
         else None)"

definition and_bytes :: "byte list \<Rightarrow> byte list \<Rightarrow> byte list" where
  "and_bytes xs ys = map2 (\<lambda>x y. x AND y) xs ys"

definition IPNet_Contains :: "ip_net \<Rightarrow> ip \<Rightarrow> bool" where
  "IPNet_Contains n ip =
     (case networkNumberAndMask n of
        None \<Rightarrow> ip = []
      | Some (nn, m) \<Rightarrow>
          (let x = (case To4 ip of Some y \<Rightarrow> y | None \<Rightarrow> ip)
           in length x = length nn \<and> and_bytes nn m = and_bytes x m))"

text \<open>\<^verbatim>\<open>CIDRMask(ones, 8 * n)\<close>.\<close>

fun CIDRMask :: "nat \<Rightarrow> nat \<Rightarrow> byte list" where
  "CIDRMask ones 0 = []"
| "CIDRMask ones (Suc n) =
     (if ones \<ge> 8 then 255 # CIDRMask (ones - 8) n
      else NOT (drop_bit ones 255) # CIDRMask 0 n)"

section \<open>Package net: textual form\<close>

text \<open>One octet of a dotted address: decimal, at most 255, no superfluous leading zero.\<close>

definition parse_octet :: "string \<Rightarrow> byte option" where
  "parse_octet s =
     (if s \<noteq> [] \<and> list_all is_digit s \<and> digits_val s \<le> 255
         \<and> (length s = 1 \<or> hd s \<noteq> CHR ''0'')
      then Some (of_nat (digits_val s)) else None)"

definition parseIPv4 :: "string \<Rightarrow> ip option" where
  "parseIPv4 s = (let ps = map parse_octet (Split s CHR ''.'')
     in if length ps = 4 \<and> None \<notin> set ps then Some (map the ps) else None)"

definition hex_val :: "char \<Rightarrow> nat option" where
  "hex_val c =
     (if is_digit c then Some (code_of c - 48)
      else if 97 \<le> code_of c \<and> code_of c \<le> 102 then Some (code_of c - 87)
      else if 65 \<le> code_of c \<and> code_of c \<le> 70 then Some (code_of c - 55)
      else None)"

text \<open>The leading hexadecimal digits of a group and the rest of the string.\<close>

definition hex_run :: "string \<Rightarrow> string \<times> string" where
  "hex_run s = (takeWhile (\<lambda>c. hex_val c \<noteq> None) s, dropWhile (\<lambda>c. hex_val c \<noteq> None) s)"

definition group_bytes :: "string \<Rightarrow> ip" where
  "group_bytes h = (let v = foldl (\<lambda>n c. 16 * n + the (hex_val c)) 0 h
     in [of_nat (v div 256), of_nat (v mod 256)])"

text \<open>
  The loop of \<^verbatim>\<open>netip.parseIPv6\<close>.  \<open>acc\<close> holds the bytes parsed so far (the source's index
  \<^verbatim>\<open>i\<close> is its length), \<open>ell\<close> the position of the ellipsis; at most eight rounds run, so the
  first argument starts at 8.  The result is the bytes and the ellipsis when the whole string
  was used.
\<close>

fun parse_groups :: "nat \<Rightarrow> string \<Rightarrow> ip \<Rightarrow> nat option \<Rightarrow> (ip \<times> nat option) option" where
  "parse_groups 0 s acc ell = (if s = [] then Some (acc, ell) else None)"
| "parse_groups (Suc k) s acc ell =
     (let (h, r) = hex_run s
      in if h = [] \<or> length h > 4 then None
         else case r of
           [] \<Rightarrow> Some (acc @ group_bytes h, ell)
         | c # r' \<Rightarrow>
             if c = CHR ''.'' then
               (if ell = None \<and> length acc \<noteq> 12 \<or> length acc + 4 > 16 then None
                else case parseIPv4 s of None \<Rightarrow> None | Some v4 \<Rightarrow> Some (acc @ v4, ell))
             else if c \<noteq> CHR '':'' \<or> r' = [] then None
             else if hd r' = CHR '':'' then
               (if ell \<noteq> None then None
                else if tl r' = [] then Some (acc @ group_bytes h, Some (length acc + 2))
                else parse_groups k (tl r') (acc @ group_bytes h) (Some (length acc + 2)))
             else parse_groups k r' (acc @ group_bytes h) ell)"

definition expand_ellipsis :: "ip \<times> nat option \<Rightarrow> ip option" where
  "expand_ellipsis = (\<lambda>(bs, ell).
     if length bs < 16
     then (case ell of None \<Rightarrow> None
                     | Some e \<Rightarrow> Some (take e bs @ replicate (16 - length bs) 0 @ drop e bs))
     else if ell = None then Some bs else None)"

definition parseIPv6 :: "string \<Rightarrow> ip option" where
  "parseIPv6 s =
     (if HasPrefix s ''::''
      then (if length s = 2 then Some IPv6zero
            else Option.bind (parse_groups 8 (drop 2 s) [] (Some 0)) expand_ellipsis)
      else Option.bind (parse_groups 8 s [] None) expand_ellipsis)"

text \<open>
  \<^verbatim>\<open>net.ParseIP\<close>: the first dot, colon or percent sign decides the family; an address with a
  zone is refused.  The result always has 16 bytes.
\<close>

definition ParseIP :: "string \<Rightarrow> ip option" where
  "ParseIP s =
     (if CHR ''%'' \<in> set s then None
      else case dropWhile (\<lambda>c. c \<noteq> CHR ''.'' \<and> c \<noteq> CHR '':'') s of
        [] \<Rightarrow> None
      | c # _ \<Rightarrow>
          if c = CHR ''.'' then map_option (\<lambda>v4. v4InV6Prefix @ v4) (parseIPv4 s)
          else parseIPv6 s)"

text \<open>\<^verbatim>\<open>net.ParseCIDR\<close>: only the network it returns is used by the code.\<close>

definition ParseCIDR :: "string \<Rightarrow> ip_net option" where
  "ParseCIDR s =
     (let addr = takeWhile (\<lambda>c. c \<noteq> CHR ''/'') s; rest = dropWhile (\<lambda>c. c \<noteq> CHR ''/'') s
      in if rest = [] then None
         else case ParseIP addr of
           None \<Rightarrow> None
         | Some ip16 \<Rightarrow>
             (let mask = tl rest;
                  len = (if CHR '':'' \<in> set addr then 16 else 4 :: nat);
                  n = digits_val mask
              in if mask = [] \<or> \<not> list_all is_digit mask \<or> n > 8 * len then None
                 else (let m = CIDRMask n len
                       in Some \<lparr>net_IP = (if len = 4 then and_bytes (drop 12 ip16) m
                                          else and_bytes ip16 m),
                                net_Mask = m\<rparr>)))"

definition hex_digit :: "nat \<Rightarrow> char" where
  "hex_digit d = (if d < 10 then char_of (48 + d) else char_of (87 + d))"

fun hex_string :: "nat \<Rightarrow> string" where
  "hex_string n = (if n < 16 then [hex_digit n] else hex_string (n div 16) @ [hex_digit (n mod 16)])"

declare hex_string.simps [simp del]

fun groups :: "ip \<Rightarrow> nat list" where
  "groups (a # b # r) = (256 * unat a + unat b) # groups r"
| "groups r = []"

definition zero_run :: "nat list \<Rightarrow> nat \<Rightarrow> nat" where
  "zero_run gs i = length (takeWhile (\<lambda>g. g = 0) (drop i gs))"

text \<open>The first of the longest runs of at least two zero groups, as start and length.\<close>

definition longest_zero_run :: "nat list \<Rightarrow> (nat \<times> nat) option" where
  "longest_zero_run gs =
     foldl (\<lambda>best i. let l = zero_run gs i
            in if 2 \<le> l \<and> (case best of None \<Rightarrow> True | Some (_, bl) \<Rightarrow> bl < l)
               then Some (i, l) else best)
       None [0..<length gs]"

definition ipv6_string :: "ip \<Rightarrow> string" where
  "ipv6_string ip =
     (let gs = groups ip; show_gs = (\<lambda>xs. Join (map hex_string xs) '':'')
      in case longest_zero_run gs of
           None \<Rightarrow> show_gs gs
         | Some (i, l) \<Rightarrow> show_gs (take i gs) @ ''::'' @ show_gs (drop (i + l) gs))"

definition hex2 :: "byte \<Rightarrow> string" where
  "hex2 b = [hex_digit (unat b div 16), hex_digit (unat b mod 16)]"

definition ipv4_string :: "ip \<Rightarrow> string" where
  "ipv4_string ip = Join (map (\<lambda>b. Itoa (unat b)) ip) ''.''"

definition IP_String :: "ip \<Rightarrow> string" where
  "IP_String ip =
     (if ip = [] then ''<nil>''
      else case To4 ip of
        Some ip4 \<Rightarrow> ipv4_string ip4
      | None \<Rightarrow> if length ip = 16 then ipv6_string ip else ''?'' @ concat (map hex2 ip))"

text \<open>\<^verbatim>\<open>simpleMaskLength\<close>: the number of leading ones when only zeros follow them.\<close>

definition mask_ones :: "byte list \<Rightarrow> nat" where
  "mask_ones m = (case filter (\<lambda>n. CIDRMask n (length m) = m) [0..<Suc (8 * length m)]
     of [] \<Rightarrow> Suc (8 * length m) | n # _ \<Rightarrow> n)"

definition IPNet_String :: "ip_net \<Rightarrow> string" where
  "IPNet_String n =
     (case networkNumberAndMask n of
        None \<Rightarrow> ''<nil>''
      | Some (nn, m) \<Rightarrow>
          if mask_ones m \<le> 8 * length m then IP_String nn @ ''/'' @ Itoa (mask_ones m)
          else IP_String nn @ ''/'' @ concat (map hex2 m))"

lemmas net_defs [go_simps] =
  v4InV6Prefix_def To4_def To16_def IP_Equal_def IPv6zero_def IPv4zero_def IPv6loopback_def
  networkNumberAndMask_def and_bytes_def IPNet_Contains_def parse_octet_def parseIPv4_def
  hex_val_def hex_run_def group_bytes_def expand_ellipsis_def parseIPv6_def ParseIP_def
  ParseCIDR_def hex_digit_def hex_string.simps zero_run_def longest_zero_run_def
  ipv6_string_def hex2_def ipv4_string_def IP_String_def mask_ones_def IPNet_String_def

end
