(* ===== verification/Netutils.thy ===== *)
theory Netutils
  imports Net_IP
begin

text \<open>
  \<^verbatim>\<open>service/network/netutils\<close>: the scope of an IP address (\<^verbatim>\<open>GetIPScope\<close>) with its predicates,
  the broadcast address of a network (\<^verbatim>\<open>GetBroadcastAddress\<close>), and the validity of fully
  qualified domain names (\<^verbatim>\<open>IsValidFqdn\<close>).

  \<open>scope_table\<close> is the abstract specification of the classifier: the networks and the scopes
  that the comments of the source name, in order.  The classifier is shown to be the
  first-match lookup in it by Go's own \<^verbatim>\<open>IPNet.Contains\<close>.
\<close>

section \<open>Scopes\<close>

datatype IPScope =
  Invalid | Undefined | HostLocal | LinkLocal | SiteLocal | Global | LocalMulticast | GlobalMulticast

definition scope4 :: "byte \<Rightarrow> byte \<Rightarrow> byte \<Rightarrow> byte \<Rightarrow> IPScope" where
  "scope4 a b c d =
     (if a = 0 \<and> b = 0 \<and> c = 0 \<and> d = 0 then LocalMulticast
      else if a = 0 then Invalid
      else if a = 10 then SiteLocal
      else if a = 100 \<and> b AND 0b11000000 = 64 then SiteLocal
      else if a = 127 then HostLocal
      else if a = 169 \<and> b = 254 then LinkLocal
      else if a = 172 \<and> b AND 0b11110000 = 16 then SiteLocal
      else if a = 192 \<and> b = 0 \<and> c = 2 then Invalid
      else if a = 192 \<and> b = 168 then SiteLocal
      else if a = 198 \<and> b = 51 \<and> c = 100 then Invalid
      else if a = 203 \<and> b = 0 \<and> c = 113 then Invalid
      else if a = 224 then LocalMulticast
      else if a = 233 \<and> b = 252 \<and> c = 0 then Invalid
      else if a \<ge> 225 \<and> a \<le> 238 then GlobalMulticast
      else if a = 239 then LocalMulticast
      else if a = 255 \<and> b = 255 \<and> c = 255 \<and> d = 255 then LocalMulticast
      else if a \<ge> 240 then Invalid
      else Global)"

definition scope6 :: "ip \<Rightarrow> IPScope" where
  "scope6 ip =
     (if IP_Equal ip IPv6zero then Invalid
      else if IP_Equal ip IPv6loopback then HostLocal
      else if ip ! 0 AND 0xfe = 0xfc then SiteLocal
      else if ip ! 0 = 0xfe \<and> ip ! 1 AND 0xc0 = 0x80 then LinkLocal
      else if ip ! 0 = 0xff \<and> ip ! 1 \<le> 0x05 then LocalMulticast
      else if ip ! 0 = 0xff then GlobalMulticast
      else Global)"

definition GetIPScope :: "ip \<Rightarrow> IPScope" where
  "GetIPScope ip =
     (case To4 ip of
        Some ip4 \<Rightarrow> scope4 (ip4 ! 0) (ip4 ! 1) (ip4 ! 2) (ip4 ! 3)
      | None \<Rightarrow> if length ip = 16 then scope6 ip else Invalid)"

definition ClassifyIP :: "ip \<Rightarrow> IPScope" where
  "ClassifyIP ip = GetIPScope ip"

definition IsLocalhost :: "IPScope \<Rightarrow> bool" where
  "IsLocalhost scope \<longleftrightarrow> scope = HostLocal"

definition IsLAN :: "IPScope \<Rightarrow> bool" where
  "IsLAN scope =
     (case scope of SiteLocal \<Rightarrow> True | LinkLocal \<Rightarrow> True | LocalMulticast \<Rightarrow> True | _ \<Rightarrow> False)"

definition IsGlobal :: "IPScope \<Rightarrow> bool" where
  "IsGlobal scope = (case scope of Global \<Rightarrow> True | GlobalMulticast \<Rightarrow> True | _ \<Rightarrow> False)"

lemmas scope_defs [go_simps] =
  scope4_def scope6_def GetIPScope_def ClassifyIP_def IsLocalhost_def IsLAN_def IsGlobal_def

section \<open>Broadcast addresses\<close>

definition GetBroadcastAddress :: "ip \<Rightarrow> byte list \<Rightarrow> ip option" where
  "GetBroadcastAddress ip0 netMask =
     (let ip = (case To4 ip0 of Some x \<Rightarrow> x | None \<Rightarrow> ip0);
          mask = (case To4 netMask of Some x \<Rightarrow> x | None \<Rightarrow> netMask)
      in if length ip \<noteq> length mask then None
         else Some (map2 (\<lambda>i m. i OR NOT m) ip mask))"

section \<open>Domain names\<close>

text \<open>The library github.com/miekg/dns, which is not part of the repository, as a parameter.\<close>

record dns_lib =
  dns_IsFqdn :: "string \<Rightarrow> bool"
  dns_IsDomainName :: "string \<Rightarrow> bool"
  dns_Fqdn :: "string \<Rightarrow> string"

definition clean_char :: "char \<Rightarrow> bool" where
  "clean_char c \<longleftrightarrow> is_lower c \<or> is_digit c \<or> c = CHR ''_'' \<or> c = CHR ''-''"

text \<open>One label of \<^verbatim>\<open>cleanDomainRegex\<close>: an optional IDN prefix and 1 to 63 characters.\<close>

definition clean_label :: "string \<Rightarrow> bool" where
  "clean_label l \<longleftrightarrow> list_all clean_char l \<and>
     (1 \<le> length l \<and> length l \<le> 63 \<or>
      HasPrefix l ''xn--'' \<and> 5 \<le> length l \<and> length l \<le> 67)"

definition cleanDomainRegex :: "string \<Rightarrow> bool" where
  "cleanDomainRegex s \<longleftrightarrow>
     s \<noteq> [] \<and> last s = CHR ''.'' \<and> list_all clean_label (Split (butlast s) CHR ''.'')"

text \<open>
  \<^verbatim>\<open>dnsSDDomainRegex\<close>.  In the source the class contains \<^verbatim>\<open>\a-z\<close>, which is the range from BEL
  (7) to z (122).  The Latin letters are matched on their UTF-8 encoding.
\<close>

definition dnssd_ascii :: "nat \<Rightarrow> bool" where
  "dnssd_ascii n \<longleftrightarrow> 7 \<le> n \<and> n \<le> 126"

definition dnssd_pair :: "nat \<Rightarrow> nat \<Rightarrow> bool" where
  "dnssd_pair a b \<longleftrightarrow>
     a = 0xC2 \<and> (b = 0xA1 \<or> b = 0xBF) \<or>
     a = 0xC3 \<and> 0x80 \<le> b \<and> b \<le> 0xBF \<and> b \<noteq> 0x97 \<and> b \<noteq> 0xB7 \<or>
     a = 0xC5 \<and> (b = 0xA0 \<or> b = 0x92 \<or> b = 0xBD \<or> b = 0xA1 \<or> b = 0x93 \<or> b = 0xBE \<or> b = 0xB8)"

fun dnsSDDomainRegex :: "string \<Rightarrow> bool" where
  "dnsSDDomainRegex [] = True"
| "dnsSDDomainRegex (c # s) =
     (if dnssd_ascii (code_of c) then dnsSDDomainRegex s
      else case s of [] \<Rightarrow> False
           | d # s' \<Rightarrow> dnssd_pair (code_of c) (code_of d) \<and> dnsSDDomainRegex s')"

definition IsValidFqdn :: "dns_lib \<Rightarrow> string \<Rightarrow> bool" where
  "IsValidFqdn lib fqdn =
     (if fqdn = ''.'' then True
      else if length fqdn > 256 then False
      else if \<not> dns_IsFqdn lib fqdn then False
      else if HasSuffix fqdn ''.local.'' then dnsSDDomainRegex fqdn
      else if \<not> cleanDomainRegex fqdn then False
      else dns_IsDomainName lib fqdn)"

section \<open>The classifier against a table of networks\<close>

definition v4net :: "byte list \<Rightarrow> nat \<Rightarrow> ip_net" where
  "v4net bs ones = \<lparr>net_IP = bs @ replicate (4 - length bs) 0, net_Mask = CIDRMask ones 4\<rparr>"

definition v6net :: "byte list \<Rightarrow> nat \<Rightarrow> ip_net" where
  "v6net bs ones = \<lparr>net_IP = bs @ replicate (16 - length bs) 0, net_Mask = CIDRMask ones 16\<rparr>"

definition scope_table4 :: "(ip_net \<times> IPScope) list" where
  "scope_table4 =
     [(v4net [0, 0, 0, 0] 32, LocalMulticast), (v4net [0] 8, Invalid), (v4net [10] 8, SiteLocal),
      (v4net [100, 64] 10, SiteLocal), (v4net [127] 8, HostLocal), (v4net [169, 254] 16, LinkLocal),
      (v4net [172, 16] 12, SiteLocal), (v4net [192, 0, 2] 24, Invalid),
      (v4net [192, 168] 16, SiteLocal), (v4net [198, 51, 100] 24, Invalid),
      (v4net [203, 0, 113] 24, Invalid), (v4net [224] 8, LocalMulticast),
      (v4net [233, 252, 0] 24, Invalid), (v4net [239] 8, LocalMulticast),
      (v4net [224] 4, GlobalMulticast), (v4net [255, 255, 255, 255] 32, LocalMulticast),
      (v4net [240] 4, Invalid)]"

definition scope_table6 :: "(ip_net \<times> IPScope) list" where
  "scope_table6 =
     [(v6net [] 128, Invalid), (v6net [0, 0, 0, 0, 0, 0, 0, 0, 0, 0, 0, 0, 0, 0, 0, 1] 128, HostLocal),
      (v6net [0xfc] 7, SiteLocal), (v6net [0xfe, 0x80] 10, LinkLocal),
      (v6net [0xff, 0] 16, LocalMulticast), (v6net [0xff, 1] 16, LocalMulticast),
      (v6net [0xff, 2] 16, LocalMulticast), (v6net [0xff, 3] 16, LocalMulticast),
      (v6net [0xff, 4] 16, LocalMulticast), (v6net [0xff, 5] 16, LocalMulticast),
      (v6net [0xff] 8, GlobalMulticast)]"

fun lookup_scope :: "(ip_net \<times> IPScope) list \<Rightarrow> ip \<Rightarrow> IPScope" where
  "lookup_scope [] ip = Global"
| "lookup_scope ((n, s) # t) ip = (if IPNet_Contains n ip then s else lookup_scope t ip)"

definition scope_spec :: "ip \<Rightarrow> IPScope" where
  "scope_spec ip =
     (if To4 ip \<noteq> None then lookup_scope scope_table4 ip
      else if length ip = 16 then lookup_scope scope_table6 ip else Invalid)"

subsection \<open>IPv4 and IPv6 parts\<close>

lemma unat_and_240: "unat (a AND 240) = 16 * (unat a div 16)" for a :: byte
proof -
  have "(240::byte) = NOT (mask 4)" by (simp add: mask_eq_exp_minus_1)
  then show ?thesis using unat_and_not_mask [of a 4] by simp
qed

lemma byte_240:
  "(a AND 240 = 224) = (224 \<le> a \<and> a \<le> 239)" "(a AND 240 = 240) = (240 \<le> a)" for a :: byte
proof -
  have "unat a < 256" using unsigned_less [of a, where 'a = nat] by simp
  then show "(a AND 240 = 224) = (224 \<le> a \<and> a \<le> 239)" "(a AND 240 = 240) = (240 \<le> a)"
    by (auto simp: word_unat_eq_iff unat_and_240 word_le_nat_alt)
qed

lemma byte_225_238: "(225 \<le> a \<and> a \<le> 238) \<longleftrightarrow> (224 \<le> a \<and> a \<le> 239 \<and> a \<noteq> 224 \<and> a \<noteq> 239)" for a :: byte
  by (auto simp: word_le_nat_alt word_unat_eq_iff)

lemma length_4_conv: "length xs = 4 \<longleftrightarrow> (\<exists>a b c d. xs = [a, b, c, d])"
  by (auto simp: numeral_eq_Suc length_Suc_conv)

lemma To4_length: "To4 ip = Some x \<Longrightarrow> length x = 4"
  by (auto simp: To4_def split: if_splits)

lemma contains_v4:
  "To4 ip = Some [a, b, c, d] \<Longrightarrow>
   IPNet_Contains \<lparr>net_IP = [n0, n1, n2, n3], net_Mask = [m0, m1, m2, m3]\<rparr> ip \<longleftrightarrow>
     a AND m0 = n0 AND m0 \<and> b AND m1 = n1 AND m1 \<and> c AND m2 = n2 AND m2 \<and> d AND m3 = n3 AND m3"
  by (simp add: IPNet_Contains_def networkNumberAndMask_def To4_def and_bytes_def) auto

lemma v4_masks:
  "CIDRMask 4 4 = [240, 0, 0, 0]" "CIDRMask 8 4 = [-1, 0, 0, 0]" "CIDRMask 10 4 = [-1, 192, 0, 0]"
  "CIDRMask 12 4 = [-1, 240, 0, 0]" "CIDRMask 16 4 = [-1, -1, 0, 0]"
  "CIDRMask 24 4 = [-1, -1, -1, 0]" "CIDRMask 32 4 = [-1, -1, -1, -1]"
  by code_simp+

lemma replicate_small: "replicate 2 x = [x, x]" "replicate 3 x = [x, x, x]"
  by (simp_all add: numeral_eq_Suc)

lemma scope4_lookup:
  assumes "To4 ip = Some [a, b, c, d]"
  shows "lookup_scope scope_table4 ip = scope4 a b c d"
  by (cases "a = 239")
    (simp_all add: scope_table4_def v4net_def v4_masks contains_v4 [OF assms] byte_240
      replicate_small scope4_def byte_225_238 split del: if_split cong: if_cong)

lemma length_16_conv: "length xs = 16 \<longleftrightarrow>
  (\<exists>a b ys. length ys = 14 \<and> xs = a # b # ys)"
  by (auto simp: numeral_eq_Suc length_Suc_conv)

lemma contains_v6:
  assumes "To4 ip = None" "length ip = 16" "length nn = 16" "To4 nn = None" "length m = 16"
  shows "IPNet_Contains \<lparr>net_IP = nn, net_Mask = m\<rparr> ip \<longleftrightarrow> and_bytes ip m = and_bytes nn m"
  using assms by (auto simp: IPNet_Contains_def networkNumberAndMask_def)

lemma v6_masks:
  "CIDRMask 7 16 = 254 # 0 # replicate 14 0" "CIDRMask 8 16 = -1 # 0 # replicate 14 0"
  "CIDRMask 10 16 = -1 # 192 # replicate 14 0" "CIDRMask 16 16 = -1 # -1 # replicate 14 0"
  "CIDRMask 128 16 = replicate 16 (-1)"
  by code_simp+

lemma and_bytes_zero [simp]: "length xs = n \<Longrightarrow> and_bytes xs (replicate n 0) = replicate n 0"
  by (induction xs arbitrary: n) (auto simp: and_bytes_def)

lemma and_bytes_ones [simp]: "length xs = n \<Longrightarrow> and_bytes xs (replicate n (-1)) = xs"
  by (induction xs arbitrary: n) (auto simp: and_bytes_def)

lemma and_bytes_Cons [simp]: "and_bytes (x # xs) (y # ys) = (x AND y) # and_bytes xs ys"
  by (simp add: and_bytes_def)

lemma le_5: "(b \<le> 5) = (b = 0 \<or> b = 1 \<or> b = 2 \<or> b = 3 \<or> b = 4 \<or> b = 5)" for b :: byte
  by (auto simp: word_le_nat_alt word_unat_eq_iff)

lemma To4_special: "To4 (replicate 16 0) = None" "To4 [0, 0, 0, 0, 0, 0, 0, 0, 0, 0, 0, 0, 0, 0, 0, 1] = None"
  by code_simp+

lemma To4_first: "x \<noteq> 0 \<Longrightarrow> length xs = 15 \<Longrightarrow> To4 (x # xs) = None"
  by (simp add: To4_def v4InV6Prefix_def)

lemma loopback_bytes: "replicate 15 0 @ [1] = [0, 0, 0, 0, 0, 0, 0, 0, 0, 0, 0, 0, 0, 0, 0, 1::byte]" by code_simp

lemma scope6_lookup:
  assumes "To4 ip = None" "length ip = 16"
  shows "lookup_scope scope_table6 ip = scope6 ip"
proof -
  from assms(2) obtain a b ys where ip: "ip = a # b # ys" "length ys = 14" by (auto simp: length_16_conv)
  note c = contains_v6 [OF assms [unfolded ip(1)]]
  have r: "replicate 15 0 = 0 # replicate 14 (0::byte)" by (simp add: numeral_eq_Suc)
  from assms ip have "lookup_scope scope_table6 ip =
      (if ip = replicate 16 0 then Invalid else if ip = [0, 0, 0, 0, 0, 0, 0, 0, 0, 0, 0, 0, 0, 0, 0, 1]
       then HostLocal
       else if a AND 254 = 252 then SiteLocal else if a = 254 \<and> b AND 192 = 128 then LinkLocal
       else if a = 255 \<and> b \<le> 5 then LocalMulticast else if a = 255 then GlobalMulticast else Global)"
    unfolding scope_table6_def v6net_def
    by (simp add: c To4_special To4_first r v6_masks if_merge le_5
        conj_disj_distribL split del: if_split cong: if_cong)
  then show ?thesis
    using ip
    by (simp add: scope6_def IP_Equal_def IPv6zero_def IPv6loopback_def loopback_bytes)
qed

lemma GetIPScope_spec: "GetIPScope ip = scope_spec ip"
proof (cases "To4 ip")
  case None
  then show ?thesis by (simp add: GetIPScope_def scope_spec_def scope6_lookup)
next
  case (Some x)
  from To4_length [OF Some] obtain a b c d where "x = [a, b, c, d]"
    by (auto simp: length_4_conv)
  with Some show ?thesis by (simp add: GetIPScope_def scope_spec_def scope4_lookup)
qed

section \<open>Properties of the network utilities\<close>

text \<open>
  C36: For every byte slice the scope that \<^verbatim>\<open>GetIPScope\<close> computes from single bytes and bit masks
  is the scope of the first network of the table that contains the address, in the sense of
  Go's \<^verbatim>\<open>IPNet.Contains\<close>; an address in none of them is global, and a slice that is no address
  is invalid.
\<close>

theorem GetIPScope_table: "GetIPScope ip = scope_spec ip"
  by (rule GetIPScope_spec)

text \<open>
  The three scope predicates the firewall decides by are mutually exclusive, and they cover
  every address whose scope is not \<^verbatim>\<open>Invalid\<close>: such an address is in exactly one of the host,
  LAN and Internet classes.
\<close>

theorem scope_predicates_partition:
  "GetIPScope ip \<noteq> Invalid \<longleftrightarrow>
     (IsLocalhost (GetIPScope ip) \<and> \<not> IsLAN (GetIPScope ip) \<and> \<not> IsGlobal (GetIPScope ip)) \<or>
     (IsLAN (GetIPScope ip) \<and> \<not> IsLocalhost (GetIPScope ip) \<and> \<not> IsGlobal (GetIPScope ip)) \<or>
     (IsGlobal (GetIPScope ip) \<and> \<not> IsLocalhost (GetIPScope ip) \<and> \<not> IsLAN (GetIPScope ip))"
proof -
  have "GetIPScope ip \<noteq> Undefined"
    by (simp add: GetIPScope_def scope4_def scope6_def split: option.split)
  then show ?thesis
    by (cases "GetIPScope ip") (simp_all add: IsLocalhost_def IsLAN_def IsGlobal_def)
qed

definition norm4 :: "byte list \<Rightarrow> byte list" where
  "norm4 x = (case To4 x of Some y \<Rightarrow> y | None \<Rightarrow> x)"

lemma broadcast_bytes:
  assumes "length xs = length ms" and "length is = length ms"
    and "and_bytes xs ms = and_bytes is ms"
  shows "map2 (\<lambda>x y. x OR y) xs (map2 (\<lambda>i m. i OR NOT m) is ms) = map2 (\<lambda>i m. i OR NOT m) is ms"
  using assms
proof (induction ms arbitrary: xs "is")
  case Nil
  then show ?case by simp
next
  case (Cons m ms)
  then obtain x xs' i is' where eqs: "xs = x # xs'" "is = i # is'"
    by (metis Suc_length_conv)
  with Cons.prems have "x AND m = i AND m" by simp
  then have "x OR (i OR NOT m) = i OR NOT m"
    by (metis (no_types, opaque_lifting) bit.conj_disj_distrib2 bit.disj_cancel_right
        bit.disj_conj_distrib2 or.assoc or.commute or.idem and.right_neutral)
  with Cons eqs show ?case by simp
qed

lemma and_broadcast_bytes:
  "length is = length ms \<Longrightarrow> and_bytes (map2 (\<lambda>i m. i OR NOT m) is ms) ms = and_bytes is ms"
proof (induction ms arbitrary: "is")
  case Nil
  then show ?case by simp
next
  case (Cons m ms)
  then obtain i is' where "is = i # is'" by (metis Suc_length_conv)
  with Cons show ?case by (simp add: bit.conj_disj_distrib2)
qed

text \<open>
  When address and mask have the same family, the broadcast address lies in the network of
  the address and is its greatest member: its bits contain those of every address that agrees
  with the given one under the mask.  For mixed families there is no result.
\<close>

theorem broadcast_is_top_of_network:
  "case GetBroadcastAddress ip m of
     None \<Rightarrow> length (norm4 ip) \<noteq> length (norm4 m)
   | Some bc \<Rightarrow>
       and_bytes bc (norm4 m) = and_bytes (norm4 ip) (norm4 m) \<and>
       (\<forall>x. length x = length bc \<and> and_bytes x (norm4 m) = and_bytes (norm4 ip) (norm4 m) \<longrightarrow>
            map2 (\<lambda>a b. a OR b) x bc = bc)"
  by (simp add: GetBroadcastAddress_def Let_def and_broadcast_bytes broadcast_bytes flip: norm4_def)

theorem broadcast_is_top_of_network_witness:
  "GetBroadcastAddress [10, 1, 2, 3] [255, 255, 0, 0] = Some [10, 1, 255, 255] \<and>
   map2 (\<lambda>a b. a OR b) [10, 1, 9, 9] [10, 1, 255, 255 :: byte] = [10, 1, 255, 255]"
proof -
  have b: "GetBroadcastAddress [10, 1, 2, 3] [255, 255, 0, 0] = Some [10, 1, 255, 255]"
    by (simp add: GetBroadcastAddress_def To4_def)
  have "and_bytes [10, 1, 9, 9] (norm4 [255, 255, 0, 0]) = and_bytes (norm4 [10, 1, 2, 3]) (norm4 [255, 255, 0, 0])"
    by (simp add: norm4_def To4_def and_bytes_def)
  with broadcast_is_top_of_network [of "[10, 1, 2, 3]" "[255, 255, 0, 0]"] b show ?thesis
    by fastforce
qed

end
