(* ===== verification/Intel_Entity.thy ===== *)
theory Intel_Entity
  imports Netutils Reference_Tables "HOL-Library.AList" "HOL-Library.Char_ord"
    "HOL-Library.List_Lexorder"
begin

text \<open>
  \<^verbatim>\<open>service/intel/entity.go\<close>, \<^verbatim>\<open>service/intel/block_reason.go\<close> and
  \<^verbatim>\<open>service/intel/filterlists/lookup.go\<close>: the description of the remote end of a connection,
  the data loaded for it on demand, and its match against filter lists.

  An entity is a record with the fields of the struct; each \<^verbatim>\<open>sync.Once\<close> is a flag that tells
  whether it has run.  Every operation returns the changed entity.  What comes from outside
  the modelled code is the environment \<open>intel_env\<close>: the geo database, the reverse resolver,
  the bloom filter and the record store of the filter lists, and the public suffix list.

  Go iterates over the map \<^verbatim>\<open>ListOccurences\<close> in an order it does not specify.  The map is an
  association list whose order stands for that order; the theorems show that the answers do
  not depend on it.

  Left out: the field \<^verbatim>\<open>Coordinates\<close> and log output, which no decision reads.
\<close>

section \<open>Data\<close>

record country_info =
  ci_Code :: string
  ci_Name :: string
  ci_ContinentCode :: string
  ci_ContinentName :: string

record location =
  loc_Country :: country_info
  loc_ASN :: nat
  loc_ASOrg :: string

record entity =
  domainListLoaded :: bool
  ipListLoaded :: bool
  countryListLoaded :: bool
  asnListLoaded :: bool
  reverseResolveEnabled :: bool
  resolveSubDomainLists :: bool
  checkCNAMEs :: bool
  e_IP :: ip
  e_IPScope :: IPScope
  e_Protocol :: byte
  e_Port :: port
  e_dstPort :: port
  e_Domain :: string
  ReverseDomain :: string
  CNAME :: "string list"
  Country :: string
  ASN :: nat
  ASOrg :: string
  LocationError :: string
  e_location :: "location option"
  BlockedByLists :: "string list"
  BlockedEntities :: "string list"
  ListOccurences :: "(string \<times> string list) list"
  ListsError :: string
  fetchLocationOnce :: bool
  reverseResolveOnce :: bool
  loadDomainListOnce :: bool
  loadIPListOnce :: bool
  loadCountryListOnce :: bool
  loadAsnListOnce :: bool

text \<open>
  The environment.  \<open>geo_lookup\<close> is \<^verbatim>\<open>geoip.GetLocation\<close> (\<open>Inl\<close> the error text),
  \<open>reverse_resolver\<close> the variable \<^verbatim>\<open>reverseResolver\<close> (\<open>None\<close> while it is nil; a failed lookup
  gives \<open>None\<close>), \<open>fl_isLoaded\<close>, \<open>bloom_test\<close> and \<open>record_by_key\<close> are the state behind
  \<^verbatim>\<open>lookupBlockLists\<close>,
  \<open>public_suffix\<close> is \<^verbatim>\<open>publicsuffix.PublicSuffix\<close>.
\<close>

datatype db_error = ErrNotFound | DBError string

record intel_env =
  geo_lookup :: "ip \<Rightarrow> string + location"
  reverse_resolver :: "(string \<Rightarrow> string option) option"
  fl_isLoaded :: bool
  bloom_test :: "string \<Rightarrow> string \<Rightarrow> bool"
  record_by_key :: "string \<Rightarrow> db_error + string list"
  public_suffix :: "string \<Rightarrow> string \<times> bool"

section \<open>Helpers on string slices\<close>

fun makeDistinct_loop :: "string list \<Rightarrow> string list \<Rightarrow> string list \<Rightarrow> string list" where
  "makeDistinct_loop [] m result = result"
| "makeDistinct_loop (v # vs) m result =
     (if v \<in> set m then makeDistinct_loop vs m result
      else makeDistinct_loop vs (v # m) (result @ [v]))"

definition makeDistinct :: "string list \<Rightarrow> string list" where
  "makeDistinct xs = makeDistinct_loop xs [] []"

text \<open>The map built by \<^verbatim>\<open>makeMap\<close> is only asked for membership.\<close>

definition makeMap :: "string list \<Rightarrow> string set" where
  "makeMap xs = set xs"

definition mergeStringList :: "string list \<Rightarrow> string list \<Rightarrow> string list" where
  "mergeStringList a b = sort (remdups (a @ b))"

lemma makeDistinct_loop_spec:
  assumes "set m = set result" and "distinct result"
  shows "distinct (makeDistinct_loop vs m result) \<and>
         set (makeDistinct_loop vs m result) = set result \<union> set vs"
  using assms by (induction vs m result rule: makeDistinct_loop.induct) auto

lemma distinct_makeDistinct [simp]: "distinct (makeDistinct xs)"
  and set_makeDistinct [simp]: "set (makeDistinct xs) = set xs"
  using makeDistinct_loop_spec [of "[]" "[]" xs] by (simp_all add: makeDistinct_def)

lemma makeDistinct_eq_Nil [simp]: "makeDistinct xs = [] \<longleftrightarrow> xs = []"
  by (metis set_empty set_makeDistinct)

lemma mergeStringList_spec [simp]:
  "set (mergeStringList a b) = set a \<union> set b" "distinct (mergeStringList a b)"
  "sorted (mergeStringList a b)"
  by (simp_all add: mergeStringList_def)

section \<open>Filter list lookups\<close>

definition makeListCacheKey :: "string \<Rightarrow> string \<Rightarrow> string" where
  "makeListCacheKey typ key = ''cache:intel/filterlists/lists/'' @ typ @ ''/'' @ key"

definition lookupBlockLists :: "intel_env \<Rightarrow> string \<Rightarrow> string \<Rightarrow> string + string list" where
  "lookupBlockLists env entity value =
     (let key = makeListCacheKey entity value
      in if \<not> fl_isLoaded env then Inr []
         else if \<not> bloom_test env entity value then Inr []
         else case record_by_key env key of
           Inl ErrNotFound \<Rightarrow> Inr []
         | Inl (DBError err) \<Rightarrow> Inl err
         | Inr sources \<Rightarrow> Inr sources)"

definition LookupCountry :: "intel_env \<Rightarrow> string \<Rightarrow> string + string list" where
  "LookupCountry env country = lookupBlockLists env ''country'' country"

definition LookupDomain :: "intel_env \<Rightarrow> string \<Rightarrow> string + string list" where
  "LookupDomain env domain =
     (if domain = [] \<or> domain = ''.'' then Inr [] else lookupBlockLists env ''domain'' domain)"

definition LookupASNString :: "intel_env \<Rightarrow> string \<Rightarrow> string + string list" where
  "LookupASNString env asn = lookupBlockLists env ''asn'' asn"

definition LookupIPv4 :: "intel_env \<Rightarrow> ip \<Rightarrow> string + string list" where
  "LookupIPv4 env ipv4 =
     (case To4 ipv4 of None \<Rightarrow> Inl ''invalid IPv4''
      | Some ip \<Rightarrow> lookupBlockLists env ''ipv4'' (IP_String ip))"

definition LookupIPv6 :: "intel_env \<Rightarrow> ip \<Rightarrow> string + string list" where
  "LookupIPv6 env ipv6 =
     (case To16 ipv6 of None \<Rightarrow> Inl ''invalid IPv6''
      | Some ip \<Rightarrow> lookupBlockLists env ''ipv6'' (IP_String ip))"

definition LookupIP :: "intel_env \<Rightarrow> ip \<Rightarrow> string + string list" where
  "LookupIP env ip = (if To4 ip = None then LookupIPv6 env ip else LookupIPv4 env ip)"

section \<open>Operations on entities\<close>

definition Init :: "port \<Rightarrow> entity \<Rightarrow> entity" where
  "Init dstPort e = e\<lparr>e_IPScope := (if e_IP e \<noteq> [] then GetIPScope (e_IP e) else Undefined),
     e_dstPort := (if dstPort > 0 then dstPort else e_Port e)\<rparr>"

definition DstPort :: "entity \<Rightarrow> port" where
  "DstPort e = e_dstPort e"

definition ResetLists :: "entity \<Rightarrow> entity" where
  "ResetLists e = e\<lparr>BlockedByLists := [], BlockedEntities := [], ListOccurences := [],
     domainListLoaded := False, ipListLoaded := False, countryListLoaded := False,
     asnListLoaded := False, resolveSubDomainLists := False, checkCNAMEs := False,
     loadDomainListOnce := False, loadIPListOnce := False, loadCountryListOnce := False,
     loadAsnListOnce := False\<rparr>"

definition ResolveSubDomainLists :: "bool \<Rightarrow> entity \<Rightarrow> entity" where
  "ResolveSubDomainLists enabled e = e\<lparr>resolveSubDomainLists := enabled\<rparr>"

definition EnableCNAMECheck :: "bool \<Rightarrow> entity \<Rightarrow> entity" where
  "EnableCNAMECheck enabled e = e\<lparr>checkCNAMEs := enabled\<rparr>"

definition CNAMECheckEnabled :: "entity \<Rightarrow> bool" where
  "CNAMECheckEnabled e = checkCNAMEs e"

definition EnableReverseResolving :: "entity \<Rightarrow> entity" where
  "EnableReverseResolving e = e\<lparr>reverseResolveEnabled := True\<rparr>"

definition reverseResolve :: "intel_env \<Rightarrow> entity \<Rightarrow> entity" where
  "reverseResolve env e =
     (if reverseResolveOnce e then e
      else let e = e\<lparr>reverseResolveOnce := True\<rparr>
           in if e_IP e = [] then e
              else case reverse_resolver env of
                None \<Rightarrow> e
              | Some resolve \<Rightarrow>
                  (case resolve (IP_String (e_IP e)) of
                     None \<Rightarrow> e
                   | Some domain \<Rightarrow> e\<lparr>ReverseDomain := domain\<rparr>))"

definition GetDomain :: "intel_env \<Rightarrow> bool \<Rightarrow> entity \<Rightarrow> string option \<times> entity" where
  "GetDomain env mayUseReverseDomain e =
     (if mayUseReverseDomain \<and> reverseResolveEnabled e
      then let e = reverseResolve env e
           in (if ReverseDomain e = [] then None else Some (ReverseDomain e), e)
      else (if e_Domain e = [] then None else Some (e_Domain e), e))"

definition GetIP :: "entity \<Rightarrow> ip option" where
  "GetIP e = (if e_IP e = [] then None else Some (e_IP e))"

definition getLocation :: "intel_env \<Rightarrow> entity \<Rightarrow> entity" where
  "getLocation env e =
     (if fetchLocationOnce e then e
      else let e = e\<lparr>fetchLocationOnce := True\<rparr>
           in if e_IP e = [] \<or> \<not> IsGlobal (e_IPScope e) then e
              else case geo_lookup env (e_IP e) of
                Inl err \<Rightarrow> e\<lparr>LocationError := err\<rparr>
              | Inr loc \<Rightarrow> e\<lparr>e_location := Some loc, Country := ci_Code (loc_Country loc),
                            ASN := loc_ASN loc, ASOrg := loc_ASOrg loc\<rparr>)"

definition GetLocation :: "intel_env \<Rightarrow> entity \<Rightarrow> location option \<times> entity" where
  "GetLocation env e = (let e = getLocation env e in (e_location e, e))"

definition GetCountry :: "intel_env \<Rightarrow> entity \<Rightarrow> string option \<times> entity" where
  "GetCountry env e = (let e = getLocation env e
     in (if LocationError e \<noteq> [] then None else Some (Country e), e))"

text \<open>The country is a field of \<^verbatim>\<open>e.location\<close>: taking it panics while the location is nil.\<close>

definition GetCountryInfo :: "intel_env \<Rightarrow> entity \<Rightarrow> (country_info option \<times> entity) go" where
  "GetCountryInfo env e = (let e = getLocation env e
     in if LocationError e \<noteq> [] then Inr (None, e)
        else case e_location e of
          None \<Rightarrow> Inl NilDereference
        | Some loc \<Rightarrow> Inr (Some (loc_Country loc), e))"

definition GetASN :: "intel_env \<Rightarrow> entity \<Rightarrow> nat option \<times> entity" where
  "GetASN env e = (let e = getLocation env e
     in (if LocationError e \<noteq> [] then None else Some (ASN e), e))"

section \<open>Loading the lists\<close>

definition mergeList :: "string \<Rightarrow> string list \<Rightarrow> entity \<Rightarrow> entity" where
  "mergeList key srcs e =
     (if srcs = [] then e
      else e\<lparr>ListOccurences :=
        AList.update key
          (mergeStringList (case map_of (ListOccurences e) key of None \<Rightarrow> [] | Some l \<Rightarrow> l) srcs)
          (ListOccurences e)\<rparr>)"

text \<open>
  The domain and its parent domains down to the public suffix.  \<^verbatim>\<open>PublicSuffix\<close> returns a suffix
  of its argument, so the slice of the source is in range.
\<close>

definition splitDomain :: "intel_env \<Rightarrow> string \<Rightarrow> string list" where
  "splitDomain env domain =
     (let d = TrimSuffix domain ''.''; (suf, icann) = public_suffix env d
      in if suf = d then [domain]
         else let labels = FieldsFunc (\<lambda>c. c = CHR ''.'') [] (take (length d - length suf) d);
                  domains = map (\<lambda>idx. Join (drop idx labels) ''.'' @ ''.'' @ suf @ ''.'')
                              [0..<length labels]
              in if \<not> icann then domains @ [suf @ ''.''] else domains)"

definition domains_to_check :: "intel_env \<Rightarrow> string \<Rightarrow> entity \<Rightarrow> string list" where
  "domains_to_check env domain e =
     (let domainsToInspect = domain # (if checkCNAMEs e then CNAME e else [])
      in makeDistinct (if resolveSubDomainLists e
                       then concat (map (splitDomain env) domainsToInspect)
                       else domainsToInspect))"

text \<open>The lookup loop stops at the first error, which leaves \<^verbatim>\<open>domainListLoaded\<close> unset.\<close>

fun load_domains :: "intel_env \<Rightarrow> string list \<Rightarrow> entity \<Rightarrow> entity" where
  "load_domains env [] e = e\<lparr>domainListLoaded := True\<rparr>"
| "load_domains env (d # ds) e =
     (case LookupDomain env d of
        Inl err \<Rightarrow> e\<lparr>ListsError := err\<rparr>
      | Inr srcs \<Rightarrow> load_domains env ds (mergeList d srcs e))"

definition getDomainLists :: "intel_env \<Rightarrow> entity \<Rightarrow> entity" where
  "getDomainLists env e =
     (if domainListLoaded e then e
      else case fst (GetDomain env False e) of
        None \<Rightarrow> e
      | Some domain \<Rightarrow>
          if loadDomainListOnce e then e
          else load_domains env (domains_to_check env domain e) (e\<lparr>loadDomainListOnce := True\<rparr>))"

definition getASNLists :: "intel_env \<Rightarrow> entity \<Rightarrow> entity" where
  "getASNLists env e =
     (if asnListLoaded e then e
      else case GetASN env e of (asn, e) \<Rightarrow>
        if asn = None \<or> asn = Some 0 \<or> loadAsnListOnce e then e
        else let e = e\<lparr>loadAsnListOnce := True\<rparr>; asnStr = Itoa (the asn)
             in case LookupASNString env asnStr of
                  Inl err \<Rightarrow> e\<lparr>ListsError := err\<rparr>
                | Inr srcs \<Rightarrow> (mergeList asnStr srcs e)\<lparr>asnListLoaded := True\<rparr>)"

definition getCountryLists :: "intel_env \<Rightarrow> entity \<Rightarrow> entity" where
  "getCountryLists env e =
     (if countryListLoaded e then e
      else case GetCountry env e of (country, e) \<Rightarrow>
        if country = None \<or> country = Some [] \<or> loadCountryListOnce e then e
        else let e = e\<lparr>loadCountryListOnce := True\<rparr>
             in case LookupCountry env (the country) of
                  Inl err \<Rightarrow> e\<lparr>ListsError := err\<rparr>
                | Inr srcs \<Rightarrow> (mergeList (the country) srcs e)\<lparr>countryListLoaded := True\<rparr>)"

definition getIPLists :: "intel_env \<Rightarrow> entity \<Rightarrow> entity" where
  "getIPLists env e =
     (if ipListLoaded e then e
      else case GetIP e of
        None \<Rightarrow> e
      | Some ip \<Rightarrow>
          if \<not> IsGlobal (e_IPScope e) \<or> loadIPListOnce e then e
          else let e = e\<lparr>loadIPListOnce := True\<rparr>
               in case LookupIP env ip of
                    Inl err \<Rightarrow> e\<lparr>ListsError := err\<rparr>
                  | Inr srcs \<Rightarrow> (mergeList (IP_String ip) srcs e)\<lparr>ipListLoaded := True\<rparr>)"

definition LoadLists :: "intel_env \<Rightarrow> entity \<Rightarrow> entity" where
  "LoadLists env e =
     getCountryLists env (getIPLists env (getASNLists env (getDomainLists env e)))"

section \<open>Matching the lists\<close>

definition list_hits :: "string list \<Rightarrow> (string \<times> string list) list \<Rightarrow> (string \<times> string) list" where
  "list_hits srcs occ =
     concat (map (\<lambda>(key, keyLists). map (\<lambda>l. (l, key)) (filter (\<lambda>l. l \<in> makeMap srcs) keyLists)) occ)"

definition MatchLists :: "string list \<Rightarrow> entity \<Rightarrow> bool \<times> entity" where
  "MatchLists srcs e =
     (if srcs = [] then (False, e)
      else let hits = list_hits srcs (ListOccurences e);
               e = e\<lparr>BlockedByLists := makeDistinct (map fst hits),
                     BlockedEntities := makeDistinct (map snd hits)\<rparr>
           in (BlockedByLists e \<noteq> [], e))"

record list_match =
  lm_Entity :: string
  ActiveLists :: "string list"
  InactiveLists :: "string list"

definition ListBlockReason :: "entity \<Rightarrow> list_match list" where
  "ListBlockReason e =
     map (\<lambda>blockedEntity.
        case map_of (ListOccurences e) blockedEntity of
          None \<Rightarrow> \<lparr>lm_Entity = [], ActiveLists = [], InactiveLists = []\<rparr>
        | Some entityLists \<Rightarrow>
            \<lparr>lm_Entity = blockedEntity,
             ActiveLists = filter (\<lambda>l. l \<in> makeMap (BlockedByLists e)) entityLists,
             InactiveLists = filter (\<lambda>l. l \<notin> makeMap (BlockedByLists e)) entityLists\<rparr>)
       (BlockedEntities e)"

definition list_match_String :: "list_match \<Rightarrow> string" where
  "list_match_String lm =
     lm_Entity lm @ '' in activated lists '' @ Join (ActiveLists lm) '','' @
     (if InactiveLists lm \<noteq> [] then '' and in deactivated lists '' @ Join (InactiveLists lm) '', '' else [])"

definition ListBlockReason_String :: "list_match list \<Rightarrow> string" where
  "ListBlockReason_String br = (if br = [] then [] else Join (map list_match_String br) '' and '')"

lemmas lookup_defs [go_simps] =
  makeDistinct_def makeMap_def mergeStringList_def makeListCacheKey_def lookupBlockLists_def
  LookupCountry_def LookupDomain_def LookupASNString_def LookupIPv4_def LookupIPv6_def LookupIP_def

lemmas entity_defs [go_simps] =
  Init_def DstPort_def ResetLists_def ResolveSubDomainLists_def EnableCNAMECheck_def
  CNAMECheckEnabled_def EnableReverseResolving_def reverseResolve_def GetDomain_def GetIP_def
  getLocation_def GetLocation_def GetCountry_def GetCountryInfo_def GetASN_def mergeList_def
  splitDomain_def domains_to_check_def getDomainLists_def getASNLists_def getCountryLists_def
  getIPLists_def LoadLists_def list_hits_def MatchLists_def ListBlockReason_def
  list_match_String_def ListBlockReason_String_def

section \<open>Concrete values\<close>

text \<open>The zero value of the struct \<^verbatim>\<open>Entity\<close>.\<close>

definition zero_entity :: entity where
  "zero_entity = \<lparr>domainListLoaded = False, ipListLoaded = False, countryListLoaded = False,
     asnListLoaded = False, reverseResolveEnabled = False, resolveSubDomainLists = False,
     checkCNAMEs = False, e_IP = [], e_IPScope = Undefined, e_Protocol = 0, e_Port = 0,
     e_dstPort = 0, e_Domain = [], ReverseDomain = [], CNAME = [], Country = [], ASN = 0,
     ASOrg = [], LocationError = [], e_location = None, BlockedByLists = [],
     BlockedEntities = [], ListOccurences = [], ListsError = [], fetchLocationOnce = False,
     reverseResolveOnce = False, loadDomainListOnce = False, loadIPListOnce = False,
     loadCountryListOnce = False, loadAsnListOnce = False\<rparr>"

definition sample_entity :: entity where
  "sample_entity = Init 0 (zero_entity\<lparr>e_IP := [1, 1, 1, 1], e_Protocol := 6, e_Port := 443,
     e_Domain := ''one.one.''\<rparr>)"

text \<open>An environment without data: every lookup fails or finds nothing.\<close>

definition empty_env :: intel_env where
  "empty_env = \<lparr>geo_lookup = (\<lambda>_. Inl ''no database''), reverse_resolver = None,
     fl_isLoaded = False, bloom_test = (\<lambda>_ _. False), record_by_key = (\<lambda>_. Inl ErrNotFound),
     public_suffix = (\<lambda>d. (d, True))\<rparr>"

end
