(* ===== verification/Entity_Lists.thy ===== *)
theory Entity_Lists
  imports Intel_Entity
begin

text \<open>
  Properties of the filter list part of \<^verbatim>\<open>service/intel/entity.go\<close>: what \<^verbatim>\<open>MatchLists\<close> answers,
  that \<^verbatim>\<open>LoadLists\<close> loads each source once, and that a listed domain is found by a match
  after the load, whichever of its parent domains or aliases is the listed one.
\<close>

section \<open>Properties of list matching\<close>

lemma set_list_hits:
  "set (list_hits ls occ) = {(l, k). l \<in> set ls \<and> (\<exists>kl. (k, kl) \<in> set occ \<and> l \<in> set kl)}"
  by (auto simp: list_hits_def makeMap_def)

text \<open>
  \<^verbatim>\<open>MatchLists\<close> is exact and does not depend on the order of the map.  It reports a match just
  if some loaded key is in one of the enabled lists; it then names exactly the enabled lists
  that have a loaded key, and exactly the keys that are in an enabled list, each once.
\<close>

theorem MatchLists_correct:
  "fst (MatchLists ls e) = (\<exists>k kl l. (k, kl) \<in> set (ListOccurences e) \<and> l \<in> set kl \<and> l \<in> set ls) \<and>
   (if ls = [] then snd (MatchLists ls e) = e
    else
     set (BlockedByLists (snd (MatchLists ls e))) =
       {l \<in> set ls. \<exists>(k, kl) \<in> set (ListOccurences e). l \<in> set kl} \<and>
     set (BlockedEntities (snd (MatchLists ls e))) =
       {k. \<exists>kl. (k, kl) \<in> set (ListOccurences e) \<and> set kl \<inter> set ls \<noteq> {}} \<and>
     distinct (BlockedByLists (snd (MatchLists ls e))) \<and>
     distinct (BlockedEntities (snd (MatchLists ls e))))"
proof (cases "ls = []")
  case False
  let ?h = "list_hits ls (ListOccurences e)"
  have "?h \<noteq> [] \<longleftrightarrow> (\<exists>k kl l. (k, kl) \<in> set (ListOccurences e) \<and> l \<in> set kl \<and> l \<in> set ls)"
    using set_list_hits [of ls "ListOccurences e"] by (auto simp: set_empty [symmetric] simp del: set_empty)
  moreover have "fst ` set ?h = {l \<in> set ls. \<exists>(k, kl) \<in> set (ListOccurences e). l \<in> set kl}"
    unfolding set_list_hits by force
  moreover have "snd ` set ?h = {k. \<exists>kl. (k, kl) \<in> set (ListOccurences e) \<and> set kl \<inter> set ls \<noteq> {}}"
    unfolding set_list_hits by force
  ultimately show ?thesis using False by (simp add: MatchLists_def Let_def)
qed (simp add: MatchLists_def)

section \<open>Loading\<close>

lemma getLocation_idem [simp]: "getLocation env (getLocation env e) = getLocation env e"
  by (auto simp: getLocation_def Let_def split: sum.split)

lemma load_frame [simp]:
  "e_Domain (load_domains env ds e) = e_Domain e" "loadDomainListOnce (load_domains env ds e) = loadDomainListOnce e"
  "e_IP (load_domains env ds e) = e_IP e" "e_IPScope (load_domains env ds e) = e_IPScope e"
  by (induction env ds e rule: load_domains.induct) (auto simp: mergeList_def split: sum.split)


lemma map_of_mergeList:
  "map_of (ListOccurences (mergeList k srcs e)) =
     (if srcs = [] then map_of (ListOccurences e)
      else (map_of (ListOccurences e))(k \<mapsto>
        mergeStringList (case map_of (ListOccurences e) k of None \<Rightarrow> [] | Some l \<Rightarrow> l) srcs))"
  by (simp add: mergeList_def update_conv')

definition listed :: "entity \<Rightarrow> string \<Rightarrow> string set" where
  "listed e k = (case map_of (ListOccurences e) k of None \<Rightarrow> {} | Some l \<Rightarrow> set l)"

lemma listed_mergeList: "listed (mergeList k srcs e) x = listed e x \<union> (if x = k then set srcs else {})"
  by (auto simp: listed_def map_of_mergeList split: option.splits)

lemma listed_load:
  "domainListLoaded (load_domains env ds e) \<Longrightarrow> \<not> domainListLoaded e \<Longrightarrow>
   listed (load_domains env ds e) x = listed e x \<union>
     (if x \<in> set ds then (case LookupDomain env x of Inr srcs \<Rightarrow> set srcs | Inl _ \<Rightarrow> {}) else {})"
proof (induction env ds e rule: load_domains.induct)
  case (1 env e)
  then show ?case by (simp add: listed_def)
next
  case (2 env d ds e)
  then obtain srcs where "LookupDomain env d = Inr srcs" by (cases "LookupDomain env d") auto
  moreover have "domainListLoaded (mergeList d srcs e) = domainListLoaded e" by (simp add: mergeList_def)
  ultimately show ?case using 2 by (auto simp: listed_mergeList)
qed

definition domain_done :: "entity \<Rightarrow> bool" where
  "domain_done e \<longleftrightarrow> domainListLoaded e \<or> e_Domain e = [] \<or> loadDomainListOnce e"

definition asn_done :: "entity \<Rightarrow> bool" where
  "asn_done e \<longleftrightarrow> asnListLoaded e \<or>
     fetchLocationOnce e \<and> (LocationError e \<noteq> [] \<or> ASN e = 0 \<or> loadAsnListOnce e)"

definition country_done :: "entity \<Rightarrow> bool" where
  "country_done e \<longleftrightarrow> countryListLoaded e \<or>
     fetchLocationOnce e \<and> (LocationError e \<noteq> [] \<or> Country e = [] \<or> loadCountryListOnce e)"

definition ip_done :: "entity \<Rightarrow> bool" where
  "ip_done e \<longleftrightarrow> ipListLoaded e \<or> e_IP e = [] \<or> \<not> IsGlobal (e_IPScope e) \<or> loadIPListOnce e"

lemmas done_defs = domain_done_def asn_done_def country_done_def ip_done_def
lemmas loader_defs = getDomainLists_def getASNLists_def getCountryLists_def getIPLists_def
  GetDomain_def GetASN_def GetCountry_def GetIP_def Let_def

lemma getLocation_fetched: "fetchLocationOnce e \<Longrightarrow> getLocation env e = e"
  by (simp add: getLocation_def)

lemma done_fix:
  "domain_done e \<Longrightarrow> getDomainLists env e = e" "asn_done e \<Longrightarrow> getASNLists env e = e"
  "country_done e \<Longrightarrow> getCountryLists env e = e" "ip_done e \<Longrightarrow> getIPLists env e = e"
  by (auto simp: done_defs loader_defs getLocation_fetched)

lemma loc_frame [simp]:
  "domainListLoaded (getLocation env e) = domainListLoaded e" "asnListLoaded (getLocation env e) = asnListLoaded e"
  "countryListLoaded (getLocation env e) = countryListLoaded e" "ipListLoaded (getLocation env e) = ipListLoaded e"
  "e_Domain (getLocation env e) = e_Domain e" "e_IP (getLocation env e) = e_IP e" "e_IPScope (getLocation env e) = e_IPScope e"
  "loadDomainListOnce (getLocation env e) = loadDomainListOnce e" "loadAsnListOnce (getLocation env e) = loadAsnListOnce e"
  "loadCountryListOnce (getLocation env e) = loadCountryListOnce e" "loadIPListOnce (getLocation env e) = loadIPListOnce e"
  "fetchLocationOnce (getLocation env e)" "ListOccurences (getLocation env e) = ListOccurences e"
  by (auto simp: getLocation_def Let_def split: sum.split)

lemma mergeList_frame [simp]:
  "domainListLoaded (mergeList k s e) = domainListLoaded e" "asnListLoaded (mergeList k s e) = asnListLoaded e"
  "countryListLoaded (mergeList k s e) = countryListLoaded e" "ipListLoaded (mergeList k s e) = ipListLoaded e"
  "e_Domain (mergeList k s e) = e_Domain e" "e_IP (mergeList k s e) = e_IP e" "e_IPScope (mergeList k s e) = e_IPScope e"
  "loadDomainListOnce (mergeList k s e) = loadDomainListOnce e" "loadAsnListOnce (mergeList k s e) = loadAsnListOnce e"
  "loadCountryListOnce (mergeList k s e) = loadCountryListOnce e" "loadIPListOnce (mergeList k s e) = loadIPListOnce e"
  "fetchLocationOnce (mergeList k s e) = fetchLocationOnce e" "LocationError (mergeList k s e) = LocationError e"
  "ASN (mergeList k s e) = ASN e" "Country (mergeList k s e) = Country e"
  by (auto simp: mergeList_def)

lemma domain_done_load: "domain_done (getDomainLists env e)"
  by (auto simp: done_defs loader_defs)

lemma asn_done_load: "asn_done (getASNLists env e)" 
  by (auto simp: done_defs loader_defs split: sum.split)

lemma ip_done_load: "ip_done (getIPLists env e)"
  by (auto simp: done_defs loader_defs split: sum.split)

lemma country_done_load: "country_done (getCountryLists env e)"
  by (auto simp: done_defs loader_defs split: sum.split)

lemma done_keep:
  "domain_done e \<Longrightarrow> domain_done (getASNLists env e)" "domain_done e \<Longrightarrow> domain_done (getIPLists env e)"
  "domain_done e \<Longrightarrow> domain_done (getCountryLists env e)"
  "asn_done e \<Longrightarrow> asn_done (getIPLists env e)" "ip_done e \<Longrightarrow> ip_done (getCountryLists env e)"
  by (auto simp: done_defs loader_defs split: sum.split)

lemma asn_done_country: "asn_done e \<Longrightarrow> asn_done (getCountryLists env e)"
  by (cases "fetchLocationOnce e") (auto simp: done_defs loader_defs getLocation_fetched split: sum.split)

lemma LoadLists_done:
  "domain_done (LoadLists env e)" "asn_done (LoadLists env e)" "ip_done (LoadLists env e)"
  "country_done (LoadLists env e)"
  unfolding LoadLists_def
  by (intro done_keep asn_done_country domain_done_load asn_done_load ip_done_load country_done_load)+

text \<open>
  Lists are loaded once.  A second \<^verbatim>\<open>LoadLists\<close> changes nothing, also when the first one met
  errors, so the lists seen by later rules are those the first rule saw.
\<close>

theorem LoadLists_idempotent: "LoadLists env (LoadLists env e) = LoadLists env e"
  using LoadLists_done [of env e] by (simp add: LoadLists_def [of env "LoadLists env e"] done_fix)

lemma listed_cong: "ListOccurences e = ListOccurences e' \<Longrightarrow> listed e = listed e'"
  by (simp add: listed_def fun_eq_iff)

lemma listed_frame [simp]:
  "listed (getLocation env e) = listed e" "listed (e\<lparr>ListsError := err\<rparr>) = listed e"
  "listed (e\<lparr>loadAsnListOnce := b\<rparr>) = listed e" "listed (e\<lparr>loadCountryListOnce := b\<rparr>) = listed e"
  "listed (e\<lparr>loadIPListOnce := b\<rparr>) = listed e" "listed (e\<lparr>loadDomainListOnce := b\<rparr>) = listed e"
  "listed (e\<lparr>asnListLoaded := b\<rparr>) = listed e" "listed (e\<lparr>countryListLoaded := b\<rparr>) = listed e"
  "listed (e\<lparr>ipListLoaded := b\<rparr>) = listed e"
  by (rule listed_cong, simp)+

lemma listed_keep:
  "listed e x \<subseteq> listed (getASNLists env e) x" "listed e x \<subseteq> listed (getIPLists env e) x"
  "listed e x \<subseteq> listed (getCountryLists env e) x"
  by (auto simp: loader_defs listed_mergeList split: sum.split)

lemma loaded_keep:
  "domainListLoaded (getASNLists env e) = domainListLoaded e" "domainListLoaded (getIPLists env e) = domainListLoaded e"
  "domainListLoaded (getCountryLists env e) = domainListLoaded e"
  by (auto simp: loader_defs split: sum.split)

lemma domain_listed_after_load:
  assumes "\<not> domainListLoaded e" "\<not> loadDomainListOnce e" "domainListLoaded (LoadLists env e)"
    and "x \<in> set (domains_to_check env (e_Domain e) e)" "LookupDomain env x = Inr srcs"
  shows "set srcs \<subseteq> listed (LoadLists env e) x"
proof -
  let ?d = "getDomainLists env e"
  have "domainListLoaded ?d" using assms(3) by (simp add: LoadLists_def loaded_keep)
  moreover from this have "e_Domain e \<noteq> []" using assms(1) by (auto simp: loader_defs)
  then have "?d = load_domains env (domains_to_check env (e_Domain e) e) (e\<lparr>loadDomainListOnce := True\<rparr>)"
    using assms(1,2) by (simp add: loader_defs)
  ultimately have "set srcs \<subseteq> listed ?d x" using assms by (simp add: listed_load)
  also have "\<dots> \<subseteq> listed (LoadLists env e) x"
    unfolding LoadLists_def by (meson listed_keep order_trans)
  finally show ?thesis .
qed

lemma listed_in_occurences: "l \<in> listed e x \<Longrightarrow> \<exists>kl. (x, kl) \<in> set (ListOccurences e) \<and> l \<in> set kl"
  by (auto simp: listed_def dest: map_of_SomeD split: option.splits)

text \<open>
  A listed domain is caught.  Take an entity whose domain lists have not been loaded yet.  If
  loading them succeeds and the record store has sources for the domain of the entity, or, with
  these checks switched on, for one of its aliases or parent domains, then \<^verbatim>\<open>MatchLists\<close> with any
  of these sources enabled reports a match and names the source and the domain.
\<close>

theorem listed_domain_matches:
  assumes "\<not> domainListLoaded e" "\<not> loadDomainListOnce e" "domainListLoaded (LoadLists env e)"
    and "x \<in> set (domains_to_check env (e_Domain e) e)" "LookupDomain env x = Inr srcs"
    and "l \<in> set srcs" "l \<in> set enabled"
  shows "fst (MatchLists enabled (LoadLists env e)) \<and>
    l \<in> set (BlockedByLists (snd (MatchLists enabled (LoadLists env e)))) \<and>
    x \<in> set (BlockedEntities (snd (MatchLists enabled (LoadLists env e))))"
proof -
  obtain kl where kl: "(x, kl) \<in> set (ListOccurences (LoadLists env e))" "l \<in> set kl"
    using listed_in_occurences domain_listed_after_load [OF assms(1-5)] assms(6) by blast
  then have "(l, x) \<in> set (list_hits enabled (ListOccurences (LoadLists env e)))"
    using assms(7) by (auto simp: set_list_hits)
  moreover have "enabled \<noteq> []" using assms(7) by auto
  ultimately show ?thesis by (intro conjI) (force simp: MatchLists_def Let_def)+
qed

definition sample_list_env :: intel_env where
  "sample_list_env = empty_env\<lparr>fl_isLoaded := True, bloom_test := (\<lambda>_ _. True),
     record_by_key := (\<lambda>k. if k = makeListCacheKey ''domain'' ''bad.com.'' then Inr [''MAL'', ''ADS'']
       else Inl ErrNotFound),
     public_suffix := (\<lambda>_. (''com'', True))\<rparr>"

definition sample_listed_entity :: entity where
  "sample_listed_entity =
     zero_entity\<lparr>e_Domain := ''www.bad.com.'', resolveSubDomainLists := True\<rparr>"

theorem listed_domain_matches_witness:
  "fst (MatchLists [''ADS''] (LoadLists sample_list_env sample_listed_entity)) \<and>
   ''bad.com.'' \<in> set (BlockedEntities (snd (MatchLists [''ADS'']
     (LoadLists sample_list_env sample_listed_entity))))"
proof -
  have "\<not> domainListLoaded sample_listed_entity" "\<not> loadDomainListOnce sample_listed_entity"
    "domainListLoaded (LoadLists sample_list_env sample_listed_entity)"
    "''bad.com.'' \<in> set (domains_to_check sample_list_env (e_Domain sample_listed_entity) sample_listed_entity)"
    "LookupDomain sample_list_env ''bad.com.'' = Inr [''MAL'', ''ADS'']"
    by code_simp+
  from listed_domain_matches [OF this, of "''ADS''" "[''ADS'']"] show ?thesis by simp
qed

end
