(* ===== verification/Filter_Index.thy ===== *)
theory Filter_Index
  imports Intel_Entity
begin

text \<open>
  \<^verbatim>\<open>service/intel/filterlists/index.go\<close>: the index of filter list sources and categories, and the
  resolution of configured IDs to the IDs of sources.

  Categories form a tree by their \<^verbatim>\<open>Parent\<close> field, and the code descends it by recursion without
  looking for cycles.  The model takes fuel for the depth of the recursion; \<open>None\<close> is a stack that
  grows beyond it.  An index whose categories can be ranked resolves with any fuel above the
  rank, an index with a category that is its own parent resolves with no fuel at all.

  The code collects IDs in Go maps, whose order is not specified; the model returns the distinct
  IDs in order of discovery and the theorems speak about the set.
\<close>

record category =
  cat_ID :: string
  cat_Parent :: string

record list_source =
  src_ID :: string
  src_Category :: string

record list_index =
  idx_Categories :: "category list"
  idx_Sources :: "list_source list"

fun getCategorySources :: "nat \<Rightarrow> list_index \<Rightarrow> string \<Rightarrow> string list option" where
  "getCategorySources 0 index cid = None"
| "getCategorySources (Suc n) index cid =
     (let own = map src_ID (filter (\<lambda>s. src_Category s = cid) (idx_Sources index));
          children = filter (\<lambda>c. cat_Parent c = cid) (idx_Categories index)
      in map_option (\<lambda>ls. remdups (own @ concat ls))
           (those (map (\<lambda>c. getCategorySources n index (cat_ID c)) children)))"

definition getSourcesMatching :: "nat \<Rightarrow> list_index \<Rightarrow> string \<Rightarrow> string list option" where
  "getSourcesMatching n index cid =
     (if \<exists>s \<in> set (idx_Sources index). src_ID s = cid then Some [cid]
      else getCategorySources n index cid)"

definition getDistictSourceIDs :: "nat \<Rightarrow> list_index \<Rightarrow> string list \<Rightarrow> string list option" where
  "getDistictSourceIDs n index ids =
     map_option (\<lambda>ls. remdups (concat ls)) (those (map (getSourcesMatching n index) ids))"

text \<open>
  \<^verbatim>\<open>ResolveListIDs\<close>.  The cache of the index and its update from the update server are
  parameters: \<open>cached\<close> is what the cache holds, \<open>refetch\<close> the result of an update together with
  what the cache holds afterwards.
\<close>

definition ResolveListIDs ::
    "nat \<Rightarrow> db_error + list_index \<Rightarrow> string + (db_error + list_index) \<Rightarrow> string list \<Rightarrow>
     (string + string list) option" where
  "ResolveListIDs n cached refetch ids =
     (let text = (\<lambda>err. case err of ErrNotFound \<Rightarrow> ''not found'' | DBError s \<Rightarrow> s);
          resolve = (\<lambda>index. map_option Inr (getDistictSourceIDs n index ids))
      in case cached of
           Inr index \<Rightarrow> resolve index
         | Inl (DBError err) \<Rightarrow> Some (Inl err)
         | Inl ErrNotFound \<Rightarrow>
             (case refetch of
                Inl err \<Rightarrow> Some (Inl err)
              | Inr (Inl err) \<Rightarrow> Some (Inl (text err))
              | Inr (Inr index) \<Rightarrow> resolve index))"

section \<open>What resolution means\<close>

text \<open>A source belongs to its category and to all categories above it.\<close>

inductive in_category :: "list_index \<Rightarrow> string \<Rightarrow> string \<Rightarrow> bool" for index where
  own: "s \<in> set (idx_Sources index) \<Longrightarrow> in_category index (src_Category s) (src_ID s)"
| child: "c \<in> set (idx_Categories index) \<Longrightarrow> in_category index (cat_ID c) sid \<Longrightarrow>
    in_category index (cat_Parent c) sid"

inductive_cases in_categoryE: "in_category index cid sid"

definition ranked :: "list_index \<Rightarrow> (string \<Rightarrow> nat) \<Rightarrow> bool" where
  "ranked index rank \<longleftrightarrow> list_all (\<lambda>c. rank (cat_ID c) < rank (cat_Parent c)) (idx_Categories index)"

definition selects :: "list_index \<Rightarrow> string \<Rightarrow> string \<Rightarrow> bool" where
  "selects index cid sid \<longleftrightarrow>
     (if cid \<in> src_ID ` set (idx_Sources index) then sid = cid else in_category index cid sid)"

lemma those_map_Some:
  "(\<And>x. x \<in> set xs \<Longrightarrow> f x = Some (g x)) \<Longrightarrow> those (map f xs) = Some (map g xs)"
  by (induction xs) auto

lemma getCategorySources_ranked:
  assumes "ranked index rank"
  shows "rank cid < n \<Longrightarrow>
    \<exists>l. getCategorySources n index cid = Some l \<and> distinct l \<and> set l = {sid. in_category index cid sid}"
proof (induction n arbitrary: cid)
  case (Suc n)
  let ?cs = "filter (\<lambda>c. cat_Parent c = cid) (idx_Categories index)"
  have "\<exists>l. getCategorySources n index (cat_ID c) = Some l \<and> set l = {sid. in_category index (cat_ID c) sid}"
    if "c \<in> set ?cs" for c
  proof -
    have "rank (cat_ID c) < rank cid" using that assms by (auto simp: ranked_def list_all_iff)
    then show ?thesis using Suc.IH [of "cat_ID c"] Suc.prems by auto
  qed
  then obtain g where g: "\<And>c. c \<in> set ?cs \<Longrightarrow> getCategorySources n index (cat_ID c) = Some (g c) \<and>
      set (g c) = {sid. in_category index (cat_ID c) sid}"
    by metis
  then have "those (map (\<lambda>c. getCategorySources n index (cat_ID c)) ?cs) = Some (map g ?cs)"
    by (intro those_map_Some) blast
  moreover have "(\<Union>c \<in> set ?cs. set (g c)) = {sid. \<exists>c \<in> set ?cs. in_category index (cat_ID c) sid}"
    using g by auto
  ultimately show ?case
    by (auto simp: Let_def intro: in_category.intros elim: in_categoryE)
qed simp

lemma selects_ranked:
  assumes "ranked index rank" and "rank cid < n"
  shows "\<exists>l. getSourcesMatching n index cid = Some l \<and> set l = {sid. selects index cid sid}"
  using getCategorySources_ranked [OF assms]
  by (auto simp: getSourcesMatching_def selects_def image_iff)

text \<open>
  C37: List IDs resolve to the right sources.  If the categories of the index can be ranked, which
  says that no category is below itself, the recursion ends and \<^verbatim>\<open>getDistictSourceIDs\<close> returns,
  each once, exactly the named sources and all sources of the named categories and of the
  categories below them; a name that is both means the source.
\<close>

theorem getDistictSourceIDs_correct:
  assumes "ranked index rank" and "\<And>cid. cid \<in> set ids \<Longrightarrow> rank cid < n"
  shows "\<exists>l. getDistictSourceIDs n index ids = Some l \<and> distinct l \<and>
    set l = {sid. \<exists>cid \<in> set ids. selects index cid sid}"
proof -
  have "\<forall>cid \<in> set ids. \<exists>l. getSourcesMatching n index cid = Some l \<and> set l = {sid. selects index cid sid}"
    using selects_ranked [OF assms(1)] assms(2) by blast
  from bchoice [OF this] obtain g where g: "\<forall>cid \<in> set ids. getSourcesMatching n index cid = Some (g cid) \<and>
      set (g cid) = {sid. selects index cid sid}" ..
  then have "those (map (getSourcesMatching n index) ids) = Some (map g ids)"
    by (intro those_map_Some) blast
  moreover have "(\<Union>cid \<in> set ids. set (g cid)) = {sid. \<exists>cid \<in> set ids. selects index cid sid}"
    using g by auto
  ultimately show ?thesis by (simp add: getDistictSourceIDs_def)
qed

definition sample_index :: list_index where
  "sample_index = \<lparr>
     idx_Categories = [\<lparr>cat_ID = ''BAD'', cat_Parent = ''''\<rparr>, \<lparr>cat_ID = ''MAL'', cat_Parent = ''BAD''\<rparr>],
     idx_Sources = [\<lparr>src_ID = ''M1'', src_Category = ''MAL''\<rparr>, \<lparr>src_ID = ''B1'', src_Category = ''BAD''\<rparr>]\<rparr>"

theorem getDistictSourceIDs_correct_witness:
  "\<exists>l. getDistictSourceIDs 3 sample_index [''BAD'', ''M1''] = Some l \<and> distinct l \<and>
     set l = {sid. \<exists>cid \<in> set [''BAD'', ''M1'']. selects sample_index cid sid}"
  by (rule getDistictSourceIDs_correct
        [where rank = "\<lambda>cid. if cid = '''' then 2 else if cid = ''BAD'' then 1 else 0"])
     (auto simp: ranked_def sample_index_def)

text \<open>
  A cyclic index never resolves.  If a category names itself as its parent and is not also
  the ID of a source, no depth of recursion is enough to resolve it.
\<close>

theorem cyclic_category_diverges:
  assumes "\<lparr>cat_ID = cid, cat_Parent = cid\<rparr> \<in> set (idx_Categories index)"
  shows "getCategorySources n index cid = None"
proof (induction n)
  case (Suc n)
  let ?f = "\<lambda>c. getCategorySources n index (cat_ID c)"
  have those_None: "those (map ?f cs) = None" if "\<lparr>cat_ID = cid, cat_Parent = cid\<rparr> \<in> set cs" for cs
    using that Suc by (induction cs) (auto split: option.splits)
  show ?case using assms by (simp add: Let_def those_None)
qed simp

theorem cyclic_category_diverges_witness:
  "getCategorySources 1000 \<lparr>idx_Categories = [\<lparr>cat_ID = ''A'', cat_Parent = ''A''\<rparr>], idx_Sources = []\<rparr> ''A'' = None"
  by (rule cyclic_category_diverges) simp

end
