(* ===== verification/Endpoints.thy ===== *)
theory Endpoints
  imports Intel_Entity
begin

text \<open>
  \<^verbatim>\<open>service/profile/endpoints\<close>: the rules of the endpoint lists.  An endpoint is one rule; the
  nine kinds of the source are the constructors of \<open>endpoint\<close>, each with the embedded
  \<^verbatim>\<open>EndpointBase\<close>.  \<open>Matches\<close> evaluates a rule on an entity, \<open>Match\<close> a list of rules,
  \<open>parseEndpoint\<close> reads a rule from its text and \<open>endpoint_String\<close> prints it.

  Matching may load data into the entity and may panic (\<^verbatim>\<open>GetCountryInfo\<close>), so it returns the
  result, the reason and the entity inside \<open>go\<close>.  Parsing reads fields by index and panics
  when a comment leaves fewer than two of them.
\<close>

section \<open>Results and reasons\<close>

datatype EPResult = NoMatch | MatchError | Denied | Permitted

definition IsDecision :: "EPResult \<Rightarrow> bool" where
  "IsDecision result \<longleftrightarrow> result = Denied \<or> result = Permitted \<or> result = MatchError"

text \<open>
  The implementations of the interface \<^verbatim>\<open>Reason\<close>: the reason of a rule (struct \<^verbatim>\<open>reason\<close>) and
  \<^verbatim>\<open>intel.ListBlockReason\<close>.
\<close>

record rule_reason =
  r_description :: string
  r_Filter :: string
  r_Value :: string
  r_Permitted :: bool
  r_Extra :: "(string \<times> list_match list) list"

datatype reason = RuleReason rule_reason | ListReason "list_match list"

definition rule_reason_String :: "rule_reason \<Rightarrow> string" where
  "rule_reason_String r =
     (if r_Permitted r then ''allowed by rule: '' else ''denied by rule: '')
       @ r_description r @ '' '' @ drop 2 (r_Filter r)"

fun reason_String :: "reason \<Rightarrow> string" where
  "reason_String (RuleReason r) = rule_reason_String r"
| "reason_String (ListReason br) = ListBlockReason_String br"

section \<open>Endpoints\<close>

record ep_base =
  ep_Protocol :: byte
  ep_StartPort :: port
  ep_EndPort :: port
  ep_Permitted :: bool

datatype domain_match_type =
  MatchTypeExact | MatchTypeZone | MatchTypeSuffix | MatchTypePrefix | MatchTypeContains

record domain_matcher =
  OriginalValue :: string
  d_Domain :: string
  DomainZone :: string
  MatchType :: domain_match_type

datatype endpoint =
    EndpointAny ep_base
  | EndpointIP ep_base ip
  | EndpointIPRange ep_base ip_net
  | EndpointCountry ep_base string
  | EndpointContinent ep_base string
  | EndpointASN ep_base nat
  | EndpointScope ep_base byte
  | EndpointLists ep_base "string list" string
  | EndpointDomain ep_base domain_matcher

fun base_of :: "endpoint \<Rightarrow> ep_base" where
  "base_of (EndpointAny b) = b"
| "base_of (EndpointIP b _) = b"
| "base_of (EndpointIPRange b _) = b"
| "base_of (EndpointCountry b _) = b"
| "base_of (EndpointContinent b _) = b"
| "base_of (EndpointASN b _) = b"
| "base_of (EndpointScope b _) = b"
| "base_of (EndpointLists b _ _) = b"
| "base_of (EndpointDomain b _) = b"

section \<open>Printing\<close>

definition renderPPP :: "ep_base \<Rightarrow> string \<Rightarrow> string" where
  "renderPPP ep s =
     (if ep_Permitted ep then ''+ '' @ s else ''- '' @ s) @
     (if ep_Protocol ep > 0 \<or> ep_StartPort ep > 0
      then (if ep_Protocol ep > 0 then '' '' @ GetProtocolName (ep_Protocol ep) else '' *'') @
           (if ep_StartPort ep > 0
            then (if ep_StartPort ep = ep_EndPort ep then ''/'' @ GetPortName (ep_StartPort ep)
                  else ''/'' @ Itoa (unat (ep_StartPort ep)) @ ''-'' @ Itoa (unat (ep_EndPort ep)))
            else [])
      else [])"

definition scopeLocalhost :: byte where "scopeLocalhost = 1"
definition scopeLAN :: byte where "scopeLAN = 2"
definition scopeInternet :: byte where "scopeInternet = 4"

definition Scopes :: "byte \<Rightarrow> string" where
  "Scopes scopes =
     (if scopes = scopeLocalhost then ''Localhost''
      else if scopes = scopeLAN then ''LAN''
      else if scopes = scopeInternet then ''Internet''
      else Join ((if scopes AND scopeLocalhost > 0 then [''Localhost''] else []) @
                 (if scopes AND scopeLAN > 0 then [''LAN''] else []) @
                 (if scopes AND scopeInternet > 0 then [''Internet''] else [])) '','')"

fun endpoint_String :: "endpoint \<Rightarrow> string" where
  "endpoint_String (EndpointAny b) = renderPPP b ''*''"
| "endpoint_String (EndpointIP b ip) = renderPPP b (IP_String ip)"
| "endpoint_String (EndpointIPRange b n) = renderPPP b (IPNet_String n)"
| "endpoint_String (EndpointCountry b cc) = renderPPP b cc"
| "endpoint_String (EndpointContinent b cc) = renderPPP b (''C:'' @ cc)"
| "endpoint_String (EndpointASN b asn) = renderPPP b (''AS'' @ Itoa asn)"
| "endpoint_String (EndpointScope b scopes) = renderPPP b (Scopes scopes)"
| "endpoint_String (EndpointLists b _ ls) = renderPPP b ls"
| "endpoint_String (EndpointDomain b d) = renderPPP b (OriginalValue d)"

section \<open>Matching\<close>

definition matchesPPP :: "ep_base \<Rightarrow> entity \<Rightarrow> EPResult" where
  "matchesPPP ep e =
     (if ep_Protocol ep > 0 \<and> e_Protocol e \<noteq> ep_Protocol ep then NoMatch
      else if ep_StartPort ep > 0 \<and> (DstPort e < ep_StartPort ep \<or> DstPort e > ep_EndPort ep)
      then NoMatch
      else if ep_Permitted ep then Permitted else Denied)"

text \<open>
  The loop over the variadic \<^verbatim>\<open>keyval\<close> runs \<^verbatim>\<open>idx = 0, 2, ...\<close> while \<^verbatim>\<open>idx < len(keyval)/2\<close>: of
  \<open>n\<close> pairs it stores the first \<open>\<lceil>n/2\<rceil>\<close>.
\<close>

definition makeReason ::
    "endpoint \<Rightarrow> string \<Rightarrow> string \<Rightarrow> (string \<times> list_match list) list \<Rightarrow> reason" where
  "makeReason ep value desc keyval =
     RuleReason \<lparr>r_description = desc, r_Filter = endpoint_String ep, r_Value = value,
                 r_Permitted = ep_Permitted (base_of ep),
                 r_Extra = take ((length keyval + 1) div 2) keyval\<rparr>"

definition match_base ::
    "endpoint \<Rightarrow> entity \<Rightarrow> string \<Rightarrow> string \<Rightarrow> (string \<times> list_match list) list \<Rightarrow>
     EPResult \<times> reason option" where
  "match_base ep e value desc keyval =
     (let result = matchesPPP (base_of ep) e
      in if result = NoMatch then (NoMatch, None)
         else (result, Some (makeReason ep value desc keyval)))"

definition domain_hit :: "domain_matcher \<Rightarrow> string \<Rightarrow> bool" where
  "domain_hit d domain =
     (case MatchType d of
        MatchTypeExact \<Rightarrow> domain = d_Domain d
      | MatchTypeZone \<Rightarrow> domain = d_Domain d \<or> HasSuffix domain (DomainZone d)
      | MatchTypeSuffix \<Rightarrow> HasSuffix domain (d_Domain d)
      | MatchTypePrefix \<Rightarrow> HasPrefix domain (d_Domain d)
      | MatchTypeContains \<Rightarrow> Contains domain (d_Domain d))"

definition domain_check :: "ep_base \<Rightarrow> domain_matcher \<Rightarrow> entity \<Rightarrow> string \<Rightarrow> EPResult \<times> reason option" where
  "domain_check b d e domain =
     (if domain_hit d domain
      then match_base (EndpointDomain b d) e (OriginalValue d) ''domain matches'' []
      else (NoMatch, None))"

fun cname_check ::
    "ep_base \<Rightarrow> domain_matcher \<Rightarrow> entity \<Rightarrow> string list \<Rightarrow> EPResult \<times> reason option" where
  "cname_check b d e [] = (NoMatch, None)"
| "cname_check b d e (c # cs) =
     (let (result, reason) = domain_check b d e c
      in if result = Denied then (result, reason) else cname_check b d e cs)"

definition entity_scope :: "IPScope \<Rightarrow> byte option" where
  "entity_scope s = (case s of
       HostLocal \<Rightarrow> Some scopeLocalhost
     | LinkLocal \<Rightarrow> Some scopeLAN
     | SiteLocal \<Rightarrow> Some scopeLAN
     | Global \<Rightarrow> Some scopeInternet
     | LocalMulticast \<Rightarrow> Some scopeLAN
     | GlobalMulticast \<Rightarrow> Some scopeInternet
     | Undefined \<Rightarrow> None
     | Invalid \<Rightarrow> None)"

type_synonym match_result = "EPResult \<times> reason option \<times> entity"

abbreviation no_match :: "entity \<Rightarrow> match_result go" where
  "no_match e \<equiv> Inr (NoMatch, None, e)"

definition with_entity :: "EPResult \<times> reason option \<Rightarrow> entity \<Rightarrow> match_result go" where
  "with_entity r e = Inr (fst r, snd r, e)"

definition EndpointAny_Matches :: "intel_env \<Rightarrow> ep_base \<Rightarrow> entity \<Rightarrow> match_result go" where
  "EndpointAny_Matches env b e =
     with_entity (match_base (EndpointAny b) e ''*'' ''matches'' []) e"

definition EndpointIP_Matches :: "intel_env \<Rightarrow> ep_base \<Rightarrow> ip \<Rightarrow> entity \<Rightarrow> match_result go" where
  "EndpointIP_Matches env b ip e =
     (if e_IP e = [] then no_match e
      else if IP_Equal ip (e_IP e)
      then with_entity (match_base (EndpointIP b ip) e (IP_String ip) ''IP matches'' []) e
      else no_match e)"

definition EndpointIPRange_Matches :: "intel_env \<Rightarrow> ep_base \<Rightarrow> ip_net \<Rightarrow> entity \<Rightarrow> match_result go" where
  "EndpointIPRange_Matches env b n e =
     (if e_IP e = [] then no_match e
      else if IPNet_Contains n (e_IP e)
      then with_entity (match_base (EndpointIPRange b n) e (IPNet_String n) ''IP is in'' []) e
      else no_match e)"

definition EndpointCountry_Matches :: "intel_env \<Rightarrow> ep_base \<Rightarrow> string \<Rightarrow> entity \<Rightarrow> match_result go" where
  "EndpointCountry_Matches env b cc e =
     (if e_IP e = [] \<or> \<not> IsGlobal (e_IPScope e) then no_match e
      else bind_go (GetCountryInfo env e) (\<lambda>(info, e).
        case info of
          None \<Rightarrow> Inr (MatchError, Some (makeReason (EndpointCountry b cc) []
                     ''country data not available to match'' []), e)
        | Some ci \<Rightarrow>
            if cc = ci_Code ci
            then with_entity (match_base (EndpointCountry b cc) e
                   (ci_Name ci @ '' ('' @ ci_Code ci @ '')'') ''IP is located in'' []) e
            else no_match e))"

definition EndpointContinent_Matches :: "intel_env \<Rightarrow> ep_base \<Rightarrow> string \<Rightarrow> entity \<Rightarrow> match_result go" where
  "EndpointContinent_Matches env b cc e =
     (if e_IP e = [] \<or> \<not> IsGlobal (e_IPScope e) then no_match e
      else bind_go (GetCountryInfo env e) (\<lambda>(info, e).
        case info of
          None \<Rightarrow> Inr (MatchError, Some (makeReason (EndpointContinent b cc) []
                     ''country data not available to match'' []), e)
        | Some ci \<Rightarrow>
            if cc = ci_ContinentCode ci
            then with_entity (match_base (EndpointContinent b cc) e
                   (ci_ContinentName ci @ '' ('' @ ci_ContinentCode ci @ '')'') ''IP is located in'' []) e
            else no_match e))"

definition EndpointASN_Matches :: "intel_env \<Rightarrow> ep_base \<Rightarrow> nat \<Rightarrow> entity \<Rightarrow> match_result go" where
  "EndpointASN_Matches env b asn e =
     (if e_IP e = [] \<or> \<not> IsGlobal (e_IPScope e) then no_match e
      else case GetASN env e of (got, e) \<Rightarrow>
        (case got of
           None \<Rightarrow> Inr (MatchError, Some (makeReason (EndpointASN b asn) (Itoa asn)
                      ''ASN data not available to match'' []), e)
         | Some n \<Rightarrow>
             if n = asn
             then with_entity (match_base (EndpointASN b asn) e (Itoa asn) ''IP is part of AS'' []) e
             else no_match e))"

definition EndpointScope_Matches :: "intel_env \<Rightarrow> ep_base \<Rightarrow> byte \<Rightarrow> entity \<Rightarrow> match_result go" where
  "EndpointScope_Matches env b scopes e =
     (if e_IP e = [] then no_match e
      else case entity_scope (e_IPScope e) of
        None \<Rightarrow> no_match e
      | Some scope \<Rightarrow>
          if scopes AND scope > 0
          then with_entity (match_base (EndpointScope b scopes) e (Scopes scopes) ''scope matches'' []) e
          else no_match e)"

definition EndpointLists_Matches :: "intel_env \<Rightarrow> ep_base \<Rightarrow> string list \<Rightarrow> string \<Rightarrow> entity \<Rightarrow> match_result go" where
  "EndpointLists_Matches env b listSet ls e =
     (case MatchLists listSet e of (hit, e) \<Rightarrow>
        if hit then with_entity (match_base (EndpointLists b listSet ls) e ls ''filterlist contains''
                      [(''filterlist'', ListBlockReason e)]) e
        else no_match e)"

definition EndpointDomain_Matches :: "intel_env \<Rightarrow> ep_base \<Rightarrow> domain_matcher \<Rightarrow> entity \<Rightarrow> match_result go" where
  "EndpointDomain_Matches env b d e =
     (case GetDomain env True e of (got, e) \<Rightarrow>
        (case got of
           None \<Rightarrow> no_match e
         | Some domain \<Rightarrow>
             let (result, reason) = domain_check b d e domain
             in if result \<noteq> NoMatch then Inr (result, reason, e)
                else if CNAMECheckEnabled e then with_entity (cname_check b d e (CNAME e)) e
                else no_match e))"

fun Matches :: "intel_env \<Rightarrow> endpoint \<Rightarrow> entity \<Rightarrow> match_result go" where
  "Matches env (EndpointAny b) e = EndpointAny_Matches env b e"
| "Matches env (EndpointIP b ip) e = EndpointIP_Matches env b ip e"
| "Matches env (EndpointIPRange b n) e = EndpointIPRange_Matches env b n e"
| "Matches env (EndpointCountry b cc) e = EndpointCountry_Matches env b cc e"
| "Matches env (EndpointContinent b cc) e = EndpointContinent_Matches env b cc e"
| "Matches env (EndpointASN b asn) e = EndpointASN_Matches env b asn e"
| "Matches env (EndpointScope b scopes) e = EndpointScope_Matches env b scopes e"
| "Matches env (EndpointLists b listSet ls) e = EndpointLists_Matches env b listSet ls e"
| "Matches env (EndpointDomain b d) e = EndpointDomain_Matches env b d e"

lemmas Matches_defs [simp] =
  EndpointAny_Matches_def EndpointIP_Matches_def EndpointIPRange_Matches_def EndpointCountry_Matches_def EndpointContinent_Matches_def EndpointASN_Matches_def EndpointScope_Matches_def EndpointLists_Matches_def EndpointDomain_Matches_def

text \<open>A list of rules; a nil entry of the Go slice is \<open>None\<close>.\<close>

type_synonym endpoints = "endpoint option list"

definition IsSet :: "endpoints \<Rightarrow> bool" where
  "IsSet eps \<longleftrightarrow> length eps > 0"

text \<open>The loop of \<^verbatim>\<open>Match\<close>, for any way to evaluate one rule.\<close>

fun first_match ::
    "('r \<Rightarrow> 'e \<Rightarrow> (EPResult \<times> 'm option \<times> 'e) go) \<Rightarrow> 'r option list \<Rightarrow> 'e \<Rightarrow>
     (EPResult \<times> 'm option \<times> 'e) go" where
  "first_match matches [] e = Inr (NoMatch, None, e)"
| "first_match matches (None # rs) e = first_match matches rs e"
| "first_match matches (Some r # rs) e =
     bind_go (matches r e) (\<lambda>(result, reason, e).
       if result \<noteq> NoMatch then Inr (result, reason, e) else first_match matches rs e)"

definition Match :: "intel_env \<Rightarrow> endpoints \<Rightarrow> entity \<Rightarrow> match_result go" where
  "Match env eps e = first_match (Matches env) eps e"

text \<open>\<^verbatim>\<open>MatchMulti\<close>: every rule against all entities before the next rule.\<close>

fun match_entities ::
    "intel_env \<Rightarrow> endpoint \<Rightarrow> entity option list \<Rightarrow>
     (EPResult \<times> reason option \<times> entity option list) go" where
  "match_entities env ep [] = Inr (NoMatch, None, [])"
| "match_entities env ep (None # es) =
     bind_go (match_entities env ep es) (\<lambda>(result, reason, es). Inr (result, reason, None # es))"
| "match_entities env ep (Some e # es) =
     bind_go (Matches env ep e) (\<lambda>(result, reason, e).
       if result \<noteq> NoMatch then Inr (result, reason, Some e # es)
       else bind_go (match_entities env ep es)
              (\<lambda>(result, reason, es). Inr (result, reason, Some e # es)))"

fun MatchMulti ::
    "intel_env \<Rightarrow> endpoints \<Rightarrow> entity option list \<Rightarrow>
     (EPResult \<times> reason option \<times> entity option list) go" where
  "MatchMulti env [] es = Inr (NoMatch, None, es)"
| "MatchMulti env (None # eps) es = MatchMulti env eps es"
| "MatchMulti env (Some ep # eps) es =
     bind_go (match_entities env ep es) (\<lambda>(result, reason, es).
       if result \<noteq> NoMatch then Inr (result, reason, es) else MatchMulti env eps es)"

section \<open>Parsing\<close>

text \<open>A parser returns an endpoint and an error, at most one of which is not nil.\<close>

datatype parse_result = PNone | PError string | PEndpoint endpoint

definition quoted :: "string \<Rightarrow> string" where
  "quoted s = [CHR 0x22] @ s @ [CHR 0x22]"

definition invalidDefinitionError :: "string list \<Rightarrow> string \<Rightarrow> parse_result" where
  "invalidDefinitionError fs msg =
     PError (''invalid endpoint definition: '' @ quoted (Join fs '' '') @ '' - '' @ msg)"

definition zero_base :: ep_base where
  "zero_base = \<lparr>ep_Protocol = 0, ep_StartPort = 0, ep_EndPort = 0, ep_Permitted = False\<rparr>"

text \<open>
  The ports of \<^verbatim>\<open>parsePPP\<close>: the start port, then the end port, which is the start port when it is
  not given.  \<open>Inl\<close> is the message of the error.
\<close>

definition parse_ports :: "string \<Rightarrow> string + port \<times> port" where
  "parse_ports s =
     (if s = [] \<or> s = ''*'' then Inl ''omit port if should match any''
      else let portSplitted = Split s CHR ''-''
           in if length portSplitted > 2 then Inl ''ports must be in format from-to''
              else case port_of (portSplitted ! 0) of
                None \<Rightarrow> Inl ''port number parsing error''
              | Some start \<Rightarrow>
                  if start = 0 then Inl ''port number cannot be 0''
                  else if length portSplitted > 1
                  then (case port_of (portSplitted ! 1) of
                          None \<Rightarrow> Inl ''port number parsing error''
                        | Some stop \<Rightarrow>
                            if stop = 0 then Inl ''port number cannot be 0'' else Inr (start, stop))
                  else Inr (start, start))"

definition parse_protocol :: "string \<Rightarrow> string + byte" where
  "parse_protocol s =
     (if s = [] then Inl (''protocol can'' @ [CHR 0x27] @ ''t be empty'')
      else if s = ''*'' then Inr 0
      else case protocol_of s of None \<Rightarrow> Inl ''protocol number parsing error'' | Some n \<Rightarrow> Inr n)"

definition parse_third :: "string \<Rightarrow> string + ep_base" where
  "parse_third s =
     (let splitted = Split s CHR ''/''
      in if length splitted > 2 then Inl ''protocol and port must be in format <protocol>/<port>''
         else bind_go (parse_protocol (splitted ! 0)) (\<lambda>protocol.
           bind_go (if length splitted > 1 then parse_ports (splitted ! 1) else Inr (0, 0))
             (\<lambda>(start, stop).
               if protocol = 0 \<and> start = 0 then Inl ''omit protocol/port if should match any''
               else Inr (zero_base\<lparr>ep_Protocol := protocol, ep_StartPort := start,
                                  ep_EndPort := stop\<rparr>))))"

definition parsePPP :: "(ep_base \<Rightarrow> endpoint) \<Rightarrow> string list \<Rightarrow> parse_result" where
  "parsePPP typedEp fs =
     (case (if length fs = 2 then Inr zero_base
            else if length fs = 3 then parse_third (fs ! 2)
            else Inl ''there should be only 2 or 3 segments'') of
        Inl msg \<Rightarrow> invalidDefinitionError fs msg
      | Inr b \<Rightarrow>
          if fs ! 0 = ''+'' then PEndpoint (typedEp (b\<lparr>ep_Permitted := True\<rparr>))
          else if fs ! 0 = ''-'' then PEndpoint (typedEp (b\<lparr>ep_Permitted := False\<rparr>))
          else invalidDefinitionError fs ''invalid permission prefix'')"

definition at1 :: "string list \<Rightarrow> string go" where
  "at1 fs = (if length fs > 1 then Inr (fs ! 1) else Inl IndexOutOfRange)"

definition parseTypeAny :: "string list \<Rightarrow> parse_result go" where
  "parseTypeAny fs = bind_go (at1 fs) (\<lambda>f.
     Inr (if f = ''*'' then parsePPP EndpointAny fs else PNone))"

definition parseTypeIP :: "string list \<Rightarrow> parse_result go" where
  "parseTypeIP fs = bind_go (at1 fs) (\<lambda>f.
     Inr (case ParseIP f of None \<Rightarrow> PNone | Some ip \<Rightarrow> parsePPP (\<lambda>b. EndpointIP b ip) fs))"

definition parseTypeIPRange :: "string list \<Rightarrow> parse_result go" where
  "parseTypeIPRange fs = bind_go (at1 fs) (\<lambda>f.
     Inr (case ParseCIDR f of None \<Rightarrow> PNone | Some n \<Rightarrow> parsePPP (\<lambda>b. EndpointIPRange b n) fs))"

definition countryRegex :: "string \<Rightarrow> bool" where
  "countryRegex s \<longleftrightarrow> length s = 2 \<and> list_all is_upper s"

definition parseTypeCountry :: "string list \<Rightarrow> parse_result go" where
  "parseTypeCountry fs = bind_go (at1 fs) (\<lambda>f.
     Inr (if countryRegex f then parsePPP (\<lambda>b. EndpointCountry b (ToUpper f)) fs else PNone))"

definition continentRegex :: "string \<Rightarrow> bool" where
  "continentRegex s \<longleftrightarrow> HasPrefix s ''C:'' \<and> length s = 4 \<and> list_all is_upper (drop 2 s)"

definition parseTypeContinent :: "string list \<Rightarrow> parse_result go" where
  "parseTypeContinent fs = bind_go (at1 fs) (\<lambda>f.
     Inr (if continentRegex f
          then parsePPP (\<lambda>b. EndpointContinent b (TrimPrefix (ToUpper f) ''C:'')) fs else PNone))"

definition asnRegex :: "string \<Rightarrow> bool" where
  "asnRegex s \<longleftrightarrow> HasPrefix s ''AS'' \<and> length s > 2 \<and> list_all is_digit (drop 2 s)"

definition parseTypeASN :: "string list \<Rightarrow> parse_result go" where
  "parseTypeASN fs = bind_go (at1 fs) (\<lambda>f.
     Inr (if asnRegex f
          then (let asnString = TrimPrefix f ''AS''
                in case ParseUint asnString 64 of
                     None \<Rightarrow> PError (''failed to parse AS number '' @ asnString)
                   | Some asn \<Rightarrow> parsePPP (\<lambda>b. EndpointASN b asn) fs)
          else PNone))"

text \<open>The scope names toggle their bit (\<^verbatim>\<open>^=\<close>); an unknown name ends the parser with nil.\<close>

fun parse_scopes :: "string list \<Rightarrow> byte \<Rightarrow> byte option" where
  "parse_scopes [] scopes = Some scopes"
| "parse_scopes (val # vals) scopes =
     (if val = ''localhost'' then parse_scopes vals (scopes XOR scopeLocalhost)
      else if val = ''lan'' then parse_scopes vals (scopes XOR scopeLAN)
      else if val = ''internet'' then parse_scopes vals (scopes XOR scopeInternet)
      else None)"

definition parseTypeScope :: "string list \<Rightarrow> parse_result go" where
  "parseTypeScope fs = bind_go (at1 fs) (\<lambda>f.
     Inr (case parse_scopes (Split (ToLower f) CHR '','') 0 of
            None \<Rightarrow> PNone
          | Some scopes \<Rightarrow> parsePPP (\<lambda>b. EndpointScope b scopes) fs))"

definition parseTypeList :: "string list \<Rightarrow> parse_result go" where
  "parseTypeList fs = bind_go (at1 fs) (\<lambda>f.
     Inr (if HasPrefix f ''L:''
          then (let ls = Split (TrimPrefix f ''L:'') CHR '',''
                in parsePPP (\<lambda>b. EndpointLists b ls (''L:'' @ Join ls '','')) fs)
          else PNone))"

definition allowedDomainChars :: "string \<Rightarrow> bool" where
  "allowedDomainChars s \<longleftrightarrow>
     s \<noteq> [] \<and> list_all (\<lambda>c. is_lower c \<or> is_digit c \<or> c = CHR ''.'' \<or> c = CHR ''-'') s"

definition looksLikeAnIP :: "string \<Rightarrow> bool" where
  "looksLikeAnIP s \<longleftrightarrow> s \<noteq> [] \<and> list_all (\<lambda>c. is_digit c \<or> c = CHR ''.'' \<or> c = CHR '':'') s"

text \<open>
  The classification of a domain rule: match type, domain, zone and whether the domain must be
  a valid FQDN.  \<open>Inl PNone\<close> and \<open>Inl (PError _)\<close> are the early returns.
\<close>

definition classify_domain ::
    "string \<Rightarrow> parse_result + (domain_match_type \<times> string \<times> string \<times> bool)" where
  "classify_domain domain =
     (if HasPrefix domain ''*'' \<and> HasSuffix domain ''*''
      then Inr (MatchTypeContains, TrimSuffix (TrimPrefix domain ''*'') ''*'', [], False)
      else if HasSuffix domain ''*''
      then (let d = TrimSuffix domain ''*''
            in if HasPrefix d ''.'' then Inl PNone
               else if looksLikeAnIP d
               then Inl (PError ''use CIDR notation (eg. 10.0.0.0/24) for matching ip address ranges'')
               else Inr (MatchTypePrefix, d, [], False))
      else if HasPrefix domain ''*''
      then Inr (MatchTypeSuffix, TrimPrefix domain ''*'', [], False)
      else if HasPrefix domain ''.''
      then (let d = TrimPrefix domain ''.'' in Inr (MatchTypeZone, d, ''.'' @ d, True))
      else Inr (MatchTypeExact, domain, [], True))"

definition parseTypeDomain :: "dns_lib \<Rightarrow> string list \<Rightarrow> parse_result go" where
  "parseTypeDomain lib fs = bind_go (at1 fs) (\<lambda>f.
     if f = [] then Inl IndexOutOfRange
     else let domain = (if last f = CHR ''.'' \<or> last f = CHR ''*'' then f else f @ ''.'')
          in Inr (if looksLikeAnIP domain then PNone
                  else case classify_domain (ToLower domain) of
                    Inl r \<Rightarrow> r
                  | Inr (mt, d, zone, needValidFQDN) \<Rightarrow>
                      if needValidFQDN \<and> \<not> IsValidFqdn lib d then PNone
                      else if \<not> needValidFQDN \<and> \<not> allowedDomainChars d then PNone
                      else if Contains d ''..'' then PNone
                      else parsePPP (\<lambda>b. EndpointDomain b
                             \<lparr>OriginalValue = f, d_Domain = d, DomainZone = zone, MatchType = mt\<rparr>)
                             fs))"

text \<open>The parsers in turn, up to the first that returns an endpoint or an error.\<close>

fun first_parser :: "(string list \<Rightarrow> parse_result go) list \<Rightarrow> string list \<Rightarrow> parse_result go" where
  "first_parser [] fs = Inr PNone"
| "first_parser (p # ps) fs =
     bind_go (p fs) (\<lambda>r. if r = PNone then first_parser ps fs else Inr r)"

definition parse_order :: "dns_lib \<Rightarrow> (string list \<Rightarrow> parse_result go) list" where
  "parse_order lib =
     [parseTypeAny, parseTypeIP, parseTypeIPRange, parseTypeCountry, parseTypeContinent,
      parseTypeASN, parseTypeScope, parseTypeList, parseTypeDomain lib]"

definition strip_comment :: "string list \<Rightarrow> string list" where
  "strip_comment fs = takeWhile (\<lambda>f. \<not> HasPrefix f ''#'') fs"

definition parseEndpoint :: "dns_lib \<Rightarrow> string \<Rightarrow> parse_result go" where
  "parseEndpoint lib value =
     (let fs = Fields value
      in if length fs < 2
         then Inr (PError (''invalid endpoint definition: '' @ quoted value))
         else bind_go (first_parser (parse_order lib) (strip_comment fs)) (\<lambda>r.
           Inr (if r = PNone
                then PError (''unknown endpoint definition: '' @ quoted value) else r)))"

text \<open>\<^verbatim>\<open>ParseEndpoints\<close>: all rules that parse, the number of errors and the first of them.\<close>

fun parse_entries ::
    "dns_lib \<Rightarrow> string list \<Rightarrow> endpoints \<Rightarrow> nat \<Rightarrow> string option \<Rightarrow>
     (endpoints \<times> nat \<times> string option) go" where
  "parse_entries lib [] eps errCnt firstErr = Inr (eps, errCnt, firstErr)"
| "parse_entries lib (entry # entries) eps errCnt firstErr =
     bind_go (parseEndpoint lib entry) (\<lambda>r.
       case r of
         PError err \<Rightarrow> parse_entries lib entries eps (errCnt + 1)
                        (if firstErr = None then Some err else firstErr)
       | PEndpoint ep \<Rightarrow> parse_entries lib entries (eps @ [Some ep]) errCnt firstErr
       | PNone \<Rightarrow> parse_entries lib entries (eps @ [None]) errCnt firstErr)"

definition ParseEndpoints :: "dns_lib \<Rightarrow> string list \<Rightarrow> (endpoints \<times> string option) go" where
  "ParseEndpoints lib entries =
     bind_go (parse_entries lib entries [] 0 None) (\<lambda>(eps, errCnt, firstErr).
       Inr (eps, case firstErr of
                   None \<Rightarrow> None
                 | Some err \<Rightarrow>
                     if errCnt > 0
                     then Some (''encountered '' @ Itoa errCnt @ '' errors, first was: '' @ err)
                     else Some err))"

lemmas render_defs [go_simps] =
  renderPPP_def scopeLocalhost_def scopeLAN_def scopeInternet_def Scopes_def

lemmas match_defs [go_simps] =
  IsDecision_def rule_reason_String_def matchesPPP_def makeReason_def match_base_def domain_hit_def
  domain_check_def entity_scope_def with_entity_def IsSet_def Match_def

lemmas parse_defs [go_simps] =
  quoted_def invalidDefinitionError_def zero_base_def parse_ports_def parse_protocol_def
  parse_third_def parsePPP_def at1_def parseTypeAny_def parseTypeIP_def parseTypeIPRange_def
  countryRegex_def parseTypeCountry_def continentRegex_def parseTypeContinent_def asnRegex_def
  parseTypeASN_def parseTypeScope_def parseTypeList_def allowedDomainChars_def looksLikeAnIP_def
  classify_domain_def parseTypeDomain_def parse_order_def strip_comment_def parseEndpoint_def
  ParseEndpoints_def port_of_def protocol_of_def

end
