(* ===== verification/Endpoint_Rules.thy ===== *)
theory Endpoint_Rules
  imports Endpoints
begin

text \<open>
  The properties of endpoint rules.  The locale \<open>rule_matcher\<close> is the interface that the users
  of rules rely on: evaluating a rule does not panic on a good entity, keeps the entity good,
  and gives a reason with every decision.  First-match evaluation of a list of rules keeps the
  contract, so the locale is interpreted both for single rules and for lists of rules.
\<close>

section \<open>The contract of rules\<close>

locale rule_matcher =
  fixes eval :: "'r \<Rightarrow> 'e \<Rightarrow> (EPResult \<times> 'm option \<times> 'e) go"
    and inv :: "'e \<Rightarrow> bool"
  assumes eval_ok: "inv e \<Longrightarrow> \<exists>res m e'. eval r e = Inr (res, m, e') \<and> inv e'"
    and eval_reason: "eval r e = Inr (res, m, e') \<Longrightarrow> res \<noteq> NoMatch \<Longrightarrow> m \<noteq> None"
begin

lemma list_ok:
  "inv e \<Longrightarrow> \<exists>res m e'. first_match eval rs e = Inr (res, m, e') \<and> inv e'"
proof (induction rs arbitrary: e)
  case Nil
  then show ?case by simp
next
  case (Cons x rs)
  show ?case
  proof (cases x)
    case None
    with Cons show ?thesis by simp
  next
    case (Some r)
    from eval_ok [OF Cons.prems, of r] obtain res m e'
      where "eval r e = Inr (res, m, e')" "inv e'" by blast
    with Some Cons.IH show ?thesis by simp
  qed
qed

lemma list_reason:
  "first_match eval rs e = Inr (res, m, e') \<Longrightarrow> res \<noteq> NoMatch \<Longrightarrow> m \<noteq> None"
proof (induction rs arbitrary: e)
  case (Cons x rs)
  then show ?case
    by (cases x) (auto simp: bind_go_Inr_iff split: if_splits dest: eval_reason)
qed simp

end

section \<open>Entities on which no rule panics\<close>

text \<open>Once the location was fetched for a global address there is a location or an error.\<close>

definition loc_ok :: "entity \<Rightarrow> bool" where
  "loc_ok e \<longleftrightarrow>
     (fetchLocationOnce e \<and> e_IP e \<noteq> [] \<and> IsGlobal (e_IPScope e) \<longrightarrow>
        LocationError e \<noteq> [] \<or> e_location e \<noteq> None)"

text \<open>The geo database reports errors with a text, as every Go error does.\<close>

definition geo_ok :: "intel_env \<Rightarrow> bool" where
  "geo_ok env \<longleftrightarrow> (\<forall>ip err. geo_lookup env ip = Inl err \<longrightarrow> err \<noteq> [])"

definition ent_ok :: "intel_env \<Rightarrow> entity \<Rightarrow> bool" where
  "ent_ok env e \<longleftrightarrow> geo_ok env \<and> loc_ok e"

lemma getLocation_frame [simp]:
  "e_IP (getLocation env e) = e_IP e" "e_IPScope (getLocation env e) = e_IPScope e"
  "e_Domain (getLocation env e) = e_Domain e" "fetchLocationOnce (getLocation env e)"
  by (auto simp: getLocation_def Let_def split: sum.split)

lemma getLocation_ok: "ent_ok env e \<Longrightarrow> ent_ok env (getLocation env e)"
  by (auto simp: ent_ok_def loc_ok_def geo_ok_def getLocation_def Let_def split: sum.split)

lemma getLocation_found:
  "ent_ok env e \<Longrightarrow> e_IP e \<noteq> [] \<Longrightarrow> IsGlobal (e_IPScope e) \<Longrightarrow>
   LocationError (getLocation env e) \<noteq> [] \<or> e_location (getLocation env e) \<noteq> None"
  using getLocation_ok [of env e] by (simp add: ent_ok_def loc_ok_def)

lemma GetCountryInfo_ok:
  assumes "ent_ok env e" and "e_IP e \<noteq> []" and "IsGlobal (e_IPScope e)"
  shows "\<exists>ci e'. GetCountryInfo env e = Inr (ci, e') \<and> ent_ok env e'"
  using getLocation_found [OF assms] getLocation_ok [OF assms(1)]
  by (auto simp: GetCountryInfo_def Let_def)

lemma GetDomain_ok: "ent_ok env e \<Longrightarrow> GetDomain env m e = (d, e') \<Longrightarrow> ent_ok env e'"
  by (auto simp: GetDomain_def reverseResolve_def ent_ok_def loc_ok_def Let_def
      split: if_splits option.splits)

lemma MatchLists_ok: "ent_ok env e \<Longrightarrow> MatchLists ls e = (h, e') \<Longrightarrow> ent_ok env e'"
  by (auto simp: MatchLists_def ent_ok_def loc_ok_def Let_def split: if_splits)

lemma GetASN_ok: "ent_ok env e \<Longrightarrow> GetASN env e = (n, e') \<Longrightarrow> ent_ok env e'"
  using getLocation_ok [of env e] by (auto simp: GetASN_def Let_def)

lemmas entity_ok = GetDomain_ok MatchLists_ok GetASN_ok

lemma with_entity_eq: "with_entity p e = Inr (fst p, snd p, e)"
  by (simp add: with_entity_def)

lemma Matches_ok:
  assumes "ent_ok env e"
  shows "\<exists>res m e'. Matches env ep e = Inr (res, m, e') \<and> ent_ok env e'"
proof (cases ep)
  case (EndpointCountry b cc)
  with assms GetCountryInfo_ok [OF assms] show ?thesis
    by (fastforce simp: with_entity_eq split: option.split)
next
  case (EndpointContinent b cc)
  with assms GetCountryInfo_ok [OF assms] show ?thesis
    by (fastforce simp: with_entity_eq split: option.split)
next
  case (EndpointDomain b d)
  obtain got e' where g: "GetDomain env True e = (got, e')" by fastforce
  obtain res rs where "domain_check b d e' (the got) = (res, rs)" by fastforce
  with EndpointDomain g GetDomain_ok [OF assms g] show ?thesis
    by (auto simp: with_entity_eq split: option.split)
qed (use assms in \<open>auto simp: with_entity_eq split: option.split prod.split dest: entity_ok\<close>)

lemma match_base_reason: "fst (match_base ep e v d kv) \<noteq> NoMatch \<Longrightarrow> snd (match_base ep e v d kv) \<noteq> None"
  by (auto simp: match_base_def Let_def)

lemma cname_check_reason: "fst (cname_check b d e cs) \<noteq> NoMatch \<Longrightarrow> snd (cname_check b d e cs) \<noteq> None"
  by (induction cs)
    (auto simp: domain_check_def match_base_def Let_def split: prod.split if_splits)

lemma Matches_reason:
  "Matches env ep e = Inr (res, m, e') \<Longrightarrow> res \<noteq> NoMatch \<Longrightarrow> m \<noteq> None"
proof (cases ep)
  case (EndpointDomain b d)
  assume "Matches env ep e = Inr (res, m, e')" "res \<noteq> NoMatch"
  with EndpointDomain cname_check_reason [of b d e'] show ?thesis
    by (auto simp: with_entity_eq domain_check_def match_base_def Let_def
        split: option.splits prod.splits if_splits)
qed (auto simp: with_entity_eq bind_go_Inr_iff split: option.splits prod.splits if_splits
       dest: match_base_reason)

interpretation rule: rule_matcher "Matches env" "ent_ok env" for env
  by unfold_locales (use Matches_ok Matches_reason in blast)+

interpretation rules: rule_matcher "Match env" "ent_ok env" for env
  by unfold_locales (use rule.list_ok rule.list_reason in \<open>auto simp: Match_def\<close>)

section \<open>The rule that decides\<close>

fun passes :: "intel_env \<Rightarrow> endpoints \<Rightarrow> entity \<Rightarrow> entity option" where
  "passes env [] e = Some e"
| "passes env (None # eps) e = passes env eps e"
| "passes env (Some ep # eps) e =
     (case Matches env ep e of
        Inl _ \<Rightarrow> None
      | Inr (res, _, e') \<Rightarrow> if res = NoMatch then passes env eps e' else None)"

lemma Match_NoMatch: "Match env eps e = Inr (NoMatch, m, e') \<longleftrightarrow> m = None \<and> passes env eps e = Some e'"
  unfolding Match_def
  by (induction env eps e rule: passes.induct) (auto simp: bind_go_def split: sum.split)

lemma Match_decides:
  assumes "res \<noteq> NoMatch"
  shows "Match env eps e = Inr (res, m, e') \<longleftrightarrow>
    (\<exists>pre ep post e1. eps = pre @ Some ep # post \<and> passes env pre e = Some e1 \<and>
       Matches env ep e1 = Inr (res, m, e'))" (is "?L \<longleftrightarrow> ?R")
proof
  show "?L \<Longrightarrow> ?R"
    unfolding Match_def
  proof (induction env eps e rule: passes.induct)
    case (2 env eps e)
    then obtain pre ep post e1 where "eps = pre @ Some ep # post" "passes env pre e = Some e1"
      "Matches env ep e1 = Inr (res, m, e')" by auto
    then have "None # eps = (None # pre) @ Some ep # post" "passes env (None # pre) e = Some e1"
      by auto
    with \<open>Matches env ep e1 = Inr (res, m, e')\<close> show ?case by blast
  next
    case (3 env ep eps e)
    then obtain r q e2 where m: "Matches env ep e = Inr (r, q, e2)"
      by (auto simp: bind_go_Inr_iff)
    show ?case
    proof (cases "r = NoMatch")
      case True
      with 3 m obtain pre ep' post e1 where "eps = pre @ Some ep' # post"
        "passes env pre e2 = Some e1" "Matches env ep' e1 = Inr (res, m, e')" by fastforce
      then have "Some ep # eps = (Some ep # pre) @ Some ep' # post"
        "passes env (Some ep # pre) e = Some e1" using m True by auto
      with \<open>Matches env ep' e1 = Inr (res, m, e')\<close> show ?thesis by blast
    next
      case False
      with 3 m have "Matches env ep e = Inr (res, m, e')" by auto
      then show ?thesis by (metis append_Nil passes.simps(1))
    qed
  qed (use assms in auto)
next
  assume ?R
  then obtain pre ep post e1 where "eps = pre @ Some ep # post" "passes env pre e = Some e1"
    "Matches env ep e1 = Inr (res, m, e')" by blast
  then show ?L
    unfolding Match_def
    by (induction env pre e arbitrary: eps rule: passes.induct)
      (use assms in \<open>auto split: sum.splits if_splits\<close>)
qed

section \<open>Printing and parsing\<close>

definition render_third :: "ep_base \<Rightarrow> string" where
  "render_third b =
     (if ep_Protocol b > 0 then GetProtocolName (ep_Protocol b) else ''*'') @
     (if ep_StartPort b > 0
      then CHR ''/'' # (if ep_StartPort b = ep_EndPort b then GetPortName (ep_StartPort b)
            else Itoa (unat (ep_StartPort b)) @ CHR ''-'' # Itoa (unat (ep_EndPort b)))
      else [])"

definition perm_sign :: "ep_base \<Rightarrow> string" where
  "perm_sign b = (if ep_Permitted b then ''+'' else ''-'')"

lemma renderPPP_eq:
  "renderPPP b s = perm_sign b @ CHR '' '' # s @
     (if ep_Protocol b > 0 \<or> ep_StartPort b > 0 then CHR '' '' # render_third b else [])"
  by (simp add: renderPPP_def render_third_def perm_sign_def)

definition base_wf :: "ep_base \<Rightarrow> bool" where
  "base_wf b \<longleftrightarrow> (ep_StartPort b = 0 \<longleftrightarrow> ep_EndPort b = 0)"

definition reparsable :: "ep_base \<Rightarrow> bool" where
  "reparsable b \<longleftrightarrow> base_wf b \<and> \<not> (ep_StartPort b = 20 \<and> ep_EndPort b = 20)"

lemma plain_nameD:
  assumes "plain_name s"
  shows "s \<noteq> []" "s \<noteq> ''*''" "CHR ''/'' \<notin> set s" "\<forall>c \<in> set s. \<not> is_space c" "\<not> HasPrefix s ''#''"
  using assms by (auto simp: plain_name_def list_all_iff)

lemma port_of_Itoa [simp]: "port_of (Itoa (unat p)) = Some p" for p :: port
proof -
  have "unat p < 2 ^ 16" using unsigned_less [of p, where 'a = nat] by simp
  then show ?thesis by (simp add: port_of_def)
qed

definition render_ports :: "port \<Rightarrow> port \<Rightarrow> string" where
  "render_ports a b =
     (if a = b then GetPortName a else Itoa (unat a) @ CHR ''-'' # Itoa (unat b))"

lemma Itoa_no [simp]: "CHR ''-'' \<notin> set (Itoa n)" "CHR ''/'' \<notin> set (Itoa n)"
  by (auto dest: Itoa_set digit_not_special)

lemma parse_ports_render:
  assumes "a \<noteq> 0" "b \<noteq> 0" "\<not> (a = 20 \<and> b = 20)"
  shows "parse_ports (render_ports a b) = Inr (a, b)"
proof (cases "a = b")
  case True
  with assms have "CHR ''-'' \<notin> set (GetPortName a)" by (intro GetPortName_no_dash) auto
  with True assms plain_nameD [OF plain_GetPortName, of a] show ?thesis
    by (simp add: parse_ports_def render_ports_def)
next
  case False
  have "Itoa (unat a) @ CHR ''-'' # Itoa (unat b) \<noteq> ''*''"
    by (metis Itoa_neq_Nil append_eq_Cons_conv append_is_Nil_conv list.discI)
  with False assms show ?thesis
    by (simp add: parse_ports_def render_ports_def)
qed

lemma render_ports_no_slash: "CHR ''/'' \<notin> set (render_ports a b)"
  using plain_nameD [OF plain_GetPortName] by (simp add: render_ports_def)

lemma render_third_alt:
  "render_third b = (if ep_Protocol b > 0 then GetProtocolName (ep_Protocol b) else ''*'') @
     (if ep_StartPort b > 0 then CHR ''/'' # render_ports (ep_StartPort b) (ep_EndPort b) else [])"
  by (simp add: render_third_def render_ports_def)

lemma parse_third_render:
  assumes "reparsable b" and "ep_Protocol b > 0 \<or> ep_StartPort b > 0"
  shows "parse_third (render_third b) = Inr (b\<lparr>ep_Permitted := False\<rparr>)"
proof -
  let ?p = "if ep_Protocol b > 0 then GetProtocolName (ep_Protocol b) else ''*''"
  have p: "CHR ''/'' \<notin> set ?p" "parse_protocol ?p = Inr (ep_Protocol b)"
    using plain_nameD [OF plain_GetProtocolName, of "ep_Protocol b"]
    by (auto simp: parse_protocol_def word_gt_0)
  show ?thesis
  proof (cases "ep_StartPort b > 0")
    case True
    with assms have "parse_ports (render_ports (ep_StartPort b) (ep_EndPort b)) =
        Inr (ep_StartPort b, ep_EndPort b)"
      by (intro parse_ports_render) (auto simp: reparsable_def base_wf_def)
    with True p assms(2) show ?thesis
      by (simp add: parse_third_def render_third_alt render_ports_no_slash zero_base_def word_gt_0)
  next
    case False
    with assms p show ?thesis
      by (cases b) (simp add: parse_third_def render_third_alt zero_base_def reparsable_def
          base_wf_def word_gt_0)
  qed
qed

lemma render_third_word:
  "render_third b \<noteq> []" "\<forall>c \<in> set (render_third b). \<not> is_space c" "\<not> HasPrefix (render_third b) ''#''"
proof -
  have sp: "\<not> is_space CHR ''/''" "\<not> is_space CHR ''-''" "\<not> is_space CHR ''*''" 
    by (simp_all add: is_space_def code_of_def)
  have d: "\<not> is_space c" if "c \<in> set (Itoa n)" for c n
    using Itoa_set [OF that] by (rule digit_not_special)
  show "render_third b \<noteq> []" "\<forall>c \<in> set (render_third b). \<not> is_space c"
    using plain_nameD [OF plain_GetProtocolName, of "ep_Protocol b"]
      plain_nameD [OF plain_GetPortName, of "ep_StartPort b"] d
    by (auto simp: render_third_def sp)
  show "\<not> HasPrefix (render_third b) ''#''"
    using plain_nameD [OF plain_GetProtocolName, of "ep_Protocol b"]
    by (cases "GetProtocolName (ep_Protocol b)") (auto simp: render_third_def HasPrefix_def)
qed

definition plain_value :: "string \<Rightarrow> bool" where
  "plain_value s \<longleftrightarrow> s \<noteq> [] \<and> (\<forall>c \<in> set s. \<not> is_space c) \<and> \<not> HasPrefix s ''#''"

lemma fields_render:
  assumes "plain_value s"
  shows "strip_comment (Fields (renderPPP b s)) =
    perm_sign b # s # (if ep_Protocol b > 0 \<or> ep_StartPort b > 0 then [render_third b] else [])"
    "Fields (renderPPP b s) =
    perm_sign b # s # (if ep_Protocol b > 0 \<or> ep_StartPort b > 0 then [render_third b] else [])"
proof -
  have sg: "perm_sign b \<noteq> []" "\<forall>c \<in> set (perm_sign b). \<not> is_space c" "\<not> HasPrefix (perm_sign b) ''#''"
    by (auto simp: perm_sign_def is_space_def code_of_def HasPrefix_def)
  show f: "Fields (renderPPP b s) =
    perm_sign b # s # (if ep_Protocol b > 0 \<or> ep_StartPort b > 0 then [render_third b] else [])"
    using assms render_third_word [of b] sg
    by (auto simp: renderPPP_eq plain_value_def Fields_word_space Fields_word)
  show "strip_comment (Fields (renderPPP b s)) =
    perm_sign b # s # (if ep_Protocol b > 0 \<or> ep_StartPort b > 0 then [render_third b] else [])"
    unfolding f using assms sg render_third_word(3) [of b] by (auto simp: strip_comment_def plain_value_def)
qed

lemma parsePPP_render:
  assumes "reparsable b" and "fs = perm_sign b # s #
    (if ep_Protocol b > 0 \<or> ep_StartPort b > 0 then [render_third b] else [])"
  shows "parsePPP f fs = PEndpoint (f b)"
proof -
  have perm: "ep_Permitted b \<Longrightarrow> f (b\<lparr>ep_Permitted := True\<rparr>) = f b"
    "\<not> ep_Permitted b \<Longrightarrow> f (b\<lparr>ep_Permitted := False\<rparr>) = f b"
    by (cases b; simp)+
  show ?thesis
  proof (cases "ep_Protocol b > 0 \<or> ep_StartPort b > 0")
    case True
    with assms parse_third_render [OF assms(1) True] perm show ?thesis
      by (cases "ep_Permitted b") (simp_all add: parsePPP_def perm_sign_def)
  next
    case False
    with assms(1) have "b = zero_base\<lparr>ep_Permitted := ep_Permitted b\<rparr>"
      by (simp add: zero_base_def reparsable_def base_wf_def word_gt_0)
    with False assms show ?thesis
      by (cases "ep_Permitted b") (simp_all add: parsePPP_def perm_sign_def)
  qed
qed

section \<open>Whole rules\<close>

lemma ParseIP_no_sep: "CHR ''.'' \<notin> set s \<Longrightarrow> CHR '':'' \<notin> set s \<Longrightarrow> ParseIP s = None"
proof -
  assume "CHR ''.'' \<notin> set s" "CHR '':'' \<notin> set s"
  then have "dropWhile (\<lambda>c. c \<noteq> CHR ''.'' \<and> c \<noteq> CHR '':'') s = []" by (auto simp: dropWhile_eq_Nil_conv)
  then show ?thesis unfolding ParseIP_def by (simp del: dropWhile_eq_Nil_conv)
qed

lemma ParseCIDR_no_slash: "CHR ''/'' \<notin> set s \<Longrightarrow> ParseCIDR s = None"
proof -
  assume "CHR ''/'' \<notin> set s"
  then have "dropWhile (\<lambda>c. c \<noteq> CHR ''/'') s = []" by (auto simp: dropWhile_eq_Nil_conv)
  then show ?thesis by (simp add: ParseCIDR_def del: dropWhile_eq_Nil_conv)
qed

fun canonical :: "endpoint \<Rightarrow> bool" where
  "canonical (EndpointAny b) = True"
| "canonical (EndpointCountry b cc) = countryRegex cc"
| "canonical (EndpointASN b asn) = (asn < 2 ^ 64)"
| "canonical (EndpointScope b scopes) = (scopes \<in> {1, 2, 3, 4, 5, 6, 7})"
| "canonical _ = False"

fun value_of :: "endpoint \<Rightarrow> string" where
  "value_of (EndpointAny b) = ''*''"
| "value_of (EndpointCountry b cc) = cc"
| "value_of (EndpointASN b asn) = ''AS'' @ Itoa asn"
| "value_of (EndpointScope b scopes) = Scopes scopes"
| "value_of _ = []"

lemma canonical_String: "canonical ep \<Longrightarrow> endpoint_String ep = renderPPP (base_of ep) (value_of ep)"
  by (cases ep) auto


definition word_char :: "char \<Rightarrow> bool" where
  "word_char c \<longleftrightarrow> c \<noteq> CHR ''.'' \<and> c \<noteq> CHR '':'' \<and> c \<noteq> CHR ''/'' \<and> c \<noteq> CHR ''*'' \<and> c \<noteq> CHR ''#'' \<and>
     \<not> is_space c"

lemma word_char_upper: "is_upper c \<Longrightarrow> word_char c"
  and word_char_digit: "is_digit c \<Longrightarrow> word_char c"
  by (auto simp: word_char_def char_class_defs code_of_def)

lemma word_plain:
  assumes "s \<noteq> []" "list_all word_char s"
  shows "plain_value s" "ParseIP s = None" "ParseCIDR s = None" "s \<noteq> ''*''"
proof -
  have c: "\<forall>c \<in> set s. word_char c" using assms(2) by (simp add: list_all_iff)
  have "hd s \<noteq> CHR ''#''" using c assms(1) by (auto simp: word_char_def)
  then have "\<not> HasPrefix s ''#''" using assms(1) by (cases s) (simp_all add: HasPrefix_def)
  with c assms(1) show "plain_value s" by (simp add: plain_value_def word_char_def)
  show "ParseIP s = None" by (rule ParseIP_no_sep) (use c in \<open>auto simp: word_char_def\<close>)
  show "ParseCIDR s = None" by (rule ParseCIDR_no_slash) (use c in \<open>auto simp: word_char_def\<close>)
  have "\<not> word_char CHR ''*''" by (simp add: word_char_def)
  with c show "s \<noteq> ''*''" by force
qed

lemma country_word:
  assumes "countryRegex s"
  shows "plain_value s" "ParseIP s = None" "ParseCIDR s = None" "s \<noteq> ''*''" "ToUpper s = s"
proof -
  have u: "s \<noteq> []" "list_all is_upper s" using assms by (auto simp: countryRegex_def)
  then have "list_all word_char s" by (auto simp: list_all_iff intro: word_char_upper)
  with u(1) show "plain_value s" "ParseIP s = None" "ParseCIDR s = None" "s \<noteq> ''*''"
    using word_plain by blast+
  show "ToUpper s = s" using u(2)
    by (auto simp: ToUpper_def list_all_iff to_upper_char_def is_upper_def is_lower_def intro!: map_idI)
qed

lemma asn_word:
  fixes n defines "s \<equiv> CHR ''A'' # CHR ''S'' # Itoa n"
  shows "plain_value s" "ParseIP s = None" "ParseCIDR s = None"
    "\<not> countryRegex s" "\<not> continentRegex s" "asnRegex s" "TrimPrefix s ''AS'' = Itoa n"
proof -
  have "list_all word_char s"
    using Itoa_digits [of n] word_char_digit word_char_upper
    by (auto simp: s_def list_all_iff is_upper_def code_of_def)
  then show "plain_value s" "ParseIP s = None" "ParseCIDR s = None"
    using word_plain [of s] by (auto simp: s_def)
  show "\<not> countryRegex s" "\<not> continentRegex s" "asnRegex s" "TrimPrefix s ''AS'' = Itoa n"
    using Itoa_digits [of n]
    by (auto simp: s_def countryRegex_def continentRegex_def asnRegex_def HasPrefix_def TrimPrefix_def)
qed

definition scope_words :: "byte \<Rightarrow> bool" where
  "scope_words n \<longleftrightarrow> (let s = Scopes n in plain_value s \<and> ParseIP s = None \<and> ParseCIDR s = None \<and>
     s \<noteq> ''*'' \<and> \<not> countryRegex s \<and> \<not> continentRegex s \<and> \<not> asnRegex s \<and>
     parse_scopes (Split (ToLower s) CHR '','') 0 = Some n)"

lemma scope_words_all: "n \<in> {1, 2, 3, 4, 5, 6, 7} \<Longrightarrow> scope_words n"
proof -
  have "list_all scope_words [1, 2, 3, 4, 5, 6, 7]" by code_simp
  then show "n \<in> {1, 2, 3, 4, 5, 6, 7} \<Longrightarrow> scope_words n" by auto
qed

lemmas type_parsers = parse_order_def parseTypeAny_def parseTypeIP_def parseTypeIPRange_def
  parseTypeCountry_def parseTypeContinent_def parseTypeASN_def parseTypeScope_def at1_def

lemma first_parser_canonical:
  assumes "canonical ep" and "length fs > 1" and "fs ! 1 = value_of ep"
    and ppp: "\<And>f. parsePPP f fs = PEndpoint (f (base_of ep))"
  shows "first_parser (parse_order lib) fs = Inr (PEndpoint ep)"
proof (cases ep)
  case (EndpointCountry b cc)
  with assms country_word [of cc] show ?thesis by (simp add: type_parsers)
next
  case (EndpointASN b asn)
  with assms asn_word [of asn] show ?thesis by (simp add: type_parsers)
next
  case (EndpointScope b scopes)
  with assms(1) have "scope_words scopes" by (intro scope_words_all) simp
  with EndpointScope assms show ?thesis by (simp add: type_parsers scope_words_def Let_def)
qed (use assms in \<open>simp_all add: type_parsers\<close>)

lemma canonical_plain: "canonical ep \<Longrightarrow> plain_value (value_of ep)"
  using country_word asn_word scope_words_all
  by (cases ep) (auto simp: plain_value_def is_space_def code_of_def HasPrefix_def scope_words_def Let_def)

lemma parse_String_canonical:
  assumes "canonical ep" "reparsable (base_of ep)"
  shows "parseEndpoint lib (endpoint_String ep) = Inr (PEndpoint ep)"
proof -
  note f = fields_render [OF canonical_plain [OF assms(1)], of "base_of ep"]
  have "first_parser (parse_order lib) (strip_comment (Fields (renderPPP (base_of ep) (value_of ep))))
      = Inr (PEndpoint ep)"
    unfolding f(1)
    by (rule first_parser_canonical [OF assms(1)])
      (simp, simp, rule parsePPP_render [OF assms(2) refl])
  with f show ?thesis
    by (simp add: parseEndpoint_def canonical_String [OF assms(1)])
qed

section \<open>Panics of the parser\<close>

lemma first_parser_short: "length fs < 2 \<Longrightarrow> first_parser (parse_order lib) fs = Inl IndexOutOfRange"
  by (simp add: type_parsers)

lemma first_parser_safe:
  assumes "length fs > 1" and "fs ! 1 \<noteq> []"
  shows "\<exists>r. first_parser (parse_order lib) fs = Inr r"
  using assms by (simp add: type_parsers parseTypeList_def parseTypeDomain_def Let_def)

lemma strip_comment_nonempty: "f \<in> set (strip_comment (Fields v)) \<Longrightarrow> f \<noteq> []"
  by (auto simp: strip_comment_def dest: set_takeWhileD Fields_nonempty)

lemma parse_panic:
  "parseEndpoint lib v = Inl p \<longleftrightarrow>
     p = IndexOutOfRange \<and> 2 \<le> length (Fields v) \<and> length (strip_comment (Fields v)) < 2"
proof (cases "length (strip_comment (Fields v)) < 2")
  case True
  then show ?thesis by (auto simp: parseEndpoint_def Let_def first_parser_short)
next
  case False
  then have "strip_comment (Fields v) ! 1 \<noteq> []"
    by (intro strip_comment_nonempty [of _ v] nth_mem) simp
  with False first_parser_safe [of "strip_comment (Fields v)" lib] show ?thesis
    by (auto simp: parseEndpoint_def Let_def)
qed

section \<open>Parsed rules are well formed\<close>

lemma parse_third_wf: "parse_third s = Inr b \<Longrightarrow> base_wf b"
  by (auto simp: parse_third_def parse_ports_def base_wf_def zero_base_def Let_def bind_go_Inr_iff
      split: if_splits option.splits)

lemma parsePPP_wf:
  assumes "parsePPP f fs = PEndpoint ep" and "\<And>b. base_of (f b) = b"
  shows "base_wf (base_of ep) \<and> fs ! 0 = perm_sign (base_of ep) \<and> (\<exists>b. ep = f b)"
  using assms
  by (auto simp: parsePPP_def perm_sign_def base_wf_def zero_base_def invalidDefinitionError_def
      split: if_splits sum.splits dest!: parse_third_wf)

lemma first_parser_some:
  "first_parser ps fs = Inr (PEndpoint ep) \<Longrightarrow> \<exists>p \<in> set ps. p fs = Inr (PEndpoint ep)"
  by (induction ps) (auto simp: bind_go_Inr_iff split: if_splits)

lemma parsePPP_typed:
  "Inr (parsePPP f fs) = (Inr (PEndpoint ep) :: parse_result go) \<Longrightarrow> (\<And>b. base_of (f b) = b) \<Longrightarrow>
   base_wf (base_of ep) \<and> fs ! 0 = perm_sign (base_of ep)"
  using parsePPP_wf [of f fs ep] by simp

lemma classify_not_endpoint: "classify_domain d \<noteq> Inl (PEndpoint ep)"
  by (simp add: classify_domain_def Let_def)

lemma parser_wf:
  assumes "p \<in> set (parse_order lib)" and "p fs = Inr (PEndpoint ep)"
  shows "base_wf (base_of ep) \<and> fs ! 0 = perm_sign (base_of ep)"
proof -
  have d: ?thesis if "parseTypeDomain lib fs = Inr (PEndpoint ep)"
    using that classify_not_endpoint
    by (auto simp: parseTypeDomain_def at1_def Let_def bind_go_Inr_iff
        split: if_splits sum.splits prod.splits dest!: parsePPP_wf)
  have i: ?thesis if "parseTypeIP fs = Inr (PEndpoint ep) \<or> parseTypeIPRange fs = Inr (PEndpoint ep) \<or>
      parseTypeScope fs = Inr (PEndpoint ep) \<or> parseTypeASN fs = Inr (PEndpoint ep)"
    using that
    by (auto simp: parseTypeIP_def parseTypeIPRange_def parseTypeScope_def parseTypeASN_def Let_def bind_go_Inr_iff
        split: option.splits if_splits dest!: parsePPP_wf)
  have c: ?thesis if "parseTypeAny fs = Inr (PEndpoint ep) \<or> parseTypeCountry fs = Inr (PEndpoint ep) \<or>
      parseTypeContinent fs = Inr (PEndpoint ep) \<or> parseTypeList fs = Inr (PEndpoint ep)"
    using that
    by (auto simp: parseTypeAny_def parseTypeCountry_def parseTypeContinent_def parseTypeList_def Let_def bind_go_Inr_iff
        split: if_splits dest!: parsePPP_wf)
  from assms d i c show ?thesis unfolding parse_order_def by auto
qed

lemma parsed_wf:
  assumes "parseEndpoint lib v = Inr (PEndpoint ep)"
  shows "base_wf (base_of ep) \<and> Fields v ! 0 = perm_sign (base_of ep)"
proof -
  from assms have f: "first_parser (parse_order lib) (strip_comment (Fields v)) = Inr (PEndpoint ep)"
    by (auto simp: parseEndpoint_def Let_def bind_go_Inr_iff split: if_splits)
  then obtain p where "p \<in> set (parse_order lib)" "p (strip_comment (Fields v)) = Inr (PEndpoint ep)"
    using first_parser_some by blast
  then have w: "base_wf (base_of ep) \<and> strip_comment (Fields v) ! 0 = perm_sign (base_of ep)"
    by (rule parser_wf)
  from f first_parser_short have "strip_comment (Fields v) \<noteq> []" by fastforce
  then have "strip_comment (Fields v) ! 0 = Fields v ! 0"
    unfolding strip_comment_def by (intro takeWhile_nth) simp
  with w show ?thesis by simp
qed

section \<open>Domain rules\<close>

lemma cname_check_denies: "fst (cname_check b d e cs) \<in> {NoMatch, Denied}"
  by (induction cs) (auto split: prod.split)

lemma domain_permit_own_domain:
  assumes "Matches env (EndpointDomain b d) e = Inr (Permitted, m, e')"
  shows "\<exists>domain. fst (GetDomain env True e) = Some domain \<and> domain_hit d domain"
proof -
  obtain got e1 where g: "GetDomain env True e = (got, e1)" by fastforce
  show ?thesis
    using assms g cname_check_denies [of b d e1 "CNAME e1"]
    by (auto simp: with_entity_eq domain_check_def split: option.splits if_splits prod.splits)
qed

lemma domain_hit_parsed:
  assumes "parseTypeDomain lib fs = Inr (PEndpoint (EndpointDomain b d))"
  shows "domain_hit d x \<longleftrightarrow>
    (case MatchType d of
       MatchTypeExact \<Rightarrow> x = d_Domain d
     | MatchTypeZone \<Rightarrow> x = d_Domain d \<or> (\<exists>sub. x = sub @ ''.'' @ d_Domain d)
     | MatchTypeSuffix \<Rightarrow> (\<exists>sub. x = sub @ d_Domain d)
     | MatchTypePrefix \<Rightarrow> (\<exists>rest. x = d_Domain d @ rest)
     | MatchTypeContains \<Rightarrow> (\<exists>sub rest. x = sub @ d_Domain d @ rest))"
proof -
  have z: "MatchType d = MatchTypeZone \<Longrightarrow> DomainZone d = ''.'' @ d_Domain d"
    using assms
    by (auto simp: parseTypeDomain_def classify_domain_def Let_def bind_go_Inr_iff
        split: if_splits sum.splits prod.splits dest!: parsePPP_wf)
  then show ?thesis
    by (auto simp: domain_hit_def affix_simps suffix_def prefix_def sublist_def split: domain_match_type.split)
qed

section \<open>Scope rules\<close>

lemma scope_bits:
  "bit scopeLocalhost 0" "\<not> bit scopeLocalhost (Suc 0)" "\<not> bit scopeLocalhost 2"
  "\<not> bit scopeLAN 0" "bit scopeLAN (Suc 0)" "\<not> bit scopeLAN 2"
  "\<not> bit scopeInternet 0" "\<not> bit scopeInternet (Suc 0)" "bit scopeInternet 2"
  by (simp_all add: scopeLocalhost_def scopeLAN_def scopeInternet_def)

lemma and_scope: "(s AND scopeLocalhost > 0) = bit s 0" "(s AND scopeLAN > 0) = bit s 1" "(s AND scopeInternet > 0) = bit s 2"
proof -
  have e: "s AND push_bit n 1 = (if bit s n then push_bit n 1 else 0)" for n and s :: byte
    by (rule bit_eqI) (auto simp: bit_simps)
  have p: "scopeLocalhost = push_bit 0 1" "scopeLAN = push_bit 1 1" "scopeInternet = push_bit 2 1"
    by (simp_all add: scopeLocalhost_def scopeLAN_def scopeInternet_def)
  show "(s AND scopeLocalhost > 0) = bit s 0" "(s AND scopeLAN > 0) = bit s 1" "(s AND scopeInternet > 0) = bit s 2"
    unfolding p e by (simp_all add: word_gt_0)
qed

lemma parse_scopes_parity:
  "parse_scopes vals acc = Some s \<Longrightarrow>
     bit s 0 = (bit acc 0 \<noteq> odd (count_list vals ''localhost'')) \<and>
     bit s 1 = (bit acc 1 \<noteq> odd (count_list vals ''lan'')) \<and>
     bit s 2 = (bit acc 2 \<noteq> odd (count_list vals ''internet''))"
proof (induction vals acc rule: parse_scopes.induct)
  case (2 val vals scopes)
  consider "val = ''localhost''" | "val = ''lan''" | "val = ''internet''"
    | "val \<noteq> ''localhost'' \<and> val \<noteq> ''lan'' \<and> val \<noteq> ''internet''" by blast
  then show ?case
    using 2 by cases (simp_all add: bit_xor_iff scope_bits)
qed simp

section \<open>Concrete values for the witnesses\<close>

definition sample_lib :: dns_lib where
  "sample_lib = \<lparr>dns_IsFqdn = (\<lambda>s. HasSuffix s ''.''), dns_IsDomainName = (\<lambda>s. True),
     dns_Fqdn = (\<lambda>s. if HasSuffix s ''.'' then s else s @ ''.'')\<rparr>"

lemmas sample_defs = zero_entity_def sample_entity_def empty_env_def sample_lib_def

section \<open>Properties of endpoint rules\<close>

text \<open>
  C30: A list of rules is evaluated by first match.  \<^verbatim>\<open>Endpoints.Match\<close> returns no match exactly
  when every rule, evaluated in order on the entity the rules before it left behind, does not
  match; otherwise its answer is that of the first rule that decides.
\<close>

theorem Match_first_decision:
  "Match env eps e = Inr (res, m, e') \<longleftrightarrow>
     res = NoMatch \<and> m = None \<and> passes env eps e = Some e' \<or>
     res \<noteq> NoMatch \<and> (\<exists>pre ep post e1. eps = pre @ Some ep # post \<and> passes env pre e = Some e1 \<and>
       Matches env ep e1 = Inr (res, m, e'))"
  using Match_NoMatch Match_decides by (cases "res = NoMatch") auto

text \<open>
  Rule evaluation is safe.  On an entity whose location data is consistent no rule list
  panics, the entity stays consistent, and every decision comes with the reason that the
  firewall prints.  The hypothesis on the environment is that geo lookup errors have a text.
\<close>

theorem Match_safe:
  assumes "geo_ok env" and "loc_ok e"
  shows "\<exists>res m e'. Match env eps e = Inr (res, m, e') \<and> loc_ok e' \<and> (res \<noteq> NoMatch \<longrightarrow> m \<noteq> None)"
proof -
  have "ent_ok env e" using assms by (simp add: ent_ok_def)
  from rules.eval_ok [OF this, of eps] show ?thesis
    by (metis ent_ok_def rules.eval_reason)
qed

theorem Match_safe_witness:
  "\<exists>res m e'. Match empty_env [Some (EndpointCountry zero_base ''AT'')] sample_entity = Inr (res, m, e') \<and>
     loc_ok e' \<and> (res \<noteq> NoMatch \<longrightarrow> m \<noteq> None)"
  by (rule Match_safe) (simp_all add: geo_ok_def loc_ok_def sample_defs Init_def)

text \<open>
  C32: An allow rule on a domain is satisfied only by the domain of the entity itself, never by
  one of its CNAMEs, which can only lead to a denial.
\<close>

theorem domain_permit_not_by_cname:
  assumes "Matches env (EndpointDomain b d) e = Inr (Permitted, m, e')"
  shows "\<exists>domain. fst (GetDomain env True e) = Some domain \<and> domain_hit d domain"
  using assms by (rule domain_permit_own_domain)

definition sample_domain_rule :: domain_matcher where
  "sample_domain_rule = \<lparr>OriginalValue = ''.one'', d_Domain = ''one.'', DomainZone = ''.one.'',
     MatchType = MatchTypeZone\<rparr>"

theorem domain_permit_not_by_cname_witness:
  "\<exists>domain. fst (GetDomain empty_env True sample_entity) = Some domain \<and>
     domain_hit sample_domain_rule domain"
proof -
  have "\<exists>m. Matches empty_env (EndpointDomain (zero_base\<lparr>ep_Permitted := True\<rparr>) sample_domain_rule)
      sample_entity = Inr (Permitted, Some m, sample_entity)"
    by (simp add: go_simps sample_defs sample_domain_rule_def)
  then obtain m where "Matches empty_env (EndpointDomain (zero_base\<lparr>ep_Permitted := True\<rparr>)
      sample_domain_rule) sample_entity = Inr (Permitted, Some m, sample_entity)" ..
  then show ?thesis by (rule domain_permit_not_by_cname)
qed





text \<open>
  The exception is real.  The rule for port 20 prints the port by its name, which contains
  the separator of port ranges, and the parser rejects the text: the name is read as a range
  from the port FTP to the unknown port DATA.
\<close>

theorem port_20_not_reparsable:
  "\<exists>msg. parseEndpoint lib (endpoint_String (EndpointAny \<lparr>ep_Protocol = 6, ep_StartPort = 20,
     ep_EndPort = 20, ep_Permitted = True\<rparr>)) = Inr (PError msg)"
  by (simp add: go_simps)

text \<open>
  C34: Every rule that the parser accepts is well formed: the end port is set exactly when the
  start port is, so an accepted port restriction is never half open, and the rule permits or
  denies as its first field says.
\<close>

theorem parsed_rules_well_formed:
  assumes "parseEndpoint lib v = Inr (PEndpoint ep)"
  shows "base_wf (base_of ep) \<and> Fields v ! 0 = perm_sign (base_of ep)"
  using assms by (rule parsed_wf)

theorem parsed_rules_well_formed_witness:
  "base_wf (base_of (EndpointAny (zero_base\<lparr>ep_StartPort := 80, ep_EndPort := 90\<rparr>))) \<and>
   Fields ''- * */80-90'' ! 0 =
     perm_sign (base_of (EndpointAny (zero_base\<lparr>ep_StartPort := 80, ep_EndPort := 90\<rparr>)))"
proof -
  have "parseEndpoint sample_lib ''- * */80-90'' =
      Inr (PEndpoint (EndpointAny (zero_base\<lparr>ep_StartPort := 80, ep_EndPort := 90\<rparr>)))"
    by (simp add: go_simps)
  then show ?thesis by (rule parsed_rules_well_formed)
qed

text \<open>
  C35: The parser panics exactly on texts of at least two fields in which a comment starts at
  the first or second of them, since it reads the second field after cutting the comment off
  without checking again that there is one.
\<close>

theorem parseEndpoint_panics_iff:
  "parseEndpoint lib v = Inl p \<longleftrightarrow>
     p = IndexOutOfRange \<and> 2 \<le> length (Fields v) \<and> length (strip_comment (Fields v)) < 2"
  by (rule parse_panic)

text \<open>
  The scopes of a parsed scope rule.  A scope is in the rule exactly when its name occurs
  an odd number of times: the names toggle their bit, and naming a scope twice removes it.
\<close>

theorem parse_scopes_toggle:
  assumes "parse_scopes vals 0 = Some s"
  shows "(s AND scopeLocalhost > 0) = odd (count_list vals ''localhost'') \<and>
         (s AND scopeLAN > 0) = odd (count_list vals ''lan'') \<and>
         (s AND scopeInternet > 0) = odd (count_list vals ''internet'')"
  using parse_scopes_parity [OF assms] by (simp add: and_scope)

theorem parse_scopes_toggle_witness:
  "parse_scopes [''lan'', ''internet'', ''lan''] 0 = Some 4 \<and> \<not> (4 AND scopeLAN > 0)"
proof -
  have p: "parse_scopes [''lan'', ''internet'', ''lan''] 0 = Some 4"
    by (simp add: scopeLAN_def scopeInternet_def scopeLocalhost_def)
  with parse_scopes_toggle [OF p] show ?thesis by simp
qed

end
