(* ===== verification/Layered_Profile.thy ===== *)
theory Layered_Profile
  imports Endpoint_Rules Entity_Lists Filter_Index
begin

text \<open>
  \<^verbatim>\<open>service/profile/profile-layered.go\<close>, the parsing of profile settings in
  \<^verbatim>\<open>service/profile/profile.go\<close>, the global settings of \<^verbatim>\<open>service/profile/config-update.go\<close>, and
  the parts of \<^verbatim>\<open>base/config\<close> they read (\<^verbatim>\<open>perspective.go\<close>, \<^verbatim>\<open>validity.go\<close>).

  A layered profile stacks profiles over the global settings.  Options are read through
  closures that cache their value and refresh it when the revision counter of the layered
  profile has moved; the cache of a closure is a field of the layered profile here, indexed by
  the key of the option.  A validity flag of the configuration is a pointer to a shared flag
  that the next configuration change clears; it is modelled by the number of the change that
  created the flag, so it is valid as long as this number is the current one.

  Left out: locks, log output, the record meta data, and the push of the profile to the user
  interface.
\<close>

section \<open>Configuration\<close>

datatype option_type = optTypeAny | OptTypeString | OptTypeStringArray | OptTypeInt | OptTypeBool

record value_cache =
  stringVal :: string
  stringArrayVal :: "string list"
  intVal :: int
  boolVal :: bool

record perspective_option =
  OptType :: option_type
  opt_ReleaseLevel :: byte
  valueCache :: value_cache

type_synonym perspective = "string \<rightharpoonup> perspective_option"

definition getPerspectiveValueCache ::
    "byte \<Rightarrow> perspective \<Rightarrow> string \<Rightarrow> option_type \<Rightarrow> value_cache option" where
  "getPerspectiveValueCache releaseLevel p name requestedType =
     (case p name of
        None \<Rightarrow> None
      | Some pOption \<Rightarrow>
          if requestedType \<noteq> OptType pOption \<and> requestedType \<noteq> optTypeAny then None
          else if opt_ReleaseLevel pOption > releaseLevel then None
          else Some (valueCache pOption))"

definition Has :: "byte \<Rightarrow> perspective \<Rightarrow> string \<Rightarrow> bool" where
  "Has rl p name \<longleftrightarrow> getPerspectiveValueCache rl p name optTypeAny \<noteq> None"

definition GetAsString :: "byte \<Rightarrow> perspective \<Rightarrow> string \<Rightarrow> string option" where
  "GetAsString rl p name = map_option stringVal (getPerspectiveValueCache rl p name OptTypeString)"

definition GetAsStringArray :: "byte \<Rightarrow> perspective \<Rightarrow> string \<Rightarrow> string list option" where
  "GetAsStringArray rl p name =
     map_option stringArrayVal (getPerspectiveValueCache rl p name OptTypeStringArray)"

definition GetAsInt :: "byte \<Rightarrow> perspective \<Rightarrow> string \<Rightarrow> int option" where
  "GetAsInt rl p name = map_option intVal (getPerspectiveValueCache rl p name OptTypeInt)"

definition GetAsBool :: "byte \<Rightarrow> perspective \<Rightarrow> string \<Rightarrow> bool option" where
  "GetAsBool rl p name = map_option boolVal (getPerspectiveValueCache rl p name OptTypeBool)"

text \<open>The global settings: the values of the registered options and what was parsed from them.\<close>

record global_config =
  releaseLevel :: byte
  validityFlag :: nat
  globalBool :: "string \<Rightarrow> bool"
  globalInt :: "string \<Rightarrow> int"
  globalString :: "string \<Rightarrow> string"
  globalStrings :: "string \<Rightarrow> string list"
  cfgDefaultAction :: byte
  cfgEndpoints :: endpoints
  cfgServiceEndpoints :: endpoints
  cfgSPNUsagePolicy :: endpoints
  cfgSPNTransitHubPolicy :: endpoints
  cfgSPNExitHubPolicy :: endpoints
  cfgFilterLists :: "string list"

definition NewValidityFlag :: "nat option" where
  "NewValidityFlag = None"

definition IsValid :: "global_config \<Rightarrow> nat option \<Rightarrow> bool" where
  "IsValid cfg vf \<longleftrightarrow> vf = Some (validityFlag cfg)"

definition Refresh :: "global_config \<Rightarrow> nat option" where
  "Refresh cfg = Some (validityFlag cfg)"

definition signalChanges :: "global_config \<Rightarrow> global_config" where
  "signalChanges cfg = cfg\<lparr>validityFlag := Suc (validityFlag cfg)\<rparr>"

section \<open>Profiles\<close>

definition SourceLocal :: string where "SourceLocal = ''local''"
definition SourceSpecial :: string where "SourceSpecial = ''special''"

definition DefaultActionNotSet :: byte where "DefaultActionNotSet = 0"
definition DefaultActionBlock :: byte where "DefaultActionBlock = 1"
definition DefaultActionAsk :: byte where "DefaultActionAsk = 2"
definition DefaultActionPermit :: byte where "DefaultActionPermit = 3"

record profile =
  p_ID :: string
  p_Source :: string
  configPerspective :: perspective
  dataParsed :: bool
  defaultAction :: byte
  p_endpoints :: endpoints
  serviceEndpoints :: endpoints
  filterListsSet :: bool
  filterListIDs :: "string list"
  spnUsagePolicy :: endpoints
  spnTransitHubPolicy :: endpoints
  spnExitHubPolicy :: endpoints
  outdated :: bool
  lastActive :: int

definition MakeScopedID :: "string \<Rightarrow> string \<Rightarrow> string" where
  "MakeScopedID source i = source @ ''/'' @ i"

definition MakeProfileKey :: "string \<Rightarrow> string \<Rightarrow> string" where
  "MakeProfileKey source i = ''core:profiles/'' @ source @ ''/'' @ i"

definition ScopedID :: "profile \<Rightarrow> string" where
  "ScopedID p = MakeScopedID (p_Source p) (p_ID p)"

definition profile_Key :: "profile \<Rightarrow> string" where
  "profile_Key p = MakeProfileKey (p_Source p) (p_ID p)"

text \<open>
  What parsing settings depends on: the DNS library, the cache of the list index with its
  update, and the depth of the stack.
\<close>

record parse_env =
  pe_lib :: dns_lib
  pe_stack :: nat
  pe_index :: "db_error + list_index"
  pe_refetch :: "string + (db_error + list_index)"

definition resolve_ids :: "parse_env \<Rightarrow> string list \<Rightarrow> (string + string list) go" where
  "resolve_ids pe ids =
     (case ResolveListIDs (pe_stack pe) (pe_index pe) (pe_refetch pe) ids of
        None \<Rightarrow> Inl StackOverflow
      | Some r \<Rightarrow> Inr r)"

definition action_of :: "string \<Rightarrow> byte option" where
  "action_of action =
     (if action = ''permit'' then Some DefaultActionPermit
      else if action = ''ask'' then Some DefaultActionAsk
      else if action = ''block'' then Some DefaultActionBlock
      else None)"

definition later_err :: "string option \<Rightarrow> string option \<Rightarrow> string option" where
  "later_err err lastErr = (if err \<noteq> None then err else lastErr)"

definition action_error :: "string \<Rightarrow> string" where
  "action_error action = ''default action '' @ quoted action @ '' invalid''"

definition parse_rule_option ::
    "parse_env \<Rightarrow> byte \<Rightarrow> perspective \<Rightarrow> string \<Rightarrow> string option \<Rightarrow> (endpoints \<times> string option) go" where
  "parse_rule_option pe rl p key lastErr =
     (case GetAsStringArray rl p key of
        None \<Rightarrow> Inr ([], lastErr)
      | Some entries \<Rightarrow>
          bind_go (ParseEndpoints (pe_lib pe) entries) (\<lambda>(eps, err). Inr (eps, later_err err lastErr)))"

text \<open>
  \<^verbatim>\<open>parseConfig\<close>.  The result of \<^verbatim>\<open>config.NewPerspective\<close> on the settings of the profile is an
  argument: the perspective and the error.
\<close>

definition parseConfig ::
    "parse_env \<Rightarrow> byte \<Rightarrow> perspective \<times> string option \<Rightarrow> profile \<Rightarrow> (string option \<times> profile) go" where
  "parseConfig pe rl newPerspective p =
     (if dataParsed p then Inr (None, p)
      else case newPerspective of
        (persp, Some err) \<Rightarrow>
          Inr (Some (''failed to create config perspective: '' @ err), p\<lparr>configPerspective := persp\<rparr>)
      | (persp, None) \<Rightarrow>
          let p = p\<lparr>configPerspective := persp, dataParsed := True\<rparr>;
              (action, err) =
                (case GetAsString rl persp ''filter/defaultAction'' of
                   None \<Rightarrow> (DefaultActionNotSet, None)
                 | Some a \<Rightarrow> (case action_of a of
                     Some n \<Rightarrow> (n, None)
                   | None \<Rightarrow> (DefaultActionNotSet, Some (action_error a))));
              p = p\<lparr>defaultAction := action\<rparr>
          in bind_go (parse_rule_option pe rl persp ''filter/endpoints'' err) (\<lambda>(eps, err).
             bind_go (parse_rule_option pe rl persp ''filter/serviceEndpoints'' err) (\<lambda>(seps, err).
             bind_go (case GetAsStringArray rl persp ''filter/lists'' of
                        None \<Rightarrow> Inr (False, filterListIDs p)
                      | Some ids \<Rightarrow> bind_go (resolve_ids pe ids) (\<lambda>r. case r of
                          Inl _ \<Rightarrow> Inr (False, [])
                        | Inr srcs \<Rightarrow> Inr (True, srcs))) (\<lambda>(isSet, srcs).
             bind_go (parse_rule_option pe rl persp ''spn/usagePolicy'' err) (\<lambda>(usage, err).
             bind_go (parse_rule_option pe rl persp ''spn/transitHubPolicy'' err) (\<lambda>(transit, err).
             bind_go (parse_rule_option pe rl persp ''spn/exitHubPolicy'' err) (\<lambda>(exit, err).
               Inr (err, p\<lparr>p_endpoints := eps, serviceEndpoints := seps, filterListsSet := isSet,
                          filterListIDs := srcs, spnUsagePolicy := usage,
                          spnTransitHubPolicy := transit, spnExitHubPolicy := exit\<rparr>))))))))"

text \<open>
  \<^verbatim>\<open>updateGlobalConfigProfile\<close>, up to the point where it saves a copy of the settings as a
  profile: the settings are parsed and each one that parses replaces the old one.
\<close>

definition updateGlobalConfigProfile ::
    "parse_env \<Rightarrow> global_config \<Rightarrow> (string option \<times> global_config) go" where
  "updateGlobalConfigProfile pe cfg =
     (let action = globalString cfg ''filter/defaultAction'';
          (act, err) = (case action_of action of
             Some n \<Rightarrow> (n, None)
           | None \<Rightarrow> (DefaultActionBlock, Some (action_error action)));
          rules = (\<lambda>key err. bind_go (ParseEndpoints (pe_lib pe) (globalStrings cfg key))
                     (\<lambda>(eps, e). Inr (eps, later_err e err)))
      in bind_go (rules ''filter/endpoints'' err) (\<lambda>(eps, err).
         bind_go (rules ''filter/serviceEndpoints'' err) (\<lambda>(seps, err).
         bind_go (resolve_ids pe (globalStrings cfg ''filter/lists'')) (\<lambda>r.
         let (srcs, err) = (case r of Inl e \<Rightarrow> ([], Some e) | Inr s \<Rightarrow> (s, err)) in
         bind_go (rules ''spn/usagePolicy'' err) (\<lambda>(usage, err).
         bind_go (rules ''spn/transitHubPolicy'' err) (\<lambda>(transit, err).
         bind_go (rules ''spn/exitHubPolicy'' err) (\<lambda>(exit, err).
           Inr (err, cfg\<lparr>cfgDefaultAction := act, cfgEndpoints := eps, cfgServiceEndpoints := seps,
                        cfgFilterLists := srcs, cfgSPNUsagePolicy := usage,
                        cfgSPNTransitHubPolicy := transit, cfgSPNExitHubPolicy := exit\<rparr>))))))))"

section \<open>Layered profiles\<close>

record 'v opt_cache =
  revCnt :: "64 word"
  cached :: 'v

record layered =
  localProfile :: "profile option"
  layers :: "profile list"
  LayerIDs :: "string list"
  RevisionCounter :: "64 word"
  globalValidityFlag :: "nat option"
  boolCache :: "string \<Rightarrow> bool opt_cache"
  intCache :: "string \<Rightarrow> int opt_cache"
  stringCache :: "string \<Rightarrow> string opt_cache"

definition NewLayeredProfile :: "profile \<Rightarrow> layered" where
  "NewLayeredProfile p =
     \<lparr>localProfile = Some p, layers = [p], LayerIDs = [ScopedID p], RevisionCounter = 1,
      globalValidityFlag = NewValidityFlag,
      boolCache = (\<lambda>_. \<lparr>revCnt = 0, cached = False\<rparr>),
      intCache = (\<lambda>_. \<lparr>revCnt = 0, cached = 0\<rparr>),
      stringCache = (\<lambda>_. \<lparr>revCnt = 0, cached = []\<rparr>)\<rparr>"

definition increaseRevisionCounter :: "layered \<Rightarrow> layered" where
  "increaseRevisionCounter lp = lp\<lparr>RevisionCounter := RevisionCounter lp + 1\<rparr>"

text \<open>A nil layered profile has revision 0.\<close>

definition RevisionCnt :: "layered option \<Rightarrow> 64 word" where
  "RevisionCnt lp = (case lp of None \<Rightarrow> 0 | Some lp \<Rightarrow> RevisionCounter lp)"

definition MarkStillActive :: "int \<Rightarrow> layered \<Rightarrow> layered" where
  "MarkStillActive now lp = lp\<lparr>layers := map (\<lambda>p. p\<lparr>lastActive := now\<rparr>) (layers lp)\<rparr>"

definition NeedsUpdate :: "global_config \<Rightarrow> layered \<Rightarrow> bool" where
  "NeedsUpdate cfg lp \<longleftrightarrow>
     \<not> IsValid cfg (globalValidityFlag lp) \<or> list_ex outdated (layers lp)"

text \<open>
  The loop of \<^verbatim>\<open>Update\<close> over the layers from index \<open>i\<close>, with \<open>get\<close> for \<^verbatim>\<open>GetLocalProfile\<close>: the new
  layers, the new local profile and whether anything changed.  On an error the call returns a
  nil profile, which the first layer passes on to \<^verbatim>\<open>localProfile\<close>.
\<close>

fun update_layers ::
    "(string \<Rightarrow> string + profile) \<Rightarrow> nat \<Rightarrow> profile list \<Rightarrow> profile option \<Rightarrow>
     profile list \<times> profile option \<times> bool" where
  "update_layers get i [] loc = ([], loc, False)"
| "update_layers get i (layer # ls) loc =
     (if \<not> outdated layer
      then let (ls', loc', changed) = update_layers get (Suc i) ls loc in (layer # ls', loc', changed)
      else if p_Source layer \<noteq> SourceLocal
      then let (ls', loc', changed) = update_layers get (Suc i) ls loc
           in (layer\<lparr>outdated := False\<rparr> # ls', loc', changed)
      else let (newLayer, isNew) = (case get (p_ID layer) of
                 Inl err \<Rightarrow> (None, layer) | Inr p \<Rightarrow> (Some p, p));
               loc = (if i = 0 then newLayer else loc);
               (ls', loc', changed) = update_layers get (Suc i) ls loc
           in (isNew # ls', loc', True))"

definition Update :: "(string \<Rightarrow> string + profile) \<Rightarrow> global_config \<Rightarrow> layered \<Rightarrow> 64 word \<times> layered" where
  "Update get cfg lp =
     (let (ls, loc, changed) = update_layers get 0 (layers lp) (localProfile lp);
          lp = lp\<lparr>layers := ls, localProfile := loc\<rparr>;
          changed = (changed \<or> \<not> IsValid cfg (globalValidityFlag lp));
          lp = (if changed
                then increaseRevisionCounter (lp\<lparr>globalValidityFlag := Refresh cfg\<rparr>)
                else lp)
      in (RevisionCounter lp, lp))"

fun first_action :: "profile list \<Rightarrow> byte \<Rightarrow> byte" where
  "first_action [] dflt = dflt"
| "first_action (layer # ls) dflt =
     (if defaultAction layer > 0 then defaultAction layer else first_action ls dflt)"

definition DefaultAction :: "global_config \<Rightarrow> layered \<Rightarrow> byte" where
  "DefaultAction cfg lp = first_action (layers lp) (cfgDefaultAction cfg)"

fun match_layers ::
    "intel_env \<Rightarrow> (profile \<Rightarrow> endpoints) \<Rightarrow> profile list \<Rightarrow> endpoints \<Rightarrow> entity \<Rightarrow> match_result go" where
  "match_layers env rules [] global e = Match env global e"
| "match_layers env rules (layer # ls) global e =
     (if IsSet (rules layer)
      then bind_go (Match env (rules layer) e) (\<lambda>(result, reason, e).
             if IsDecision result then Inr (result, reason, e)
             else match_layers env rules ls global e)
      else match_layers env rules ls global e)"

definition MatchEndpoint :: "intel_env \<Rightarrow> global_config \<Rightarrow> layered \<Rightarrow> entity \<Rightarrow> match_result go" where
  "MatchEndpoint env cfg lp e = match_layers env p_endpoints (layers lp) (cfgEndpoints cfg) e"

definition MatchServiceEndpoint :: "intel_env \<Rightarrow> global_config \<Rightarrow> layered \<Rightarrow> entity \<Rightarrow> match_result go" where
  "MatchServiceEndpoint env cfg lp e =
     match_layers env serviceEndpoints (layers lp) (cfgServiceEndpoints cfg)
       (EnableReverseResolving e)"

definition MatchSPNUsagePolicy :: "intel_env \<Rightarrow> global_config \<Rightarrow> layered \<Rightarrow> entity \<Rightarrow> match_result go" where
  "MatchSPNUsagePolicy env cfg lp e =
     match_layers env spnUsagePolicy (layers lp) (cfgSPNUsagePolicy cfg) e"

definition StackedTransitHubPolicies :: "global_config \<Rightarrow> layered \<Rightarrow> endpoints list" where
  "StackedTransitHubPolicies cfg lp =
     filter IsSet (map spnTransitHubPolicy (layers lp)) @ [cfgSPNTransitHubPolicy cfg]"

definition StackedExitHubPolicies :: "global_config \<Rightarrow> layered \<Rightarrow> endpoints list" where
  "StackedExitHubPolicies cfg lp =
     filter IsSet (map spnExitHubPolicy (layers lp)) @ [cfgSPNExitHubPolicy cfg]"

section \<open>Cached options\<close>

fun first_value :: "(perspective \<Rightarrow> 'v option) \<Rightarrow> profile list \<Rightarrow> 'v option" where
  "first_value get [] = None"
| "first_value get (layer # ls) =
     (case get (configPerspective layer) of Some v \<Rightarrow> Some v | None \<Rightarrow> first_value get ls)"

definition wrap_option ::
    "(perspective \<Rightarrow> 'v option) \<Rightarrow> 'v \<Rightarrow> layered \<Rightarrow> 'v opt_cache \<Rightarrow> 'v opt_cache" where
  "wrap_option get globalConfig lp c =
     (if revCnt c \<noteq> RevisionCounter lp
      then \<lparr>revCnt = RevisionCounter lp,
            cached = (case first_value get (layers lp) of Some v \<Rightarrow> v | None \<Rightarrow> globalConfig)\<rparr>
      else c)"

definition wrapBoolOption :: "string \<Rightarrow> global_config \<Rightarrow> layered \<Rightarrow> bool \<times> layered" where
  "wrapBoolOption key cfg lp =
     (let c = wrap_option (\<lambda>p. GetAsBool (releaseLevel cfg) p key) (globalBool cfg key) lp (boolCache lp key)
      in (cached c, lp\<lparr>boolCache := (boolCache lp)(key := c)\<rparr>))"

definition wrapIntOption :: "string \<Rightarrow> global_config \<Rightarrow> layered \<Rightarrow> int \<times> layered" where
  "wrapIntOption key cfg lp =
     (let c = wrap_option (\<lambda>p. GetAsInt (releaseLevel cfg) p key) (globalInt cfg key) lp (intCache lp key)
      in (cached c, lp\<lparr>intCache := (intCache lp)(key := c)\<rparr>))"

definition wrapStringOption :: "string \<Rightarrow> global_config \<Rightarrow> layered \<Rightarrow> string \<times> layered" where
  "wrapStringOption key cfg lp =
     (let c = wrap_option (\<lambda>p. GetAsString (releaseLevel cfg) p key) (globalString cfg key) lp (stringCache lp key)
      in (cached c, lp\<lparr>stringCache := (stringCache lp)(key := c)\<rparr>))"

definition "DisableAutoPermit = wrapBoolOption ''filter/disableAutoPermit''"
definition "BlockScopeLocal = wrapBoolOption ''filter/blockLocal''"
definition "BlockScopeLAN = wrapBoolOption ''filter/blockLAN''"
definition "BlockScopeInternet = wrapBoolOption ''filter/blockInternet''"
definition "BlockP2P = wrapBoolOption ''filter/blockP2P''"
definition "BlockInbound = wrapBoolOption ''filter/blockInbound''"
definition "RemoveOutOfScopeDNS = wrapBoolOption ''filter/removeOutOfScopeDNS''"
definition "RemoveBlockedDNS = wrapBoolOption ''filter/removeBlockedDNS''"
definition "FilterSubDomains = wrapBoolOption ''filter/includeSubdomains''"
definition "FilterCNAMEs = wrapBoolOption ''filter/includeCNAMEs''"
definition "PreventBypassing = wrapBoolOption ''filter/preventBypassing''"
definition "DomainHeuristics = wrapBoolOption ''filter/domainHeuristics''"
definition "UseSPN = wrapBoolOption ''spn/use''"
definition "SPNRoutingAlgorithm = wrapStringOption ''spn/routingAlgorithm''"
definition "EnableHistory = wrapBoolOption ''history/enable''"
definition "KeepHistory = wrapIntOption ''history/keep''"

text \<open>The empty string stands for the global settings.\<close>

fun GetProfileSource :: "byte \<Rightarrow> string \<Rightarrow> profile list \<Rightarrow> string" where
  "GetProfileSource rl key [] = []"
| "GetProfileSource rl key (layer # ls) =
     (if Has rl (configPerspective layer) key then profile_Key layer else GetProfileSource rl key ls)"

section \<open>Filter lists\<close>

definition deny_lists :: "string list \<Rightarrow> entity \<Rightarrow> match_result" where
  "deny_lists ids e =
     (case MatchLists ids e of (hit, e) \<Rightarrow>
        if hit then (Denied, Some (ListReason (ListBlockReason e)), e) else (NoMatch, None, e))"

fun lists_layers :: "profile list \<Rightarrow> string list \<Rightarrow> entity \<Rightarrow> match_result" where
  "lists_layers [] global e = (if length global > 0 then deny_lists global e else (NoMatch, None, e))"
| "lists_layers (layer # ls) global e =
     (if filterListsSet layer then deny_lists (filterListIDs layer) e else lists_layers ls global e)"

definition MatchFilterLists :: "global_config \<Rightarrow> layered \<Rightarrow> entity \<Rightarrow> match_result \<times> layered" where
  "MatchFilterLists cfg lp e =
     (let (sub, lp) = FilterSubDomains cfg lp; e = ResolveSubDomainLists sub e;
          (cn, lp) = FilterCNAMEs cfg lp; e = EnableCNAMECheck cn e
      in (lists_layers (layers lp) (cfgFilterLists cfg) e, lp))"

end
