(* ===== verification/Layered_Rules.thy ===== *)
theory Layered_Rules
  imports Layered_Profile
begin

text \<open>
  Properties of layered profiles: stacking rules is the same as one list of rules, a cached
  option has the value of the first layer that sets it whenever no update is due, and an
  update replaces what is outdated and moves the revision counter.

  The locale \<open>option_kind\<close> is the contract of the option closures: a read returns the cached
  value if its revision is current, otherwise the value found in the layers, and leaves
  everything but the cache of its key alone.  It is interpreted for the three kinds of options.
\<close>

section \<open>Layers as one list of rules\<close>

lemma first_match_append:
  "first_match f (xs @ ys) e =
     bind_go (first_match f xs e) (\<lambda>(result, reason, e).
       if result \<noteq> NoMatch then Inr (result, reason, e) else first_match f ys e)"
proof (induction f xs e rule: first_match.induct)
  case (3 matches r rs e)
  then show ?case
    by (cases "matches r e") (auto simp: bind_go_def split: sum.splits prod.splits)
qed (auto simp: bind_go_def)

lemma IsDecision_iff [simp]: "IsDecision r \<longleftrightarrow> r \<noteq> NoMatch"
  by (cases r) (auto simp: IsDecision_def)

lemma match_layers_concat:
  "match_layers env rules ls global e = Match env (concat (map rules ls) @ global) e"
  by (induction ls arbitrary: e)
     (auto simp: Match_def first_match_append IsSet_def bind_go_def split: sum.splits prod.splits)

text \<open>
  C20: Layering is concatenation.  Asking the layers one after the other and then the global
  rules gives the answer, the panic included, of one list of rules in which the rules of each
  layer stand before those of the next and the global rules come last.
\<close>

theorem MatchEndpoint_stacks:
  "MatchEndpoint env cfg lp e = Match env (concat (map p_endpoints (layers lp)) @ cfgEndpoints cfg) e \<and>
   MatchServiceEndpoint env cfg lp e =
     Match env (concat (map serviceEndpoints (layers lp)) @ cfgServiceEndpoints cfg) (EnableReverseResolving e) \<and>
   MatchSPNUsagePolicy env cfg lp e =
     Match env (concat (map spnUsagePolicy (layers lp)) @ cfgSPNUsagePolicy cfg) e"
  by (simp add: MatchEndpoint_def MatchServiceEndpoint_def MatchSPNUsagePolicy_def match_layers_concat)

section \<open>Cached options\<close>

definition fresh :: "(perspective \<Rightarrow> 'v option) \<Rightarrow> 'v \<Rightarrow> layered \<Rightarrow> 'v" where
  "fresh get dflt lp = (case first_value get (layers lp) of Some v \<Rightarrow> v | None \<Rightarrow> dflt)"

lemma first_value_cong:
  "map configPerspective ls' = map configPerspective ls \<Longrightarrow> first_value g ls' = first_value g ls"
proof (induction ls arbitrary: ls')
  case (Cons p ls)
  from Cons.prems obtain q qs where "ls' = q # qs" "configPerspective q = configPerspective p"
    "map configPerspective qs = map configPerspective ls" by auto
  with Cons.IH [of qs] show ?case by (simp split: option.split)
qed simp

locale option_kind =
  fixes read :: "string \<Rightarrow> global_config \<Rightarrow> layered \<Rightarrow> 'v \<times> layered"
    and cache :: "layered \<Rightarrow> string \<Rightarrow> 'v opt_cache"
    and getter :: "byte \<Rightarrow> perspective \<Rightarrow> string \<Rightarrow> 'v option"
    and global :: "global_config \<Rightarrow> string \<Rightarrow> 'v"
  assumes read_value: "fst (read key cfg lp) =
      (if revCnt (cache lp key) = RevisionCounter lp then cached (cache lp key)
       else fresh (\<lambda>p. getter (releaseLevel cfg) p key) (global cfg key) lp)"
    and read_cache: "cache (snd (read key cfg lp)) =
      (cache lp)(key := \<lparr>revCnt = RevisionCounter lp, cached = fst (read key cfg lp)\<rparr>)"
    and read_frame: "layers (snd (read key cfg lp)) = layers lp"
      "RevisionCounter (snd (read key cfg lp)) = RevisionCounter lp"
      "globalValidityFlag (snd (read key cfg lp)) = globalValidityFlag lp"
begin

definition value_of_option :: "string \<Rightarrow> global_config \<Rightarrow> layered \<Rightarrow> 'v" where
  "value_of_option key cfg lp = fresh (\<lambda>p. getter (releaseLevel cfg) p key) (global cfg key) lp"

definition coherent :: "global_config \<Rightarrow> layered \<Rightarrow> bool" where
  "coherent cfg lp \<longleftrightarrow> (\<forall>key. revCnt (cache lp key) \<le> RevisionCounter lp \<and>
     (revCnt (cache lp key) = RevisionCounter lp \<longrightarrow> IsValid cfg (globalValidityFlag lp) \<longrightarrow>
        cached (cache lp key) = value_of_option key cfg lp))"

lemma read_coherent:
  assumes "coherent cfg lp" and "IsValid cfg (globalValidityFlag lp)"
  shows "fst (read key cfg lp) = value_of_option key cfg lp"
  using assms by (auto simp: coherent_def read_value value_of_option_def)

lemma coherent_read: "coherent cfg lp \<Longrightarrow> coherent cfg (snd (read key cfg lp))"
  by (auto simp: coherent_def read_cache read_frame value_of_option_def fresh_def read_value)

lemma coherent_stale:
  assumes "coherent cfg lp" "RevisionCounter lp < RevisionCounter lp'" "cache lp' = cache lp"
  shows "coherent cfg' lp'"
  using assms unfolding coherent_def by (metis leD order.strict_implies_order order.trans)

lemma coherent_invalid:
  assumes "coherent cfg lp" "\<not> IsValid cfg' (globalValidityFlag lp)"
  shows "coherent cfg' lp"
  using assms by (auto simp: coherent_def)

lemma coherent_same:
  assumes "coherent cfg lp" "cache lp' = cache lp" "RevisionCounter lp' = RevisionCounter lp"
    "globalValidityFlag lp' = globalValidityFlag lp"
    "map configPerspective (layers lp') = map configPerspective (layers lp)"
  shows "coherent cfg lp'"
proof -
  have "first_value g (layers lp') = first_value g (layers lp)" for g :: "perspective \<Rightarrow> 'v option"
    using assms(5) by (rule first_value_cong)
  then show ?thesis
    using assms(1-4) by (simp add: coherent_def value_of_option_def fresh_def)
qed

end

lemmas wrap_defs = wrapBoolOption_def wrapIntOption_def wrapStringOption_def wrap_option_def Let_def fresh_def

interpretation bools: option_kind wrapBoolOption boolCache GetAsBool globalBool
  by unfold_locales (auto simp: wrap_defs)

interpretation ints: option_kind wrapIntOption intCache GetAsInt globalInt
  by unfold_locales (auto simp: wrap_defs)

interpretation strings: option_kind wrapStringOption stringCache GetAsString globalString
  by unfold_locales (auto simp: wrap_defs)

text \<open>The life of a layered profile.\<close>

inductive lp_step :: "global_config \<times> layered \<Rightarrow> global_config \<times> layered \<Rightarrow> bool" where
  read_bool: "lp_step (cfg, lp) (cfg, snd (wrapBoolOption key cfg lp))"
| read_int: "lp_step (cfg, lp) (cfg, snd (wrapIntOption key cfg lp))"
| read_string: "lp_step (cfg, lp) (cfg, snd (wrapStringOption key cfg lp))"
| config_change: "validityFlag cfg' = validityFlag cfg \<Longrightarrow> lp_step (cfg, lp) (signalChanges cfg', lp)"
| outdate: "i < length (layers lp) \<Longrightarrow>
    lp_step (cfg, lp) (cfg, lp\<lparr>layers := (layers lp)[i := (layers lp ! i)\<lparr>outdated := True\<rparr>]\<rparr>)"
| still_active: "lp_step (cfg, lp) (cfg, MarkStillActive now lp)"
| update: "RevisionCounter lp \<noteq> -1 \<Longrightarrow> lp_step (cfg, lp) (cfg, snd (Update get cfg lp))"

definition flag_ok :: "global_config \<Rightarrow> layered \<Rightarrow> bool" where
  "flag_ok cfg lp \<longleftrightarrow> (\<forall>g. globalValidityFlag lp = Some g \<longrightarrow> g \<le> validityFlag cfg)"

definition lp_inv :: "global_config \<times> layered \<Rightarrow> bool" where
  "lp_inv s \<longleftrightarrow> (case s of (cfg, lp) \<Rightarrow>
     flag_ok cfg lp \<and> bools.coherent cfg lp \<and> ints.coherent cfg lp \<and> strings.coherent cfg lp)"

lemma update_layers_unchanged:
  "update_layers get i ls loc = (ls', loc', False) \<Longrightarrow>
     map configPerspective ls' = map configPerspective ls"
  by (induction get i ls loc arbitrary: ls' loc' rule: update_layers.induct)
     (auto simp: Let_def split: if_splits prod.splits)

lemma Update_frame:
  "boolCache (snd (Update get cfg lp)) = boolCache lp"
  "intCache (snd (Update get cfg lp)) = intCache lp"
  "stringCache (snd (Update get cfg lp)) = stringCache lp"
  by (auto simp: Update_def increaseRevisionCounter_def Let_def split: prod.splits)

lemma Update_cases:
  assumes "RevisionCounter lp \<noteq> -1"
  shows "RevisionCounter lp < RevisionCounter (snd (Update get cfg lp)) \<and>
           globalValidityFlag (snd (Update get cfg lp)) = Some (validityFlag cfg) \<or>
         RevisionCounter (snd (Update get cfg lp)) = RevisionCounter lp \<and>
           globalValidityFlag (snd (Update get cfg lp)) = globalValidityFlag lp \<and>
           IsValid cfg (globalValidityFlag lp) \<and>
           map configPerspective (layers (snd (Update get cfg lp))) = map configPerspective (layers lp)"
proof -
  have "RevisionCounter lp < RevisionCounter lp + 1"
    using assms by (meson inc_less_eq_triv_imp not_le)
  then show ?thesis
    using update_layers_unchanged [of get 0 "layers lp" "localProfile lp"]
    by (auto simp: Update_def increaseRevisionCounter_def Refresh_def Let_def split: prod.splits)
qed

lemma NewLayeredProfile_inv: "lp_inv (cfg, NewLayeredProfile p)"
  by (simp add: lp_inv_def flag_ok_def NewLayeredProfile_def NewValidityFlag_def
      bools.coherent_def ints.coherent_def strings.coherent_def)

lemmas coherent_read_other =
  bools.coherent_same [of cfg lp "snd (wrapIntOption key cfg lp)"]
  bools.coherent_same [of cfg lp "snd (wrapStringOption key cfg lp)"]
  ints.coherent_same [of cfg lp "snd (wrapBoolOption key cfg lp)"]
  ints.coherent_same [of cfg lp "snd (wrapStringOption key cfg lp)"]
  strings.coherent_same [of cfg lp "snd (wrapBoolOption key cfg lp)"]
  strings.coherent_same [of cfg lp "snd (wrapIntOption key cfg lp)"]
  for cfg lp key

lemma read_keeps_others [simp]:
  "intCache (snd (wrapBoolOption key cfg lp)) = intCache lp"
  "stringCache (snd (wrapBoolOption key cfg lp)) = stringCache lp"
  "boolCache (snd (wrapIntOption key cfg lp)) = boolCache lp"
  "stringCache (snd (wrapIntOption key cfg lp)) = stringCache lp"
  "boolCache (snd (wrapStringOption key cfg lp)) = boolCache lp"
  "intCache (snd (wrapStringOption key cfg lp)) = intCache lp"
  by (simp_all add: wrap_defs)

lemma lp_inv_same:
  assumes "lp_inv (cfg, lp)" "boolCache lp' = boolCache lp" "intCache lp' = intCache lp"
    "stringCache lp' = stringCache lp" "RevisionCounter lp' = RevisionCounter lp"
    "globalValidityFlag lp' = globalValidityFlag lp"
    "map configPerspective (layers lp') = map configPerspective (layers lp)"
  shows "lp_inv (cfg, lp')"
  using assms bools.coherent_same [of cfg lp lp'] ints.coherent_same [of cfg lp lp']
    strings.coherent_same [of cfg lp lp']
  by (simp add: lp_inv_def flag_ok_def)

lemma lp_step_inv: "lp_step s s' \<Longrightarrow> lp_inv s \<Longrightarrow> lp_inv s'"
proof (induction rule: lp_step.induct)
  case (config_change cfg' cfg lp)
  then have "\<not> IsValid (signalChanges cfg') (globalValidityFlag lp)"
    by (auto simp: lp_inv_def flag_ok_def IsValid_def signalChanges_def)
  moreover have "flag_ok (signalChanges cfg') lp"
    using config_change by (auto simp: lp_inv_def flag_ok_def signalChanges_def le_SucI)
  ultimately show ?case
    using config_change.prems bools.coherent_invalid ints.coherent_invalid strings.coherent_invalid
    by (auto simp: lp_inv_def)
next
  case (outdate i lp cfg)
  have "map configPerspective ((layers lp)[i := (layers lp ! i)\<lparr>outdated := True\<rparr>]) =
      map configPerspective (layers lp)"
    by (simp add: map_update) (metis list_update_id map_update)
  with outdate show ?case by (intro lp_inv_same [OF outdate.prems]) simp_all
next
  case (still_active cfg lp now)
  then show ?case by (rule lp_inv_same) (simp_all add: MarkStillActive_def)
next
  case (update lp cfg get)
  let ?lp = "snd (Update get cfg lp)"
  from Update_cases [OF update.hyps, of get cfg] show ?case
  proof
    assume "RevisionCounter lp < RevisionCounter ?lp \<and> globalValidityFlag ?lp = Some (validityFlag cfg)"
    then show ?thesis
      using update.prems bools.coherent_stale [of cfg lp ?lp] ints.coherent_stale [of cfg lp ?lp]
        strings.coherent_stale [of cfg lp ?lp]
      by (auto simp: lp_inv_def flag_ok_def Update_frame)
  next
    assume "RevisionCounter ?lp = RevisionCounter lp \<and> globalValidityFlag ?lp = globalValidityFlag lp \<and>
      IsValid cfg (globalValidityFlag lp) \<and> map configPerspective (layers ?lp) = map configPerspective (layers lp)"
    then show ?thesis by (intro lp_inv_same [OF update.prems]) (simp_all add: Update_frame)
  qed
next
  case (read_bool cfg lp key)
  then show ?case
    using bools.coherent_read [of cfg lp key] coherent_read_other [of cfg lp key]
    by (simp add: lp_inv_def flag_ok_def bools.read_frame)
next
  case (read_int cfg lp key)
  then show ?case
    using ints.coherent_read [of cfg lp key] coherent_read_other [of cfg lp key]
    by (simp add: lp_inv_def flag_ok_def ints.read_frame)
next
  case (read_string cfg lp key)
  then show ?case
    using strings.coherent_read [of cfg lp key] coherent_read_other [of cfg lp key]
    by (simp add: lp_inv_def flag_ok_def strings.read_frame)
qed

lemma lp_reachable_inv: "lp_step\<^sup>*\<^sup>* (cfg0, NewLayeredProfile p) s \<Longrightarrow> lp_inv s"
  by (induction rule: rtranclp_induct) (auto simp: NewLayeredProfile_inv intro: lp_step_inv)

lemma NeedsUpdate_valid: "\<not> NeedsUpdate cfg lp \<Longrightarrow> IsValid cfg (globalValidityFlag lp)"
  by (simp add: NeedsUpdate_def)

text \<open>
  C3: Options are never stale.  Whatever sequence of option reads, configuration changes,
  outdated marks and updates a layered profile has been through (with fewer than \<open>2 ^ 64\<close>
  updates), when it does not ask for an update every option reads as the value of the first
  layer that sets it, or else as the global value.
\<close>

theorem cached_options_current:
  assumes "lp_step\<^sup>*\<^sup>* (cfg0, NewLayeredProfile p) (cfg, lp)" and "\<not> NeedsUpdate cfg lp"
  shows "fst (wrapBoolOption key cfg lp) =
      fresh (\<lambda>p. GetAsBool (releaseLevel cfg) p key) (globalBool cfg key) lp \<and>
    fst (wrapIntOption key cfg lp) =
      fresh (\<lambda>p. GetAsInt (releaseLevel cfg) p key) (globalInt cfg key) lp \<and>
    fst (wrapStringOption key cfg lp) =
      fresh (\<lambda>p. GetAsString (releaseLevel cfg) p key) (globalString cfg key) lp"
  using lp_reachable_inv [OF assms(1)] NeedsUpdate_valid [OF assms(2)]
  by (auto simp: lp_inv_def bools.read_coherent ints.read_coherent strings.read_coherent
      bools.value_of_option_def ints.value_of_option_def strings.value_of_option_def)

section \<open>Updates\<close>

definition refetchable :: "(string \<Rightarrow> string + profile) \<Rightarrow> profile \<Rightarrow> bool" where
  "refetchable get l \<longleftrightarrow> outdated l \<and> p_Source l = SourceLocal \<longrightarrow>
     (case get (p_ID l) of Inr p \<Rightarrow> \<not> outdated p | Inl _ \<Rightarrow> False)"

lemma update_layers_repair:
  "list_all (refetchable get) ls \<Longrightarrow> \<not> list_ex outdated (fst (update_layers get i ls loc))"
  by (induction ls arbitrary: i loc)
     (auto simp: Let_def case_prod_unfold refetchable_def split: sum.splits)

lemma update_layers_first:
  "i > 0 \<Longrightarrow> fst (snd (update_layers get i ls loc)) = loc"
  by (induction ls arbitrary: i loc)
     (auto simp: Let_def case_prod_unfold split: sum.splits)

lemma Update_settles:
  assumes "list_all (refetchable get) (layers lp)"
  shows "\<not> NeedsUpdate cfg (snd (Update get cfg lp))"
  using update_layers_repair [OF assms, of 0 "localProfile lp"]
  by (auto simp: Update_def NeedsUpdate_def IsValid_def Refresh_def increaseRevisionCounter_def Let_def
      split: prod.splits)

text \<open>
  An update settles.  If the profile of every outdated local layer can be fetched again
  and comes back current, no update is needed after \<^verbatim>\<open>Update\<close>.
\<close>

theorem Update_makes_current:
  assumes "list_all (refetchable get) (layers lp)"
  shows "\<not> NeedsUpdate cfg (snd (Update get cfg lp))"
  using assms by (rule Update_settles)

text \<open>
  \<^verbatim>\<open>Update\<close> returns the new revision, which is one higher exactly when the global
  configuration has changed or a local layer was outdated.
\<close>

theorem Update_bumps_revision:
  "fst (Update get cfg lp) = RevisionCounter (snd (Update get cfg lp)) \<and>
   RevisionCounter (snd (Update get cfg lp)) =
     RevisionCounter lp + (if IsValid cfg (globalValidityFlag lp) \<and>
       \<not> list_ex (\<lambda>l. outdated l \<and> p_Source l = SourceLocal) (layers lp) then 0 else 1)"
proof -
  have "snd (snd (update_layers get i ls loc)) = list_ex (\<lambda>l. outdated l \<and> p_Source l = SourceLocal) ls" for i ls loc
    by (induction ls arbitrary: i loc)
       (auto simp: Let_def case_prod_unfold split: sum.splits)
  from this [of 0 "layers lp" "localProfile lp"] show ?thesis
    by (auto simp: Update_def increaseRevisionCounter_def Let_def split: prod.splits)
qed

lemma update_layers_local:
  "list_all (refetchable get) ls \<Longrightarrow> loc \<noteq> None \<Longrightarrow> fst (snd (update_layers get i ls loc)) \<noteq> None"
  by (induction ls arbitrary: i loc) (auto simp: Let_def case_prod_unfold refetchable_def split: sum.splits)

lemma Update_keeps_local:
  "list_all (refetchable get) (layers lp) \<Longrightarrow> localProfile lp \<noteq> None \<Longrightarrow>
   localProfile (snd (Update get cfg lp)) \<noteq> None"
  using update_layers_local [of get "layers lp" "localProfile lp" 0]
  by (auto simp: Update_def increaseRevisionCounter_def Let_def split: prod.splits)

text \<open>
  A failed fetch of the main profile leaves a layered profile without local profile,
  although the layer itself keeps the old one.
\<close>

theorem failed_update_drops_local_profile:
  assumes "layers lp = p # ls" "outdated p" "p_Source p = SourceLocal" "get (p_ID p) = Inl err"
  shows "localProfile (snd (Update get cfg lp)) = None \<and> hd (layers (snd (Update get cfg lp))) = p"
  using assms update_layers_first [of "Suc 0" get ls None]
  by (auto simp: Update_def increaseRevisionCounter_def Let_def split: prod.splits)

section \<open>Default action and filter lists\<close>

text \<open>
  The default action is that of the first layer that sets one, or the global one.
\<close>

theorem DefaultAction_first_set:
  "DefaultAction cfg lp =
    (case find (\<lambda>l. defaultAction l > 0) (layers lp) of
       Some l \<Rightarrow> defaultAction l | None \<Rightarrow> cfgDefaultAction cfg)"
proof -
  have "first_action ls d = (case find (\<lambda>l. defaultAction l > 0) ls of
       Some l \<Rightarrow> defaultAction l | None \<Rightarrow> d)" for ls d
    by (induction ls) auto
  then show ?thesis by (simp add: DefaultAction_def)
qed

definition active_lists :: "global_config \<Rightarrow> layered \<Rightarrow> string list" where
  "active_lists cfg lp = (case find filterListsSet (layers lp) of
     Some l \<Rightarrow> filterListIDs l | None \<Rightarrow> cfgFilterLists cfg)"

lemma lists_layers_active:
  "lists_layers ls global e =
     deny_lists (case find filterListsSet ls of Some l \<Rightarrow> filterListIDs l | None \<Rightarrow> global) e"
  by (induction ls) (auto simp: deny_lists_def MatchLists_def)

lemma option_frame:
  "layers (snd (FilterSubDomains cfg lp)) = layers lp" "layers (snd (FilterCNAMEs cfg lp)) = layers lp"
  by (simp_all add: FilterSubDomains_def FilterCNAMEs_def bools.read_frame)

lemma MatchFilterLists_eq:
  "fst (MatchFilterLists cfg lp e) = deny_lists (active_lists cfg lp)
     (EnableCNAMECheck (fst (FilterCNAMEs cfg (snd (FilterSubDomains cfg lp))))
       (ResolveSubDomainLists (fst (FilterSubDomains cfg lp)) e))"
  by (simp add: MatchFilterLists_def Let_def case_prod_unfold active_lists_def lists_layers_active option_frame)

text \<open>
  Filter lists either deny or do not match, and they deny just if the entity occurs in
  a list of the first layer that configures lists, or of the global lists if none does.
\<close>

theorem MatchFilterLists_denies_iff:
  "fst (fst (MatchFilterLists cfg lp e)) \<in> {NoMatch, Denied} \<and>
   (fst (fst (MatchFilterLists cfg lp e)) = Denied \<longleftrightarrow>
     (\<exists>(k, kl) \<in> set (ListOccurences e). set kl \<inter> set (active_lists cfg lp) \<noteq> {}))"
proof -
  have "fst (MatchLists ls e') \<longleftrightarrow> (\<exists>(k, kl) \<in> set (ListOccurences e'). set kl \<inter> set ls \<noteq> {})" for ls e'
    by (auto simp: MatchLists_def set_list_hits Let_def set_empty [symmetric] simp del: set_empty)
  then show ?thesis
    by (simp add: MatchFilterLists_eq deny_lists_def EnableCNAMECheck_def ResolveSubDomainLists_def
        case_prod_unfold)
qed

section \<open>Witnesses\<close>

definition sample_profile :: profile where
  "sample_profile = \<lparr>p_ID = ''app'', p_Source = SourceLocal,
     configPerspective = [''filter/blockInbound'' \<mapsto> \<lparr>OptType = OptTypeBool, opt_ReleaseLevel = 0,
       valueCache = \<lparr>stringVal = [], stringArrayVal = [], intVal = 0, boolVal = True\<rparr>\<rparr>],
     dataParsed = True, defaultAction = 0, p_endpoints = [], serviceEndpoints = [],
     filterListsSet = False, filterListIDs = [], spnUsagePolicy = [], spnTransitHubPolicy = [],
     spnExitHubPolicy = [], outdated = False, lastActive = 0\<rparr>"

definition sample_config :: global_config where
  "sample_config = \<lparr>releaseLevel = 0, validityFlag = 1, globalBool = (\<lambda>_. False), globalInt = (\<lambda>_. 0),
     globalString = (\<lambda>_. []), globalStrings = (\<lambda>_. []), cfgDefaultAction = DefaultActionPermit,
     cfgEndpoints = [], cfgServiceEndpoints = [], cfgSPNUsagePolicy = [], cfgSPNTransitHubPolicy = [],
     cfgSPNExitHubPolicy = [], cfgFilterLists = []\<rparr>"

definition sample_layered :: layered where
  "sample_layered = snd (Update (\<lambda>_. Inr sample_profile) sample_config (NewLayeredProfile sample_profile))"

theorem cached_options_current_witness:
  "fst (BlockInbound sample_config sample_layered) \<and> \<not> fst (BlockP2P sample_config sample_layered)"
proof -
  have "lp_step (sample_config, NewLayeredProfile sample_profile) (sample_config, sample_layered)"
    unfolding sample_layered_def by (rule lp_step.update) (simp add: NewLayeredProfile_def)
  then have "lp_step\<^sup>*\<^sup>* (sample_config, NewLayeredProfile sample_profile) (sample_config, sample_layered)"
    by (rule r_into_rtranclp)
  moreover have "\<not> NeedsUpdate sample_config sample_layered" by code_simp
  ultimately have "fst (wrapBoolOption key sample_config sample_layered) =
      fresh (\<lambda>p. GetAsBool (releaseLevel sample_config) p key) (globalBool sample_config key) sample_layered" for key
    by (rule cached_options_current [THEN conjunct1])
  moreover have "fresh (\<lambda>p. GetAsBool (releaseLevel sample_config) p ''filter/blockInbound'')
      (globalBool sample_config ''filter/blockInbound'') sample_layered"
    "\<not> fresh (\<lambda>p. GetAsBool (releaseLevel sample_config) p ''filter/blockP2P'')
      (globalBool sample_config ''filter/blockP2P'') sample_layered"
    by code_simp+
  ultimately show ?thesis by (simp add: BlockInbound_def BlockP2P_def)
qed

theorem Update_makes_current_witness:
  "\<not> NeedsUpdate sample_config (snd (Update (\<lambda>_. Inr sample_profile) sample_config
     (sample_layered\<lparr>layers := [sample_profile\<lparr>outdated := True\<rparr>]\<rparr>)))"
  by (rule Update_makes_current) (simp add: refetchable_def sample_profile_def)

theorem failed_update_drops_local_profile_witness:
  "localProfile (snd (Update (\<lambda>_. Inl ''db error'') sample_config
     (sample_layered\<lparr>layers := [sample_profile\<lparr>outdated := True\<rparr>]\<rparr>))) = None"
  using failed_update_drops_local_profile
    [of "sample_layered\<lparr>layers := [sample_profile\<lparr>outdated := True\<rparr>]\<rparr>"
        "sample_profile\<lparr>outdated := True\<rparr>" "[]" "\<lambda>_. Inl ''db error''" "''db error''" sample_config]
  by (simp add: sample_profile_def)

end
