(* ===== verification/Custom_Lists.thy ===== *)
theory Custom_Lists
  imports Intel_Entity
begin

text \<open>
  \<^verbatim>\<open>service/intel/customlists\<close>: the filter list that the user keeps in a file.

  The four maps of the package are sets here.  The file system is a parameter: opening a file
  gives an error or the lines the scanner delivers together with the error it stopped with, and
  a file has a modification time.  Left out: notifications and log output.
\<close>

record custom_lists =
  countryCodesFilterList :: "string set"
  ipAddressesFilterList :: "string set"
  autonomousSystemsFilterList :: "nat set"
  domainsFilterList :: "string set"

definition initFilterLists :: custom_lists where
  "initFilterLists = \<lparr>countryCodesFilterList = {}, ipAddressesFilterList = {},
     autonomousSystemsFilterList = {}, domainsFilterList = {}\<rparr>"

definition IsLoaded :: "custom_lists \<Rightarrow> bool" where
  "IsLoaded cl \<longleftrightarrow> domainsFilterList cl \<noteq> {} \<or> ipAddressesFilterList cl \<noteq> {} \<or>
     countryCodesFilterList cl \<noteq> {} \<or> autonomousSystemsFilterList cl \<noteq> {}"

definition isCountryCode :: "string \<Rightarrow> bool" where
  "isCountryCode s \<longleftrightarrow> length s = 2 \<and> list_all is_upper s"

definition isAutonomousSystem :: "string \<Rightarrow> bool" where
  "isAutonomousSystem s \<longleftrightarrow> HasPrefix s ''AS'' \<and> length s > 2 \<and> list_all is_digit (drop 2 s)"

definition parseLine :: "dns_lib \<Rightarrow> string \<Rightarrow> custom_lists \<Rightarrow> bool \<times> custom_lists" where
  "parseLine lib line cl =
     (case Fields line of
        [] \<Rightarrow> (True, cl)
      | field # _ \<Rightarrow>
          if HasPrefix field ''#'' then (True, cl)
          else if isCountryCode field
          then (True, cl\<lparr>countryCodesFilterList := insert field (countryCodesFilterList cl)\<rparr>)
          else if isAutonomousSystem field
          then (case ParseUint (drop 2 field) 32 of
                  None \<Rightarrow> (False, cl)
                | Some n \<Rightarrow> (True, cl\<lparr>autonomousSystemsFilterList :=
                             insert n (autonomousSystemsFilterList cl)\<rparr>))
          else case ParseIP field of
            Some ip \<Rightarrow>
              if IP_Equal ip IPv4zero \<or> IP_Equal ip IPv6zero then (False, cl)
              else (True, cl\<lparr>ipAddressesFilterList := insert (IP_String ip) (ipAddressesFilterList cl)\<rparr>)
          | None \<Rightarrow>
              let domain = dns_Fqdn lib field
              in if IsValidFqdn lib domain
                 then (True, cl\<lparr>domainsFilterList := insert domain (domainsFilterList cl)\<rparr>)
                 else (False, cl))"

text \<open>The scan loop: the lists and the numbers of lines and of invalid lines.\<close>

fun scan_lines :: "dns_lib \<Rightarrow> string list \<Rightarrow> custom_lists \<Rightarrow> nat \<Rightarrow> nat \<Rightarrow> custom_lists \<times> nat \<times> nat" where
  "scan_lines lib [] cl all invalid = (cl, all, invalid)"
| "scan_lines lib (l # ls) cl all invalid =
     (case parseLine lib l cl of (valid, cl) \<Rightarrow>
        scan_lines lib ls cl (Suc all) (if valid then invalid else Suc invalid))"

record file_env =
  file_lines :: "string \<Rightarrow> string + (string list \<times> string option)"
  file_mtime :: "string \<Rightarrow> int option"
  now :: int

text \<open>\<^verbatim>\<open>parseFile\<close>: the error, if any, and the lists.\<close>

definition parseFile :: "file_env \<Rightarrow> dns_lib \<Rightarrow> string \<Rightarrow> custom_lists \<Rightarrow> string option \<times> custom_lists" where
  "parseFile fs lib filePath cl =
     (let cl = initFilterLists
      in if filePath = [] then (None, cl)
         else case file_lines fs filePath of
           Inl err \<Rightarrow> (Some err, cl)
         | Inr (ls, scanErr) \<Rightarrow> (scanErr, fst (scan_lines lib ls cl 0 0)))"

record custom_state =
  cs_lists :: custom_lists
  filterListFilePath :: string
  filterListFileModifiedTime :: "int option"

datatype update_error = ErrNotConfigured | ParseError string

definition checkAndUpdateFilterList ::
    "file_env \<Rightarrow> dns_lib \<Rightarrow> string \<Rightarrow> custom_state \<Rightarrow> update_error option \<times> custom_state" where
  "checkAndUpdateFilterList fs lib filePath s =
     (if filePath = [] then (Some ErrNotConfigured, s)
      else let modifiedTime = (case file_mtime fs filePath of Some t \<Rightarrow> t | None \<Rightarrow> now fs)
           in if filterListFilePath s \<noteq> filePath \<or> filterListFileModifiedTime s \<noteq> Some modifiedTime
              then (case parseFile fs lib filePath (cs_lists s) of
                      (Some err, cl) \<Rightarrow> (Some (ParseError err), s\<lparr>cs_lists := cl\<rparr>)
                    | (None, cl) \<Rightarrow> (None, s\<lparr>cs_lists := cl, filterListFileModifiedTime := Some modifiedTime,
                                          filterListFilePath := filePath\<rparr>))
              else (None, s))"

definition custom_LookupIP :: "custom_lists \<Rightarrow> ip \<Rightarrow> bool" where
  "custom_LookupIP cl ip \<longleftrightarrow> IP_String ip \<in> ipAddressesFilterList cl"

definition custom_LookupASN :: "custom_lists \<Rightarrow> nat \<Rightarrow> bool" where
  "custom_LookupASN cl n \<longleftrightarrow> n \<in> autonomousSystemsFilterList cl"

definition custom_LookupCountry :: "custom_lists \<Rightarrow> string \<Rightarrow> bool" where
  "custom_LookupCountry cl c \<longleftrightarrow> c \<in> countryCodesFilterList cl"

definition custom_splitDomain :: "intel_env \<Rightarrow> string \<Rightarrow> string list" where
  "custom_splitDomain env domain =
     (let domain = Trim domain CHR ''.''; suffix = fst (public_suffix env domain)
      in if suffix = domain then [domain]
         else let domainWithoutSuffix = Trim (take (length domain - length suffix) domain) CHR ''.'';
                  splitted = FieldsFunc (\<lambda>c. c = CHR ''.'') [] domainWithoutSuffix
              in map (\<lambda>idx. let d = Join (drop idx splitted) ''.'' @ ''.'' @ suffix
                            in if last d \<noteq> CHR ''.'' then d @ ''.'' else d)
                   [0..<length splitted])"

definition custom_LookupDomain :: "intel_env \<Rightarrow> custom_lists \<Rightarrow> string \<Rightarrow> bool \<Rightarrow> bool \<times> string" where
  "custom_LookupDomain env cl fullDomain filterSubdomains =
     (if filterSubdomains
      then case find (\<lambda>d. d \<in> domainsFilterList cl) (custom_splitDomain env fullDomain) of
             Some d \<Rightarrow> (True, d)
           | None \<Rightarrow> (False, [])
      else (fullDomain \<in> domainsFilterList cl, fullDomain))"

section \<open>What a line means\<close>

datatype entry = ECountry string | EASN nat | EIP string | EDomain string

text \<open>
  The entry that a line stands for: its first word, read as a country code, an AS number, an IP
  address other than the unspecified one, or a domain name.
\<close>

definition entry_of :: "dns_lib \<Rightarrow> string \<Rightarrow> entry option" where
  "entry_of lib line =
     (let f = hd (Fields line)
      in if Fields line = [] \<or> hd f = CHR ''#'' then None
         else if isCountryCode f then Some (ECountry f)
         else if isAutonomousSystem f then map_option EASN (ParseUint (drop 2 f) 32)
         else if ParseIP f \<noteq> None
         then (if IP_Equal (the (ParseIP f)) IPv4zero \<or> IP_Equal (the (ParseIP f)) IPv6zero then None
               else Some (EIP (IP_String (the (ParseIP f)))))
         else if IsValidFqdn lib (dns_Fqdn lib f) then Some (EDomain (dns_Fqdn lib f))
         else None)"

fun add_entry :: "entry option \<Rightarrow> custom_lists \<Rightarrow> custom_lists" where
  "add_entry None cl = cl"
| "add_entry (Some (ECountry c)) cl = cl\<lparr>countryCodesFilterList := insert c (countryCodesFilterList cl)\<rparr>"
| "add_entry (Some (EASN n)) cl = cl\<lparr>autonomousSystemsFilterList := insert n (autonomousSystemsFilterList cl)\<rparr>"
| "add_entry (Some (EIP s)) cl = cl\<lparr>ipAddressesFilterList := insert s (ipAddressesFilterList cl)\<rparr>"
| "add_entry (Some (EDomain d)) cl = cl\<lparr>domainsFilterList := insert d (domainsFilterList cl)\<rparr>"

lemma HasPrefix_hash: "f \<noteq> [] \<Longrightarrow> HasPrefix f ''#'' \<longleftrightarrow> hd f = CHR ''#''"
  by (cases f) (auto simp: HasPrefix_def)

lemma parseLine_entry: "snd (parseLine lib line cl) = add_entry (entry_of lib line) cl"
proof (cases "Fields line")
  case (Cons f fs)
  then have "f \<in> set (Fields line)" by simp
  then have "f \<noteq> []" by (simp add: Fields_def FieldsFunc_nonempty)
  with Cons show ?thesis
    by (auto simp: parseLine_def entry_of_def HasPrefix_hash Let_def split: option.splits)
qed (simp add: parseLine_def entry_of_def)

definition has_entry :: "custom_lists \<Rightarrow> entry \<Rightarrow> bool" where
  "has_entry cl x = (case x of
     ECountry c \<Rightarrow> c \<in> countryCodesFilterList cl | EASN n \<Rightarrow> n \<in> autonomousSystemsFilterList cl
   | EIP s \<Rightarrow> s \<in> ipAddressesFilterList cl | EDomain d \<Rightarrow> d \<in> domainsFilterList cl)"

lemma has_add_entry: "has_entry (add_entry x cl) y \<longleftrightarrow> has_entry cl y \<or> x = Some y"
  by (cases "(x, cl)" rule: add_entry.cases; cases y) (auto simp: has_entry_def)

lemma has_scan:
  "has_entry (fst (scan_lines lib ls cl a i)) y \<longleftrightarrow>
     has_entry cl y \<or> (\<exists>l \<in> set ls. entry_of lib l = Some y)"
proof (induction ls arbitrary: cl a i)
  case (Cons l ls)
  have "snd (parseLine lib l cl) = add_entry (entry_of lib l) cl" by (rule parseLine_entry)
  with Cons show ?case by (auto simp: case_prod_unfold has_add_entry)
qed simp

lemma has_init [simp]: "\<not> has_entry initFilterLists y"
  by (cases y) (simp_all add: has_entry_def initFilterLists_def)

lemma has_parseFile:
  assumes "filePath \<noteq> []" and "file_lines fs filePath = Inr (ls, err)"
  shows "has_entry (snd (parseFile fs lib filePath cl)) y \<longleftrightarrow> (\<exists>l \<in> set ls. entry_of lib l = Some y)"
  using assms by (simp add: parseFile_def has_scan)

text \<open>
  C38: The custom list holds what its file says.  After a file has been read without error, a
  country, an AS number, an IP address or (compared exactly) a domain is found just if some
  line of the file stands for it; nothing of a list read before is left.
\<close>

theorem custom_list_exact:
  assumes "filePath \<noteq> []" and "file_lines fs filePath = Inr (ls, None)"
    and "parseFile fs lib filePath old = (err, cl)"
  shows "err = None \<and>
    (custom_LookupCountry cl c \<longleftrightarrow> (\<exists>l \<in> set ls. entry_of lib l = Some (ECountry c))) \<and>
    (custom_LookupASN cl n \<longleftrightarrow> (\<exists>l \<in> set ls. entry_of lib l = Some (EASN n))) \<and>
    (custom_LookupIP cl ip \<longleftrightarrow> (\<exists>l \<in> set ls. entry_of lib l = Some (EIP (IP_String ip)))) \<and>
    (fst (custom_LookupDomain env cl d False) \<longleftrightarrow> (\<exists>l \<in> set ls. entry_of lib l = Some (EDomain d)))"
proof -
  have "has_entry cl y \<longleftrightarrow> (\<exists>l \<in> set ls. entry_of lib l = Some y)" for y
    using has_parseFile [OF assms(1,2), of lib old y] assms(3) by simp
  from this [of "ECountry c"] this [of "EASN n"] this [of "EIP (IP_String ip)"] this [of "EDomain d"]
  show ?thesis
    using assms by (simp add: parseFile_def has_entry_def custom_LookupCountry_def custom_LookupASN_def
        custom_LookupIP_def custom_LookupDomain_def)
qed

definition sample_files :: file_env where
  "sample_files = \<lparr>file_lines = (\<lambda>_. Inr ([''# mine'', ''AT'', ''AS64500 test net'', ''bad.com''], None)),
     file_mtime = (\<lambda>_. Some 1), now = 2\<rparr>"

definition sample_dns :: dns_lib where
  "sample_dns = \<lparr>dns_IsFqdn = (\<lambda>s. HasSuffix s ''.''), dns_IsDomainName = (\<lambda>s. True),
     dns_Fqdn = (\<lambda>s. if HasSuffix s ''.'' then s else s @ ''.'')\<rparr>"

definition sample_custom :: custom_lists where
  "sample_custom = snd (parseFile sample_files sample_dns ''list.txt'' initFilterLists)"

theorem custom_list_exact_witness:
  "custom_LookupCountry sample_custom ''AT'' \<and> custom_LookupASN sample_custom 64500 \<and>
   fst (custom_LookupDomain empty_env sample_custom ''bad.com.'' False)"
proof -
  have *: "''list.txt'' \<noteq> []" "file_lines sample_files ''list.txt'' =
      Inr ([''# mine'', ''AT'', ''AS64500 test net'', ''bad.com''], None)"
    "parseFile sample_files sample_dns ''list.txt'' initFilterLists =
      (fst (parseFile sample_files sample_dns ''list.txt'' initFilterLists), sample_custom)"
    by (simp_all add: sample_files_def sample_custom_def)
  have "entry_of sample_dns ''AT'' = Some (ECountry ''AT'')"
    "entry_of sample_dns ''AS64500 test net'' = Some (EASN 64500)"
    "entry_of sample_dns ''bad.com'' = Some (EDomain ''bad.com.'')"
    by code_simp+
  then show ?thesis
    using custom_list_exact [OF *, of "''AT''" 64500 "[]" empty_env "''bad.com.''"]
    by simp
qed

section \<open>Domains and the domains above them\<close>

lemma FieldsFunc_Join:
  "(\<And>l. l \<in> set ls \<Longrightarrow> l \<noteq> [] \<and> CHR ''.'' \<notin> set l) \<Longrightarrow>
   FieldsFunc (\<lambda>c. c = CHR ''.'') [] (Join ls ''.'') = ls"
proof (induction ls "''.''" rule: Join.induct)
  case (2 p)
  then show ?case using FieldsFunc_run [of p "\<lambda>c. c = CHR ''.''" "[]" "[]"] by fastforce
next
  case (3 p q ps)
  then have "\<forall>c \<in> set p. c \<noteq> CHR ''.''" "p \<noteq> []" by auto
  with 3 show ?case
    using FieldsFunc_run [of p "\<lambda>c. c = CHR ''.''" "[]" "''.'' @ Join (q # ps) ''.''"] by simp
qed simp

lemma dropWhile_id: "xs \<noteq> [] \<Longrightarrow> hd xs \<noteq> c \<Longrightarrow> dropWhile (\<lambda>x. x = c) xs = xs"
  by (cases xs) auto

lemma Trim_id: "s \<noteq> [] \<Longrightarrow> hd s \<noteq> c \<Longrightarrow> last s \<noteq> c \<Longrightarrow> Trim s c = s"
  by (simp add: Trim_def TrimRight_def dropWhile_id hd_rev)

lemma Trim_snoc: "s \<noteq> [] \<Longrightarrow> hd s \<noteq> c \<Longrightarrow> Trim (s @ [c]) c = Trim s c"
  by (cases s) (auto simp: Trim_def TrimRight_def)

lemma Join_ends:
  assumes "ls \<noteq> []" and "\<And>l. l \<in> set ls \<Longrightarrow> l \<noteq> [] \<and> CHR ''.'' \<notin> set l"
  shows "Join ls ''.'' \<noteq> [] \<and> hd (Join ls ''.'') \<noteq> CHR ''.'' \<and> last (Join ls ''.'') \<noteq> CHR ''.''"
  using assms
proof (induction ls "''.''" rule: Join.induct)
  case (2 p)
  then have "p \<noteq> []" "CHR ''.'' \<notin> set p" by auto
  then show ?case using hd_in_set [of p] last_in_set [of p] by (auto simp del: hd_in_set last_in_set)
next
  case (3 p q ps)
  then have "p \<noteq> []" "CHR ''.'' \<notin> set p" by auto
  moreover from this have "hd p \<noteq> CHR ''.''" by (metis hd_in_set)
  ultimately show ?case using 3 by (auto simp: hd_append)
qed simp

lemma custom_splitDomain_parents:
  assumes "ls \<noteq> []" and "\<And>l. l \<in> set ls \<Longrightarrow> l \<noteq> [] \<and> CHR ''.'' \<notin> set l"
    and "suf \<noteq> []" "last suf \<noteq> CHR ''.''"
    and "fst (public_suffix env (Join ls ''.'' @ ''.'' @ suf)) = suf"
  shows "custom_splitDomain env (Join ls ''.'' @ ''.'' @ suf @ ''.'') =
    map (\<lambda>i. Join (drop i ls) ''.'' @ ''.'' @ suf @ ''.'') [0..<length ls]"
proof -
  let ?j = "Join ls ''.''" and ?d = "Join ls ''.'' @ ''.'' @ suf"
  note j = Join_ends [OF assms(1,2)]
  have "Trim (?d @ ''.'') CHR ''.'' = ?d"
    using j assms(3,4) by (simp add: Trim_snoc Trim_id hd_append del: append_assoc)
  moreover have "Trim (take (length ?d - length suf) ?d) CHR ''.'' = ?j"
    using j by (simp add: Trim_snoc Trim_id)
  moreover have "suf \<noteq> ?d" using arg_cong [of suf ?d length] by auto
  moreover have "last (x @ ''.'' @ suf) = last suf" for x using assms(3) by simp
  ultimately show ?thesis
    using assms(4,5) FieldsFunc_Join [OF assms(2)]
    by (simp add: custom_splitDomain_def Let_def del: append_Cons)
qed

text \<open>
  Filtering subdomains covers all domains below a listed one.  For a name with labels
  \<open>ls\<close> in front of its public suffix, the lookup with subdomains finds an entry just if the name
  itself or a domain above it, down to the one directly below the public suffix, is listed.
\<close>

theorem custom_subdomain_lookup:
  assumes "ls \<noteq> []" and "\<And>l. l \<in> set ls \<Longrightarrow> l \<noteq> [] \<and> CHR ''.'' \<notin> set l"
    and "suf \<noteq> []" "last suf \<noteq> CHR ''.''"
    and "fst (public_suffix env (Join ls ''.'' @ ''.'' @ suf)) = suf"
  shows "fst (custom_LookupDomain env cl (Join ls ''.'' @ ''.'' @ suf @ ''.'') True) \<longleftrightarrow>
    (\<exists>i < length ls. Join (drop i ls) ''.'' @ ''.'' @ suf @ ''.'' \<in> domainsFilterList cl)"
  using custom_splitDomain_parents [OF assms]
  by (auto simp: custom_LookupDomain_def find_None_iff find_Some_iff split: option.splits)

theorem custom_subdomain_lookup_witness:
  "fst (custom_LookupDomain (empty_env\<lparr>public_suffix := \<lambda>_. (''com'', True)\<rparr>) sample_custom ''www.bad.com.'' True)"
proof -
  let ?env = "empty_env\<lparr>public_suffix := \<lambda>_. (''com'', True)\<rparr>"
  have "fst (custom_LookupDomain ?env sample_custom (Join [''www'', ''bad''] ''.'' @ ''.'' @ ''com'' @ ''.'') True) \<longleftrightarrow>
    (\<exists>i < length [''www'', ''bad'']. Join (drop i [''www'', ''bad'']) ''.'' @ ''.'' @ ''com'' @ ''.''
      \<in> domainsFilterList sample_custom)"
    by (rule custom_subdomain_lookup) auto
  moreover have "Join (drop 1 [''www'', ''bad'']) ''.'' @ ''.'' @ ''com'' @ ''.'' \<in> domainsFilterList sample_custom"
    by code_simp
  ultimately show ?thesis by fastforce
qed

text \<open>
  Filtering subdomains loses listed public suffixes.  A listed name that is itself a public
  suffix is found by the exact lookup but not by the lookup that is to include subdomains,
  which drops the final dot of the name.
\<close>

theorem custom_public_suffix_missed:
  assumes "list_all (\<lambda>x. HasSuffix x ''.'') listed" and "domainsFilterList cl = set listed" and "d \<in> set listed"
    and "fst (public_suffix env (Trim d CHR ''.'')) = Trim d CHR ''.''"
  shows "fst (custom_LookupDomain env cl d False) \<and> \<not> fst (custom_LookupDomain env cl d True)"
proof -
  have "\<not> HasSuffix (Trim d CHR ''.'') ''.''"
  proof
    assume "HasSuffix (Trim d CHR ''.'') ''.''"
    then have "Trim d CHR ''.'' \<noteq> [] \<and> last (Trim d CHR ''.'') = CHR ''.''"
      by (cases "Trim d CHR ''.''" rule: rev_cases) (auto simp: HasSuffix_def)
    then show False
      using hd_dropWhile [of "\<lambda>x. x = CHR ''.''" "rev (dropWhile (\<lambda>x. x = CHR ''.'') d)"]
      by (simp add: Trim_def TrimRight_def last_rev)
  qed
  then have "Trim d CHR ''.'' \<notin> set listed" using assms(1) by (auto simp: list_all_iff)
  then show ?thesis using assms by (simp add: custom_LookupDomain_def custom_splitDomain_def Let_def)
qed

theorem custom_public_suffix_missed_witness:
  "fst (custom_LookupDomain empty_env (initFilterLists\<lparr>domainsFilterList := set [''github.io.'']\<rparr>) ''github.io.'' False) \<and>
   \<not> fst (custom_LookupDomain empty_env (initFilterLists\<lparr>domainsFilterList := set [''github.io.'']\<rparr>) ''github.io.'' True)"
  by (rule custom_public_suffix_missed [where listed = "[''github.io.'']"])
     (simp_all add: HasSuffix_def empty_env_def)

end
