(* ===== verification/Dga.thy ===== *)
theory Dga
  imports Go_Base Complex_Main
begin

text \<open>
  \<^verbatim>\<open>service/detection/dga/lms.go\<close>: the longest meaningful substring score of domain names.

  Scores are exact rational numbers here, while the code computes with \<^verbatim>\<open>float64\<close>; \<open>None\<close> is the
  value NaN that the code gets for the empty string.  A loop over the runes of a string visits
  the bytes of a multi-byte rune at once; none of these bytes is an ASCII letter, so the model
  visits bytes.
\<close>

type_synonym score = "rat option"

text \<open>The loop of \<^verbatim>\<open>LmsScore\<close> over the rest of the subject from index \<open>i\<close>.\<close>

fun lms_loop :: "string \<Rightarrow> int \<Rightarrow> int \<Rightarrow> int \<Rightarrow> int \<Rightarrow> int \<times> int" where
  "lms_loop [] i lmsStart lmsStop longestLms = (lmsStop, longestLms)"
| "lms_loop (c # s) i lmsStart lmsStop longestLms =
     (if is_lower c
      then lms_loop s (i + 1) (if lmsStart = -1 then i else lmsStart) lmsStop longestLms
      else if lmsStart > -1
      then lms_loop s (i + 1) (-1) i (if i - lmsStart > longestLms then i - lmsStart else longestLms)
      else lms_loop s (i + 1) lmsStart lmsStop longestLms)"

definition LmsScore :: "string \<Rightarrow> score" where
  "LmsScore subject =
     (case lms_loop subject 0 (-1) (-1) 0 of (lmsStop, longestLms) \<Rightarrow>
        let longestLms = (if lmsStop = -1 then int (length subject) else longestLms)
        in if subject = [] then None
           else Some (of_int longestLms * 100 / of_nat (length subject)))"

text \<open>A comparison with NaN is false.\<close>

fun score_less :: "score \<Rightarrow> rat \<Rightarrow> bool" where
  "score_less None q = False"
| "score_less (Some s) q = (s < q)"

definition LmsScoreOfDomain :: "string \<Rightarrow> rat" where
  "LmsScoreOfDomain domain =
     (let subjects = Split (ToLower domain) CHR ''.'';
          totalLength = sum_list (map length subjects)
      in sum_list (map (\<lambda>subject.
           case LmsScore subject of
             None \<Rightarrow> 0
           | Some s \<Rightarrow> s * (of_nat (length subject) / of_nat totalLength)) subjects))"

section \<open>What the score measures\<close>

text \<open>The lengths of the runs of letters that a non-letter ends, \<open>r\<close> letters being already seen.\<close>

fun closed_runs :: "nat \<Rightarrow> string \<Rightarrow> nat list" where
  "closed_runs r [] = []"
| "closed_runs r (c # s) =
     (if is_lower c then closed_runs (Suc r) s
      else if r > 0 then r # closed_runs 0 s else closed_runs 0 s)"

lemma lms_loop_runs:
  assumes "0 \<le> i" "0 \<le> longest"
    and "start = -1 \<and> r = 0 \<or> 0 \<le> start \<and> start < i \<and> int r = i - start"
    and "lms_loop s i start stop longest = (stop', longest')"
  shows "(stop' = -1 \<longleftrightarrow> stop = -1 \<and> closed_runs r s = []) \<and>
    longest' = fold max (map int (closed_runs r s)) longest"
  using assms
proof (induction s arbitrary: i start stop longest r)
  case (Cons c s)
  show ?case
  proof (cases "is_lower c")
    case True
    let ?start = "if start = -1 then i else start"
    have "?start = -1 \<and> Suc r = 0 \<or> 0 \<le> ?start \<and> ?start < i + 1 \<and> int (Suc r) = (i + 1) - ?start"
      using Cons.prems by auto
    from Cons.IH [OF _ _ this] True Cons.prems show ?thesis by simp
  next
    case False
    show ?thesis
    proof (cases "start = -1")
      case True
      with False Cons.prems Cons.IH [of "i + 1" longest "-1" 0 stop] show ?thesis by simp
    next
      case n: False
      with Cons.prems have r: "int r = i - start" "r > 0" "0 \<le> start" by auto
      let ?l = "if i - start > longest then i - start else longest"
      have "(stop' = -1 \<longleftrightarrow> i = -1 \<and> closed_runs 0 s = []) \<and>
          longest' = fold max (map int (closed_runs 0 s)) ?l"
        using Cons.IH [of "i + 1" ?l "-1" 0 i] Cons.prems False n r by auto
      moreover have "?l = max (int r) longest" using r by auto
      ultimately show ?thesis using False r Cons.prems by simp
    qed
  qed
qed simp

lemma fold_max_bounds:
  "(\<forall>x \<in> set xs. x \<le> (b :: int)) \<Longrightarrow> m \<le> b \<Longrightarrow> fold max xs m \<le> b" "m \<le> fold max xs (m :: int)"
proof -
  show "(\<forall>x \<in> set xs. x \<le> b) \<Longrightarrow> m \<le> b \<Longrightarrow> fold max xs m \<le> b"
    by (induction xs arbitrary: m) auto
  show "m \<le> fold max xs m"
  proof (induction xs arbitrary: m)
    case (Cons x xs)
    have "m \<le> max x m" by simp
    also have "\<dots> \<le> fold max xs (max x m)" by (rule Cons)
    finally show ?case by simp
  qed simp
qed

lemma closed_runs_le: "x \<in> set (closed_runs r s) \<Longrightarrow> x \<le> r + length s"
  by (induction r s rule: closed_runs.induct) (auto split: if_splits)

lemma LmsScore_eq:
  "LmsScore s = (if s = [] then None
     else Some ((if closed_runs 0 s = [] then of_nat (length s)
                 else of_int (fold max (map int (closed_runs 0 s)) 0)) * 100 / of_nat (length s)))"
proof -
  obtain stop longest where l: "lms_loop s 0 (-1) (-1) 0 = (stop, longest)"
    by (cases "lms_loop s 0 (-1) (-1) 0")
  from lms_loop_runs [OF _ _ _ this, of 0] have "stop = -1 \<longleftrightarrow> closed_runs 0 s = []"
    "longest = fold max (map int (closed_runs 0 s)) 0" by auto
  with l show ?thesis by (simp add: LmsScore_def)
qed

lemma LmsScore_range:
  assumes "s \<noteq> []" shows "\<exists>q. LmsScore s = Some q \<and> 0 \<le> q \<and> q \<le> 100"
proof -
  let ?m = "fold max (map int (closed_runs 0 s)) 0"
  have "?m \<le> int (length s)"
    by (intro fold_max_bounds(1)) (auto dest: closed_runs_le)
  then have "(of_int ?m :: rat) \<le> of_nat (length s)" "(0 :: rat) \<le> of_int ?m"
    using fold_max_bounds(2) [of 0] by (simp_all add: of_int_le_iff [symmetric] del: of_int_le_iff)
  then have "0 \<le> of_int ?m * 100 / (of_nat (length s) :: rat)" "of_int ?m * 100 / (of_nat (length s) :: rat) \<le> 100"
    using assms by (simp_all add: divide_le_eq)
  then show ?thesis using assms by (simp add: LmsScore_eq)
qed

definition weighted :: "nat \<Rightarrow> string \<Rightarrow> rat" where
  "weighted len subject = (case LmsScore subject of
     None \<Rightarrow> 0 | Some s \<Rightarrow> s * (of_nat (length subject) / of_nat len))"

lemma weighted_range: "0 \<le> weighted len x" "weighted len x \<le> 100 * (of_nat (length x) / of_nat len)"
proof -
  have "0 \<le> weighted len x \<and> weighted len x \<le> 100 * (of_nat (length x) / of_nat len)"
  proof (cases "x = []")
    case False
    from LmsScore_range [OF this] obtain q where "LmsScore x = Some q" "0 \<le> q" "q \<le> 100" by blast
    then show ?thesis by (simp add: weighted_def mult_right_mono del: times_divide_eq_right)
  qed (simp add: weighted_def LmsScore_eq)
  then show "0 \<le> weighted len x" "weighted len x \<le> 100 * (of_nat (length x) / of_nat len)" by simp_all
qed

lemma weighted_sum:
  "sum_list (map (\<lambda>x. 100 * (of_nat (length x) / (of_nat len :: rat))) xs) =
     100 * (of_nat (sum_list (map length xs)) / of_nat len)"
  by (induction xs) (simp_all add: field_simps add_divide_distrib)

text \<open>
  Scores are percentages.  Every non-empty label has a score between 0 and 100, and so has
  every domain.
\<close>

theorem lms_scores_bounded:
  "0 \<le> LmsScoreOfDomain d \<and> LmsScoreOfDomain d \<le> 100 \<and>
   (case LmsScore s of None \<Rightarrow> s = [] | Some q \<Rightarrow> 0 \<le> q \<and> q \<le> 100)"
proof -
  let ?xs = "Split (ToLower d) CHR ''.''"
  let ?t = "sum_list (map length ?xs)"
  have e: "LmsScoreOfDomain d = sum_list (map (weighted ?t) ?xs)"
    by (simp add: LmsScoreOfDomain_def weighted_def [abs_def] Let_def)
  have "LmsScoreOfDomain d \<le> sum_list (map (\<lambda>x. 100 * (of_nat (length x) / of_nat ?t)) ?xs)"
    unfolding e by (intro sum_list_mono weighted_range)
  also have "\<dots> \<le> 100" unfolding weighted_sum by (simp add: divide_le_eq)
  finally have "LmsScoreOfDomain d \<le> 100" .
  moreover have "0 \<le> LmsScoreOfDomain d"
    unfolding e by (intro sum_list_nonneg) (auto simp: weighted_range)
  ultimately show ?thesis using LmsScore_range [of s] by (cases "s = []") (auto simp: LmsScore_eq)
qed

text \<open>
  What the score is.  It is the share of the longest run of letters among the runs that a
  non-letter ends; a run at the end of the label does not count, and a label in which no run
  is ended, such as one of digits only, has the full score.
\<close>

theorem LmsScore_closed_runs:
  "LmsScore s = (if s = [] then None
     else if closed_runs 0 s = [] then Some 100
     else Some (of_int (fold max (map int (closed_runs 0 s)) 0) * 100 / of_nat (length s)))"
  by (simp add: LmsScore_eq)

end
