(* ===== verification/Netenv.thy ===== *)
theory Netenv
  imports Netutils
begin

text \<open>
  \<^verbatim>\<open>service/netenv/adresses.go\<close> (the networks of this host, cached between changes) and
  \<^verbatim>\<open>IsConnectivityDomain\<close> of \<^verbatim>\<open>service/netenv/online-status.go\<close>.

  The package state is the record \<open>net_state\<close>.  What the operating system reports, the clock in
  nanoseconds and the captive portal that was detected are the environment \<open>net_env\<close>; the flag
  \<open>network_changed\<close> is the broadcast flag that network monitoring raises.
\<close>

datatype if_addr = IPNetAddr ip_net | OtherAddr

record net_env =
  osGetInterfaceAddrs :: "string + if_addr list"
  clock :: int
  captivePortalDomain :: string

record net_state =
  myNetworks :: "ip_net list"
  network_changed :: bool
  myNetworksRefreshError :: "string option"
  myNetworksDontRefreshUntil :: int

definition GetAssignedAddresses :: "net_env \<Rightarrow> string + (ip list \<times> ip list)" where
  "GetAssignedAddresses ne =
     (case osGetInterfaceAddrs ne of
        Inl err \<Rightarrow> Inl err
      | Inr addrs \<Rightarrow>
          let ips = [net_IP n. IPNetAddr n \<leftarrow> addrs]
          in Inr ([the (To4 i). i \<leftarrow> ips, To4 i \<noteq> None], [i. i \<leftarrow> ips, To4 i = None]))"

definition GetAssignedGlobalAddresses :: "net_env \<Rightarrow> string + (ip list \<times> ip list)" where
  "GetAssignedGlobalAddresses ne =
     (case GetAssignedAddresses ne of
        Inl err \<Rightarrow> Inl err
      | Inr (allv4, allv6) \<Rightarrow>
          Inr (filter (\<lambda>i. IsGlobal (GetIPScope i)) allv4, filter (\<lambda>i. IsGlobal (GetIPScope i)) allv6))"

definition refreshMyNetworks :: "net_env \<Rightarrow> net_state \<Rightarrow> string option \<times> net_state" where
  "refreshMyNetworks ne s =
     (if clock ne < myNetworksDontRefreshUntil s
      then (map_option (\<lambda>err. ''failed to previously refresh interface addresses: '' @ err)
              (myNetworksRefreshError s), s)
      else let s = s\<lparr>myNetworksRefreshError := None,
                     myNetworksDontRefreshUntil := clock ne + 1000000000\<rparr>
           in case osGetInterfaceAddrs ne of
                Inl err \<Rightarrow> (Some (''failed to refresh interface addresses: '' @ err),
                           s\<lparr>myNetworksRefreshError := Some err\<rparr>)
              | Inr addrs \<Rightarrow>
                  (None, s\<lparr>myNetworks := [n. IPNetAddr n \<leftarrow> addrs], network_changed := False\<rparr>))"

definition IsMyIP :: "net_env \<Rightarrow> ip \<Rightarrow> net_state \<Rightarrow> (string + bool) \<times> net_state" where
  "IsMyIP ne ip s =
     (let assigned = (\<lambda>s. list_ex (\<lambda>n. IP_Equal ip (net_IP n)) (myNetworks s));
          check = (\<lambda>s.
            if assigned s then (Inr True, s)
            else if list_ex (\<lambda>n. IPNet_Contains n ip) (myNetworks s) then (Inr False, s)
            else case refreshMyNetworks ne s of
                   (Some err, s) \<Rightarrow> (Inl err, s)
                 | (None, s) \<Rightarrow> (Inr (assigned s), s))
      in case GetIPScope ip of
           HostLocal \<Rightarrow> (Inr True, s)
         | LocalMulticast \<Rightarrow> (Inr False, s)
         | GlobalMulticast \<Rightarrow> (Inr False, s)
         | _ \<Rightarrow>
             if network_changed s
             then (case refreshMyNetworks ne s of
                     (Some err, s) \<Rightarrow> (Inl err, s)
                   | (None, s) \<Rightarrow> check s)
             else check s)"

definition GetLocalNetwork :: "net_env \<Rightarrow> ip \<Rightarrow> net_state \<Rightarrow> (string + ip_net option) \<times> net_state" where
  "GetLocalNetwork ne ip s =
     (let check = (\<lambda>s. (Inr (find (\<lambda>n. IPNet_Contains n ip) (myNetworks s)), s))
      in if network_changed s
         then (case refreshMyNetworks ne s of
                 (Some err, s) \<Rightarrow> (Inl err, s)
               | (None, s) \<Rightarrow> check s)
         else check s)"

text \<open>
  \<^verbatim>\<open>ConnectivityDomains\<close> as the package initialises it; the first entry is the initial value of
  \<^verbatim>\<open>SpecialCaptivePortalDomain\<close>.
\<close>

definition ConnectivityDomains :: "string list" where
  "ConnectivityDomains =
     [''captiveportal.invalid.'', ''dns.msftncsi.com.'', ''msftncsi.com.'', ''www.msftncsi.com.'',
      ''microsoftconnecttest.com.'', ''www.microsoftconnecttest.com.'',
      ''ipv6.microsoftconnecttest.com.'', ''captive.apple.com.'', ''connectivity-check.ubuntu.com.'',
      ''nmcheck.gnome.org.'', ''network-test.debian.org.'', ''204.pop-os.org.'',
      ''conncheck.opensuse.org.'', ''ping.archlinux.org'', ''connectivitycheck.gstatic.com.'',
      ''neverssl.com.'', ''detectportal.firefox.com.'']"

definition IsConnectivityDomain :: "net_env \<Rightarrow> string \<Rightarrow> bool" where
  "IsConnectivityDomain ne domain =
     (if domain = [] then False
      else domain \<in> set ConnectivityDomains \<or>
           captivePortalDomain ne \<noteq> [] \<and> domain = captivePortalDomain ne)"

section \<open>Properties\<close>

lemma GetIPScope_Nil [simp]: "GetIPScope [] = Invalid"
  by (simp add: GetIPScope_def To4_def To16_def)

text \<open>
  The check for own addresses is right for the networks it ends up with.  An answer of
  \<^verbatim>\<open>IsMyIP\<close> without error is yes just for loopback addresses and for addresses assigned to one of
  the networks in the cache, and it is never yes for multicast.
\<close>

theorem IsMyIP_answer:
  assumes "IsMyIP ne ip s = (Inr yes, s')"
  shows "yes \<longleftrightarrow> GetIPScope ip = HostLocal \<or>
    GetIPScope ip \<notin> {LocalMulticast, GlobalMulticast} \<and>
      list_ex (\<lambda>n. IP_Equal ip (net_IP n)) (myNetworks s')"
  using assms
  by (auto simp: IsMyIP_def Let_def split: IPScope.splits if_splits prod.splits option.splits)

theorem IsMyIP_answer_witness:
  "fst (IsMyIP \<lparr>osGetInterfaceAddrs = Inr [IPNetAddr \<lparr>net_IP = [10,0,0,5], net_Mask = [255,255,255,0]\<rparr>],
        clock = 5, captivePortalDomain = []\<rparr> [10,0,0,5]
      \<lparr>myNetworks = [], network_changed = True, myNetworksRefreshError = None, myNetworksDontRefreshUntil = 0\<rparr>)
     = Inr True"
proof -
  let ?ne = "\<lparr>osGetInterfaceAddrs = Inr [IPNetAddr \<lparr>net_IP = [10,0,0,5], net_Mask = [255,255,255,0]\<rparr>],
        clock = 5, captivePortalDomain = []\<rparr>"
  let ?s = "\<lparr>myNetworks = [], network_changed = True, myNetworksRefreshError = None, myNetworksDontRefreshUntil = 0\<rparr>"
  let ?s' = "\<lparr>myNetworks = [\<lparr>net_IP = [10,0,0,5], net_Mask = [255,255,255,0]\<rparr>], network_changed = False,
      myNetworksRefreshError = None, myNetworksDontRefreshUntil = 1000000005\<rparr>"
  have run: "IsMyIP ?ne [10,0,0,5] ?s = (Inr True, ?s')" by code_simp
  from IsMyIP_answer [OF this] have "list_ex (\<lambda>n. IP_Equal [10,0,0,5] (net_IP n)) (myNetworks ?s')
      \<or> GetIPScope [10,0,0,5] = HostLocal" by blast
  with run show ?thesis by simp
qed

text \<open>
  Two connectivity domains are out of reach.  Domains of connections are fully qualified, but
  the Arch Linux entry of the list and the host name of a detected portal have no final dot, so
  no fully qualified domain is granted because of them.
\<close>

theorem connectivity_domains_need_final_dot:
  assumes "HasSuffix domain ''.''" and "\<not> HasSuffix (captivePortalDomain ne) ''.''"
  shows "IsConnectivityDomain ne domain \<longleftrightarrow>
    domain \<in> set (filter (\<lambda>d. d \<noteq> ''ping.archlinux.org'') ConnectivityDomains)"
proof -
  have "domain \<noteq> captivePortalDomain ne" "domain \<noteq> ''ping.archlinux.org''" "domain \<noteq> []"
    using assms by (auto simp: HasSuffix_def)
  then show ?thesis by (auto simp: IsConnectivityDomain_def)
qed

theorem connectivity_domains_need_final_dot_witness:
  "\<not> IsConnectivityDomain \<lparr>osGetInterfaceAddrs = Inr [], clock = 0, captivePortalDomain = ''login.hotel.com''\<rparr>
     ''login.hotel.com.''"
  using connectivity_domains_need_final_dot [of "''login.hotel.com.''"
      "\<lparr>osGetInterfaceAddrs = Inr [], clock = 0, captivePortalDomain = ''login.hotel.com''\<rparr>"]
  by (simp add: HasSuffix_def ConnectivityDomains_def)

end
