(* ===== verification/Connection.thy ===== *)
theory Connection
  imports Layered_Rules Netenv
begin

text \<open>
  Connections and their verdicts: \<^verbatim>\<open>service/network/status.go\<close>, the verdict methods of
  \<^verbatim>\<open>service/network/connection.go\<close>, \<^verbatim>\<open>service/network/multicast.go\<close>, and the predicates on processes of
  \<^verbatim>\<open>service/process/process.go\<close>.

  Verdict methods look up the profile of the process of the connection to name the setting that
  was responsible.  The record \<open>fw\<close> keeps together what the firewall reads and changes while it
  decides: the connection, the layered profile of its process (\<open>None\<close> for nil) and the cached
  networks of the host.
\<close>

section \<open>Verdicts\<close>

datatype Verdict =
  VerdictUndecided | VerdictUndeterminable | VerdictAccept | VerdictBlock | VerdictDrop |
  VerdictRerouteToNameserver | VerdictRerouteToTunnel | VerdictFailed

fun Verdict_String :: "Verdict \<Rightarrow> string" where
  "Verdict_String VerdictUndecided = ''<Undecided>''"
| "Verdict_String VerdictUndeterminable = ''<Undeterminable>''"
| "Verdict_String VerdictAccept = ''Accept''"
| "Verdict_String VerdictBlock = ''Block''"
| "Verdict_String VerdictDrop = ''Drop''"
| "Verdict_String VerdictRerouteToNameserver = ''RerouteToNameserver''"
| "Verdict_String VerdictRerouteToTunnel = ''RerouteToTunnel''"
| "Verdict_String VerdictFailed = ''Failed''"

fun Verb :: "Verdict \<Rightarrow> string" where
  "Verb VerdictUndecided = ''undecided''"
| "Verb VerdictUndeterminable = ''undeterminable''"
| "Verb VerdictAccept = ''accepted''"
| "Verb VerdictBlock = ''blocked''"
| "Verb VerdictDrop = ''dropped''"
| "Verb VerdictRerouteToNameserver = ''redirected to nameserver''"
| "Verb VerdictRerouteToTunnel = ''tunneled''"
| "Verb VerdictFailed = ''failed''"

text \<open>Verdicts are compared by the numbers of their constants, the later one being the stricter.\<close>

fun verdict_num :: "Verdict \<Rightarrow> nat" where
  "verdict_num VerdictUndecided = 0"
| "verdict_num VerdictUndeterminable = 1"
| "verdict_num VerdictAccept = 2"
| "verdict_num VerdictBlock = 3"
| "verdict_num VerdictDrop = 4"
| "verdict_num VerdictRerouteToNameserver = 5"
| "verdict_num VerdictRerouteToTunnel = 6"
| "verdict_num VerdictFailed = 7"

lemma verdict_num_inject: "verdict_num v = verdict_num w \<longleftrightarrow> v = w"
  by (cases v; cases w) simp_all

instantiation Verdict :: linorder
begin

definition "v \<le> w \<longleftrightarrow> verdict_num v \<le> verdict_num w"
definition "v < w \<longleftrightarrow> verdict_num v < verdict_num w"

instance
  by intro_classes (auto simp: less_eq_Verdict_def less_Verdict_def verdict_num_inject)

end

section \<open>Connections\<close>

datatype ConnectionType = UndefinedConnection | IPConnection | DNSRequest

text \<open>The context of a reason: a reason of a rule, or a responder of the nameserver.\<close>

datatype reason_context = NoContext | ReasonContext reason | NxDomain | BlockIP

record conn_reason =
  Msg :: string
  OptionKey :: string
  reason_Profile :: string
  reason_Context :: reason_context

record process =
  Pid :: int
  p_Name :: string
  p_Path :: string
  ExecName :: string
  PrimaryProfileID :: string

record connection =
  c_Type :: ConnectionType
  Inbound :: bool
  c_IPProtocol :: byte
  LocalIP :: ip
  LocalPort :: port
  Entity :: entity
  Resolver_IPScope :: "IPScope option"
  c_Verdict :: Verdict
  Reason :: conn_reason
  Ended :: int
  Inspecting :: bool
  Tunneled :: bool
  dataComplete :: bool
  Internal :: bool
  c_process :: "process option"
  saveWhenFinished :: bool
  ProfileRevisionCounter :: "64 word"
  c_prompt :: "string option"

record fw =
  fw_conn :: connection
  fw_lp :: "layered option"
  fw_net :: net_state

definition on_conn :: "(connection \<Rightarrow> connection) \<Rightarrow> fw \<Rightarrow> fw" where
  "on_conn f s = s\<lparr>fw_conn := f (fw_conn s)\<rparr>"

definition on_entity :: "(entity \<Rightarrow> entity) \<Rightarrow> fw \<Rightarrow> fw" where
  "on_entity f = on_conn (\<lambda>c. c\<lparr>Entity := f (Entity c)\<rparr>)"

definition SetVerdictDirectly :: "Verdict \<Rightarrow> fw \<Rightarrow> fw" where
  "SetVerdictDirectly v = on_conn (\<lambda>c. c\<lparr>c_Verdict := v\<rparr>)"

definition SetVerdict ::
    "global_config \<Rightarrow> Verdict \<Rightarrow> string \<Rightarrow> string \<Rightarrow> reason_context \<Rightarrow> fw \<Rightarrow> fw" where
  "SetVerdict cfg newVerdict reason reasonOptionKey reasonCtx s =
     (let s = SetVerdictDirectly newVerdict s;
          r = \<lparr>Msg = reason, OptionKey = [], reason_Profile = [], reason_Context = reasonCtx\<rparr>;
          r = (if reasonOptionKey \<noteq> []
               then case fw_lp s of
                      None \<Rightarrow> r
                    | Some lp \<Rightarrow> r\<lparr>OptionKey := reasonOptionKey,
                        reason_Profile := GetProfileSource (releaseLevel cfg) reasonOptionKey (layers lp)\<rparr>
               else r)
      in on_conn (\<lambda>c. c\<lparr>Reason := r\<rparr>) s)"

definition "AcceptWithContext cfg reason key ctx = SetVerdict cfg VerdictAccept reason key ctx"
definition "Accept cfg reason key = AcceptWithContext cfg reason key NoContext"
definition "BlockWithContext cfg reason key ctx = SetVerdict cfg VerdictBlock reason key ctx"
definition "Block cfg reason key = BlockWithContext cfg reason key NoContext"
definition "DropWithContext cfg reason key ctx = SetVerdict cfg VerdictDrop reason key ctx"
definition "Drop cfg reason key = DropWithContext cfg reason key NoContext"
definition "FailedWithContext cfg reason key ctx = SetVerdict cfg VerdictFailed reason key ctx"
definition "Failed cfg reason key = FailedWithContext cfg reason key NoContext"

definition DenyWithContext :: "global_config \<Rightarrow> string \<Rightarrow> string \<Rightarrow> reason_context \<Rightarrow> fw \<Rightarrow> fw" where
  "DenyWithContext cfg reason key ctx s =
     (if Inbound (fw_conn s) then DropWithContext cfg reason key ctx s
      else BlockWithContext cfg reason key ctx s)"

definition "Deny cfg reason key = DenyWithContext cfg reason key NoContext"

definition SaveWhenFinished :: "fw \<Rightarrow> fw" where
  "SaveWhenFinished = on_conn (\<lambda>c. c\<lparr>saveWhenFinished := True\<rparr>)"

text \<open>\<^verbatim>\<open>SetPrompt\<close> remembers the notification of a prompt, here by its ID.\<close>

definition SetPrompt :: "string \<Rightarrow> fw \<Rightarrow> fw" where
  "SetPrompt n = on_conn (\<lambda>c. c\<lparr>c_prompt := Some n\<rparr>)"

section \<open>Processes\<close>

text \<open>The process IDs \<open>-1\<close>, \<open>-2\<close> and \<open>-3\<close> stand for undefined, unidentified and unsolicited.\<close>

definition UndefinedProcessID :: int where "UndefinedProcessID = -1"
definition UnidentifiedProcessID :: int where "UnidentifiedProcessID = -2"
definition UnsolicitedProcessID :: int where "UnsolicitedProcessID = -3"

definition IsIdentified :: "process option \<Rightarrow> bool" where
  "IsIdentified p = (case p of None \<Rightarrow> False
     | Some p \<Rightarrow> Pid p \<notin> {UndefinedProcessID, UnidentifiedProcessID, UnsolicitedProcessID})"

definition process_Equal :: "process option \<Rightarrow> process option \<Rightarrow> bool" where
  "process_Equal p other \<longleftrightarrow> IsIdentified p \<and> IsIdentified other \<and> map_option Pid p = map_option Pid other"

definition IsSystemResolver :: "process option \<Rightarrow> bool" where
  "IsSystemResolver p = (case p of None \<Rightarrow> False
     | Some p \<Rightarrow> PrimaryProfileID p = MakeScopedID SourceLocal ''_system-resolver'')"

section \<open>Replies to multicast and broadcast requests\<close>

definition GetMulticastRequestConn :: "connection list \<Rightarrow> connection \<Rightarrow> ip_net \<Rightarrow> connection option" where
  "GetMulticastRequestConn conns responseConn responseFromNet =
     (let responseNetBroadcastIP =
            (case GetBroadcastAddress (net_IP responseFromNet) (net_Mask responseFromNet) of
               None \<Rightarrow> [] | Some ip \<Rightarrow> ip)
      in find (\<lambda>conn.
           dataComplete conn \<and> \<not> Inbound conn \<and> Ended conn = 0 \<and>
           e_Protocol (Entity conn) = e_Protocol (Entity responseConn) \<and>
           LocalPort conn = LocalPort responseConn \<and>
           IP_Equal (LocalIP conn) (LocalIP responseConn) \<and>
           process_Equal (c_process conn) (c_process responseConn) \<and>
           (e_IPScope (Entity conn) = LocalMulticast \<and>
              e_IPScope (Entity responseConn) \<in> {LinkLocal, SiteLocal} \<or>
            IP_Equal (e_IP (Entity conn)) responseNetBroadcastIP \<and>
              IPNet_Contains responseFromNet (LocalIP conn))) conns)"

lemmas verdict_defs [go_simps] =
  on_conn_def on_entity_def SetVerdictDirectly_def SetVerdict_def AcceptWithContext_def Accept_def
  BlockWithContext_def Block_def DropWithContext_def Drop_def FailedWithContext_def Failed_def
  DenyWithContext_def Deny_def SaveWhenFinished_def SetPrompt_def

section \<open>Frames\<close>

lemma on_conn_simps [simp]:
  "fw_conn (on_conn f s) = f (fw_conn s)" "fw_lp (on_conn f s) = fw_lp s" "fw_net (on_conn f s) = fw_net s"
  by (simp_all add: on_conn_def)

text \<open>A verdict method changes the verdict and the reason only.\<close>

lemma SetVerdict_simps [simp]:
  "c_Verdict (fw_conn (SetVerdict cfg v m k x s)) = v"
  "fw_lp (SetVerdict cfg v m k x s) = fw_lp s" "fw_net (SetVerdict cfg v m k x s) = fw_net s"
  "c_process (fw_conn (SetVerdict cfg v m k x s)) = c_process (fw_conn s)"
  "Entity (fw_conn (SetVerdict cfg v m k x s)) = Entity (fw_conn s)"
  "c_Type (fw_conn (SetVerdict cfg v m k x s)) = c_Type (fw_conn s)"
  "Inbound (fw_conn (SetVerdict cfg v m k x s)) = Inbound (fw_conn s)"
  "Msg (Reason (fw_conn (SetVerdict cfg v m k x s))) = m"
  by (auto simp: SetVerdict_def SetVerdictDirectly_def Let_def split: option.split)

lemmas verdict_methods = AcceptWithContext_def Accept_def BlockWithContext_def Block_def
  DropWithContext_def Drop_def FailedWithContext_def Failed_def DenyWithContext_def Deny_def

end
