(* ===== verification/Firewall.thy ===== *)
theory Firewall
  imports Connection Custom_Lists Dga
begin

text \<open>
  The decisions of the firewall: \<^verbatim>\<open>service/firewall/master.go\<close>, \<^verbatim>\<open>bypassing.go\<close>, \<^verbatim>\<open>prompt.go\<close> and the
  tunneling check of \<^verbatim>\<open>tunnel.go\<close>.

  A decider takes the state \<open>fw\<close> and returns whether it came to a conclusion.  Where the code
  would dereference a nil process, profile or reason, the model returns the panic.  The
  environment \<open>fw_env\<close> has the global settings, the data of other packages at the time of the
  decision, the third-party functions \<^verbatim>\<open>EffectiveTLDPlusOne\<close> and \<^verbatim>\<open>levenshtein.Match\<close>, and what
  becomes of a prompt.

  Left out: log output, the compatibility report about secure DNS, and the message and actions
  of a new prompt notification.
\<close>

datatype prompt_event = PromptResponse string | PromptTimeout | PromptShutdown

record fw_env =
  fe_intel :: intel_env
  fe_cfg :: global_config
  fe_net :: net_env
  ownPID :: int
  fe_conns :: "connection list"
  onlineStatus :: nat
  fe_custom :: custom_lists
  unbreakIDs :: "string list"
  EffectiveTLDPlusOne :: "string \<Rightarrow> string option"
  levenshtein_Match :: "string \<Rightarrow> string \<Rightarrow> rat"
  resolver_IsDisabled :: bool
  GetLocalProfile :: "string \<Rightarrow> string + profile"
  notifications_Get :: "string \<Rightarrow> (bool \<times> string) option"
  prompt_answer :: prompt_event
  tunnelEnabled :: bool
  ClientReady :: bool
  IsExcepted :: "ip \<Rightarrow> bool"

type_synonym decider = "fw_env \<Rightarrow> fw \<Rightarrow> (bool \<times> fw) go"

abbreviation entity_of :: "fw \<Rightarrow> entity" where
  "entity_of s \<equiv> Entity (fw_conn s)"

definition read_option ::
    "(global_config \<Rightarrow> layered \<Rightarrow> 'v \<times> layered) \<Rightarrow> fw_env \<Rightarrow> fw \<Rightarrow> ('v \<times> fw) go" where
  "read_option opt env s =
     (case fw_lp s of
        None \<Rightarrow> Inl NilDereference
      | Some lp \<Rightarrow> (case opt (fe_cfg env) lp of (v, lp) \<Rightarrow> Inr (v, s\<lparr>fw_lp := Some lp\<rparr>)))"

definition with_process :: "fw \<Rightarrow> (process \<Rightarrow> 'a go) \<Rightarrow> 'a go" where
  "with_process s f = (case c_process (fw_conn s) of None \<Rightarrow> Inl NilDereference | Some p \<Rightarrow> f p)"

definition with_profile :: "fw \<Rightarrow> (layered \<Rightarrow> 'a go) \<Rightarrow> 'a go" where
  "with_profile s f = (case fw_lp s of None \<Rightarrow> Inl NilDereference | Some lp \<Rightarrow> f lp)"

section \<open>Deciders\<close>

definition checkPortmasterConnection :: decider where
  "checkPortmasterConnection env s = with_process s (\<lambda>p.
     if Pid p \<noteq> ownPID env then Inr (False, s)
     else let grant = (\<lambda>s. Inr (True, on_conn (\<lambda>c. c\<lparr>Internal := True\<rparr>)
                         (Accept (fe_cfg env) ''connection by Portmaster'' [] s)))
          in if Inbound (fw_conn s)
             then (case IsMyIP (fe_net env) (e_IP (entity_of s)) (fw_net s) of (r, net) \<Rightarrow>
                     let s = s\<lparr>fw_net := net\<rparr>
                     in case r of
                          Inl err \<Rightarrow> Inr (False, s)
                        | Inr myIP \<Rightarrow> if \<not> myIP then Inr (False, s) else grant s)
             else grant s)"

definition IPProtocol_String :: "byte \<Rightarrow> string" where
  "IPProtocol_String p =
     (if p = 255 then ''RAW'' else if p = 6 then ''TCP'' else if p = 17 then ''UDP''
      else if p = 136 then ''UDPLite'' else if p = 1 then ''ICMP'' else if p = 58 then ''ICMPv6''
      else if p = 2 then ''IGMP''
      else ''<unknown protocol, '' @ Itoa (unat p) @ ''>'')"

definition JoinHostPort :: "string \<Rightarrow> string \<Rightarrow> string" where
  "JoinHostPort host prt =
     (if CHR '':'' \<in> set host then ''['' @ host @ '']:'' @ prt else host @ '':'' @ prt)"

definition checkIfBroadcastReply :: decider where
  "checkIfBroadcastReply env s =
     (if \<not> Inbound (fw_conn s) then Inr (False, s)
      else if \<not> IsIdentified (c_process (fw_conn s)) then Inr (False, s)
      else case GetLocalNetwork (fe_net env) (e_IP (entity_of s)) (fw_net s) of (r, net) \<Rightarrow>
        let s = s\<lparr>fw_net := net\<rparr>
        in case r of
             Inl err \<Rightarrow> Inr (False, s)
           | Inr None \<Rightarrow> Inr (False, s)
           | Inr (Some localNet) \<Rightarrow>
               (case GetMulticastRequestConn (fe_conns env) (fw_conn s) localNet of
                  None \<Rightarrow> Inr (False, s)
                | Some req \<Rightarrow>
                    Inr (True, Accept (fe_cfg env)
                      (''response to multi/broadcast query to '' @
                       IPProtocol_String (e_Protocol (Entity req)) @ ''/'' @
                       JoinHostPort (IP_String (e_IP (Entity req))) (Itoa (unat (e_Port (Entity req))))) [] s)))"

text \<open>Runs a match on the entity of the connection.\<close>

definition match_entity :: "(entity \<Rightarrow> match_result go) \<Rightarrow> fw \<Rightarrow> (EPResult \<times> reason option \<times> fw) go" where
  "match_entity f s =
     bind_go (f (entity_of s)) (\<lambda>(result, reason, e). Inr (result, reason, on_entity (\<lambda>_. e) s))"

text \<open>The switch on the result of rules.\<close>

definition apply_result ::
    "fw_env \<Rightarrow> string \<Rightarrow> EPResult \<times> reason option \<times> fw \<Rightarrow> (bool \<times> fw) go" where
  "apply_result env optionKey = (\<lambda>(result, reason, s).
     if result = NoMatch then Inr (False, s)
     else case reason of
       None \<Rightarrow> Inl NilDereference
     | Some r \<Rightarrow>
         if result = Permitted
         then Inr (True, AcceptWithContext (fe_cfg env) (reason_String r) optionKey (ReasonContext r) s)
         else Inr (True, DenyWithContext (fe_cfg env) (reason_String r) optionKey (ReasonContext r) s))"

definition checkEndpointListsForSystemResolverDNSRequests :: decider where
  "checkEndpointListsForSystemResolverDNSRequests env s = with_profile s (\<lambda>p.
     case localProfile p of
       None \<Rightarrow> Inl NilDereference
     | Some loc \<Rightarrow>
         let (profileEndpoints, optionKey) =
               (if Inbound (fw_conn s) then (serviceEndpoints loc, ''filter/serviceEndpoints'')
                else (p_endpoints loc, ''filter/endpoints''))
         in if IsSet profileEndpoints
            then bind_go (match_entity (Match (fe_intel env) profileEndpoints) s) (\<lambda>(result, reason, s).
                   if IsDecision result then apply_result env optionKey (result, reason, s)
                   else Inr (False, s))
            else Inr (False, s))"

definition checkEndpointLists :: decider where
  "checkEndpointLists env s =
     (if c_Type (fw_conn s) = DNSRequest \<and> IsSystemResolver (c_process (fw_conn s))
      then checkEndpointListsForSystemResolverDNSRequests env s
      else with_profile s (\<lambda>p.
        if Inbound (fw_conn s)
        then bind_go (match_entity (MatchServiceEndpoint (fe_intel env) (fe_cfg env) p) s)
               (apply_result env ''filter/serviceEndpoints'')
        else bind_go (match_entity (MatchEndpoint (fe_intel env) (fe_cfg env) p) s)
               (apply_result env ''filter/endpoints'')))"

definition p2pFilterLists :: "string list" where "p2pFilterLists = [''17-P2P'']"

definition match_lists :: "string list \<Rightarrow> fw \<Rightarrow> bool \<times> fw" where
  "match_lists ids s = (case MatchLists ids (entity_of s) of (hit, e) \<Rightarrow> (hit, on_entity (\<lambda>_. e) s))"

text \<open>The cases of \<^verbatim>\<open>checkConnectionType\<close> for peer-to-peer connections.\<close>

definition check_p2p :: decider where
  "check_p2p env s =
     bind_go (read_option BlockP2P env s) (\<lambda>(blockP2P, s).
       if blockP2P \<and> \<not> Inbound (fw_conn s)
       then (case match_lists p2pFilterLists s of (hit, s) \<Rightarrow>
         if hit
         then Inr (True, Block (fe_cfg env)
                ''P2P assistive infrastructure blocked based on filter list'' ''filter/blockP2P'' s)
         else if c_Type (fw_conn s) \<noteq> IPConnection then Inr (False, s)
         else if DstPort (entity_of s) = 3478 \<or> DstPort (entity_of s) = 5349
         then Inr (True, Block (fe_cfg env)
                ''P2P assistive infrastructure blocked based on port'' ''filter/blockP2P'' s)
         else if IsGlobal (e_IPScope (entity_of s)) \<and> e_Domain (entity_of s) = []
         then Inr (True, Block (fe_cfg env) ''direct connections (P2P) blocked'' ''filter/blockP2P'' s)
         else Inr (False, s))
       else Inr (False, s))"

definition checkConnectionType :: decider where
  "checkConnectionType env s =
     bind_go (read_option BlockInbound env s) (\<lambda>(blockInbound, s).
       if blockInbound \<and> Inbound (fw_conn s) \<and> \<not> IsLocalhost (e_IPScope (entity_of s))
       then Inr (True, Drop (fe_cfg env) ''inbound connections blocked'' ''filter/blockInbound'' s)
       else check_p2p env s)"

text \<open>The value 3 is \<^verbatim>\<open>netenv.StatusPortal\<close>.\<close>

definition checkConnectivityDomain :: decider where
  "checkConnectivityDomain env s =
     (if e_Domain (entity_of s) = [] then Inr (False, s)
      else if onlineStatus env > 3 then Inr (False, s)
      else if Inbound (fw_conn s) then Inr (False, s)
      else bind_go (read_option BlockScopeInternet env s) (\<lambda>(blocked, s).
        if blocked then Inr (False, s)
        else if IsConnectivityDomain (fe_net env) (e_Domain (entity_of s))
        then Inr (True, Accept (fe_cfg env)
               ''special grant for connectivity domain during network bootstrap'' [] s)
        else Inr (False, s)))"

definition checkConnectionScope :: decider where
  "checkConnectionScope env s =
     (if c_Type (fw_conn s) = DNSRequest
      then bind_go (read_option BlockScopeInternet env s) (\<lambda>(internet, s).
             if \<not> internet then Inr (False, s)
             else bind_go (read_option BlockScopeLAN env s) (\<lambda>(lan, s).
               if lan
               then Inr (True, Block (fe_cfg env) ''Internet and LAN access blocked'' ''filter/blockInternet'' s)
               else Inr (False, s)))
      else case e_IPScope (entity_of s) of
        Invalid \<Rightarrow> Inr (False, s)
      | Undefined \<Rightarrow> Inr (False, s)
      | HostLocal \<Rightarrow> bind_go (read_option BlockScopeLocal env s) (\<lambda>(blocked, s).
          if blocked
          then Inr (True, Block (fe_cfg env) ''Localhost access blocked'' ''filter/blockLocal'' s)
          else Inr (False, s))
      | scope \<Rightarrow>
          if scope = Global \<or> scope = GlobalMulticast
          then bind_go (read_option BlockScopeInternet env s) (\<lambda>(blocked, s).
            if blocked
            then Inr (True, Deny (fe_cfg env) ''Internet access blocked'' ''filter/blockInternet'' s)
            else Inr (False, s))
          else bind_go (read_option BlockScopeLAN env s) (\<lambda>(blocked, s).
            if blocked
            then Inr (True, Block (fe_cfg env) ''LAN access blocked'' ''filter/blockLAN'' s)
            else Inr (False, s)))"

definition checkInvalidIP :: decider where
  "checkInvalidIP env s =
     (if c_Type (fw_conn s) \<noteq> IPConnection then Inr (False, s)
      else if e_IPScope (entity_of s) = Undefined \<or> e_IPScope (entity_of s) = Invalid
      then Inr (True, Deny (fe_cfg env) ''invalid IP'' [] s)
      else Inr (False, s))"

definition resolverFilterLists :: "string list" where "resolverFilterLists = [''17-DNS'']"

definition looksLikeOutgoingDNSRequest :: "connection \<Rightarrow> bool" where
  "looksLikeOutgoingDNSRequest c \<longleftrightarrow> \<not> Inbound c \<and> e_Port (Entity c) = 53 \<and> c_IPProtocol c = 17"

definition firewall_PreventBypassing :: "fw_env \<Rightarrow> fw \<Rightarrow> EPResult \<times> string \<times> reason_context \<times> fw" where
  "firewall_PreventBypassing env s =
     (let c = fw_conn s; e = Entity c; rogue = (\<lambda>s.
            (Denied, ''blocked rogue connection to DNS resolver'', BlockIP, s))
      in if Inbound c then (NoMatch, [], NoContext, s)
         else if e_Protocol e = 1 \<or> e_Protocol e = 58 then (NoMatch, [], NoContext, s)
         else if ToLower (e_Domain e) = ''use-application-dns.net.''
         then (Denied, ''blocked canary domain to prevent enabling of DNS-over-HTTPs'', NxDomain, s)
         else if c_Type c = DNSRequest \<and> IsSystemResolver (c_process c) then (NoMatch, [], NoContext, s)
         else if resolver_IsDisabled env \<and> IsSystemResolver (c_process c) then (NoMatch, [], NoContext, s)
         else if resolver_IsDisabled env \<and> e_Port e = 53 \<and> IsLocalhost (e_IPScope e)
         then (NoMatch, [], NoContext, s)
         else if looksLikeOutgoingDNSRequest c \<and> resolver_IsDisabled env
         then (NoMatch, [], NoContext, on_conn (\<lambda>c. c\<lparr>Inspecting := True\<rparr>) s)
         else if e_Port e = 53
         then (Denied, ''blocked DNS query, manual dns setup required'', BlockIP, s)
         else if e_Port e = 853 then rogue s
         else case match_lists resolverFilterLists s of (hit, s) \<Rightarrow>
           if hit then rogue s else (NoMatch, [], NoContext, s))"

definition checkBypassPrevention :: decider where
  "checkBypassPrevention env s =
     bind_go (read_option PreventBypassing env s) (\<lambda>(enabled, s).
       if enabled
       then (case firewall_PreventBypassing env s of (result, reason, reasonCtx, s) \<Rightarrow>
         case result of
           NoMatch \<Rightarrow> Inr (False, s)
         | Permitted \<Rightarrow> Inr (True, AcceptWithContext (fe_cfg env) (''bypass prevention: '' @ reason)
                           ''filter/preventBypassing'' reasonCtx s)
         | _ \<Rightarrow> Inr (True, BlockWithContext (fe_cfg env) (''bypass prevention: '' @ reason)
                   ''filter/preventBypassing'' reasonCtx s))
       else Inr (False, s))"

definition checkFilterLists :: decider where
  "checkFilterLists env s = with_profile s (\<lambda>p.
     case MatchFilterLists (fe_cfg env) p (entity_of s) of ((result, reason, e), p) \<Rightarrow>
       let s = on_entity (\<lambda>_. e) (s\<lparr>fw_lp := Some p\<rparr>)
       in if result = Denied
          then if list_ex (\<lambda>l. l \<in> set (unbreakIDs env)) (BlockedByLists e) then Inr (False, s)
               else (case reason of
                       None \<Rightarrow> Inl NilDereference
                     | Some r \<Rightarrow> Inr (True, DenyWithContext (fe_cfg env) (reason_String r) ''filter/lists''
                                   (ReasonContext r) s))
          else Inr (False, s))"

definition checkResolverScope :: decider where
  "checkResolverScope env s =
     (if c_Type (fw_conn s) \<noteq> IPConnection then Inr (False, s)
      else bind_go (read_option RemoveOutOfScopeDNS env s) (\<lambda>(active, s).
        if \<not> active then Inr (False, s)
        else case Resolver_IPScope (fw_conn s) of
          None \<Rightarrow> Inr (False, s)
        | Some rs \<Rightarrow>
            let es = e_IPScope (entity_of s)
            in if IsGlobal rs \<and> (IsLAN es \<or> IsLocalhost es)
               then Inr (True, Block (fe_cfg env)
                 ''DNS server horizon violation: global DNS server returned local IP address''
                 ''filter/removeOutOfScopeDNS'' s)
               else if IsLAN rs \<and> IsLocalhost es
               then Inr (True, Block (fe_cfg env)
                 ''DNS server horizon violation: LAN DNS server returned localhost IP address''
                 ''filter/removeOutOfScopeDNS'' s)
               else Inr (False, s)))"

definition checkDomainHeuristics :: decider where
  "checkDomainHeuristics env s =
     (let domain = e_Domain (entity_of s)
      in if domain = [] then Inr (False, s)
         else bind_go (read_option DomainHeuristics env s) (\<lambda>(enabled, s).
           if \<not> enabled then Inr (False, s)
           else let trimmedDomain = TrimRight domain CHR ''.''
                in case EffectiveTLDPlusOne env trimmedDomain of
                     None \<Rightarrow> Inr (False, s)
                   | Some etld1 \<Rightarrow>
                       if score_less (LmsScore (hd (Split etld1 CHR ''.''))) 5
                       then Inr (True, Block (fe_cfg env) ''possible DGA domain commonly used by malware''
                              ''filter/domainHeuristics'' s)
                       else if length domain > length etld1 + 100 \<and>
                               LmsScoreOfDomain (take (length etld1) trimmedDomain) < 10
                       then Inr (True, Block (fe_cfg env)
                              ''possible data tunnel for covert communication and protection bypassing''
                              ''filter/domainHeuristics'' s)
                       else Inr (False, s)))"

text \<open>
  \<^verbatim>\<open>checkRelation\<close>: the first label of the domain that is similar to one of the last two elements
  of the path, to the name, or to the executable name of the process.
\<close>

fun match_loop :: "fw_env \<Rightarrow> string list \<Rightarrow> string list \<Rightarrow> (string \<times> string) option" where
  "match_loop env [] processElements = None"
| "match_loop env (domainElement # ds) processElements =
     (case find (\<lambda>p. levenshtein_Match env domainElement p > 1/2) processElements of
        Some processElement \<Rightarrow> Some (domainElement, processElement)
      | None \<Rightarrow> match_loop env ds processElements)"

definition checkRelation :: "fw_env \<Rightarrow> fw \<Rightarrow> (bool \<times> string) go" where
  "checkRelation env s =
     (if e_Domain (entity_of s) = [] then Inr (False, [])
      else with_process s (\<lambda>p.
        if Pid p < 0 then Inr (False, [])
        else let pathElements = Split (p_Path p) CHR ''/'';
                 pathElements = (if length pathElements > 2
                   then drop (length pathElements - 2) pathElements else pathElements);
                 domainElements = Split (e_Domain (entity_of s)) CHR ''.''
             in case match_loop env domainElements (pathElements @ [p_Name p, ExecName p]) of
                  None \<Rightarrow> Inr (False, [])
                | Some (domainElement, processElement) \<Rightarrow>
                    Inr (True, ''auto allowed: domain is related to process: '' @ domainElement @
                      '' is related to '' @ processElement)))"

definition checkAutoPermitRelated :: decider where
  "checkAutoPermitRelated env s = with_profile s (\<lambda>p.
     if DefaultAction (fe_cfg env) p = DefaultActionPermit then Inr (False, s)
     else bind_go (read_option DisableAutoPermit env s) (\<lambda>(disabled, s).
       if disabled then Inr (False, s)
       else bind_go (checkRelation env s) (\<lambda>(related, reason).
         if related then Inr (True, Accept (fe_cfg env) reason ''filter/disableAutoPermit'' s)
         else Inr (False, s))))"

text \<open>The loop over the aliases reads the option for every alias.\<close>

fun custom_cnames :: "fw_env \<Rightarrow> string list \<Rightarrow> fw \<Rightarrow> ((string \<times> string) option \<times> fw) go" where
  "custom_cnames env [] s = Inr (None, s)"
| "custom_cnames env (cname # cs) s =
     bind_go (read_option FilterSubDomains env s) (\<lambda>(sub, s).
       case custom_LookupDomain (fe_intel env) (fe_custom env) cname sub of (ok, match) \<Rightarrow>
         if ok then Inr (Some (cname, match), s) else custom_cnames env cs s)"

definition custom_domain :: "fw_env \<Rightarrow> fw \<Rightarrow> (string option \<times> fw) go" where
  "custom_domain env s =
     (if e_Domain (entity_of s) = [] then Inr (None, s)
      else bind_go (read_option FilterSubDomains env s) (\<lambda>(sub, s).
        case custom_LookupDomain (fe_intel env) (fe_custom env) (e_Domain (entity_of s)) sub of (ok, match) \<Rightarrow>
          Inr (if ok then Some match else None, s)))"

definition custom_entity :: decider where
  "custom_entity env s =
     (let key = ''filter/customListFile''
      in if e_IP (entity_of s) \<noteq> [] \<and> custom_LookupIP (fe_custom env) (e_IP (entity_of s))
         then Inr (True, Deny (fe_cfg env) ''IP address is in the custom filter list'' key s)
         else if ASN (entity_of s) \<noteq> 0 \<and> custom_LookupASN (fe_custom env) (ASN (entity_of s))
         then Inr (True, Deny (fe_cfg env) ''AS is in the custom filter list'' key s)
         else if Country (entity_of s) \<noteq> [] \<and> custom_LookupCountry (fe_custom env) (Country (entity_of s))
         then Inr (True, Deny (fe_cfg env) ''country is in the custom filter list'' key s)
         else Inr (False, s))"

definition checkCustomFilterList :: decider where
  "checkCustomFilterList env s =
     (let key = ''filter/customListFile''
      in if \<not> IsLoaded (fe_custom env) then Inr (False, s)
         else bind_go (custom_domain env s) (\<lambda>(domain_match, s).
           case domain_match of
             Some match \<Rightarrow> Inr (True, Deny (fe_cfg env) (''domain '' @ e_Domain (entity_of s) @ '' matches '' @
                             match @ '' in custom filter list'') key s)
           | None \<Rightarrow>
               bind_go (read_option FilterCNAMEs env s) (\<lambda>(cnames, s).
               bind_go (if cnames then custom_cnames env (CNAME (entity_of s)) s else Inr (None, s))
                 (\<lambda>(cname_match, s).
                 case cname_match of
                   Some (cname, match) \<Rightarrow>
                     Inr (True, Deny (fe_cfg env) (''domain alias (CNAME) '' @ cname @ '' matches '' @ match @
                            '' in custom filter list'') key s)
                 | None \<Rightarrow>
                     custom_entity env s))))"

section \<open>Decisions\<close>

definition defaultDeciders :: "decider list" where
  "defaultDeciders =
     [checkPortmasterConnection, checkIfBroadcastReply, checkConnectionType, checkConnectionScope,
      checkEndpointLists, checkInvalidIP, checkResolverScope, checkConnectivityDomain,
      checkBypassPrevention, checkFilterLists, checkCustomFilterList, checkDomainHeuristics,
      checkAutoPermitRelated]"

text \<open>The loop of \<^verbatim>\<open>runDeciders\<close>, and the whole of it with the default action.\<close>

fun run_deciders :: "decider list \<Rightarrow> decider" where
  "run_deciders [] env s = Inr (False, s)"
| "run_deciders (d # ds) env s =
     bind_go (d env s) (\<lambda>(done, s). if done then Inr (True, s) else run_deciders ds env s)"

definition runDeciders :: "decider list \<Rightarrow> fw_env \<Rightarrow> fw \<Rightarrow> (bool \<times> byte \<times> fw) go" where
  "runDeciders selectedDeciders env s =
     bind_go (run_deciders selectedDeciders env s) (\<lambda>(done, s).
       if done then Inr (True, DefaultActionNotSet, s)
       else with_profile s (\<lambda>p. Inr (False, DefaultAction (fe_cfg env) p, s)))"

definition allow_actions :: "string list" where
  "allow_actions = [''allow-domain-all'', ''allow-domain-distinct'', ''allow-ip'', ''allow-serving-ip'']"

definition prompt_id :: "fw \<Rightarrow> profile \<Rightarrow> string" where
  "prompt_id s loc =
     (if Inbound (fw_conn s) \<or> e_Domain (entity_of s) = []
      then ''filter:prompt-'' @ p_ID loc @ ''-'' @ (if Inbound (fw_conn s) then ''true'' else ''false'') @
           ''-'' @ IP_String (e_IP (entity_of s))
      else ''filter:prompt-'' @ p_ID loc @ ''-'' @ e_Domain (entity_of s))"

text \<open>\<^verbatim>\<open>createPrompt\<close>: the ID of the notification to wait for, or \<open>None\<close> for no further action.\<close>

definition createPrompt :: "fw_env \<Rightarrow> fw \<Rightarrow> string option \<times> fw" where
  "createPrompt env s =
     (case fw_lp s of
        None \<Rightarrow> (None, s)
      | Some lp \<Rightarrow>
          (case localProfile lp of
             None \<Rightarrow> (None, s)
           | Some loc \<Rightarrow>
               let nID = prompt_id s loc
               in case notifications_Get env nID of
                    None \<Rightarrow> (Some nID, s)
                  | Some (active, action) \<Rightarrow>
                      if active then (Some nID, s)
                      else if action \<noteq> []
                      then (None, if action \<in> set allow_actions
                                  then Accept (fe_cfg env) ''allowed via prompt'' ''filter/endpoints'' s
                                  else Deny (fe_cfg env) ''blocked via prompt'' ''filter/endpoints'' s)
                      else (Some nID, s)))"

definition prompt :: "fw_env \<Rightarrow> fw \<Rightarrow> fw" where
  "prompt env s =
     (case createPrompt env s of
        (None, s) \<Rightarrow> s
      | (Some n, s) \<Rightarrow>
          let s = SetPrompt n s
          in case prompt_answer env of
               PromptResponse r \<Rightarrow>
                 if r \<in> set allow_actions
                 then Accept (fe_cfg env) ''allowed via prompt'' ''filter/endpoints'' s
                 else if r = []
                 then Deny (fe_cfg env) ''prompting canceled, waiting for new decision'' ''filter/defaultAction'' s
                 else Deny (fe_cfg env) ''blocked via prompt'' ''filter/endpoints'' s
             | PromptTimeout \<Rightarrow>
                 Deny (fe_cfg env) ''prompting in progress, please respond to prompt'' ''filter/defaultAction'' s
             | PromptShutdown \<Rightarrow> Drop (fe_cfg env) ''shutting down'' [] s)"

definition set_revision :: "64 word \<Rightarrow> fw \<Rightarrow> fw" where
  "set_revision revision s = SaveWhenFinished (on_conn (\<lambda>c. c\<lparr>ProfileRevisionCounter := revision\<rparr>) s)"

text \<open>The update of the profile and of the revision that a decision starts with.\<close>

definition update_profile :: "fw_env \<Rightarrow> layered \<Rightarrow> fw \<Rightarrow> bool \<times> fw" where
  "update_profile env lp s =
     (if NeedsUpdate (fe_cfg env) lp
      then (case Update (GetLocalProfile env) (fe_cfg env) lp of (revision, lp) \<Rightarrow>
              (True, set_revision revision (s\<lparr>fw_lp := Some lp\<rparr>)))
      else (False, if ProfileRevisionCounter (fw_conn s) \<noteq> RevisionCnt (Some lp)
                   then set_revision (RevisionCnt (Some lp)) s else s))"

text \<open>What happens before the deciders run: update the profile, set up and load the lists.\<close>

definition prepare_connection :: "fw_env \<Rightarrow> layered \<Rightarrow> fw \<Rightarrow> fw go" where
  "prepare_connection env lp s =
     (let (updated, s) = update_profile env lp s;
          s = (if updated then on_entity ResetLists s else s)
      in bind_go (read_option FilterSubDomains env s) (\<lambda>(sub, s).
         bind_go (read_option FilterCNAMEs env (on_entity (ResolveSubDomainLists sub) s)) (\<lambda>(cn, s).
           Inr (on_entity (\<lambda>e. LoadLists (fe_intel env) (EnableCNAMECheck cn e)) s))))"

text \<open>What happens when no decider came to a conclusion.\<close>

definition default_verdict :: "fw_env \<Rightarrow> byte \<Rightarrow> fw \<Rightarrow> fw" where
  "default_verdict env action s =
     (if c_Type (fw_conn s) = DNSRequest
      then Accept (fe_cfg env) ''allowing dns request'' [] s
      else if action = DefaultActionPermit
      then Accept (fe_cfg env) ''allowed by default action'' ''filter/defaultAction'' s
      else if action = DefaultActionAsk
      then (if c_Verdict (fw_conn s) = VerdictUndecided then prompt env s else s)
      else Deny (fe_cfg env) ''blocked by default action'' ''filter/defaultAction'' s)"

definition decideOnConnection :: "fw_env \<Rightarrow> fw \<Rightarrow> fw go" where
  "decideOnConnection env s =
     (case fw_lp s of
        None \<Rightarrow> Inr (Deny (fe_cfg env) ''unknown process or profile'' [] s)
      | Some lp \<Rightarrow>
          bind_go (prepare_connection env lp s) (\<lambda>s.
          bind_go (runDeciders defaultDeciders env s) (\<lambda>(done, action, s).
            if done then Inr s else Inr (default_verdict env action s))))"

section \<open>Tunneling\<close>

definition FetchData :: "intel_env \<Rightarrow> entity \<Rightarrow> entity" where
  "FetchData env e = LoadLists env (getLocation env e)"

text \<open>The part of \<^verbatim>\<open>checkTunneling\<close> that consults the profile.\<close>

definition tunnel_checked :: "fw_env \<Rightarrow> layered \<Rightarrow> fw \<Rightarrow> fw go" where
  "tunnel_checked env lp s =
     bind_go (read_option UseSPN env (snd (update_profile env lp s))) (\<lambda>(useSPN, s).
       if \<not> useSPN then Inr s
       else with_profile s (\<lambda>lp.
         bind_go (match_entity (MatchSPNUsagePolicy (fe_intel env) (fe_cfg env) lp)
                    (on_entity (FetchData (fe_intel env)) s)) (\<lambda>(result, reason, s).
           if result = MatchError
           then Inr (Failed (fe_cfg env) ''failed to check SPN rules'' ''spn/usagePolicy'' s)
           else if result = Denied then Inr s
           else let s = SaveWhenFinished s
                in if \<not> ClientReady env
                   then Inr (Failed (fe_cfg env) ''SPN not ready for tunneling'' [] s)
                   else Inr (on_conn (\<lambda>c. c\<lparr>Tunneled := True\<rparr>)
                          (SetVerdictDirectly VerdictRerouteToTunnel s)))))"

definition checkTunneling :: "fw_env \<Rightarrow> fw \<Rightarrow> fw go" where
  "checkTunneling env s =
     (let c = fw_conn s
      in if \<not> tunnelEnabled env \<or> \<not> IsGlobal (e_IPScope (Entity c)) \<or> Inbound c \<or>
            c_Verdict c \<noteq> VerdictAccept \<or> c_IPProtocol c \<noteq> 6 \<and> c_IPProtocol c \<noteq> 17
         then Inr s
         else with_process s (\<lambda>p.
           if Pid p = ownPID env \<and> (\<not> ClientReady env \<or> IsExcepted env (e_IP (Entity c))) then Inr s
           else case GetLocalNetwork (fe_net env) (e_IP (Entity c)) (fw_net s) of (r, net) \<Rightarrow>
             let s = s\<lparr>fw_net := net\<rparr>
             in if (case r of Inr (Some n) \<Rightarrow> True | _ \<Rightarrow> False) then Inr s
                else case fw_lp s of
                  None \<Rightarrow> Inr (Failed (fe_cfg env) ''no profile set'' [] s)
                | Some lp \<Rightarrow>
                    tunnel_checked env lp s))"

lemmas decider_defs [go_simps] =
  checkPortmasterConnection_def checkIfBroadcastReply_def checkConnectionType_def check_p2p_def
  checkConnectionScope_def checkEndpointLists_def checkEndpointListsForSystemResolverDNSRequests_def
  checkInvalidIP_def checkResolverScope_def checkConnectivityDomain_def checkBypassPrevention_def
  checkFilterLists_def checkCustomFilterList_def checkDomainHeuristics_def checkAutoPermitRelated_def
  read_option_def with_process_def with_profile_def match_entity_def apply_result_def

end
