(* ===== verification/Firewall_Rules.thy ===== *)
theory Firewall_Rules
  imports Firewall
begin

text \<open>
  Properties of the firewall decisions.  The locale \<open>decider_contract\<close> states what the decision
  relies on in every decider: on a state with a process, a usable profile and a consistent
  entity it does not panic, it keeps such a state and leaves alone what other deciders read,
  and it sets a final verdict just when it reports a conclusion.  It is interpreted for each of
  the thirteen deciders and for their composition.
\<close>

section \<open>Successful runs\<close>

definition ok_go :: "'a go \<Rightarrow> ('a \<Rightarrow> bool) \<Rightarrow> bool" where
  "ok_go m P \<longleftrightarrow> (\<exists>x. m = Inr x \<and> P x)"

lemma ok_go_simps [simp]:
  "ok_go (Inr x) P = P x" "\<not> ok_go (Inl p) P"
  "ok_go (bind_go m f) P \<longleftrightarrow> ok_go m (\<lambda>x. ok_go (f x) P)"
  by (auto simp: ok_go_def bind_go_Inr_iff)

lemma ok_go_mono: "ok_go m P \<Longrightarrow> (\<And>x. P x \<Longrightarrow> Q x) \<Longrightarrow> ok_go m Q"
  by (auto simp: ok_go_def)

section \<open>What deciders leave alone\<close>

definition ent_core :: "entity \<Rightarrow> ip \<times> IPScope \<times> byte \<times> port \<times> port \<times> string \<times> string list \<times> (string \<times> string list) list" where
  "ent_core e = (e_IP e, e_IPScope e, e_Protocol e, e_Port e, e_dstPort e, e_Domain e, CNAME e, ListOccurences e)"

definition core :: "fw \<Rightarrow> _" where
  "core s = (let c = fw_conn s in
     (c_process c, c_Type c, Inbound c, c_IPProtocol c, LocalIP c, LocalPort c, Resolver_IPScope c,
      ent_core (Entity c), map_option (\<lambda>lp. (localProfile lp, layers lp)) (fw_lp s)))"

definition setting :: "fw_env \<Rightarrow> fw \<Rightarrow> string \<Rightarrow> bool" where
  "setting env s key = bools.value_of_option key (fe_cfg env) (the (fw_lp s))"

definition lp_ok :: "global_config \<Rightarrow> layered \<Rightarrow> bool" where
  "lp_ok cfg lp \<longleftrightarrow> localProfile lp \<noteq> None \<and> bools.coherent cfg lp \<and> IsValid cfg (globalValidityFlag lp)"

definition fw_ok :: "fw_env \<Rightarrow> fw \<Rightarrow> bool" where
  "fw_ok env s \<longleftrightarrow> c_process (fw_conn s) \<noteq> None \<and>
     (case fw_lp s of None \<Rightarrow> False | Some lp \<Rightarrow> lp_ok (fe_cfg env) lp) \<and>
     ent_ok (fe_intel env) (entity_of s)"

lemma getLocation_core [simp]: "ent_core (getLocation env e) = ent_core e"
  by (auto simp: ent_core_def getLocation_def Let_def split: sum.split)

lemma MatchLists_core: "MatchLists ls e = (h, e') \<Longrightarrow> ent_core e' = ent_core e"
  by (auto simp: MatchLists_def ent_core_def Let_def split: if_splits)

lemma GetDomain_core: "GetDomain env b e = (d, e') \<Longrightarrow> ent_core e' = ent_core e"
  by (auto simp: GetDomain_def reverseResolve_def ent_core_def Let_def split: if_splits option.splits)

lemma GetASN_core: "GetASN env e = (n, e') \<Longrightarrow> ent_core e' = ent_core e"
  by (auto simp: GetASN_def Let_def)

lemma GetCountryInfo_core: "GetCountryInfo env e = Inr (n, e') \<Longrightarrow> ent_core e' = ent_core e"
  by (auto simp: GetCountryInfo_def Let_def split: if_splits option.splits)

lemmas entity_core = MatchLists_core GetDomain_core GetASN_core GetCountryInfo_core

lemma with_entity_Inr: "with_entity p e = Inr (r, m, e') \<longleftrightarrow> r = fst p \<and> m = snd p \<and> e' = e"
  by (auto simp: with_entity_def)

lemma domain_Matches_core:
  "Matches env (EndpointDomain b d) e = Inr (r, m, e') \<Longrightarrow> ent_core e' = ent_core e"
  using GetDomain_core [of env True e]
  by (cases "GetDomain env True e") (auto simp: with_entity_Inr case_prod_unfold Let_def split: option.splits if_splits)

lemma Matches_core:
  "Matches env ep e = Inr (r, m, e') \<Longrightarrow> ent_core e' = ent_core e"
proof (cases ep)
  case (EndpointDomain b d)
  then show "Matches env ep e = Inr (r, m, e') \<Longrightarrow> ent_core e' = ent_core e"
    by (simp only: domain_Matches_core)
qed (auto simp: with_entity_Inr bind_go_Inr_iff split: option.splits prod.splits if_splits dest: entity_core)

lemma first_match_core:
  "first_match (Matches env) eps e = Inr (r, m, e') \<Longrightarrow> ent_core e' = ent_core e"
proof (induction eps arbitrary: e)
  case (Cons x eps)
  show ?case
  proof (cases x)
    case None
    with Cons show ?thesis by simp
  next
    case (Some ep)
    with Cons.prems obtain r1 m1 e1 where "Matches env ep e = Inr (r1, m1, e1)"
      "e' = e1 \<or> first_match (Matches env) eps e1 = Inr (r, m, e')"
      by (auto simp: bind_go_Inr_iff split: if_splits)
    then show ?thesis using Cons.IH [of e1] Matches_core [of env ep e] by metis
  qed
qed simp

lemma core_verdict [simp]:
  "core (SetVerdict cfg v m k x s) = core s"
  "core (SetVerdictDirectly v s) = core s"
  "core (SaveWhenFinished s) = core s"
  "core (SetPrompt n s) = core s"
  "core (on_conn (\<lambda>c. c\<lparr>Internal := b\<rparr>) s) = core s"
  "core (on_conn (\<lambda>c. c\<lparr>Inspecting := b\<rparr>) s) = core s"
  "core (s\<lparr>fw_net := net\<rparr>) = core s"
  by (simp_all add: core_def SetVerdictDirectly_def SaveWhenFinished_def SetPrompt_def SetVerdict_def Let_def)

lemma fw_ok_verdict [simp]:
  "fw_ok env (SetVerdict cfg v m k x s) = fw_ok env s"
  "fw_ok env (SetVerdictDirectly v s) = fw_ok env s"
  "fw_ok env (SaveWhenFinished s) = fw_ok env s"
  "fw_ok env (SetPrompt n s) = fw_ok env s"
  "fw_ok env (on_conn (\<lambda>c. c\<lparr>Internal := b\<rparr>) s) = fw_ok env s"
  "fw_ok env (on_conn (\<lambda>c. c\<lparr>Inspecting := b\<rparr>) s) = fw_ok env s"
  "fw_ok env (s\<lparr>fw_net := net\<rparr>) = fw_ok env s"
  by (simp_all add: fw_ok_def SetVerdictDirectly_def SaveWhenFinished_def SetPrompt_def SetVerdict_def Let_def)

lemma setting_core: "core s' = core s \<Longrightarrow> setting env s' key = setting env s key"
  by (cases "fw_lp s"; cases "fw_lp s'")
     (auto simp: core_def setting_def bools.value_of_option_def fresh_def Let_def)

definition keeps :: "fw_env \<Rightarrow> fw \<Rightarrow> fw \<Rightarrow> bool" where
  "keeps env s s' \<longleftrightarrow> fw_ok env s' \<and> core s' = core s \<and> c_Verdict (fw_conn s') = c_Verdict (fw_conn s)"

lemma keeps_refl: "fw_ok env s \<Longrightarrow> keeps env s s"
  by (simp add: keeps_def)

lemma read_lp_ok: "lp_ok cfg lp \<Longrightarrow> wrapBoolOption key cfg lp = (v, lp') \<Longrightarrow>
    lp_ok cfg lp' \<and> layers lp' = layers lp \<and> localProfile lp' = localProfile lp"
  using bools.coherent_read [of cfg lp key] bools.read_frame [of key cfg lp]
  by (auto simp: lp_ok_def) (auto simp: wrapBoolOption_def Let_def)

lemma keeps_trans: "keeps env s s1 \<Longrightarrow> keeps env s1 s2 \<Longrightarrow> keeps env s s2"
  by (simp add: keeps_def)

lemma keeps_ok [dest]: "keeps env s s' \<Longrightarrow> fw_ok env s'"
  by (simp add: keeps_def)

lemma read_ok:
  assumes k: "keeps env base s" and P: "\<And>s'. keeps env base s' \<Longrightarrow> P (setting env base key, s')"
  shows "ok_go (read_option (wrapBoolOption key) env s) P"
proof -
  from keeps_ok [OF k] obtain lp where lp: "fw_lp s = Some lp" "lp_ok (fe_cfg env) lp"
    by (auto simp: fw_ok_def split: option.splits)
  obtain v lp' where r: "wrapBoolOption key (fe_cfg env) lp = (v, lp')" by fastforce
  have "v = setting env s key"
    using bools.read_coherent [of "fe_cfg env" lp key] lp r by (simp add: setting_def lp_ok_def)
  moreover have "setting env s key = setting env base key"
    using k by (intro setting_core) (simp add: keeps_def)
  moreover have "keeps env s (s\<lparr>fw_lp := Some lp'\<rparr>)"
    using keeps_ok [OF k] lp read_lp_ok [OF lp(2) r] by (auto simp: keeps_def fw_ok_def core_def)
  ultimately show ?thesis using P keeps_trans [OF k] lp r by (simp add: read_option_def)
qed

lemma keeps_entity:
  assumes "fw_ok env s" "ent_ok (fe_intel env) e" "ent_core e = ent_core (entity_of s)"
  shows "keeps env s (on_entity (\<lambda>_. e) s)"
  using assms by (auto simp: keeps_def fw_ok_def core_def on_entity_def Let_def)

lemma match_ok:
  assumes k: "keeps env base s"
    and P: "\<And>res m s'. keeps env base s' \<Longrightarrow> (res \<noteq> NoMatch \<Longrightarrow> m \<noteq> None) \<Longrightarrow> P (res, m, s')"
  shows "ok_go (match_entity (Match (fe_intel env) eps) s) P"
proof -
  have "ent_ok (fe_intel env) (entity_of s)" using keeps_ok [OF k] by (simp add: fw_ok_def)
  from rules.eval_ok [OF this, of eps] obtain res m e'
    where m: "Match (fe_intel env) eps (entity_of s) = Inr (res, m, e')" "ent_ok (fe_intel env) e'" by blast
  then have "keeps env s (on_entity (\<lambda>_. e') s)"
    using keeps_ok [OF k] first_match_core by (intro keeps_entity) (auto simp: Match_def)
  moreover have "res \<noteq> NoMatch \<Longrightarrow> m \<noteq> None" using rules.eval_reason [OF m(1)] .
  ultimately show ?thesis using P keeps_trans [OF k] m(1) by (simp add: match_entity_def)
qed

lemma match_lists_ok:
  assumes "keeps env base s" and "match_lists ids s = (hit, s')" shows "keeps env base s'"
proof -
  obtain e where e: "MatchLists ids (entity_of s) = (hit, e)" "s' = on_entity (\<lambda>_. e) s"
    using assms(2) by (auto simp: match_lists_def split: prod.splits)
  moreover from this have "ent_ok (fe_intel env) e"
    using assms(1) MatchLists_ok by (auto simp: fw_ok_def dest!: keeps_ok)
  ultimately show ?thesis
    using keeps_trans [OF assms(1) keeps_entity] MatchLists_core keeps_ok [OF assms(1)] by blast
qed

section \<open>The contract of deciders\<close>

definition final :: "Verdict \<Rightarrow> bool" where
  "final v \<longleftrightarrow> v = VerdictAccept \<or> v = VerdictBlock \<or> v = VerdictDrop"

definition good :: "fw_env \<Rightarrow> fw \<Rightarrow> bool \<times> fw \<Rightarrow> bool" where
  "good env s = (\<lambda>(done, s'). if done then fw_ok env s' \<and> core s' = core s \<and> final (c_Verdict (fw_conn s'))
     else keeps env s s')"

locale decider_contract =
  fixes decide :: decider and env :: fw_env
  assumes decide_ok: "fw_ok env s \<Longrightarrow> ok_go (decide env s) (good env s)"

lemma good_trans: "keeps env s s1 \<Longrightarrow> good env s1 r \<Longrightarrow> good env s r"
  by (auto simp: good_def keeps_def split: prod.splits if_splits)

lemma run_deciders_contract:
  "list_all (\<lambda>d. decider_contract d env) ds \<Longrightarrow> decider_contract (run_deciders ds) env"
proof (induction ds)
  case Nil
  show ?case by unfold_locales (simp add: good_def keeps_refl)
next
  case (Cons d ds)
  show ?case
  proof
    fix s assume s: "fw_ok env s"
    have "ok_go (d env s) (good env s)" using Cons.prems s by (simp add: decider_contract_def)
    then show "ok_go (run_deciders (d # ds) env s) (good env s)"
    proof (simp, elim ok_go_mono)
      fix r assume "good env s r"
      obtain b s1 where r: "r = (b, s1)" by fastforce
      show "ok_go (case r of (done, s) \<Rightarrow> if done then Inr (True, s) else run_deciders ds env s) (good env s)"
      proof (cases b)
        case True
        with r \<open>good env s r\<close> show ?thesis by (simp add: good_def)
      next
        case False
        with r \<open>good env s r\<close> have k: "keeps env s s1" by (simp add: good_def)
        have "decider_contract (run_deciders ds) env" using Cons by simp
        then have "ok_go (run_deciders ds env s1) (good env s1)"
          using keeps_ok [OF k] by (simp add: decider_contract_def)
        then show ?thesis using r False good_trans [OF k] by (simp add: ok_go_mono)
      qed
    qed
  qed
qed

lemmas option_defs = DisableAutoPermit_def BlockScopeLocal_def BlockScopeLAN_def BlockScopeInternet_def
  BlockP2P_def BlockInbound_def RemoveOutOfScopeDNS_def RemoveBlockedDNS_def FilterSubDomains_def
  FilterCNAMEs_def PreventBypassing_def DomainHeuristics_def UseSPN_def EnableHistory_def

lemma good_verdict:
  "keeps env s s' \<Longrightarrow> final v \<Longrightarrow> good env s (True, SetVerdict cfg v m k x s')"
  by (simp add: good_def keeps_def)

lemma final_simps [simp]: "final VerdictAccept" "final VerdictBlock" "final VerdictDrop"
  by (simp_all add: final_def)

lemma good_pass: "keeps env s s' \<Longrightarrow> good env s (False, s')"
  by (simp add: good_def)

lemma fw_ok_process: "fw_ok env s \<Longrightarrow> \<exists>p. c_process (fw_conn s) = Some p"
  by (auto simp: fw_ok_def)

lemmas ok_intros = good_verdict good_pass

interpretation scope: decider_contract checkConnectionScope env for env
proof
  fix s assume "fw_ok env s"
  then show "ok_go (checkConnectionScope env s) (good env s)"
    unfolding checkConnectionScope_def option_defs
    by (auto simp: verdict_methods split: IPScope.split
        intro!: read_ok [where base = s] ok_intros intro: keeps_refl)
qed

interpretation own: decider_contract checkPortmasterConnection env for env
proof
  fix s assume "fw_ok env s"
  moreover from this obtain p where "c_process (fw_conn s) = Some p" using fw_ok_process by blast
  ultimately show "ok_go (checkPortmasterConnection env s) (good env s)"
    by (auto simp: checkPortmasterConnection_def with_process_def verdict_methods good_def keeps_def Let_def
        split: sum.split prod.split)
qed

interpretation broadcast: decider_contract checkIfBroadcastReply env for env
proof
  fix s assume "fw_ok env s"
  then show "ok_go (checkIfBroadcastReply env s) (good env s)"
    by (auto simp: checkIfBroadcastReply_def verdict_methods good_def keeps_def Let_def
        split: sum.split prod.split option.split)
qed

lemma match_lists_conn:
  assumes "keeps env base s"
  shows "case match_lists ids s of (hit, s') \<Rightarrow> fw_ok env s' \<and> core s' = core base \<and> keeps env base s'"
  using match_lists_ok [OF assms] by (auto simp: keeps_def split: prod.split)

lemma check_p2p_blocks:
  assumes "keeps env base s"
  shows "ok_go (check_p2p env s) (\<lambda>(done, s'). if done then fw_ok env s' \<and> core s' = core base \<and>
      c_Verdict (fw_conn s') = VerdictBlock else keeps env base s')"
  unfolding check_p2p_def BlockP2P_def ok_go_simps
  by (rule read_ok [where base = base], rule assms, frule match_lists_conn [where ids = p2pFilterLists])
     (auto simp: verdict_methods case_prod_unfold)

interpretation conntype: decider_contract checkConnectionType env for env
proof
  fix s assume ok: "fw_ok env s"
  have "ok_go (check_p2p env s') (good env s)" if "keeps env s s'" for s'
    using check_p2p_blocks [OF that] by (rule ok_go_mono) (auto simp: good_def split: if_splits)
  then show "ok_go (checkConnectionType env s) (good env s)"
    unfolding checkConnectionType_def BlockInbound_def ok_go_simps
    by (intro read_ok [where base = s] keeps_refl ok) (auto simp: verdict_methods intro!: good_verdict)
qed

interpretation connectivity: decider_contract checkConnectivityDomain env for env
proof
  fix s assume "fw_ok env s"
  then show "ok_go (checkConnectivityDomain env s) (good env s)"
    unfolding checkConnectivityDomain_def option_defs
    by (auto simp: verdict_methods intro!: read_ok [where base = s] ok_intros intro: keeps_refl)
qed

interpretation invalid_ip: decider_contract checkInvalidIP env for env
  by unfold_locales (auto simp: checkInvalidIP_def verdict_methods intro!: ok_intros intro: keeps_refl)

interpretation resolver_scope: decider_contract checkResolverScope env for env
proof
  fix s assume "fw_ok env s"
  then show "ok_go (checkResolverScope env s) (good env s)"
    unfolding checkResolverScope_def option_defs
    by (auto simp: verdict_methods Let_def split: option.split
        intro!: read_ok [where base = s] ok_intros intro: keeps_refl)
qed

interpretation heuristics: decider_contract checkDomainHeuristics env for env
proof
  fix s assume "fw_ok env s"
  then show "ok_go (checkDomainHeuristics env s) (good env s)"
    unfolding checkDomainHeuristics_def option_defs
    by (auto simp: verdict_methods Let_def split: option.split
        intro!: read_ok [where base = s] ok_intros intro: keeps_refl)
qed

lemma keeps_inspecting: "keeps env s s' \<Longrightarrow> keeps env s (on_conn (\<lambda>c. c\<lparr>Inspecting := b\<rparr>) s')"
  by (simp add: keeps_def)

lemma bypassing_keeps:
  assumes "keeps env base s" "firewall_PreventBypassing env s = (r, m, x, s')"
  shows "keeps env base s'"
proof (cases "match_lists resolverFilterLists s")
  case (Pair hit s1)
  have "keeps env base s1" using match_lists_ok [OF assms(1) Pair] .
  then show ?thesis
    using assms keeps_inspecting [OF assms(1)] Pair
    by (auto simp: firewall_PreventBypassing_def Let_def split: if_splits)
qed

interpretation bypass: decider_contract checkBypassPrevention env for env
proof
  fix s assume "fw_ok env s"
  then show "ok_go (checkBypassPrevention env s) (good env s)"
    unfolding checkBypassPrevention_def option_defs
    by (auto simp: verdict_methods split: prod.split EPResult.split dest: bypassing_keeps
        intro!: read_ok [where base = s] ok_intros intro: keeps_refl)
qed

lemma apply_result_ok:
  "keeps env base s \<Longrightarrow> (res \<noteq> NoMatch \<Longrightarrow> m \<noteq> None) \<Longrightarrow>
   ok_go (apply_result env key (res, m, s)) (good env base)"
  by (auto simp: apply_result_def verdict_methods split: option.split intro!: ok_intros)

lemma match_layers_eq: "match_layers env rules ls global = Match env (concat (map rules ls) @ global)"
  by (rule ext) (rule match_layers_concat)

lemma reverse_keeps: "keeps env base s \<Longrightarrow> keeps env base (on_entity EnableReverseResolving s)"
  by (auto simp: keeps_def core_def fw_ok_def ent_ok_def loc_ok_def on_entity_def ent_core_def
      EnableReverseResolving_def Let_def)

lemma match_entity_reverse:
  "match_entity (\<lambda>e. f (EnableReverseResolving e)) s = match_entity f (on_entity EnableReverseResolving s)"
  by (simp add: match_entity_def on_entity_def on_conn_def)

lemma local_match_ok:
  assumes "fw_ok env s"
  shows "ok_go (checkEndpointListsForSystemResolverDNSRequests env s) (good env s)"
proof -
  obtain lp loc where "fw_lp s = Some lp" "localProfile lp = Some loc"
    using assms by (auto simp: fw_ok_def lp_ok_def split: option.splits)
  then show ?thesis
    using assms
    by (auto simp: checkEndpointListsForSystemResolverDNSRequests_def with_profile_def Let_def
        intro!: match_ok [where base = s] apply_result_ok good_pass intro: keeps_refl split: if_split)
qed

interpretation rule_lists: decider_contract checkEndpointLists env for env
proof
  fix s assume ok: "fw_ok env s"
  then obtain lp where "fw_lp s = Some lp" by (auto simp: fw_ok_def split: option.splits)
  then show "ok_go (checkEndpointLists env s) (good env s)"
    using local_match_ok [OF ok] keeps_refl [OF ok] reverse_keeps [OF keeps_refl [OF ok]]
    by (auto simp: checkEndpointLists_def with_profile_def MatchServiceEndpoint_def [abs_def]
        MatchEndpoint_def [abs_def] match_layers_eq match_entity_reverse [where f = "Match i eps" for i eps]
        intro!: match_ok [where base = s] apply_result_ok)
qed

lemma MatchFilterLists_keeps:
  assumes ok: "fw_ok env s" and lp: "fw_lp s = Some lp"
    and m: "MatchFilterLists (fe_cfg env) lp (entity_of s) = ((res, r, e), lp')"
  shows "keeps env s (on_entity (\<lambda>_. e) (s\<lparr>fw_lp := Some lp'\<rparr>))" and "res = Denied \<Longrightarrow> r \<noteq> None"
proof -
  let ?cfg = "fe_cfg env"
  have l: "lp_ok ?cfg lp" "ent_ok (fe_intel env) (entity_of s)" using ok lp by (simp_all add: fw_ok_def)
  obtain v1 lp1 v2 where r1: "wrapBoolOption ''filter/includeSubdomains'' ?cfg lp = (v1, lp1)"
    and r2: "wrapBoolOption ''filter/includeCNAMEs'' ?cfg lp1 = (v2, lp')"
    using m by (auto simp: MatchFilterLists_def FilterSubDomains_def FilterCNAMEs_def Let_def split: prod.splits)
  from read_lp_ok [OF l(1) r1] have l1: "lp_ok ?cfg lp1" "layers lp1 = layers lp" "localProfile lp1 = localProfile lp" by auto
  from read_lp_ok [OF l1(1) r2] l1 have l2: "lp_ok ?cfg lp'" "layers lp' = layers lp" "localProfile lp' = localProfile lp" by auto
  let ?e = "EnableCNAMECheck v2 (ResolveSubDomainLists v1 (entity_of s))"
  have e0: "ent_ok (fe_intel env) ?e" "ent_core ?e = ent_core (entity_of s)"
    using l(2) by (simp_all add: ent_ok_def loc_ok_def ent_core_def EnableCNAMECheck_def ResolveSubDomainLists_def)
  have d: "deny_lists ids ?e = (res, r, e)" if "ids = active_lists ?cfg lp" for ids
    using m that r1 r2 MatchFilterLists_eq [of ?cfg lp "entity_of s"]
    by (simp add: FilterSubDomains_def FilterCNAMEs_def)
  then have "ent_ok (fe_intel env) e \<and> ent_core e = ent_core ?e \<and> (res = Denied \<longrightarrow> r \<noteq> None)"
    using MatchLists_ok [OF e0(1)] MatchLists_core
    by (fastforce simp: deny_lists_def split: prod.splits if_splits)
  then show "keeps env s (on_entity (\<lambda>_. e) (s\<lparr>fw_lp := Some lp'\<rparr>))" "res = Denied \<Longrightarrow> r \<noteq> None"
    using ok lp l2 e0 by (auto simp: keeps_def fw_ok_def core_def on_entity_def Let_def)
qed

interpretation lists: decider_contract checkFilterLists env for env
proof
  fix s assume ok: "fw_ok env s"
  then obtain lp where lp: "fw_lp s = Some lp" by (auto simp: fw_ok_def split: option.splits)
  obtain res r e lp' where m: "MatchFilterLists (fe_cfg env) lp (entity_of s) = ((res, r, e), lp')"
    by (metis prod.exhaust)
  from MatchFilterLists_keeps [OF ok lp m] show "ok_go (checkFilterLists env s) (good env s)"
    using lp m by (auto simp: checkFilterLists_def with_profile_def verdict_methods Let_def
        split: option.split intro!: ok_intros)
qed

lemma custom_domain_ok:
  assumes k: "keeps env base s" and P: "\<And>x s'. keeps env base s' \<Longrightarrow> P (x, s')"
  shows "ok_go (custom_domain env s) P"
  using k unfolding custom_domain_def FilterSubDomains_def
  by (auto intro!: read_ok [where base = base] P split: prod.split)

lemma custom_cnames_ok:
  assumes k: "keeps env base s" and P: "\<And>x s'. keeps env base s' \<Longrightarrow> P (x, s')"
  shows "ok_go (custom_cnames env cs s) P"
  using k
proof (induction cs arbitrary: s)
  case (Cons c cs)
  then show ?case
    by (auto simp: FilterSubDomains_def intro!: read_ok [where base = base] P split: prod.split)
qed (simp add: P)

lemma custom_entity_ok: "keeps env base s \<Longrightarrow> ok_go (custom_entity env s) (good env base)"
  by (simp add: custom_entity_def verdict_methods Let_def good_verdict good_pass)

lemma Deny_good: "keeps env base s \<Longrightarrow> good env base (True, Deny cfg m k s)"
  by (simp add: verdict_methods good_verdict)

interpretation custom: decider_contract checkCustomFilterList env for env
proof
  fix s assume ok: "fw_ok env s"
  show "ok_go (checkCustomFilterList env s) (good env s)"
    using keeps_refl [OF ok] unfolding checkCustomFilterList_def FilterCNAMEs_def Let_def
    by (auto split: option.split intro!: custom_domain_ok [where base = s]
          custom_cnames_ok [where base = s] read_ok [where base = s] custom_entity_ok Deny_good good_pass)
qed

interpretation related: decider_contract checkAutoPermitRelated env for env
proof
  fix s assume ok: "fw_ok env s"
  then obtain lp p where lp: "fw_lp s = Some lp" "c_process (fw_conn s) = Some p"
    by (auto simp: fw_ok_def split: option.splits)
  have rel: "ok_go (checkRelation env s') P" if "keeps env s s'" "\<And>x. P x" for s' P
    using that lp by (auto simp: checkRelation_def with_process_def keeps_def core_def Let_def split: option.split)
  show "ok_go (checkAutoPermitRelated env s) (good env s)"
    using keeps_refl [OF ok] lp unfolding checkAutoPermitRelated_def DisableAutoPermit_def
    by (auto simp: verdict_methods with_profile_def intro!: read_ok [where base = s] rel ok_intros)
qed

lemma defaultDeciders_contract: "list_all (\<lambda>d. decider_contract d env) defaultDeciders"
  by (simp add: defaultDeciders_def own.decider_contract_axioms broadcast.decider_contract_axioms
      conntype.decider_contract_axioms scope.decider_contract_axioms rule_lists.decider_contract_axioms
      invalid_ip.decider_contract_axioms resolver_scope.decider_contract_axioms
      connectivity.decider_contract_axioms bypass.decider_contract_axioms lists.decider_contract_axioms
      custom.decider_contract_axioms heuristics.decider_contract_axioms related.decider_contract_axioms)

interpretation all: decider_contract "run_deciders defaultDeciders" env for env
  by (rule run_deciders_contract [OF defaultDeciders_contract])

end
