(* ===== verification/Firewall_Decisions.thy ===== *)
theory Firewall_Decisions
  imports Firewall_Rules
begin

text \<open>
  Properties of \<^verbatim>\<open>decideOnConnection\<close> and of single deciders: a decision always comes to a verdict,
  own connections are granted, forced blocks cannot be lifted by rules, errors in rules and
  unknown profiles deny, and tunneling only ever follows an accepted verdict.
\<close>

section \<open>Preparation\<close>

definition ready :: "fw_env \<Rightarrow> fw \<Rightarrow> bool" where
  "ready env s \<longleftrightarrow> c_process (fw_conn s) \<noteq> None \<and> ent_ok (fe_intel env) (entity_of s) \<and>
     (case fw_lp s of None \<Rightarrow> False | Some lp \<Rightarrow>
        lp_inv (fe_cfg env, lp) \<and> localProfile lp \<noteq> None \<and> RevisionCounter lp \<noteq> -1 \<and>
        list_all (refetchable (GetLocalProfile env)) (layers lp))"

definition request :: "fw \<Rightarrow> _" where
  "request s = (let c = fw_conn s; e = Entity c in
     (c_process c, c_Type c, Inbound c, c_IPProtocol c, LocalIP c, LocalPort c, Resolver_IPScope c,
      e_IP e, e_IPScope e, e_Protocol e, e_Port e, e_dstPort e, e_Domain e, CNAME e, c_Verdict c))"

lemma update_profile_ok:
  assumes "ready env s" and "fw_lp s = Some lp" and "update_profile env lp s = (b, s')"
  shows "fw_ok env s'" and "request s' = request s" and "b = NeedsUpdate (fe_cfg env) lp"
    and "\<not> NeedsUpdate (fe_cfg env) lp \<Longrightarrow> fw_lp s' = fw_lp s"
proof -
  let ?cfg = "fe_cfg env"
  let ?lp = "snd (Update (GetLocalProfile env) ?cfg lp)"
  have r: "c_process (fw_conn s) \<noteq> None" "ent_ok (fe_intel env) (entity_of s)" "lp_inv (?cfg, lp)"
    "localProfile lp \<noteq> None" "RevisionCounter lp \<noteq> -1" "list_all (refetchable (GetLocalProfile env)) (layers lp)"
    using assms(1,2) by (auto simp: ready_def)
  have "lp_inv (?cfg, ?lp)" using lp_step.update [OF r(5)] r(3) by (rule lp_step_inv)
  then have new: "lp_ok ?cfg ?lp"
    using Update_keeps_local [OF r(6,4)] NeedsUpdate_valid [OF Update_settles [OF r(6)]]
    by (simp add: lp_ok_def lp_inv_def)
  have old: "\<not> NeedsUpdate ?cfg lp \<Longrightarrow> lp_ok ?cfg lp"
    using r NeedsUpdate_valid [of ?cfg lp] by (simp add: lp_ok_def lp_inv_def)
  have s': "b = NeedsUpdate ?cfg lp"
    "s' = (if NeedsUpdate ?cfg lp then set_revision (fst (Update (GetLocalProfile env) ?cfg lp)) (s\<lparr>fw_lp := Some ?lp\<rparr>)
       else if ProfileRevisionCounter (fw_conn s) \<noteq> RevisionCnt (Some lp)
         then set_revision (RevisionCnt (Some lp)) s else s)"
    using assms(3) by (auto simp: update_profile_def split: prod.splits if_splits)
  show "b = NeedsUpdate ?cfg lp" by (rule s'(1))
  show "fw_ok env s'"
    using r new old assms(2) by (auto simp: s'(2) fw_ok_def set_revision_def SaveWhenFinished_def)
  show "request s' = request s"
    by (simp add: s'(2) request_def set_revision_def SaveWhenFinished_def Let_def)
  show "\<not> NeedsUpdate ?cfg lp \<Longrightarrow> fw_lp s' = fw_lp s"
    by (simp add: s'(2) set_revision_def SaveWhenFinished_def)
qed

lemma fw_ok_ent: "fw_ok env s \<Longrightarrow> ent_ok (fe_intel env) (entity_of s)"
  by (simp add: fw_ok_def)

lemma fw_ok_entity:
  "fw_ok env s \<Longrightarrow> ent_ok (fe_intel env) (f (entity_of s)) \<Longrightarrow> fw_ok env (on_entity f s)"
  by (simp add: fw_ok_def on_entity_def)

lemma mergeList_ok [simp]: "ent_ok env (mergeList k l e) = ent_ok env e"
  by (simp add: ent_ok_def loc_ok_def mergeList_def)

lemma ent_ok_flags [simp]:
  "ent_ok env (e\<lparr>ListsError := x\<rparr>) = ent_ok env e" "ent_ok env (e\<lparr>domainListLoaded := b\<rparr>) = ent_ok env e"
  "ent_ok env (e\<lparr>loadDomainListOnce := b\<rparr>) = ent_ok env e" "ent_ok env (e\<lparr>asnListLoaded := b\<rparr>) = ent_ok env e"
  "ent_ok env (e\<lparr>loadAsnListOnce := b\<rparr>) = ent_ok env e" "ent_ok env (e\<lparr>ipListLoaded := b\<rparr>) = ent_ok env e"
  "ent_ok env (e\<lparr>loadIPListOnce := b\<rparr>) = ent_ok env e" "ent_ok env (e\<lparr>countryListLoaded := b\<rparr>) = ent_ok env e"
  "ent_ok env (e\<lparr>loadCountryListOnce := b\<rparr>) = ent_ok env e" "ent_ok env (EnableCNAMECheck b e) = ent_ok env e"
  "ent_ok env (ResolveSubDomainLists b e) = ent_ok env e" "ent_ok env (ResetLists e) = ent_ok env e"
  by (simp_all add: ent_ok_def loc_ok_def EnableCNAMECheck_def ResolveSubDomainLists_def ResetLists_def)

lemma load_domains_ok [simp]: "ent_ok env (load_domains env' ds e) = ent_ok env e"
  by (induction env' ds e rule: load_domains.induct) (auto split: sum.split)

lemma loaders_ok:
  "ent_ok env e \<Longrightarrow> ent_ok env (getDomainLists env e)" "ent_ok env e \<Longrightarrow> ent_ok env (getASNLists env e)"
  "ent_ok env e \<Longrightarrow> ent_ok env (getIPLists env e)" "ent_ok env e \<Longrightarrow> ent_ok env (getCountryLists env e)"
  by (auto simp: loader_defs getLocation_ok split: sum.split)

lemma LoadLists_ok: "ent_ok env e \<Longrightarrow> ent_ok env (LoadLists env e)"
  by (simp add: LoadLists_def loaders_ok)

definition ent_request :: "entity \<Rightarrow> _" where
  "ent_request e = (e_IP e, e_IPScope e, e_Protocol e, e_Port e, e_dstPort e, e_Domain e, CNAME e)"

lemma ent_request_simps [simp]:
  "ent_request (e\<lparr>ListsError := x\<rparr>) = ent_request e" "ent_request (e\<lparr>domainListLoaded := b\<rparr>) = ent_request e"
  "ent_request (e\<lparr>loadDomainListOnce := b\<rparr>) = ent_request e" "ent_request (e\<lparr>asnListLoaded := b\<rparr>) = ent_request e"
  "ent_request (e\<lparr>loadAsnListOnce := b\<rparr>) = ent_request e" "ent_request (e\<lparr>ipListLoaded := b\<rparr>) = ent_request e"
  "ent_request (e\<lparr>loadIPListOnce := b\<rparr>) = ent_request e" "ent_request (e\<lparr>countryListLoaded := b\<rparr>) = ent_request e"
  "ent_request (e\<lparr>loadCountryListOnce := b\<rparr>) = ent_request e" "ent_request (EnableCNAMECheck b e) = ent_request e"
  "ent_request (ResolveSubDomainLists b e) = ent_request e" "ent_request (ResetLists e) = ent_request e"
  "ent_request (mergeList k l e) = ent_request e"
  by (simp_all add: ent_request_def EnableCNAMECheck_def ResolveSubDomainLists_def ResetLists_def mergeList_def)

lemma getLocation_request [simp]: "ent_request (getLocation env e) = ent_request e"
  using getLocation_core [of env e] by (simp add: ent_request_def ent_core_def)

lemma load_domains_request [simp]: "ent_request (load_domains env ds e) = ent_request e"
  by (induction env ds e rule: load_domains.induct) (auto split: sum.split)

lemma loaders_request:
  "ent_request (getDomainLists env e) = ent_request e" "ent_request (getASNLists env e) = ent_request e"
  "ent_request (getIPLists env e) = ent_request e" "ent_request (getCountryLists env e) = ent_request e"
  by (auto simp: loader_defs split: sum.split)

lemma LoadLists_request [simp]: "ent_request (LoadLists env e) = ent_request e"
  by (simp add: LoadLists_def loaders_request)

lemma request_on_entity: "ent_request (f (entity_of s)) = ent_request (entity_of s) \<Longrightarrow> request (on_entity f s) = request s"
  by (simp add: request_def on_entity_def ent_request_def Let_def)

lemma keeps_request: "keeps env s s' \<Longrightarrow> request s' = request s"
  by (auto simp: keeps_def core_def request_def ent_core_def Let_def)

lemma keeps_layers: "keeps env s s' \<Longrightarrow> map_option layers (fw_lp s') = map_option layers (fw_lp s)"
  by (cases "fw_lp s"; cases "fw_lp s'") (auto simp: keeps_def core_def Let_def)

lemma on_entity_lp [simp]: "fw_lp (on_entity f s) = fw_lp s" "entity_of (on_entity f s) = f (entity_of s)"
  by (simp_all add: on_entity_def)

definition settled :: "fw_env \<Rightarrow> fw \<Rightarrow> bool" where
  "settled env s \<longleftrightarrow> (case fw_lp s of None \<Rightarrow> False | Some lp \<Rightarrow> \<not> NeedsUpdate (fe_cfg env) lp)"

lemma settled_layers:
  assumes "map_option layers (fw_lp s') = map_option layers (fw_lp s)" and "settled env s" and "fw_ok env s'"
  shows "settled env s'"
  using assms by (cases "fw_lp s"; cases "fw_lp s'") (auto simp: settled_def fw_ok_def lp_ok_def NeedsUpdate_def)

lemma update_profile_request: "request (snd (update_profile env lp s)) = request s"
  by (simp add: update_profile_def request_def set_revision_def SaveWhenFinished_def Let_def split: prod.split)

lemma update_profile_layers:
  "fw_lp s = Some lp \<Longrightarrow> \<not> NeedsUpdate (fe_cfg env) lp \<Longrightarrow>
   map_option layers (fw_lp (snd (update_profile env lp s))) = Some (layers lp)"
  by (simp add: update_profile_def set_revision_def SaveWhenFinished_def)

text \<open>States whose profile is usable once it has been brought up to date.\<close>

definition usable :: "fw_env \<Rightarrow> layered \<Rightarrow> fw \<Rightarrow> bool" where
  "usable env lp s \<longleftrightarrow> fw_lp s = Some lp \<and> fw_ok env (snd (update_profile env lp s)) \<and>
     settled env (snd (update_profile env lp s))"

lemma ready_usable:
  assumes "ready env s" and "fw_lp s = Some lp"
  shows "usable env lp s"
  using assms update_profile_ok(1) [OF assms, of "fst (update_profile env lp s)"]
    Update_settles [of "GetLocalProfile env" lp "fe_cfg env"]
  by (auto simp: usable_def) (auto simp: update_profile_def set_revision_def SaveWhenFinished_def settled_def
      ready_def split: prod.split)

lemma settled_usable:
  assumes "fw_ok env s" and "settled env s" and "fw_lp s = Some lp"
  shows "usable env lp s"
  using assms by (simp add: usable_def update_profile_def settled_def set_revision_def)
    (simp add: fw_ok_def SaveWhenFinished_def)

lemma prepare_ok:
  assumes r: "usable env lp s"
  shows "ok_go (prepare_connection env lp s) (\<lambda>s'. fw_ok env s' \<and> request s' = request s \<and>
    map_option layers (fw_lp s') = map_option layers (fw_lp (snd (update_profile env lp s))))"
proof -
  obtain b s1 where u: "update_profile env lp s = (b, s1)" by fastforce
  have u1: "fw_ok env s1" "request s1 = request s"
    using r update_profile_request [of env lp s] by (simp_all add: usable_def u)
  define s2 where "s2 = (if b then on_entity ResetLists s1 else s1)"
  have s2: "fw_ok env s2" "request s2 = request s" "fw_lp s2 = fw_lp s1"
    using u1 by (auto simp: s2_def request_on_entity intro!: fw_ok_entity dest: fw_ok_ent)
  have fin: "fw_ok env (on_entity (\<lambda>e. LoadLists (fe_intel env) (EnableCNAMECheck cn e)) s') \<and>
      request (on_entity (\<lambda>e. LoadLists (fe_intel env) (EnableCNAMECheck cn e)) s') = request s' \<and>
      fw_lp (on_entity (\<lambda>e. LoadLists (fe_intel env) (EnableCNAMECheck cn e)) s') = fw_lp s'" if "fw_ok env s'" for cn s'
    using that by (auto simp: request_on_entity LoadLists_ok intro!: fw_ok_entity dest: fw_ok_ent)
  have sub: "fw_ok env (on_entity (ResolveSubDomainLists v) s') \<and> request (on_entity (ResolveSubDomainLists v) s') = request s'"
    if "fw_ok env s'" for v s'
    using that by (auto simp: request_on_entity intro!: fw_ok_entity dest: fw_ok_ent)
  have last: "ok_go (read_option (wrapBoolOption ''filter/includeCNAMEs'') env (on_entity (ResolveSubDomainLists v) s3))
      (\<lambda>(cn, s4). fw_ok env (on_entity (\<lambda>e. LoadLists (fe_intel env) (EnableCNAMECheck cn e)) s4) \<and>
        request (on_entity (\<lambda>e. LoadLists (fe_intel env) (EnableCNAMECheck cn e)) s4) = request s \<and>
        map_option layers (fw_lp s4) = map_option layers (fw_lp s1))"
    if k: "keeps env s2 s3" for v s3
  proof (rule read_ok [where base = "on_entity (ResolveSubDomainLists v) s3"])
    note s3 = keeps_ok [OF k] keeps_request [OF k] keeps_layers [OF k] sub [OF keeps_ok [OF k], of v]
    show "keeps env (on_entity (ResolveSubDomainLists v) s3) (on_entity (ResolveSubDomainLists v) s3)"
      using s3 by (simp add: keeps_refl)
    fix s4 assume k4: "keeps env (on_entity (ResolveSubDomainLists v) s3) s4"
    show "case (setting env (on_entity (ResolveSubDomainLists v) s3) ''filter/includeCNAMEs'', s4) of (cn, s4) \<Rightarrow>
        fw_ok env (on_entity (\<lambda>e. LoadLists (fe_intel env) (EnableCNAMECheck cn e)) s4) \<and>
        request (on_entity (\<lambda>e. LoadLists (fe_intel env) (EnableCNAMECheck cn e)) s4) = request s \<and>
        map_option layers (fw_lp s4) = map_option layers (fw_lp s1)"
      using fin [OF keeps_ok [OF k4]] keeps_request [OF k4] keeps_layers [OF k4] s3 s2(2,3)
      by (simp del: map_option_eq_Some)
  qed
  show ?thesis
    unfolding prepare_connection_def u FilterSubDomains_def FilterCNAMEs_def Let_def prod.case snd_conv
      s2_def [symmetric] ok_go_simps
    by (rule read_ok [where base = s2], rule keeps_refl, rule s2(1))
       (use last in \<open>simp add: case_prod_unfold\<close>)
qed

section \<open>Decisions\<close>

lemma prompt_final:
  assumes "fw_ok env s" shows "final (c_Verdict (fw_conn (prompt env s)))"
proof -
  obtain lp loc where "fw_lp s = Some lp" "localProfile lp = Some loc"
    using assms by (auto simp: fw_ok_def lp_ok_def split: option.splits)
  then show ?thesis
    by (auto simp: prompt_def createPrompt_def verdict_methods Let_def split: option.split prompt_event.split)
qed

lemma default_verdict_final:
  assumes "fw_ok env s"
  shows "final (c_Verdict (fw_conn (default_verdict env a s))) \<or>
    default_verdict env a s = s \<and> c_Verdict (fw_conn s) \<noteq> VerdictUndecided"
  using prompt_final [OF assms] by (auto simp: default_verdict_def verdict_methods)

lemma runDeciders_ok:
  assumes "fw_ok env s"
  shows "ok_go (runDeciders defaultDeciders env s) (\<lambda>(done, a, s'). good env s (done, s'))"
proof -
  have "ok_go (run_deciders defaultDeciders env s) (good env s)" using all.decide_ok [OF assms] .
  then show ?thesis
    unfolding runDeciders_def
  proof (simp, elim ok_go_mono)
    fix r assume "good env s r"
    moreover obtain b s' where "r = (b, s')" by fastforce
    ultimately show "ok_go (case r of (done, s) \<Rightarrow> if done then Inr (True, DefaultActionNotSet, s)
        else with_profile s (\<lambda>p. Inr (False, DefaultAction (fe_cfg env) p, s))) (\<lambda>(done, a, s'). good env s (done, s'))"
      by (cases b) (auto simp: good_def keeps_def fw_ok_def with_profile_def split: option.splits)
  qed
qed

lemma decide_via_usable:
  assumes r: "usable env lp s"
    and P: "\<And>s1. fw_ok env s1 \<Longrightarrow> request s1 = request s \<Longrightarrow>
      (\<not> NeedsUpdate (fe_cfg env) lp \<Longrightarrow> map_option layers (fw_lp s1) = Some (layers lp)) \<Longrightarrow> settled env s1 \<Longrightarrow>
      ok_go (runDeciders defaultDeciders env s1)
        (\<lambda>(done, a, s2). P (if done then s2 else default_verdict env a s2))"
  shows "ok_go (decideOnConnection env s) P"
proof -
  have lp: "fw_lp s = Some lp" using r by (simp add: usable_def)
  have "ok_go (prepare_connection env lp s) (\<lambda>s1. ok_go (runDeciders defaultDeciders env s1)
      (\<lambda>(done, a, s2). P (if done then s2 else default_verdict env a s2)))"
    using prepare_ok [OF r]
  proof (rule ok_go_mono, elim conjE)
    fix s1 assume s1: "fw_ok env s1" "request s1 = request s"
      "map_option layers (fw_lp s1) = map_option layers (fw_lp (snd (update_profile env lp s)))"
    have "settled env s1" using settled_layers [OF s1(3) _ s1(1)] r by (simp add: usable_def)
    then show "ok_go (runDeciders defaultDeciders env s1)
        (\<lambda>(done, a, s2). P (if done then s2 else default_verdict env a s2))"
      using P [OF s1(1,2)] update_profile_layers [OF lp] s1(3) by simp
  qed
  then show ?thesis
    using lp by (simp add: decideOnConnection_def) (auto simp: ok_go_def split: if_splits)
qed

lemmas decide_via_deciders = decide_via_usable [OF ready_usable]

lemma decide_total_lemma:
  assumes r: "ready env s"
  shows "ok_go (decideOnConnection env s) (\<lambda>s'. final (c_Verdict (fw_conn s')) \<or>
     c_Verdict (fw_conn s') = c_Verdict (fw_conn s) \<and> c_Verdict (fw_conn s) \<noteq> VerdictUndecided)"
proof -
  obtain lp where lp: "fw_lp s = Some lp" using r by (auto simp: ready_def split: option.splits)
  show ?thesis
  proof (rule decide_via_deciders [OF r lp])
    fix s1 assume s1: "fw_ok env s1" "request s1 = request s"
    have v: "c_Verdict (fw_conn s1) = c_Verdict (fw_conn s)" using s1(2) by (simp add: request_def Let_def)
    show "ok_go (runDeciders defaultDeciders env s1) (\<lambda>(done, a, s2).
      final (c_Verdict (fw_conn (if done then s2 else default_verdict env a s2))) \<or>
      c_Verdict (fw_conn (if done then s2 else default_verdict env a s2)) = c_Verdict (fw_conn s) \<and>
      c_Verdict (fw_conn s) \<noteq> VerdictUndecided)"
      using runDeciders_ok [OF s1(1)]
    proof (rule ok_go_mono, clarify)
      fix b a s2 assume g: "good env s1 (b, s2)" and n: "\<not> (c_Verdict (fw_conn (if b then s2 else default_verdict env a s2)) =
          c_Verdict (fw_conn s) \<and> c_Verdict (fw_conn s) \<noteq> VerdictUndecided)"
      show "final (c_Verdict (fw_conn (if b then s2 else default_verdict env a s2)))"
        using g n v default_verdict_final [of env s2 a] by (auto simp: good_def keeps_def split: if_splits)
    qed
  qed
qed

section \<open>Which decider decides\<close>

lemma run_deciders_decides:
  "run_deciders ds env s = Inr (True, s') \<Longrightarrow>
   \<exists>pre d post s1. ds = pre @ d # post \<and> run_deciders pre env s = Inr (False, s1) \<and> d env s1 = Inr (True, s')"
proof (induction ds arbitrary: s)
  case (Cons d ds)
  from Cons.prems obtain b s1 where d: "d env s = Inr (b, s1)"
    "if b then s' = s1 else run_deciders ds env s1 = Inr (True, s')"
    by (auto simp: bind_go_Inr_iff split: if_splits)
  show ?case
  proof (cases b)
    case True
    have "d # ds = [] @ d # ds \<and> run_deciders [] env s = Inr (False, s) \<and> d env s = Inr (True, s')"
      using d True by simp
    then show ?thesis by blast
  next
    case False
    with d Cons.IH [of s1] obtain pre d' post s2 where "ds = pre @ d' # post"
      "run_deciders pre env s1 = Inr (False, s2)" "d' env s2 = Inr (True, s')" by auto
    then have "d # ds = (d # pre) @ d' # post \<and> run_deciders (d # pre) env s = Inr (False, s2) \<and>
        d' env s2 = Inr (True, s')" using d False by simp
    then show ?thesis by blast
  qed
qed simp

lemma run_deciders_append:
  "run_deciders (pre @ post) env s =
     bind_go (run_deciders pre env s) (\<lambda>(done, s). if done then Inr (True, s) else run_deciders post env s)"
  by (induction pre arbitrary: s) (auto simp: bind_go_def split: sum.split)


section \<open>Blocks that no rule can lift\<close>

definition denied :: "Verdict \<Rightarrow> bool" where
  "denied v \<longleftrightarrow> v = VerdictBlock \<or> v = VerdictDrop"

definition inbound_blocked :: "fw_env \<Rightarrow> fw \<Rightarrow> bool" where
  "inbound_blocked env s \<longleftrightarrow> setting env s ''filter/blockInbound'' \<and> Inbound (fw_conn s) \<and>
     \<not> IsLocalhost (e_IPScope (entity_of s))"

definition scope_blocked :: "fw_env \<Rightarrow> fw \<Rightarrow> bool" where
  "scope_blocked env s \<longleftrightarrow>
     (if c_Type (fw_conn s) = DNSRequest
      then setting env s ''filter/blockInternet'' \<and> setting env s ''filter/blockLAN''
      else case e_IPScope (entity_of s) of
        Global \<Rightarrow> setting env s ''filter/blockInternet''
      | GlobalMulticast \<Rightarrow> setting env s ''filter/blockInternet''
      | SiteLocal \<Rightarrow> setting env s ''filter/blockLAN''
      | LinkLocal \<Rightarrow> setting env s ''filter/blockLAN''
      | LocalMulticast \<Rightarrow> setting env s ''filter/blockLAN''
      | HostLocal \<Rightarrow> setting env s ''filter/blockLocal''
      | _ \<Rightarrow> False)"

lemma denied_simps [simp]: "denied VerdictBlock" "denied VerdictDrop"
  by (simp_all add: denied_def)

lemma keeps_fields:
  "keeps env s s' \<Longrightarrow> Inbound (fw_conn s') = Inbound (fw_conn s) \<and> c_Type (fw_conn s') = c_Type (fw_conn s) \<and>
     e_IPScope (entity_of s') = e_IPScope (entity_of s) \<and> e_Domain (entity_of s') = e_Domain (entity_of s)"
  by (auto simp: keeps_def core_def ent_core_def Let_def)

lemma type_blocks:
  assumes ok: "fw_ok env s"
  shows "ok_go (checkConnectionType env s) (\<lambda>(done, s').
    if done then denied (c_Verdict (fw_conn s')) else keeps env s s' \<and> \<not> inbound_blocked env s)"
proof -
  have p2p: "ok_go (check_p2p env s') (\<lambda>(done, s'). if done then denied (c_Verdict (fw_conn s')) else keeps env s s')"
    if "keeps env s s'" for s'
    using check_p2p_blocks [OF that] by (rule ok_go_mono) (auto split: if_splits)
  show ?thesis
    unfolding checkConnectionType_def BlockInbound_def ok_go_simps
    by (intro read_ok [where base = s] keeps_refl ok, frule keeps_fields, drule p2p)
       (cases "inbound_blocked env s", simp_all add: inbound_blocked_def verdict_methods if_bool_eq_conj)
qed

lemma scope_blocks:
  assumes ok: "fw_ok env s"
  shows "ok_go (checkConnectionScope env s) (\<lambda>(done, s').
    if done then denied (c_Verdict (fw_conn s')) else keeps env s s' \<and> \<not> scope_blocked env s)"
  using keeps_refl [OF ok] unfolding checkConnectionScope_def option_defs
  by (auto simp: verdict_methods scope_blocked_def split: IPScope.splits
      intro!: read_ok [where base = s])

lemma blocked_cong:
  assumes "setting env s' = setting env s" "Inbound (fw_conn s') = Inbound (fw_conn s)"
    "c_Type (fw_conn s') = c_Type (fw_conn s)" "e_IPScope (entity_of s') = e_IPScope (entity_of s)"
  shows "inbound_blocked env s' = inbound_blocked env s" and "scope_blocked env s' = scope_blocked env s"
  using assms by (simp_all add: inbound_blocked_def scope_blocked_def split: IPScope.split)

lemma keeps_blocked:
  assumes k: "keeps env s s'"
  shows "inbound_blocked env s' = inbound_blocked env s" "scope_blocked env s' = scope_blocked env s"
proof -
  have "setting env s' = setting env s" using k by (intro ext setting_core) (simp add: keeps_def)
  then show "inbound_blocked env s' = inbound_blocked env s" "scope_blocked env s' = scope_blocked env s"
    using keeps_fields [OF k] by (auto dest: blocked_cong)
qed

lemma forced_block_run:
  assumes ok: "fw_ok env s" and b: "inbound_blocked env s \<or> scope_blocked env s"
  shows "ok_go (run_deciders (checkConnectionType # checkConnectionScope # ds) env s)
    (\<lambda>(done, s'). done \<and> denied (c_Verdict (fw_conn s')))"
proof -
  have "ok_go (checkConnectionScope env s1) (\<lambda>(done, s'). done \<and> denied (c_Verdict (fw_conn s')))"
    if "keeps env s s1" "\<not> inbound_blocked env s" for s1
    using scope_blocks [OF keeps_ok [OF that(1)]] that b keeps_blocked [OF that(1)]
    by (auto elim!: ok_go_mono split: if_splits)
  then have "ok_go (checkConnectionType env s) (\<lambda>(done, s'). if done then denied (c_Verdict (fw_conn s'))
      else ok_go (checkConnectionScope env s') (\<lambda>(done, s'). done \<and> denied (c_Verdict (fw_conn s'))))"
    using type_blocks [OF ok] by (auto elim!: ok_go_mono split: if_splits)
  then show ?thesis
    by (auto elim!: ok_go_mono split: if_splits)
qed

lemma setting_layers:
  "map_option layers (fw_lp s') = map_option layers (fw_lp s) \<Longrightarrow> setting env s' key = setting env s key"
  by (cases "fw_lp s"; cases "fw_lp s'") (auto simp: setting_def bools.value_of_option_def fresh_def)

lemma request_fields:
  "request s' = request s \<Longrightarrow> Inbound (fw_conn s') = Inbound (fw_conn s) \<and> c_Type (fw_conn s') = c_Type (fw_conn s) \<and>
     e_IPScope (entity_of s') = e_IPScope (entity_of s) \<and> c_process (fw_conn s') = c_process (fw_conn s) \<and>
     LocalIP (fw_conn s') = LocalIP (fw_conn s) \<and> LocalPort (fw_conn s') = LocalPort (fw_conn s) \<and>
     e_Protocol (entity_of s') = e_Protocol (entity_of s)"
  by (auto simp: request_def Let_def)

lemma multicast_request:
  "request s' = request s \<Longrightarrow>
   GetMulticastRequestConn conns (fw_conn s') n = GetMulticastRequestConn conns (fw_conn s) n"
  using request_fields [of s' s] by (simp add: GetMulticastRequestConn_def Let_def)

lemma broadcast_passes:
  assumes "fw_ok env s" and "\<not> Inbound (fw_conn s) \<or> (\<forall>n. GetMulticastRequestConn (fe_conns env) (fw_conn s) n = None)"
  shows "ok_go (checkIfBroadcastReply env s) (\<lambda>(done, s'). \<not> done \<and> keeps env s s')"
  using assms by (auto simp: checkIfBroadcastReply_def Let_def keeps_def split: prod.split sum.split option.split)

lemma ok_run_decides:
  assumes "ok_go (run_deciders ds env s) (\<lambda>(done, s'). done \<and> P s')"
  shows "ok_go (runDeciders ds env s) (\<lambda>(done, a, s'). done \<and> P s')"
  using assms by (auto simp: runDeciders_def ok_go_def)

lemma own_passes:
  "c_process (fw_conn s) = Some p \<Longrightarrow> Pid p \<noteq> ownPID env \<Longrightarrow> checkPortmasterConnection env s = Inr (False, s)"
  by (simp add: checkPortmasterConnection_def with_process_def)

lemma forced_block_deciders:
  assumes ok: "fw_ok env s" and b: "inbound_blocked env s \<or> scope_blocked env s"
    and p: "c_process (fw_conn s) = Some p" "Pid p \<noteq> ownPID env"
    and m: "\<not> Inbound (fw_conn s) \<or> (\<forall>n. GetMulticastRequestConn (fe_conns env) (fw_conn s) n = None)"
  shows "ok_go (run_deciders defaultDeciders env s) (\<lambda>(done, s'). done \<and> denied (c_Verdict (fw_conn s')))"
proof -
  have "ok_go (run_deciders (checkConnectionType # checkConnectionScope # ds) env s')
      (\<lambda>(done, s'). done \<and> denied (c_Verdict (fw_conn s')))" if k: "keeps env s s'" for s' ds
  proof (rule forced_block_run)
    show "fw_ok env s'" using k by blast
    show "inbound_blocked env s' \<or> scope_blocked env s'" using b keeps_blocked [OF k] by simp
  qed
  then have bc: "ok_go (checkIfBroadcastReply env s) (\<lambda>(done, s'). \<not> done \<and>
      ok_go (run_deciders (checkConnectionType # checkConnectionScope # ds) env s')
      (\<lambda>(done, s'). done \<and> denied (c_Verdict (fw_conn s'))))" for ds
    using broadcast_passes [OF ok m] by (auto elim!: ok_go_mono simp del: run_deciders.simps)
  have "ok_go (run_deciders (checkPortmasterConnection # checkIfBroadcastReply # checkConnectionType #
      checkConnectionScope # ds) env s) (\<lambda>(done, s'). done \<and> denied (c_Verdict (fw_conn s')))" for ds
    unfolding run_deciders.simps(2) [of checkPortmasterConnection] run_deciders.simps(2) [of checkIfBroadcastReply]
      own_passes [OF p] ok_go_simps
    using bc [of ds] by (auto elim!: ok_go_mono simp del: run_deciders.simps)
  then show ?thesis unfolding defaultDeciders_def .
qed

text \<open>
  C1: Every connection gets a verdict.  With a process, a profile in a reachable state whose
  outdated layers can be fetched again, and a consistent entity, \<^verbatim>\<open>decideOnConnection\<close> does not panic
  and ends with accept, block or drop, or keeps a verdict the connection already had; it never
  leaves a connection undecided.
\<close>

theorem decide_total:
  assumes "ready env s"
  shows "\<exists>s'. decideOnConnection env s = Inr s' \<and>
    (final (c_Verdict (fw_conn s')) \<or>
     c_Verdict (fw_conn s') = c_Verdict (fw_conn s) \<and> c_Verdict (fw_conn s) \<noteq> VerdictUndecided)"
  using decide_total_lemma [OF assms] by (simp add: ok_go_def)

text \<open>
  A connection without known process or profile is denied: dropped if inbound, blocked
  otherwise.
\<close>

theorem unknown_profile_denied:
  assumes "fw_lp s = None"
  shows "\<exists>s'. decideOnConnection env s = Inr s' \<and>
    c_Verdict (fw_conn s') = (if Inbound (fw_conn s) then VerdictDrop else VerdictBlock)"
  using assms by (simp add: decideOnConnection_def verdict_methods)

text \<open>
  The firewall does not lock itself out.  Outgoing connections of the Portmaster process
  are accepted and marked internal, whatever the settings.
\<close>

theorem own_connections_accepted:
  assumes r: "ready env s" and p: "c_process (fw_conn s) = Some p" "Pid p = ownPID env"
    and out: "\<not> Inbound (fw_conn s)"
  shows "\<exists>s'. decideOnConnection env s = Inr s' \<and> c_Verdict (fw_conn s') = VerdictAccept \<and> Internal (fw_conn s')"
proof -
  obtain lp where lp: "fw_lp s = Some lp" using r by (auto simp: ready_def split: option.splits)
  have "ok_go (decideOnConnection env s) (\<lambda>s'. c_Verdict (fw_conn s') = VerdictAccept \<and> Internal (fw_conn s'))"
  proof (rule decide_via_deciders [OF r lp])
    fix s1 assume "request s1 = request s"
    then have s1: "c_process (fw_conn s1) = Some p" "\<not> Inbound (fw_conn s1)"
      using request_fields [of s1 s] p out by auto
    show "ok_go (runDeciders defaultDeciders env s1) (\<lambda>(done, a, s2).
        c_Verdict (fw_conn (if done then s2 else default_verdict env a s2)) = VerdictAccept \<and>
        Internal (fw_conn (if done then s2 else default_verdict env a s2)))"
      using s1 p by (simp add: runDeciders_def defaultDeciders_def checkPortmasterConnection_def with_process_def
          verdict_methods)
  qed
  then show ?thesis by (simp add: ok_go_def)
qed

text \<open>
  C2: Blocking settings beat rules.  If inbound connections, the scope of the address or, for
  DNS requests, both Internet and LAN are blocked by the settings, the connection of another
  process is denied whatever the rules say, unless it answers a broadcast of its own.
\<close>

theorem force_block_beats_rules:
  assumes r: "ready env s" and lp: "fw_lp s = Some lp" and n: "\<not> NeedsUpdate (fe_cfg env) lp"
    and b: "inbound_blocked env s \<or> scope_blocked env s"
    and p: "c_process (fw_conn s) = Some p" "Pid p \<noteq> ownPID env"
    and m: "\<not> Inbound (fw_conn s) \<or> (\<forall>n. GetMulticastRequestConn (fe_conns env) (fw_conn s) n = None)"
  shows "\<exists>s'. decideOnConnection env s = Inr s' \<and> denied (c_Verdict (fw_conn s'))"
proof -
  have "ok_go (decideOnConnection env s) (\<lambda>s'. denied (c_Verdict (fw_conn s')))"
  proof (rule decide_via_deciders [OF r lp])
    fix s1 assume s1: "fw_ok env s1" "request s1 = request s"
      "\<not> NeedsUpdate (fe_cfg env) lp \<Longrightarrow> map_option layers (fw_lp s1) = Some (layers lp)"
    have "setting env s1 = setting env s" using s1(3) n lp by (intro ext setting_layers) simp
    then have "inbound_blocked env s1 \<or> scope_blocked env s1"
      using b request_fields [OF s1(2)] by (simp add: blocked_cong [of env s1 s])
    then have "ok_go (run_deciders defaultDeciders env s1) (\<lambda>(done, s'). done \<and> denied (c_Verdict (fw_conn s')))"
      using request_fields [OF s1(2)] multicast_request [OF s1(2)] p m
      by (intro forced_block_deciders [OF s1(1)]) auto
    from ok_run_decides [OF this]
    show "ok_go (runDeciders defaultDeciders env s1)
        (\<lambda>(done, a, s2). denied (c_Verdict (fw_conn (if done then s2 else default_verdict env a s2))))"
      by (auto elim!: ok_go_mono)
  qed
  then show ?thesis by (simp add: ok_go_def)
qed



definition listed_in :: "entity \<Rightarrow> string \<Rightarrow> bool" where
  "listed_in e l \<longleftrightarrow> (\<exists>k kl. (k, kl) \<in> set (ListOccurences e) \<and> l \<in> set kl)"

lemma fst_list_hits: "fst ` set (list_hits ids (ListOccurences e)) = {l \<in> set ids. listed_in e l}"
  unfolding set_list_hits listed_in_def by force

lemma deny_lists_hits: "fst (deny_lists ids e) = Denied \<longleftrightarrow> (\<exists>l \<in> set ids. listed_in e l)"
proof -
  have "fst (deny_lists ids e) = Denied \<longleftrightarrow> ids \<noteq> [] \<and> fst ` set (list_hits ids (ListOccurences e)) \<noteq> {}"
    by (auto simp: deny_lists_def MatchLists_def Let_def)
  then show ?thesis unfolding fst_list_hits by auto
qed

lemma deny_lists_blocked:
  assumes "deny_lists ids e = (Denied, r, e')"
  shows "set (BlockedByLists e') = {l \<in> set ids. listed_in e l}"
  using assms unfolding fst_list_hits [symmetric]
  by (clarsimp simp: deny_lists_def MatchLists_def Let_def split: if_splits)

lemma list_setup_occurences:
  "ListOccurences (EnableCNAMECheck c (ResolveSubDomainLists b e)) = ListOccurences e"
  by (simp add: EnableCNAMECheck_def ResolveSubDomainLists_def)

text \<open>
  C17: The filter list check denies just if the entity is in an active list and in no active
  unbreak list; otherwise it leaves the verdict alone.
\<close>

theorem filter_lists_verdict:
  assumes ok: "fw_ok env s" and lp: "fw_lp s = Some lp"
  shows "\<exists>done s'. checkFilterLists env s = Inr (done, s') \<and>
    (done \<longleftrightarrow> (\<exists>l \<in> set (active_lists (fe_cfg env) lp). listed_in (entity_of s) l) \<and>
       \<not> (\<exists>l \<in> set (active_lists (fe_cfg env) lp). l \<in> set (unbreakIDs env) \<and> listed_in (entity_of s) l)) \<and>
    c_Verdict (fw_conn s') = (if \<not> done then c_Verdict (fw_conn s)
      else if Inbound (fw_conn s) then VerdictDrop else VerdictBlock)"
proof -
  obtain res r e lp' where m: "MatchFilterLists (fe_cfg env) lp (entity_of s) = ((res, r, e), lp')"
    by (metis prod.exhaust)
  note k = MatchFilterLists_keeps [OF ok lp m]
  obtain e0 where e0: "ListOccurences e0 = ListOccurences (entity_of s)"
    "deny_lists (active_lists (fe_cfg env) lp) e0 = (res, r, e)"
    using MatchFilterLists_eq [of "fe_cfg env" lp "entity_of s"] m
    by (metis fst_conv list_setup_occurences)
  have hit: "res = Denied \<longleftrightarrow> (\<exists>l \<in> set (active_lists (fe_cfg env) lp). listed_in (entity_of s) l)"
    using deny_lists_hits [of "active_lists (fe_cfg env) lp" e0] e0 by (simp add: listed_in_def)
  have blk: "res = Denied \<Longrightarrow> set (BlockedByLists e) = {l \<in> set (active_lists (fe_cfg env) lp). listed_in (entity_of s) l}"
    using deny_lists_blocked [of "active_lists (fe_cfg env) lp" e0 r e] e0 by (simp add: listed_in_def)
  have "Inbound (fw_conn s) = Inbound (fw_conn (on_entity (\<lambda>_. e) (s\<lparr>fw_lp := Some lp'\<rparr>)))"
    "c_Verdict (fw_conn (on_entity (\<lambda>_. e) (s\<lparr>fw_lp := Some lp'\<rparr>))) = c_Verdict (fw_conn s)"
    by (simp_all add: on_entity_def)
  then show ?thesis
    using lp m k(2) hit blk
    by (cases "res = Denied")
       (auto simp: checkFilterLists_def with_profile_def verdict_methods Let_def list_ex_iff split: option.split)
qed


text \<open>
  C18: Bypass prevention blocks foreign DNS.  With the setting on and the own resolver enabled,
  an outgoing connection to port 53 or 853 that is not ICMP and not a DNS request of the system
  resolver is blocked.
\<close>

theorem bypass_prevention_blocks_dns:
  assumes ok: "fw_ok env s" and on: "setting env s ''filter/preventBypassing''"
    and out: "\<not> Inbound (fw_conn s)" "e_Protocol (entity_of s) \<noteq> 1" "e_Protocol (entity_of s) \<noteq> 58"
    and prt: "e_Port (entity_of s) = 53 \<or> e_Port (entity_of s) = 853"
    and sr: "\<not> (c_Type (fw_conn s) = DNSRequest \<and> IsSystemResolver (c_process (fw_conn s)))"
    and res: "\<not> resolver_IsDisabled env"
  shows "\<exists>s'. checkBypassPrevention env s = Inr (True, s') \<and> c_Verdict (fw_conn s') = VerdictBlock"
proof -
  have *: "fst (firewall_PreventBypassing env s1) = Denied" if k: "keeps env s s1" for s1
    using k out prt sr res
    by (auto simp: firewall_PreventBypassing_def keeps_def core_def ent_core_def Let_def)
  have "ok_go (checkBypassPrevention env s) (\<lambda>(done, s'). done \<and> c_Verdict (fw_conn s') = VerdictBlock)"
    unfolding checkBypassPrevention_def PreventBypassing_def ok_go_simps
    by (rule read_ok [where base = s], rule keeps_refl, rule ok)
       (use * on in \<open>auto simp: case_prod_unfold verdict_methods\<close>)
  then show ?thesis by (auto simp: ok_go_def)
qed

lemma read_option_conn: "read_option opt env s = Inr (v, s') \<Longrightarrow> fw_conn s' = fw_conn s"
  by (auto simp: read_option_def split: option.splits prod.splits)

lemma match_entity_conn: "match_entity f s = Inr (r, m, s') \<Longrightarrow> c_Verdict (fw_conn s') = c_Verdict (fw_conn s)"
  by (auto simp: match_entity_def on_entity_def bind_go_Inr_iff)

lemma update_profile_conn: "c_Verdict (fw_conn (snd (update_profile env lp s))) = c_Verdict (fw_conn s)"
  by (simp add: update_profile_def set_revision_def SaveWhenFinished_def split: prod.split)

lemma tunnel_checked_verdict:
  assumes "tunnel_checked env lp s = Inr s'"
  shows "c_Verdict (fw_conn s') = c_Verdict (fw_conn s) \<or>
    c_Verdict (fw_conn s') = VerdictRerouteToTunnel \<and> ClientReady env \<or> c_Verdict (fw_conn s') = VerdictFailed"
proof -
  obtain useSPN s1 where r: "read_option UseSPN env (snd (update_profile env lp s)) = Inr (useSPN, s1)"
    using assms by (auto simp: tunnel_checked_def bind_go_Inr_iff)
  have v1: "c_Verdict (fw_conn s1) = c_Verdict (fw_conn s)"
    using read_option_conn [OF r] update_profile_conn [of env lp s] by simp
  show ?thesis
  proof (cases useSPN)
    case False
    with assms r v1 show ?thesis by (simp add: tunnel_checked_def)
  next
    case True
    with assms r obtain lp1 result m s2 where
      "match_entity (MatchSPNUsagePolicy (fe_intel env) (fe_cfg env) lp1) (on_entity (FetchData (fe_intel env)) s1) =
         Inr (result, m, s2)"
      "s' = s2 \<or> c_Verdict (fw_conn s') = VerdictRerouteToTunnel \<and> ClientReady env \<or> c_Verdict (fw_conn s') = VerdictFailed"
      by (auto simp: tunnel_checked_def with_profile_def bind_go_Inr_iff verdict_methods SetVerdictDirectly_def Let_def
          split: option.splits if_splits)
    then show ?thesis using match_entity_conn v1 by (fastforce simp: on_entity_def)
  qed
qed

text \<open>
  Tunneling never overrides a denial.  \<^verbatim>\<open>checkTunneling\<close> changes the verdict only of accepted,
  outgoing TCP or UDP connections to global addresses, to a tunnel when the client is ready or to
  failed.
\<close>

theorem tunnel_only_accepted:
  assumes "checkTunneling env s = Inr s'"
  shows "c_Verdict (fw_conn s') = c_Verdict (fw_conn s) \<or>
    c_Verdict (fw_conn s) = VerdictAccept \<and> \<not> Inbound (fw_conn s) \<and> IsGlobal (e_IPScope (entity_of s)) \<and>
    tunnelEnabled env \<and> c_IPProtocol (fw_conn s) \<in> {6, 17} \<and>
    (c_Verdict (fw_conn s') = VerdictRerouteToTunnel \<and> ClientReady env \<or> c_Verdict (fw_conn s') = VerdictFailed)"
proof (rule disjCI, rule ccontr)
  assume "\<not> (c_Verdict (fw_conn s) = VerdictAccept \<and> \<not> Inbound (fw_conn s) \<and> IsGlobal (e_IPScope (entity_of s)) \<and>
    tunnelEnabled env \<and> c_IPProtocol (fw_conn s) \<in> {6, 17} \<and>
    (c_Verdict (fw_conn s') = VerdictRerouteToTunnel \<and> ClientReady env \<or> c_Verdict (fw_conn s') = VerdictFailed))"
    "c_Verdict (fw_conn s') \<noteq> c_Verdict (fw_conn s)"
  then show False
    using assms tunnel_checked_verdict [of env _ "s\<lparr>fw_net := snd (GetLocalNetwork (fe_net env) (e_IP (entity_of s)) (fw_net s))\<rparr>" s']
    by (auto simp: checkTunneling_def with_process_def case_prod_unfold verdict_methods Let_def split: if_splits option.splits)
qed

section \<open>Witnesses\<close>

definition sample_process :: process where
  "sample_process = \<lparr>Pid = 100, p_Name = ''curl'', p_Path = ''/usr/bin/curl'', ExecName = ''curl'',
     PrimaryProfileID = ''local/app''\<rparr>"

definition sample_conn :: connection where
  "sample_conn = \<lparr>c_Type = IPConnection, Inbound = False, c_IPProtocol = 6, LocalIP = [10, 0, 0, 5],
     LocalPort = 40000, Entity = sample_entity, Resolver_IPScope = None, c_Verdict = VerdictUndecided,
     Reason = \<lparr>Msg = [], OptionKey = [], reason_Profile = [], reason_Context = NoContext\<rparr>, Ended = 0,
     Inspecting = False, Tunneled = False, dataComplete = True, Internal = False,
     c_process = Some sample_process, saveWhenFinished = False, ProfileRevisionCounter = 0,
     c_prompt = None\<rparr>"

definition sample_fw :: fw where
  "sample_fw = \<lparr>fw_conn = sample_conn, fw_lp = Some sample_layered,
     fw_net = \<lparr>myNetworks = [], network_changed = False, myNetworksRefreshError = None,
               myNetworksDontRefreshUntil = 0\<rparr>\<rparr>"

definition sample_fw_env :: fw_env where
  "sample_fw_env = \<lparr>fe_intel = empty_env, fe_cfg = sample_config,
     fe_net = \<lparr>osGetInterfaceAddrs = Inr [], clock = 5, captivePortalDomain = []\<rparr>, ownPID = 1,
     fe_conns = [], onlineStatus = 5, fe_custom = initFilterLists, unbreakIDs = [],
     EffectiveTLDPlusOne = (\<lambda>d. Some d), levenshtein_Match = (\<lambda>_ _. 0), resolver_IsDisabled = False,
     GetLocalProfile = (\<lambda>_. Inr sample_profile), notifications_Get = (\<lambda>_. None),
     prompt_answer = PromptTimeout, tunnelEnabled = True, ClientReady = True, IsExcepted = (\<lambda>_. False)\<rparr>"

definition sample_inbound :: fw where
  "sample_inbound = on_conn (\<lambda>c. c\<lparr>Inbound := True\<rparr>) sample_fw"

lemma sample_layered_inv: "lp_inv (sample_config, sample_layered)"
  unfolding sample_layered_def
  by (rule lp_step_inv [OF lp_step.update NewLayeredProfile_inv]) (simp add: NewLayeredProfile_def)

lemma sample_layered_state:
  "localProfile sample_layered \<noteq> None" "RevisionCounter sample_layered \<noteq> -1"
  "list_all (refetchable (\<lambda>_. Inr sample_profile)) (layers sample_layered)"
  "\<not> NeedsUpdate sample_config sample_layered"
proof -
  show "localProfile sample_layered \<noteq> None" "RevisionCounter sample_layered \<noteq> -1"
    "\<not> NeedsUpdate sample_config sample_layered" by code_simp+
  show "list_all (refetchable (\<lambda>_. Inr sample_profile)) (layers sample_layered)"
    by (simp add: sample_layered_def Update_def NewLayeredProfile_def refetchable_def sample_profile_def
        increaseRevisionCounter_def Let_def)
qed

lemma sample_ready:
  "c_process (fw_conn s) = Some p \<Longrightarrow> Entity (fw_conn s) = sample_entity \<Longrightarrow> fw_lp s = Some sample_layered \<Longrightarrow>
   ready (sample_fw_env\<lparr>ownPID := n\<rparr>) s"
  using sample_layered_inv sample_layered_state
  by (simp add: ready_def sample_fw_env_def ent_ok_def geo_ok_def loc_ok_def empty_env_def sample_entity_def
      zero_entity_def Init_def)

lemma sample_fields [simp]:
  "fw_lp sample_fw = Some sample_layered" "fw_lp sample_inbound = Some sample_layered"
  "Entity (fw_conn sample_fw) = sample_entity" "Entity (fw_conn sample_inbound) = sample_entity"
  "c_process (fw_conn sample_fw) = Some sample_process" "c_process (fw_conn sample_inbound) = Some sample_process"
  "Inbound (fw_conn sample_inbound)" "\<not> Inbound (fw_conn sample_fw)"
  "c_Type (fw_conn sample_fw) = IPConnection" "c_Verdict (fw_conn sample_fw) = VerdictUndecided"
  by (simp_all add: sample_fw_def sample_inbound_def sample_conn_def)

lemma sample_env_id: "sample_fw_env\<lparr>ownPID := 1\<rparr> = sample_fw_env"
  by (simp add: sample_fw_env_def)

lemma sample_fw_ok: "fw_ok sample_fw_env sample_fw"
  using sample_layered_inv sample_layered_state NeedsUpdate_valid [of sample_config sample_layered]
  by (simp add: fw_ok_def lp_ok_def lp_inv_def sample_fw_env_def ent_ok_def geo_ok_def loc_ok_def empty_env_def
      sample_entity_def zero_entity_def Init_def)

theorem decide_total_witness:
  "\<exists>s'. decideOnConnection sample_fw_env sample_fw = Inr s' \<and> final (c_Verdict (fw_conn s'))"
  using decide_total [OF sample_ready [of sample_fw sample_process 1]] by (simp add: sample_env_id)

theorem unknown_profile_denied_witness:
  "\<exists>s'. decideOnConnection sample_fw_env (sample_fw\<lparr>fw_lp := None\<rparr>) = Inr s' \<and>
     c_Verdict (fw_conn s') = VerdictBlock"
  using unknown_profile_denied [of "sample_fw\<lparr>fw_lp := None\<rparr>" sample_fw_env] by simp

theorem own_connections_accepted_witness:
  "\<exists>s'. decideOnConnection (sample_fw_env\<lparr>ownPID := 100\<rparr>) sample_fw = Inr s' \<and>
     c_Verdict (fw_conn s') = VerdictAccept \<and> Internal (fw_conn s')"
  by (rule own_connections_accepted [OF sample_ready [where p = sample_process], where p = sample_process])
     (simp_all add: sample_process_def sample_fw_env_def)

theorem force_block_beats_rules_witness:
  "\<exists>s'. decideOnConnection sample_fw_env sample_inbound = Inr s' \<and> denied (c_Verdict (fw_conn s'))"
proof (rule force_block_beats_rules)
  show "ready sample_fw_env sample_inbound"
    using sample_ready [of sample_inbound sample_process 1] by (simp add: sample_env_id)
  show "fw_lp sample_inbound = Some sample_layered" by simp
  show "\<not> NeedsUpdate (fe_cfg sample_fw_env) sample_layered"
    using sample_layered_state by (simp add: sample_fw_env_def)
  have "fresh (\<lambda>p. GetAsBool (releaseLevel sample_config) p ''filter/blockInbound'')
      (globalBool sample_config ''filter/blockInbound'') sample_layered" by code_simp
  moreover have "\<not> IsLocalhost (e_IPScope sample_entity)" by code_simp
  ultimately show "inbound_blocked sample_fw_env sample_inbound \<or> scope_blocked sample_fw_env sample_inbound"
    by (simp add: inbound_blocked_def setting_def bools.value_of_option_def sample_fw_env_def)
  show "c_process (fw_conn sample_inbound) = Some sample_process" by simp
  show "Pid sample_process \<noteq> ownPID sample_fw_env" by (simp add: sample_process_def sample_fw_env_def)
  show "\<not> Inbound (fw_conn sample_inbound) \<or>
      (\<forall>n. GetMulticastRequestConn (fe_conns sample_fw_env) (fw_conn sample_inbound) n = None)"
    by (simp add: GetMulticastRequestConn_def sample_fw_env_def)
qed

definition sample_country_rule :: endpoint where
  "sample_country_rule = EndpointCountry (zero_base\<lparr>ep_Permitted := True\<rparr>) ''AT''"


theorem filter_lists_verdict_witness:
  "\<exists>done s'. checkFilterLists sample_fw_env sample_fw = Inr (done, s') \<and> \<not> done"
  using filter_lists_verdict [OF sample_fw_ok, of sample_layered]
  by (auto simp: listed_in_def sample_entity_def zero_entity_def Init_def)

definition sample_dns_request :: fw where
  "sample_dns_request = on_conn (\<lambda>c. c\<lparr>c_Type := DNSRequest,
     c_process := Some (sample_process\<lparr>PrimaryProfileID := ''local/_system-resolver''\<rparr>)\<rparr>) sample_fw"


theorem bypass_prevention_blocks_dns_witness:
  "\<exists>s'. checkBypassPrevention
     (sample_fw_env\<lparr>fe_cfg := sample_config\<lparr>globalBool := (\<lambda>k. k = ''filter/preventBypassing'')\<rparr>\<rparr>)
     (on_entity (\<lambda>e. e\<lparr>e_Port := 853\<rparr>) (sample_fw\<lparr>fw_lp := Some ((NewLayeredProfile sample_profile)
        \<lparr>globalValidityFlag := Some 1\<rparr>)\<rparr>)) = Inr (True, s') \<and> c_Verdict (fw_conn s') = VerdictBlock"
  by (rule bypass_prevention_blocks_dns)
     (simp_all add: fw_ok_def lp_ok_def bools.coherent_def NewLayeredProfile_def IsValid_def sample_fw_env_def
        sample_config_def ent_ok_def geo_ok_def loc_ok_def empty_env_def sample_entity_def zero_entity_def Init_def
        setting_def bools.value_of_option_def fresh_def GetAsBool_def getPerspectiveValueCache_def sample_profile_def
        on_entity_def)

theorem tunnel_only_accepted_witness:
  "checkTunneling sample_fw_env sample_fw = Inr sample_fw \<and>
   c_Verdict (fw_conn sample_fw) \<noteq> VerdictRerouteToTunnel"
proof -
  have t: "checkTunneling sample_fw_env sample_fw = Inr sample_fw" by (simp add: checkTunneling_def)
  from tunnel_only_accepted [OF this] show ?thesis using t by simp
qed

end
