(* ===== verification/Rng.thy ===== *)
theory Rng
  imports Go_Base
begin

text \<open>
  Random numbers in a range, \<^verbatim>\<open>base/rng/get.go\<close>.  The generator is a parameter: the list of the
  64-bit words it gives, \<open>None\<close> for an error.  \<open>DrawsExhausted\<close> says that the list was too short,
  that is, that the rejection loop was still running.
\<close>

datatype 'a drawn = Drawn 'a "64 word option list" | DrawError | DrawsExhausted

fun number_loop :: "64 word \<Rightarrow> 64 word \<Rightarrow> 64 word option list \<Rightarrow> 64 word drawn go" where
  "number_loop secureLimit m [] = Inr DrawsExhausted"
| "number_loop secureLimit m (None # draws) = Inr DrawError"
| "number_loop secureLimit m (Some candidate # draws) =
     (if candidate < secureLimit
      then if m = 0 then Inl DivideByZero else Inr (Drawn (candidate mod m) draws)
      else number_loop secureLimit m draws)"

definition Number :: "64 word \<Rightarrow> 64 word option list \<Rightarrow> 64 word drawn go" where
  "Number m draws =
     (if m = 0 then Inl DivideByZero
      else number_loop (-1 - (-1 mod m)) (m + 1) draws)"

lemma number_loop_range:
  "number_loop l m draws = Inr (Drawn x rest) \<Longrightarrow> x < m"
proof (induction draws)
  case (Cons d draws)
  then show ?case
    by (cases d) (auto split: if_splits intro: word_mod_less_divisor simp: word_neq_0_conv)
qed simp

lemma less_inc_word: "(x :: 64 word) < m + 1 \<Longrightarrow> x \<le> m"
  using unatSuc [of m] by (cases "1 + m = 0") (auto simp: word_less_nat_alt word_le_nat_alt add.commute)

lemma Number_range: "Number m draws = Inr (Drawn x rest) \<Longrightarrow> x \<le> m"
  by (auto simp: Number_def split: if_splits dest!: number_loop_range intro: less_inc_word)

text \<open>
  The range is kept, and a range without an upper neighbour is a panic: the only arguments that
  can make the function panic are 0 and the largest number.
\<close>

lemma Number_panics: "Number m draws = Inl p \<Longrightarrow> m = 0 \<or> m = -1"
proof -
  have "number_loop l k ds = Inl p \<Longrightarrow> k = 0" for l k ds
    by (induction l k ds rule: number_loop.induct) (auto split: if_splits)
  then show "Number m draws = Inl p \<Longrightarrow> m = 0 \<or> m = -1"
    by (auto simp: Number_def split: if_splits) (metis add_eq_0_iff add.commute)
qed

end
