(* ===== verification/Packet_Handler.thy ===== *)
theory Packet_Handler
  imports Firewall Rng
begin

text \<open>
  The way of a packet through the firewall: \<^verbatim>\<open>service/firewall/packet_handler.go\<close>, the queue and
  the handlers of a connection in \<^verbatim>\<open>service/network/connection_handler.go\<close>, the collection of
  connection data in \<^verbatim>\<open>service/network/connection.go\<close>, pre-authenticated ports in
  \<^verbatim>\<open>service/firewall/preauth.go\<close> and the inspectors in \<^verbatim>\<open>service/firewall/inspection\<close>.

  The record \<open>ph\<close> is the state around one connection: the part \<open>fw\<close> that decisions work on, the
  fields of the connection that only packet handling uses, the current handler (\<open>None\<close> for the
  default handler), the packet queue, and the shared tables.  The field \<open>applied\<close> records the
  operations that were applied to packets, in order.

  Left out are log output, metrics, saving of connections, the display scope of a connection, its
  feature flags and tunnel options, and the retry loop that only runs on Windows.
\<close>

section \<open>Packets\<close>

record packet_info =
  i_Inbound :: bool
  i_Protocol :: byte
  i_SrcPort :: port
  i_DstPort :: port
  i_Src :: ip
  i_Dst :: ip
  i_PID :: int

definition info_LocalIP :: "packet_info \<Rightarrow> ip" where
  "info_LocalIP info = (if i_Inbound info then i_Dst info else i_Src info)"

definition info_RemoteIP :: "packet_info \<Rightarrow> ip" where
  "info_RemoteIP info = (if i_Inbound info then i_Src info else i_Dst info)"

definition info_LocalPort :: "packet_info \<Rightarrow> port" where
  "info_LocalPort info = (if i_Inbound info then i_DstPort info else i_SrcPort info)"

definition info_RemotePort :: "packet_info \<Rightarrow> port" where
  "info_RemotePort info = (if i_Inbound info then i_SrcPort info else i_DstPort info)"

text \<open>What loading the data of a packet gives: as ICMP data and as DNS data.\<close>

datatype icmp_data = ICMPLoadError | ICMPEcho | ICMPOther | NoICMPLayer

datatype dns_data = DNSLoadError | DNSInvalid | DNSNoQuestion | DNSQuestion string bool

record packet =
  pkt_Info :: packet_info
  InfoOnly :: bool
  ExpectInfo :: bool
  FastTrackedByIntegration :: bool
  pkt_icmp :: icmp_data
  pkt_dns :: dns_data

definition IsOutbound :: "packet \<Rightarrow> bool" where
  "IsOutbound pkt \<longleftrightarrow> \<not> i_Inbound (pkt_Info pkt)"

text \<open>The operations on a packet; the flag is set for the permanent ones.\<close>

datatype pkt_op = PktAccept bool | PktBlock bool | PktDrop bool | PktRerouteToNameserver | PktRerouteToTunnel

datatype handler =
  FastTrackHandler | GatherDataHandler | FilterHandler | IcmpFilterHandler |
  InspectAndVerdictHandler | InspectDNSHandler

datatype inspect_action =
  DO_NOTHING | BLOCK_PACKET | DROP_PACKET | BLOCK_CONN | DROP_CONN | STOP_INSPECTING

type_synonym inspector = "connection \<Rightarrow> packet \<Rightarrow> inspect_action"

section \<open>State and environment\<close>

record ph =
  ph_fw :: fw
  ph_PID :: int
  hasEntity :: bool
  VerdictPermanent :: bool
  Encrypted :: bool
  ConnectionEstablished :: bool
  hasTunnelContext :: bool
  firewallHandler :: "handler option"
  pktQueue :: "packet list"
  pktQueueActive :: bool
  pktSeq :: nat
  activeInspectors :: "bool list option"
  BytesReceived :: "64 word"
  BytesSent :: "64 word"
  preAuthenticatedPorts :: "string set"
  dnsRequestConnections :: "string \<rightharpoonup> int"
  infoOnlyPacketsActive :: bool
  packetsAccepted :: "64 word"
  packetsBlocked :: "64 word"
  packetsDropped :: "64 word"
  packetsFailed :: "64 word"
  applied :: "(packet \<times> pkt_op) list"

text \<open>
  What packet handling asks of the rest of the system: the OS tables and the process list, the
  domains the resolver has seen for an address, the captive portal, the listeners for ICMP, and
  the settings that are not part of a profile.
\<close>

record resolved_domain =
  rd_Domain :: string
  rd_CNAMEs :: "string list"
  rd_Resolver :: "IPScope option"

record ph_env =
  pe_fw :: fw_env
  pe_apiPort :: port
  pe_apiPortSet :: bool
  pe_apiIP :: ip
  nameserverIPMatcher :: "(ip \<Rightarrow> bool) option"
  permanentVerdicts :: bool
  dnsQueryInterception :: bool
  filterEnabled :: bool
  SubmitPacketToICMPListener :: "packet \<Rightarrow> bool"
  AwaitRequest :: "connection \<Rightarrow> string option"
  enableProcessDetection :: bool
  state_Lookup :: "packet_info \<Rightarrow> (int \<times> bool) \<times> bool"
  GetProcessWithProfile :: "int \<Rightarrow> (process \<times> layered option) option"
  profile_Internal :: "profile \<Rightarrow> bool"
  GetIPInfo :: "string \<Rightarrow> string \<Rightarrow> resolved_domain option option"
  captivePortalIP :: ip
  pe_inspectors :: "(inspector \<times> Verdict) list"

abbreviation ph_conn :: "ph \<Rightarrow> connection" where
  "ph_conn s \<equiv> fw_conn (ph_fw s)"

abbreviation cfg_of :: "ph_env \<Rightarrow> global_config" where
  "cfg_of env \<equiv> fe_cfg (pe_fw env)"

definition on_fw :: "(fw \<Rightarrow> fw) \<Rightarrow> ph \<Rightarrow> ph" where
  "on_fw f s = s\<lparr>ph_fw := f (ph_fw s)\<rparr>"

definition run_fw :: "(fw \<Rightarrow> fw go) \<Rightarrow> ph \<Rightarrow> ph go" where
  "run_fw f s = bind_go (f (ph_fw s)) (\<lambda>w. Inr (s\<lparr>ph_fw := w\<rparr>))"

section \<open>Handlers and the queue of a connection\<close>

definition SetFirewallHandler :: "handler option \<Rightarrow> ph \<Rightarrow> ph" where
  "SetFirewallHandler h s =
     (if h = None then s
      else let s = (if pktQueueActive s then s else s\<lparr>pktQueue := [], pktQueueActive := True\<rparr>);
               s = (if firewallHandler s = None then s\<lparr>pktSeq := 0\<rparr> else s)
           in s\<lparr>firewallHandler := h\<rparr>)"

definition UpdateFirewallHandler :: "handler \<Rightarrow> ph \<Rightarrow> ph" where
  "UpdateFirewallHandler h s = (if firewallHandler s \<noteq> None then s\<lparr>firewallHandler := Some h\<rparr> else s)"

text \<open>
  Stopping closes the channel but the worker still drains the packets in it, so the queue is kept
  and only marked inactive.
\<close>

definition StopFirewallHandler :: "ph \<Rightarrow> ph" where
  "StopFirewallHandler s = s\<lparr>firewallHandler := None, pktQueueActive := False\<rparr>"

section \<open>Applying verdicts\<close>

text \<open>Operations on an info-only packet have no effect but an error.\<close>

definition apply_op :: "packet \<Rightarrow> pkt_op \<Rightarrow> ph \<Rightarrow> ph" where
  "apply_op pkt op s = (if InfoOnly pkt then s else s\<lparr>applied := applied s @ [(pkt, op)]\<rparr>)"

fun op_of :: "Verdict \<Rightarrow> bool \<Rightarrow> pkt_op" where
  "op_of VerdictAccept permanent = PktAccept permanent"
| "op_of VerdictBlock permanent = PktBlock permanent"
| "op_of VerdictDrop permanent = PktDrop permanent"
| "op_of VerdictRerouteToNameserver permanent = PktRerouteToNameserver"
| "op_of VerdictRerouteToTunnel permanent = PktRerouteToTunnel"
| "op_of VerdictFailed permanent = PktDrop False"
| "op_of VerdictUndecided permanent = PktDrop False"
| "op_of VerdictUndeterminable permanent = PktDrop False"

fun count_packet :: "Verdict \<Rightarrow> ph \<Rightarrow> ph" where
  "count_packet VerdictAccept s = s\<lparr>packetsAccepted := packetsAccepted s + 1\<rparr>"
| "count_packet VerdictBlock s = s\<lparr>packetsBlocked := packetsBlocked s + 1\<rparr>"
| "count_packet VerdictFailed s = s\<lparr>packetsFailed := packetsFailed s + 1\<rparr>"
| "count_packet VerdictRerouteToNameserver s = s"
| "count_packet VerdictRerouteToTunnel s = s"
| "count_packet _ s = s\<lparr>packetsDropped := packetsDropped s + 1\<rparr>"

definition issueVerdict :: "ph_env \<Rightarrow> packet \<Rightarrow> Verdict \<Rightarrow> bool \<Rightarrow> ph \<Rightarrow> ph" where
  "issueVerdict env pkt verdict allowPermanent s =
     (if FastTrackedByIntegration pkt then s
      else let s = (if allowPermanent \<and> \<not> VerdictPermanent s \<and> permanentVerdicts env
                    then on_fw SaveWhenFinished (s\<lparr>VerdictPermanent := True\<rparr>) else s);
               verdict = (if verdict < c_Verdict (ph_conn s) then c_Verdict (ph_conn s) else verdict)
           in apply_op pkt (op_of verdict (VerdictPermanent s)) (count_packet verdict s))"

definition verdictHandler :: "ph_env \<Rightarrow> packet \<Rightarrow> ph \<Rightarrow> ph" where
  "verdictHandler env pkt s = (if InfoOnly pkt then s else issueVerdict env pkt VerdictUndecided True s)"

section \<open>Pre-authenticated ports\<close>

definition generateLocalPreAuthKey :: "byte \<Rightarrow> port \<Rightarrow> string" where
  "generateLocalPreAuthKey protocol port = Itoa (unat protocol) @ '':'' @ Itoa (unat port)"

definition localPortIsPreAuthenticated :: "byte \<Rightarrow> port \<Rightarrow> string set \<Rightarrow> bool \<times> string set" where
  "localPortIsPreAuthenticated protocol port ports =
     (let key = generateLocalPreAuthKey protocol port
      in if key \<in> ports then (True, ports - {key}) else (False, ports))"

text \<open>There are at most 1000 tries; the loop ends early when the random numbers do.\<close>

definition port_taken :: "connection list \<Rightarrow> byte \<Rightarrow> port \<Rightarrow> bool" where
  "port_taken allConns protocol port =
     list_ex (\<lambda>conn. dataComplete conn \<and> e_Protocol (Entity conn) = protocol \<and>
       LocalPort conn \<le> port \<and> LocalPort conn \<ge> port - 10) allConns"

fun unused_port :: "nat \<Rightarrow> 64 word option list \<Rightarrow> connection list \<Rightarrow> byte \<Rightarrow> port option go" where
  "unused_port 0 draws allConns protocol = Inr None"
| "unused_port (Suc tries) draws allConns protocol =
     bind_go (Number 55535 draws) (\<lambda>r. case r of
       Drawn rN draws \<Rightarrow>
         let port = ucast (rN + 10000)
         in if port_taken allConns protocol port then unused_port tries draws allConns protocol
            else Inr (Some port)
     | _ \<Rightarrow> Inr None)"

definition GetUnusedLocalPort :: "64 word option list \<Rightarrow> connection list \<Rightarrow> byte \<Rightarrow> port option go" where
  "GetUnusedLocalPort draws allConns protocol = unused_port 1000 draws allConns protocol"

definition GetPermittedPort ::
    "64 word option list \<Rightarrow> connection list \<Rightarrow> byte \<Rightarrow> string set \<Rightarrow> (port \<times> string set) go" where
  "GetPermittedPort draws allConns protocol ports =
     bind_go (GetUnusedLocalPort draws allConns protocol) (\<lambda>r. case r of
       None \<Rightarrow> Inr (0, ports)
     | Some port \<Rightarrow> Inr (port, insert (generateLocalPreAuthKey protocol port) ports))"

section \<open>DNS requests seen as packets\<close>

definition SystemProcessID :: int where "SystemProcessID = 0"

definition getDNSRequestConnectionKey :: "packet_info \<Rightarrow> string option" where
  "getDNSRequestConnectionKey info =
     (if i_SrcPort info = 0 then None
      else Some (Itoa (unat (i_Protocol info)) @ ''-'' @ IP_String (i_Src info) @ ''-'' @ Itoa (unat (i_SrcPort info))))"

text \<open>The table is keyed by the local socket; of the connection the process ID is kept.\<close>

definition SaveDNSRequestConnection :: "packet \<Rightarrow> ph \<Rightarrow> ph" where
  "SaveDNSRequestConnection pkt s =
     (if ph_PID s = UndefinedProcessID \<or> ph_PID s = SystemProcessID then s
      else case getDNSRequestConnectionKey (pkt_Info pkt) of
             None \<Rightarrow> s
           | Some key \<Rightarrow> s\<lparr>dnsRequestConnections := (dnsRequestConnections s)(key \<mapsto> ph_PID s)\<rparr>)"

section \<open>Fast tracking\<close>

definition blockedIPv4 :: ip where "blockedIPv4 = v4InV6Prefix @ [0, 0, 0, 17]"
definition blockedIPv6 :: ip where "blockedIPv6 = replicate 15 0 @ [0x17]"
definition SystemIntegrationCheckDstIP :: ip where
  "SystemIntegrationCheckDstIP = v4InV6Prefix @ [127, 65, 67, 75]"

definition fast_track_icmp :: "ph_env \<Rightarrow> packet \<Rightarrow> Verdict \<times> bool" where
  "fast_track_icmp env pkt =
     (if pkt_icmp pkt = ICMPLoadError then (VerdictAccept, True)
      else if SubmitPacketToICMPListener env pkt then (VerdictAccept, False)
      else if pkt_icmp pkt = ICMPEcho then (VerdictUndecided, False)
      else (VerdictAccept, True))"

text \<open>Is the source of a packet an address of this host?  The answer may refresh the networks.\<close>

definition from_own_ip :: "ph_env \<Rightarrow> packet \<Rightarrow> ph \<Rightarrow> bool \<times> ph" where
  "from_own_ip env pkt s =
     (case IsMyIP (fe_net (pe_fw env)) (i_Src (pkt_Info pkt)) (fw_net (ph_fw s)) of (r, net) \<Rightarrow>
        (r = Inr True, on_fw (\<lambda>w. w\<lparr>fw_net := net\<rparr>) s))"

definition fast_track_api :: "ph_env \<Rightarrow> packet \<Rightarrow> ph \<Rightarrow> Verdict \<times> bool \<times> ph" where
  "fast_track_api env pkt s =
     (if i_Protocol (pkt_Info pkt) \<noteq> 6 \<or> \<not> pe_apiPortSet env \<or> \<not> IP_Equal (i_Dst (pkt_Info pkt)) (pe_apiIP env)
      then (VerdictUndecided, False, s)
      else case from_own_ip env pkt s of (isMe, s) \<Rightarrow>
        if isMe then (VerdictAccept, True, s) else (VerdictUndecided, False, s))"

definition fast_track_dns :: "ph_env \<Rightarrow> packet \<Rightarrow> ph \<Rightarrow> Verdict \<times> bool \<times> ph" where
  "fast_track_dns env pkt s =
     (case nameserverIPMatcher env of
        None \<Rightarrow> (VerdictUndecided, False, s)
      | Some matcher \<Rightarrow>
          if \<not> matcher (i_Dst (pkt_Info pkt)) then (VerdictUndecided, False, s)
          else case from_own_ip env pkt s of (isMe, s) \<Rightarrow>
            if \<not> isMe then (VerdictUndecided, False, s)
            else let s = (if IsOutbound pkt
                          then SaveDNSRequestConnection pkt (s\<lparr>ph_PID := i_PID (pkt_Info pkt)\<rparr>) else s)
                 in (VerdictAccept, ph_PID s \<noteq> UndefinedProcessID, s))"

definition fastTrackedPermit :: "ph_env \<Rightarrow> packet \<Rightarrow> ph \<Rightarrow> Verdict \<times> bool \<times> ph" where
  "fastTrackedPermit env pkt s =
     (let meta = pkt_Info pkt; proto = i_Protocol meta; dport = i_DstPort meta in
      if FastTrackedByIntegration pkt then (VerdictAccept, True, s)
      else if IP_Equal (i_Dst meta) blockedIPv4 \<or> IP_Equal (i_Dst meta) blockedIPv6 then (VerdictBlock, True, s)
      else if i_SrcPort meta = dport \<and> IP_Equal (i_Src meta) (i_Dst meta) then (VerdictAccept, True, s)
      else if proto = 1 \<or> proto = 58 then (case fast_track_icmp env pkt of (v, permanent) \<Rightarrow> (v, permanent, s))
      else if proto = 17 \<or> proto = 6 then
        (if dport \<in> {67, 68, 546, 547}
         then (if proto = 17 \<and> ClassifyIP (i_Dst meta) \<in> {HostLocal, LinkLocal, SiteLocal, LocalMulticast}
               then (VerdictAccept, True, s) else (VerdictUndecided, False, s))
         else if dport = pe_apiPort env then fast_track_api env pkt s
         else if dport = 53 then fast_track_dns env pkt s
         else (VerdictUndecided, False, s))
      else if proto = 61 \<and> IP_Equal (i_Dst meta) SystemIntegrationCheckDstIP then (VerdictDrop, False, s)
      else (VerdictUndecided, False, s))"

section \<open>Filtering\<close>

text \<open>\<^verbatim>\<open>requestTunneling\<close> without the tunnel options; the result is the error.\<close>

definition requestTunneling :: "ph_env \<Rightarrow> ph \<Rightarrow> string option" where
  "requestTunneling env s =
     (case fw_lp (ph_fw s) of None \<Rightarrow> Some ''no profile set'' | Some lp \<Rightarrow> AwaitRequest env (ph_conn s))"

definition apply_filter :: "ph_env \<Rightarrow> bool \<Rightarrow> ph \<Rightarrow> ph go" where
  "apply_filter env checkFilter s =
     (if \<not> checkFilter then Inr s
      else if filterEnabled env then run_fw (decideOnConnection (pe_fw env)) s
      else Inr (on_fw (Accept (cfg_of env) ''privacy filter disabled'' []) s))"

definition mark_encrypted :: "ph \<Rightarrow> ph" where
  "mark_encrypted s =
     (if DstPort (Entity (ph_conn s)) \<in> {22, 443, 465, 853, 993, 995} then s\<lparr>Encrypted := True\<rparr> else s)"

definition request_tunnel :: "ph_env \<Rightarrow> ph \<Rightarrow> ph" where
  "request_tunnel env s =
     (if c_Verdict (ph_conn s) = VerdictRerouteToTunnel \<and> \<not> hasTunnelContext s
      then (case requestTunneling env s of
              None \<Rightarrow> s\<lparr>ConnectionEstablished := True\<rparr>
            | Some err \<Rightarrow> on_fw (Failed (cfg_of env) (''failed to request tunneling: '' @ err) []) s)
      else s)"

definition FilterConnection :: "ph_env \<Rightarrow> bool \<Rightarrow> bool \<Rightarrow> ph \<Rightarrow> ph go" where
  "FilterConnection env checkFilter checkTunnel s =
     (if \<not> dataComplete (ph_conn s) then Inr s
      else bind_go (apply_filter env checkFilter s) (\<lambda>s.
           bind_go (if checkTunnel then run_fw (checkTunneling (pe_fw env)) (mark_encrypted s)
                    else Inr (mark_encrypted s)) (\<lambda>s.
             Inr (request_tunnel env s))))"

section \<open>Inspection\<close>

fun run_inspectors ::
    "global_config \<Rightarrow> packet \<Rightarrow> bool list \<Rightarrow> (inspector \<times> Verdict) list \<Rightarrow> fw \<Rightarrow> Verdict \<Rightarrow> bool \<Rightarrow>
     (bool list \<times> fw \<times> Verdict \<times> bool) go" where
  "run_inspectors cfg pkt [] ins w verdict cont = Inr ([], w, verdict, cont)"
| "run_inspectors cfg pkt (True # skips) ins w verdict cont =
     bind_go (run_inspectors cfg pkt skips (tl ins) w verdict cont) (\<lambda>(skips, r). Inr (True # skips, r))"
| "run_inspectors cfg pkt (False # skips) [] w verdict cont = Inl IndexOutOfRange"
| "run_inspectors cfg pkt (False # skips) ((f, limit) # ins) w verdict cont =
     (let (skip, w, verdict, cont) =
        (if c_Verdict (fw_conn w) > limit then (True, w, verdict, cont)
         else case f (fw_conn w) pkt of
                DO_NOTHING \<Rightarrow> (False, w, max verdict VerdictAccept, True)
              | BLOCK_PACKET \<Rightarrow> (False, w, max verdict VerdictBlock, True)
              | DROP_PACKET \<Rightarrow> (False, w, VerdictDrop, True)
              | BLOCK_CONN \<Rightarrow> (True, SetVerdict cfg VerdictBlock [] [] NoContext w, VerdictBlock, cont)
              | DROP_CONN \<Rightarrow> (True, SetVerdict cfg VerdictDrop [] [] NoContext w, VerdictDrop, cont)
              | STOP_INSPECTING \<Rightarrow> (True, w, verdict, cont))
      in bind_go (run_inspectors cfg pkt skips ins w verdict cont) (\<lambda>(skips, r). Inr (skip # skips, r)))"

definition RunInspectors :: "ph_env \<Rightarrow> packet \<Rightarrow> ph \<Rightarrow> (Verdict \<times> bool \<times> ph) go" where
  "RunInspectors env pkt s =
     (let active = (case activeInspectors s of
                      None \<Rightarrow> replicate (length (pe_inspectors env)) False | Some a \<Rightarrow> a)
      in bind_go (run_inspectors (cfg_of env) pkt active (pe_inspectors env) (ph_fw s) VerdictUndecided False)
           (\<lambda>(active, w, verdict, cont).
              Inr (verdict, cont, s\<lparr>ph_fw := w, activeInspectors := Some active\<rparr>)))"

definition inspectAndVerdictHandler :: "ph_env \<Rightarrow> packet \<Rightarrow> ph \<Rightarrow> ph go" where
  "inspectAndVerdictHandler env pkt s =
     (if InfoOnly pkt then Inr s
      else bind_go (RunInspectors env pkt s) (\<lambda>(pktVerdict, continueInspection, s).
        if continueInspection then Inr (issueVerdict env pkt pktVerdict False s)
        else Inr (issueVerdict env pkt VerdictUndecided True (StopFirewallHandler s))))"

definition DNSCheckInternalDomainScope :: string where
  "DNSCheckInternalDomainScope = ''.self-check.portmaster.home.arpa.''"

text \<open>
  DNS packets that are only observed are accepted once they could be parsed, after their answer
  went into the cache of the resolver; saving needs the local profile.
\<close>

definition inspectDNSPacket :: "ph_env \<Rightarrow> packet \<Rightarrow> ph \<Rightarrow> ph go" where
  "inspectDNSPacket env pkt s =
     (if InfoOnly pkt then Inr s
      else case pkt_dns pkt of
        DNSLoadError \<Rightarrow> Inr (apply_op pkt (PktBlock False) s)
      | DNSInvalid \<Rightarrow>
          Inr ((on_fw (SetVerdict (cfg_of env) VerdictBlock ''none DNS data on DNS port'' [] NoContext)
                  (apply_op pkt (PktBlock True) s))\<lparr>VerdictPermanent := True\<rparr>)
      | DNSNoQuestion \<Rightarrow> Inr (apply_op pkt (PktAccept False) s)
      | DNSQuestion fqdn hasAnswer \<Rightarrow>
          if HasSuffix fqdn DNSCheckInternalDomainScope \<or> \<not> hasAnswer
          then Inr (apply_op pkt (PktAccept False) s)
          else (case fw_lp (ph_fw s) of
                  None \<Rightarrow> Inl NilDereference
                | Some lp \<Rightarrow>
                    (case localProfile lp of
                       None \<Rightarrow> Inl NilDereference
                     | Some loc \<Rightarrow> Inr (apply_op pkt (PktAccept False) s))))"

section \<open>Collecting connection data\<close>

text \<open>
  The lookup in the system tables gives a process ID and a direction, and whether it failed.
\<close>

definition GetPidOfConnection :: "ph_env \<Rightarrow> packet_info \<Rightarrow> int \<times> bool" where
  "GetPidOfConnection env info =
     (if \<not> enableProcessDetection env then (UnidentifiedProcessID, i_Inbound info)
      else let (pid, connInbound) =
             (if i_PID info = UndefinedProcessID
              then (case state_Lookup env info of ((pid, connInbound), err) \<Rightarrow>
                      (if err then UndefinedProcessID else pid, connInbound))
              else (i_PID info, i_Inbound info))
           in (if pid = UndefinedProcessID
               then if \<not> connInbound \<or> IsLocalhost (ClassifyIP (i_Dst info)) \<or> IsICMP (i_Protocol info)
                    then UnidentifiedProcessID else UnsolicitedProcessID
               else pid, connInbound))"

definition gather_entity :: "packet \<Rightarrow> ph \<Rightarrow> ph" where
  "gather_entity pkt s =
     (if hasEntity s then s
      else let info = pkt_Info pkt
           in on_fw (on_conn (\<lambda>c. c\<lparr>
                Entity := Init (i_DstPort info) (zero_entity\<lparr>e_IP := info_RemoteIP info,
                  e_Protocol := i_Protocol info, e_Port := info_RemotePort info\<rparr>),
                LocalIP := info_LocalIP info, LocalPort := info_LocalPort info\<rparr>)) (s\<lparr>hasEntity := True\<rparr>))"

definition gather_pid :: "ph_env \<Rightarrow> packet \<Rightarrow> ph \<Rightarrow> ph" where
  "gather_pid env pkt s =
     (if ph_PID s = UndefinedProcessID
      then (case GetPidOfConnection env (pkt_Info pkt) of (pid, connInbound) \<Rightarrow>
              on_fw (on_conn (\<lambda>c. c\<lparr>Inbound := connInbound\<rparr>)) (s\<lparr>ph_PID := pid\<rparr>))
      else s)"

definition gather_process :: "ph_env \<Rightarrow> ph \<Rightarrow> ph" where
  "gather_process env s =
     (let s = (if c_process (ph_conn s) = None
               then (case GetProcessWithProfile env (ph_PID s) of
                       None \<Rightarrow> s
                     | Some (p, lp) \<Rightarrow> on_fw (\<lambda>w. on_conn (\<lambda>c. c\<lparr>c_process := Some p\<rparr>) (w\<lparr>fw_lp := lp\<rparr>)) s)
               else s)
      in if ProfileRevisionCounter (ph_conn s) = 0 \<and> c_process (ph_conn s) \<noteq> None
         then let lp = fw_lp (ph_fw s);
                  s = on_fw (on_conn (\<lambda>c. c\<lparr>ProfileRevisionCounter := RevisionCnt lp\<rparr>)) s
              in case Option.bind lp localProfile of
                   None \<Rightarrow> s
                 | Some loc \<Rightarrow> on_fw (on_conn (\<lambda>c. c\<lparr>Internal := profile_Internal env loc\<rparr>)) s
         else s)"

text \<open>The domain that was last resolved to the remote address, first for the profile.\<close>

definition gather_domain :: "ph_env \<Rightarrow> packet \<Rightarrow> ph \<Rightarrow> ph go" where
  "gather_domain env pkt s =
     (case fw_lp (ph_fw s) of
        None \<Rightarrow> Inr s
      | Some lp \<Rightarrow>
          if e_Domain (Entity (ph_conn s)) \<noteq> [] then Inr s
          else case localProfile lp of
            None \<Rightarrow> Inl NilDereference
          | Some loc \<Rightarrow>
              let ip = IP_String (info_RemoteIP (pkt_Info pkt));
                  ipinfo = (case GetIPInfo env (p_ID loc) ip of
                              None \<Rightarrow> GetIPInfo env ''global'' ip | Some i \<Rightarrow> Some i)
              in case ipinfo of
                   Some (Some rd) \<Rightarrow>
                     Inr (on_fw (on_conn (\<lambda>c. c\<lparr>
                       Entity := (Entity c)\<lparr>e_Domain := rd_Domain rd, CNAME := rd_CNAMEs rd\<rparr>,
                       Resolver_IPScope := rd_Resolver rd\<rparr>)) s)
                 | _ \<Rightarrow> Inr s)"

definition gather_portal :: "ph_env \<Rightarrow> packet \<Rightarrow> ph \<Rightarrow> ph" where
  "gather_portal env pkt s =
     (if e_Domain (Entity (ph_conn s)) = [] \<and> IP_Equal (info_RemoteIP (pkt_Info pkt)) (captivePortalIP env)
      then on_fw (on_entity (\<lambda>e. e\<lparr>e_Domain := captivePortalDomain (fe_net (pe_fw env))\<rparr>)) s else s)"

definition GatherConnectionInfo :: "ph_env \<Rightarrow> packet \<Rightarrow> ph \<Rightarrow> ph go" where
  "GatherConnectionInfo env pkt s =
     (let s = gather_pid env pkt (gather_entity pkt s)
      in if InfoOnly pkt then Inr s
         else bind_go (gather_domain env pkt (gather_process env s)) (\<lambda>s.
           let s = gather_portal env pkt s;
               s = (if c_process (ph_conn s) \<noteq> None \<and> fw_lp (ph_fw s) \<noteq> None
                    then on_fw (on_conn (\<lambda>c. c\<lparr>dataComplete := True\<rparr>)) s else s)
           in Inr (on_fw SaveWhenFinished s)))"

section \<open>Packet handlers\<close>

definition icmpFilterHandler :: "ph_env \<Rightarrow> packet \<Rightarrow> ph \<Rightarrow> ph go" where
  "icmpFilterHandler env pkt s =
     (if pkt_icmp pkt = ICMPLoadError \<or> SubmitPacketToICMPListener env pkt
      then Inr (issueVerdict env pkt VerdictDrop False s)
      else if pkt_icmp pkt = ICMPOther then Inr (issueVerdict env pkt VerdictAccept False s)
      else bind_go (if c_Verdict (ph_conn s) \<in> {VerdictUndecided, VerdictUndeterminable}
                    then bind_go (FilterConnection env True False s) (\<lambda>s. Inr (on_fw SaveWhenFinished s))
                    else Inr s) (\<lambda>s.
           bind_go (if Inbound (ph_conn s) \<and> Ended (ph_conn s) = 0 \<and> IsOutbound pkt
                    then bind_go (FilterConnection env True False (on_fw (on_conn (\<lambda>c. c\<lparr>Inbound := False\<rparr>)) s))
                           (\<lambda>s. Inr (on_fw SaveWhenFinished s))
                    else Inr s) (\<lambda>s.
             Inr (issueVerdict env pkt VerdictUndecided False s))))"

definition redirects_dns :: "ph_env \<Rightarrow> packet \<Rightarrow> ph \<Rightarrow> bool go" where
  "redirects_dns env pkt s =
     (if dnsQueryInterception env \<and> \<not> resolver_IsDisabled (pe_fw env) \<and> IsOutbound pkt \<and>
         i_DstPort (pkt_Info pkt) = 53 \<and>
         (case nameserverIPMatcher env of None \<Rightarrow> False | Some matcher \<Rightarrow> \<not> matcher (i_Dst (pkt_Info pkt)))
      then with_process (ph_fw s) (\<lambda>p.
             Inr (\<not> (Pid p = ownPID (pe_fw env) \<and> e_IPScope (Entity (ph_conn s)) = LocalMulticast)))
      else Inr False)"

definition after_filter :: "ph_env \<Rightarrow> packet \<Rightarrow> ph \<Rightarrow> ph go" where
  "after_filter env pkt s =
     (if Inspecting (ph_conn s) \<and> looksLikeOutgoingDNSRequest (ph_conn s)
      then bind_go (inspectDNSPacket env pkt s) (\<lambda>s. Inr (UpdateFirewallHandler InspectDNSHandler s))
      else if Inspecting (ph_conn s)
      then inspectAndVerdictHandler env pkt (UpdateFirewallHandler InspectAndVerdictHandler s)
      else Inr (verdictHandler env pkt (StopFirewallHandler s)))"

definition filterHandler :: "ph_env \<Rightarrow> packet \<Rightarrow> ph \<Rightarrow> ph go" where
  "filterHandler env pkt s =
     (let s = on_fw SaveWhenFinished s; c = ph_conn s in
      if \<not> dataComplete c \<or> InfoOnly pkt then Inr s
      else let (preAuth, ports) =
             (if Inbound c then (False, preAuthenticatedPorts s)
              else localPortIsPreAuthenticated (e_Protocol (Entity c)) (LocalPort c) (preAuthenticatedPorts s));
             s = s\<lparr>preAuthenticatedPorts := ports\<rparr>
           in if preAuth
              then bind_go (FilterConnection env False True
                     (on_fw (\<lambda>w. on_conn (\<lambda>c. c\<lparr>Internal := True\<rparr>)
                        (Accept (cfg_of env) ''connection by Portmaster'' [] w)) s)) (after_filter env pkt)
              else bind_go (redirects_dns env pkt s) (\<lambda>redirect.
                if redirect
                then Inr (issueVerdict env pkt VerdictUndecided True (StopFirewallHandler
                       (SaveDNSRequestConnection pkt
                         (on_fw (\<lambda>w. on_conn (\<lambda>c. c\<lparr>Internal := True\<rparr>)
                           (SetVerdict (cfg_of env) VerdictRerouteToNameserver ''redirecting rogue dns query'' [] NoContext w)) s))))
                else bind_go (FilterConnection env True True s) (after_filter env pkt)))"

definition gatherDataHandler :: "ph_env \<Rightarrow> packet \<Rightarrow> ph \<Rightarrow> ph go" where
  "gatherDataHandler env pkt s =
     bind_go (GatherConnectionInfo env pkt (on_fw SaveWhenFinished s)) (\<lambda>s.
       if \<not> dataComplete (ph_conn s) then Inr s
       else if c_IPProtocol (ph_conn s) = 1 \<or> c_IPProtocol (ph_conn s) = 58
       then icmpFilterHandler env pkt (UpdateFirewallHandler IcmpFilterHandler s)
       else filterHandler env pkt (UpdateFirewallHandler FilterHandler s))"

definition fastTrackHandler :: "ph_env \<Rightarrow> packet \<Rightarrow> ph \<Rightarrow> ph go" where
  "fastTrackHandler env pkt s =
     (case fastTrackedPermit env pkt (on_fw SaveWhenFinished s) of (verdict, permanent, s) \<Rightarrow>
        if verdict \<noteq> VerdictUndecided
        then let s = on_fw (SetVerdictDirectly verdict) s;
                 s = (if InfoOnly pkt then s else issueVerdict env pkt verdict permanent s)
             in Inr (if permanent
                     then StopFirewallHandler (on_fw (SetVerdict (cfg_of env) verdict ''fast-tracked'' [] NoContext) s)
                     else s)
        else gatherDataHandler env pkt (UpdateFirewallHandler GatherDataHandler s))"

definition defaultFirewallHandler :: "ph_env \<Rightarrow> packet \<Rightarrow> ph \<Rightarrow> ph go" where
  "defaultFirewallHandler env pkt s =
     (if c_IPProtocol (ph_conn s) = 1 \<or> c_IPProtocol (ph_conn s) = 58
      then icmpFilterHandler env pkt s else Inr (verdictHandler env pkt s))"

fun run_handler :: "handler \<Rightarrow> ph_env \<Rightarrow> packet \<Rightarrow> ph \<Rightarrow> ph go" where
  "run_handler FastTrackHandler = fastTrackHandler"
| "run_handler GatherDataHandler = gatherDataHandler"
| "run_handler FilterHandler = filterHandler"
| "run_handler IcmpFilterHandler = icmpFilterHandler"
| "run_handler InspectAndVerdictHandler = inspectAndVerdictHandler"
| "run_handler InspectDNSHandler = inspectDNSPacket"

section \<open>The worker of a connection\<close>

definition packetHandlerHandleConn :: "ph_env \<Rightarrow> packet \<Rightarrow> ph \<Rightarrow> ph go" where
  "packetHandlerHandleConn env pkt s =
     (case firewallHandler s of
        None \<Rightarrow> defaultFirewallHandler env pkt s
      | Some h \<Rightarrow> bind_go (run_handler h env pkt s) (\<lambda>s.
          Inr (on_fw (on_conn (\<lambda>c. c\<lparr>saveWhenFinished := False\<rparr>)) s)))"

text \<open>The channel of a connection holds 100 packets; a packet that finds it full is dropped.\<close>

definition HandlePacket :: "ph_env \<Rightarrow> packet \<Rightarrow> ph \<Rightarrow> ph go" where
  "HandlePacket env pkt s =
     (if pktQueueActive s
      then Inr (if length (pktQueue s) < 100 then s\<lparr>pktQueue := pktQueue s @ [pkt]\<rparr>
                else apply_op pkt (PktDrop False) s)
      else defaultFirewallHandler env pkt s)"

text \<open>
  One turn of the worker.  For the first packet the worker may wait a millisecond for an info-only
  packet and handle it first; \<open>arrived\<close> says whether the next packet came in time.
\<close>

definition packetHandlerWorker :: "ph_env \<Rightarrow> bool \<Rightarrow> ph \<Rightarrow> ph go" where
  "packetHandlerWorker env arrived s =
     (case pktQueue s of
        [] \<Rightarrow> Inr s
      | pkt # queue \<Rightarrow>
          let s = s\<lparr>pktQueue := queue, pktSeq := pktSeq s + 1\<rparr>
          in if pktSeq s > 1 then packetHandlerHandleConn env pkt s
             else if InfoOnly pkt then packetHandlerHandleConn env pkt (s\<lparr>infoOnlyPacketsActive := True\<rparr>)
             else if (ExpectInfo pkt \<or> infoOnlyPacketsActive s \<and> IsOutbound pkt) \<and> arrived
             then (case queue of
                     [] \<Rightarrow> packetHandlerHandleConn env pkt s
                   | infoPkt # queue \<Rightarrow>
                       bind_go (packetHandlerHandleConn env infoPkt (s\<lparr>pktQueue := queue\<rparr>)) (\<lambda>s.
                         packetHandlerHandleConn env pkt (s\<lparr>pktSeq := pktSeq s + 1\<rparr>)))
             else packetHandlerHandleConn env pkt s)"

section \<open>New connections, re-evaluation, bandwidth\<close>

text \<open>A new connection, on the shared tables and network state of the firewall.\<close>

definition NewIncompleteConnection :: "packet \<Rightarrow> ph \<Rightarrow> ph" where
  "NewIncompleteConnection pkt s =
     (let info = pkt_Info pkt;
          c = \<lparr>c_Type = IPConnection, Inbound = i_Inbound info, c_IPProtocol = i_Protocol info, LocalIP = [],
               LocalPort = 0, Entity = zero_entity, Resolver_IPScope = None, c_Verdict = VerdictUndecided,
               Reason = \<lparr>Msg = [], OptionKey = [], reason_Profile = [], reason_Context = NoContext\<rparr>, Ended = 0,
               Inspecting = False, Tunneled = False, dataComplete = False, Internal = False, c_process = None,
               saveWhenFinished = False, ProfileRevisionCounter = 0, c_prompt = None\<rparr>
      in s\<lparr>ph_fw := \<lparr>fw_conn = c, fw_lp = None, fw_net = fw_net (ph_fw s)\<rparr>, ph_PID := i_PID info,
           hasEntity := False, VerdictPermanent := False, Encrypted := False, ConnectionEstablished := False,
           hasTunnelContext := False, firewallHandler := None, pktQueue := [], pktQueueActive := False,
           pktSeq := 0, activeInspectors := None, BytesReceived := 0, BytesSent := 0\<rparr>)"

text \<open>\<^verbatim>\<open>handlePacket\<close> for a packet without connection yet.\<close>

definition handle_new :: "ph_env \<Rightarrow> packet \<Rightarrow> ph \<Rightarrow> ph go" where
  "handle_new env pkt s =
     HandlePacket env pkt (SetFirewallHandler (Some FastTrackHandler) (NewIncompleteConnection pkt s))"

definition resetConnectionVerdict :: "ph_env \<Rightarrow> ph \<Rightarrow> (bool \<times> ph) go" where
  "resetConnectionVerdict env s =
     (if Ended (ph_conn s) > 0 \<or> Internal (ph_conn s) then Inr (False, s)
      else let previousVerdict = c_Verdict (ph_conn s)
           in bind_go (FilterConnection env True True s) (\<lambda>s.
                Inr (c_Verdict (ph_conn s) \<noteq> previousVerdict, s)))"

datatype BandwidthUpdateMethod = Absolute | Additive

record BandwidthUpdate =
  bu_BytesReceived :: "64 word"
  bu_BytesSent :: "64 word"
  bu_Method :: BandwidthUpdateMethod

text \<open>The result is what is added to the statistics of the connection, \<open>None\<close> for no update.\<close>

definition updateBandwidth :: "BandwidthUpdate \<Rightarrow> ph \<Rightarrow> (64 word \<times> 64 word) option \<times> ph" where
  "updateBandwidth bw s =
     (if bu_BytesReceived bw = 0 \<and> bu_BytesSent bw = 0 then (None, s)
      else case bu_Method bw of
        Absolute \<Rightarrow>
          (Some (bu_BytesReceived bw - BytesReceived s, bu_BytesSent bw - BytesSent s),
           s\<lparr>BytesReceived := bu_BytesReceived bw, BytesSent := bu_BytesSent bw\<rparr>)
      | Additive \<Rightarrow>
          (Some (bu_BytesReceived bw, bu_BytesSent bw),
           s\<lparr>BytesReceived := BytesReceived s + bu_BytesReceived bw, BytesSent := BytesSent s + bu_BytesSent bw\<rparr>))"

lemmas handler_defs [go_simps] =
  on_fw_def run_fw_def apply_op_def issueVerdict_def verdictHandler_def StopFirewallHandler_def
  UpdateFirewallHandler_def SetFirewallHandler_def SaveDNSRequestConnection_def

end
