(* ===== verification/Packet_Rules.thy ===== *)
theory Packet_Rules
  imports Packet_Handler Firewall_Decisions "HOL-Library.Multiset"
begin

text \<open>
  Properties of packet handling.  The locale \<open>handler_contract\<close> is what the worker of a connection
  relies on in every handler: a handler applies at most one operation, to the packet it was given;
  it accepts the packet only if the verdict of the connection is not stricter than accept, unless
  it leaves the connection to DNS inspection; and it does not touch the queue.  The locale
  \<open>complete_handler\<close> is the stronger contract of the handlers that work on a connection whose data is
  complete: they never leave a real packet without an operation.  The locales are interpreted for
  the six handlers and for the default handler.
\<close>

section \<open>Outcomes\<close>

definition applies :: "packet \<Rightarrow> ph \<Rightarrow> ph \<Rightarrow> bool" where
  "applies pkt s s' \<longleftrightarrow> pktQueue s' = pktQueue s \<and>
     (applied s' = applied s \<and> (InfoOnly pkt \<or> FastTrackedByIntegration pkt) \<or>
      \<not> InfoOnly pkt \<and> (\<exists>op. applied s' = applied s @ [(pkt, op)] \<and>
        (\<forall>perm. op = PktAccept perm \<longrightarrow>
           c_Verdict (ph_conn s') \<le> VerdictAccept \<or> firewallHandler s' = Some InspectDNSHandler)))"

definition outcome :: "packet \<Rightarrow> ph \<Rightarrow> ph \<Rightarrow> bool" where
  "outcome pkt s s' \<longleftrightarrow> applies pkt s s' \<or>
     pktQueue s' = pktQueue s \<and> applied s' = applied s \<and> \<not> dataComplete (ph_conn s')"

definition kept :: "ph \<Rightarrow> ph \<Rightarrow> bool" where
  "kept s s' \<longleftrightarrow> pktQueue s' = pktQueue s \<and> applied s' = applied s \<and> firewallHandler s' = firewallHandler s"

lemma kept_refl [simp]: "kept s s"
  by (simp add: kept_def)

lemma applies_outcome: "applies pkt s s' \<Longrightarrow> outcome pkt s s'"
  by (simp add: outcome_def)

lemma kept_trans: "kept s s1 \<Longrightarrow> kept s1 s2 \<Longrightarrow> kept s s2"
  by (simp add: kept_def)

lemma kept_simps [simp]:
  "kept s (on_fw f s') = kept s s'"
  "kept s (s'\<lparr>preAuthenticatedPorts := x\<rparr>) = kept s s'"
  "kept s (s'\<lparr>Encrypted := b\<rparr>) = kept s s'"
  "kept s (s'\<lparr>ConnectionEstablished := b\<rparr>) = kept s s'"
  "kept s (s'\<lparr>VerdictPermanent := b\<rparr>) = kept s s'"
  "kept s (s'\<lparr>ph_PID := n\<rparr>) = kept s s'"
  "kept s (s'\<lparr>hasEntity := b\<rparr>) = kept s s'"
  "kept s (s'\<lparr>ph_fw := w\<rparr>) = kept s s'"
  "kept s (s'\<lparr>activeInspectors := a\<rparr>) = kept s s'"
  "kept s (SaveDNSRequestConnection pkt s') = kept s s'"
  by (simp_all add: kept_def on_fw_def SaveDNSRequestConnection_def split: option.split)

lemma count_packet_frame [simp]:
  "ph_fw (count_packet v s) = ph_fw s" "applied (count_packet v s) = applied s"
  "pktQueue (count_packet v s) = pktQueue s" "firewallHandler (count_packet v s) = firewallHandler s"
  by (cases v; simp)+

lemma on_fw_frame [simp]:
  "ph_fw (on_fw f s) = f (ph_fw s)" "applied (on_fw f s) = applied s" "pktQueue (on_fw f s) = pktQueue s"
  "firewallHandler (on_fw f s) = firewallHandler s"
  by (simp_all add: on_fw_def)

lemma op_of_accept: "op_of v b = PktAccept p \<Longrightarrow> v = VerdictAccept"
  by (cases v) simp_all

lemma stop_frame [simp]:
  "ph_fw (StopFirewallHandler s) = ph_fw s" "applied (StopFirewallHandler s) = applied s"
  "pktQueue (StopFirewallHandler s) = pktQueue s" "firewallHandler (StopFirewallHandler s) = None"
  by (simp_all add: StopFirewallHandler_def)

lemma update_frame [simp]:
  "ph_fw (UpdateFirewallHandler h s) = ph_fw s" "applied (UpdateFirewallHandler h s) = applied s"
  "pktQueue (UpdateFirewallHandler h s) = pktQueue s"
  "firewallHandler s \<noteq> None \<Longrightarrow> firewallHandler (UpdateFirewallHandler h s) = Some h"
  by (simp_all add: UpdateFirewallHandler_def)

text \<open>The verdict of the connection is a lower bound for what happens to the packet.\<close>

definition issued :: "packet \<Rightarrow> ph \<Rightarrow> ph \<Rightarrow> bool" where
  "issued pkt s s' \<longleftrightarrow> pktQueue s' = pktQueue s \<and>
     (applied s' = applied s \<and> (InfoOnly pkt \<or> FastTrackedByIntegration pkt) \<or>
      \<not> InfoOnly pkt \<and> (\<exists>op. applied s' = applied s @ [(pkt, op)] \<and>
        (\<forall>perm. op = PktAccept perm \<longrightarrow> c_Verdict (ph_conn s') \<le> VerdictAccept)))"

lemma issueVerdict_issued:
  "pktQueue s1 = pktQueue s \<Longrightarrow> applied s1 = applied s \<Longrightarrow> issued pkt s (issueVerdict env pkt v b s1)"
  by (auto simp: issueVerdict_def issued_def apply_op_def Let_def SaveWhenFinished_def not_less
      dest!: op_of_accept split: if_splits)

lemma issued_applies: "issued pkt s s' \<Longrightarrow> applies pkt s s'"
  by (auto simp: issued_def applies_def)

lemmas issueVerdict_applies = issueVerdict_issued [THEN issued_applies]

lemma issued_stop: "issued pkt s s' \<Longrightarrow> c_Verdict (ph_conn s') = v \<Longrightarrow>
    issued pkt s (StopFirewallHandler (on_fw (SetVerdict cfg v m k x) s'))"
  by (auto simp: issued_def)

lemma applies_update: "applies pkt (UpdateFirewallHandler h s1) s' \<Longrightarrow> kept s s1 \<Longrightarrow> applies pkt s s'"
  by (simp add: applies_def kept_def)

lemma outcome_update: "outcome pkt (UpdateFirewallHandler h s1) s' \<Longrightarrow> kept s s1 \<Longrightarrow> outcome pkt s s'"
  by (simp add: outcome_def applies_def kept_def)

section \<open>The contract of handlers\<close>

locale handler_contract =
  fixes handle :: "ph_env \<Rightarrow> packet \<Rightarrow> ph \<Rightarrow> ph go" and admissible :: "ph \<Rightarrow> bool"
  assumes handle_outcome: "handle env pkt s = Inr s' \<Longrightarrow> admissible s \<Longrightarrow> outcome pkt s s'"

locale complete_handler =
  fixes handle :: "ph_env \<Rightarrow> packet \<Rightarrow> ph \<Rightarrow> ph go" and admissible :: "ph \<Rightarrow> bool"
  assumes handle_applies: "handle env pkt s = Inr s' \<Longrightarrow> admissible s \<Longrightarrow> applies pkt s s'"

sublocale complete_handler \<subseteq> handler_contract handle admissible
  by unfold_locales (intro applies_outcome handle_applies)

lemma run_fw_kept: "run_fw f s = Inr s' \<Longrightarrow> kept s s'"
  by (auto simp: run_fw_def bind_go_Inr_iff)

lemma apply_filter_kept: "apply_filter env b s = Inr s' \<Longrightarrow> kept s s'"
  by (auto simp: apply_filter_def split: if_splits dest: run_fw_kept)

lemma mark_encrypted_kept [simp]: "kept s (mark_encrypted s') = kept s s'"
  by (simp add: mark_encrypted_def)

lemma request_tunnel_kept [simp]: "kept s (request_tunnel env s') = kept s s'"
  by (simp add: request_tunnel_def split: option.split)

lemma kept_mark [simp]: "kept (mark_encrypted s) s' = kept s s'"
  by (simp add: mark_encrypted_def kept_def)

lemma FilterConnection_kept: "FilterConnection env a b s = Inr s' \<Longrightarrow> kept s s'"
  unfolding FilterConnection_def
  by (auto simp: bind_go_Inr_iff split: if_splits dest!: apply_filter_kept run_fw_kept elim: kept_trans)

lemma gather_kept [simp]:
  "kept s (gather_pid env pkt s') = kept s s'" "kept s (gather_entity pkt s') = kept s s'"
  "kept s (gather_process env s') = kept s s'" "kept s (gather_portal env pkt s') = kept s s'"
  by (simp_all add: gather_pid_def gather_entity_def gather_process_def gather_portal_def Let_def
      split: option.split prod.split)

lemma gather_domain_kept: "gather_domain env pkt s = Inr s' \<Longrightarrow> kept s s'"
  unfolding gather_domain_def Let_def by (auto split: if_splits option.splits)

lemma GatherConnectionInfo_kept: "GatherConnectionInfo env pkt s = Inr s' \<Longrightarrow> kept s s'"
  unfolding GatherConnectionInfo_def Let_def
  by (auto simp: bind_go_Inr_iff split: if_splits dest!: gather_domain_kept elim!: kept_trans [rotated])

lemma from_own_ip_kept: "from_own_ip env pkt s = (b, s') \<Longrightarrow> kept s s'"
  by (auto simp: from_own_ip_def split: prod.splits)

lemma fast_track_kept:
  "fast_track_api env pkt s = (v, b, s') \<Longrightarrow> kept s s'"
  "fast_track_dns env pkt s = (v, b, s') \<Longrightarrow> kept s s'"
  by (auto simp: fast_track_api_def fast_track_dns_def Let_def split: if_splits option.splits prod.splits
      dest!: from_own_ip_kept)

lemma fastTrackedPermit_kept: "fastTrackedPermit env pkt s = (v, b, s') \<Longrightarrow> kept s s'"
  unfolding fastTrackedPermit_def Let_def
  by (simp split: if_splits prod.splits) (auto dest: fast_track_kept)

lemma verdictHandler_applies:
  "pktQueue s1 = pktQueue s \<Longrightarrow> applied s1 = applied s \<Longrightarrow> applies pkt s (verdictHandler env pkt s1)"
  by (cases "InfoOnly pkt") (simp_all add: verdictHandler_def issueVerdict_applies, simp add: applies_def)

lemma inspectDNSPacket_cases:
  assumes "inspectDNSPacket env pkt s = Inr s'"
  shows "pktQueue s' = pktQueue s \<and> firewallHandler s' = firewallHandler s \<and>
    (if InfoOnly pkt then applied s' = applied s else \<exists>op. applied s' = applied s @ [(pkt, op)])"
  using assms unfolding inspectDNSPacket_def
  by (auto simp: apply_op_def split: dns_data.splits if_splits option.splits)

interpretation inspect_dns: complete_handler inspectDNSPacket "\<lambda>s. firewallHandler s = Some InspectDNSHandler"
  by unfold_locales (auto simp: applies_def dest!: inspectDNSPacket_cases split: if_splits)

lemma RunInspectors_kept: "RunInspectors env pkt s = Inr (v, c, s') \<Longrightarrow> kept s s'"
  by (auto simp: RunInspectors_def bind_go_Inr_iff Let_def)

interpretation inspect: complete_handler inspectAndVerdictHandler "\<lambda>s. True"
proof
  fix env pkt s s'
  assume h: "inspectAndVerdictHandler env pkt s = Inr s'"
  show "applies pkt s s'"
  proof (cases "InfoOnly pkt")
    case True
    with h show ?thesis by (simp add: inspectAndVerdictHandler_def applies_def)
  next
    case False
    with h obtain v c s1 where "RunInspectors env pkt s = Inr (v, c, s1)"
      "s' = issueVerdict env pkt v False s1 \<or> s' = issueVerdict env pkt VerdictUndecided True (StopFirewallHandler s1)"
      by (auto simp: inspectAndVerdictHandler_def bind_go_Inr_iff split: if_splits)
    then show ?thesis using RunInspectors_kept [of env pkt s v c s1]
      by (auto simp: kept_def intro!: issueVerdict_applies)
  qed
qed

lemma icmp_filter_kept:
  assumes "(if b then bind_go (FilterConnection env True False s0) (\<lambda>s. Inr (on_fw SaveWhenFinished s))
    else Inr s) = Inr s'" and "kept s s0"
  shows "kept s s'"
  using assms FilterConnection_kept [of env True False s0]
  by (auto simp: bind_go_Inr_iff kept_def split: if_splits)

interpretation icmp: complete_handler icmpFilterHandler "\<lambda>s. True"
proof
  fix env pkt s s'
  assume h: "icmpFilterHandler env pkt s = Inr s'"
  show "applies pkt s s'"
  proof (cases "pkt_icmp pkt = ICMPLoadError \<or> SubmitPacketToICMPListener env pkt \<or> pkt_icmp pkt = ICMPOther")
    case True
    with h show ?thesis by (auto simp: icmpFilterHandler_def intro: issueVerdict_applies split: if_splits)
  next
    case False
    with h obtain s1 s2 where
      s1: "(if c_Verdict (ph_conn s) \<in> {VerdictUndecided, VerdictUndeterminable}
         then bind_go (FilterConnection env True False s) (\<lambda>s. Inr (on_fw SaveWhenFinished s))
         else Inr s) = Inr s1" and
      s2: "(if Inbound (ph_conn s1) \<and> Ended (ph_conn s1) = 0 \<and> IsOutbound pkt
         then bind_go (FilterConnection env True False (on_fw (on_conn (\<lambda>c. c\<lparr>Inbound := False\<rparr>)) s1))
           (\<lambda>s. Inr (on_fw SaveWhenFinished s))
         else Inr s1) = Inr s2" and s': "s' = issueVerdict env pkt VerdictUndecided False s2"
      by (auto simp: icmpFilterHandler_def simp del: insert_iff dest!: bind_go_Inr_iff [THEN iffD1])
    from icmp_filter_kept [OF s1] icmp_filter_kept [OF s2] have "kept s s1" "kept s1 s2" by simp_all
    then show ?thesis
      unfolding s' by (intro issueVerdict_applies) (simp_all add: kept_def)
  qed
qed

interpretation default_handler: complete_handler defaultFirewallHandler "\<lambda>s. True"
  by unfold_locales
     (auto simp: defaultFirewallHandler_def verdictHandler_applies icmp.handle_applies split: if_splits)

lemma after_filter_applies:
  assumes "after_filter env pkt s1 = Inr s'" and "kept s s1" and "firewallHandler s \<noteq> None"
  shows "applies pkt s s'"
proof (cases "Inspecting (ph_conn s1)")
  case False
  then show ?thesis
    using assms by (auto simp: after_filter_def kept_def intro!: verdictHandler_applies)
next
  case True
  show ?thesis
  proof (cases "looksLikeOutgoingDNSRequest (ph_conn s1)")
    case False
    with True assms(1) have "inspectAndVerdictHandler env pkt (UpdateFirewallHandler InspectAndVerdictHandler s1) = Inr s'"
      by (simp add: after_filter_def)
    then have "applies pkt (UpdateFirewallHandler InspectAndVerdictHandler s1) s'" by (simp add: inspect.handle_applies)
    then show ?thesis using assms(2) by (rule applies_update)
  next
    case dns: True
    with True assms(1) obtain s2 where "inspectDNSPacket env pkt s1 = Inr s2" "s' = UpdateFirewallHandler InspectDNSHandler s2"
      by (auto simp: after_filter_def bind_go_Inr_iff)
    then show ?thesis
      using assms(2,3) inspectDNSPacket_cases [of env pkt s1 s2] by (auto simp: applies_def kept_def split: if_splits)
  qed
qed

lemma no_op_outcome:
  "kept s s' \<Longrightarrow> InfoOnly pkt \<or> \<not> dataComplete (ph_conn s') \<Longrightarrow> outcome pkt s s'"
  by (auto simp: outcome_def applies_def kept_def)

interpretation filtering: complete_handler filterHandler "\<lambda>s. firewallHandler s \<noteq> None \<and> dataComplete (ph_conn s)"
proof
  fix env pkt s s'
  assume h: "filterHandler env pkt s = Inr s'" and a: "firewallHandler s \<noteq> None \<and> dataComplete (ph_conn s)"
  then have r: "firewallHandler s \<noteq> None" by simp
  let ?s = "on_fw SaveWhenFinished s"
  show "applies pkt s s'"
  proof (cases "InfoOnly pkt")
    case True
    with h show ?thesis by (auto simp: filterHandler_def Let_def applies_def)
  next
    case False
    obtain b ports where pre: "(if Inbound (ph_conn ?s) then (False, preAuthenticatedPorts ?s)
        else localPortIsPreAuthenticated (e_Protocol (Entity (ph_conn ?s))) (LocalPort (ph_conn ?s)) (preAuthenticatedPorts ?s))
        = (b, ports)" by fastforce
    let ?t = "?s\<lparr>preAuthenticatedPorts := ports\<rparr>"
    have "applies pkt s s'" if "FilterConnection env x y s1 = Inr s2" "after_filter env pkt s2 = Inr s'" "kept s s1" for x y s1 s2
      using after_filter_applies [OF that(2) _ r] FilterConnection_kept [OF that(1)] that(3) kept_trans by blast
    moreover have "applies pkt s (issueVerdict env pkt VerdictUndecided True (StopFirewallHandler s1))" if "kept s s1" for s1
      using that by (intro issueVerdict_applies) (simp_all add: kept_def)
    ultimately show ?thesis
      using h False a unfolding filterHandler_def Let_def pre
      by (auto simp: bind_go_Inr_iff SaveWhenFinished_def split: if_splits)
  qed
qed

lemma filterHandler_outcome:
  assumes "filterHandler env pkt s = Inr s'" "firewallHandler s \<noteq> None"
  shows "outcome pkt s s'"
proof (cases "dataComplete (ph_conn s)")
  case True
  with assms show ?thesis by (simp add: filtering.handle_outcome)
next
  case False
  with assms(1) show ?thesis by (auto simp: filterHandler_def Let_def SaveWhenFinished_def intro!: no_op_outcome)
qed

interpretation gathering: handler_contract gatherDataHandler "\<lambda>s. firewallHandler s \<noteq> None"
proof
  fix env pkt s s'
  assume h: "gatherDataHandler env pkt s = Inr s'" and r: "firewallHandler s \<noteq> None"
  then obtain s1 where s1: "GatherConnectionInfo env pkt (on_fw SaveWhenFinished s) = Inr s1"
    and c: "\<not> dataComplete (ph_conn s1) \<and> s' = s1 \<or>
      icmpFilterHandler env pkt (UpdateFirewallHandler IcmpFilterHandler s1) = Inr s' \<or>
      filterHandler env pkt (UpdateFirewallHandler FilterHandler s1) = Inr s'"
    by (auto simp: gatherDataHandler_def bind_go_Inr_iff split: if_splits)
  have k: "kept s s1" using GatherConnectionInfo_kept [OF s1] by (simp add: kept_def)
  with r have "firewallHandler s1 \<noteq> None" by (simp add: kept_def)
  then have "filterHandler env pkt (UpdateFirewallHandler FilterHandler s1) = Inr s' \<Longrightarrow>
      outcome pkt (UpdateFirewallHandler FilterHandler s1) s'"
    by (intro filterHandler_outcome) simp_all
  then show "outcome pkt s s'"
    using c no_op_outcome [OF k, of pkt] outcome_update [OF _ k] icmp.handle_outcome by blast
qed

lemma fast_tracked_applies:
  assumes f: "fastTrackedPermit env pkt (on_fw SaveWhenFinished s) = (v, p, s1)" and "v \<noteq> VerdictUndecided"
    and h: "fastTrackHandler env pkt s = Inr s'"
  shows "applies pkt s s'"
proof -
  have k: "kept s s1" using fastTrackedPermit_kept [OF f] by (simp add: kept_def)
  let ?s = "on_fw (SetVerdictDirectly v) s1"
  let ?t = "if InfoOnly pkt then ?s else issueVerdict env pkt v p ?s"
  have o: "issued pkt s ?t"
    using k issueVerdict_issued [of ?s s pkt env v p] by (auto simp: kept_def issued_def)
  have v: "c_Verdict (ph_conn ?t) = v"
    by (simp add: issueVerdict_def apply_op_def SaveWhenFinished_def SetVerdictDirectly_def Let_def)
  have "s' = (if p then StopFirewallHandler (on_fw (SetVerdict (cfg_of env) v ''fast-tracked'' [] NoContext) ?t) else ?t)"
    using assms by (simp add: fastTrackHandler_def Let_def)
  then show ?thesis
    using issued_applies [OF o] issued_applies [OF issued_stop [OF o v]] by (cases p) simp_all
qed

interpretation fast_track: handler_contract fastTrackHandler "\<lambda>s. firewallHandler s \<noteq> None"
proof
  fix env pkt s s'
  assume h: "fastTrackHandler env pkt s = Inr s'" and r: "firewallHandler s \<noteq> None"
  obtain v p s1 where f: "fastTrackedPermit env pkt (on_fw SaveWhenFinished s) = (v, p, s1)"
    by (metis prod.exhaust)
  have k: "kept s s1" using fastTrackedPermit_kept [OF f] by (simp add: kept_def)
  show "outcome pkt s s'"
  proof (cases "v = VerdictUndecided")
    case True
    then have "gatherDataHandler env pkt (UpdateFirewallHandler GatherDataHandler s1) = Inr s'"
      using h f by (simp add: fastTrackHandler_def)
    moreover have "firewallHandler s1 \<noteq> None" using k r by (simp add: kept_def)
    ultimately have "outcome pkt (UpdateFirewallHandler GatherDataHandler s1) s'"
      by (intro gathering.handle_outcome) simp_all
    then show ?thesis using k by (rule outcome_update)
  qed (rule applies_outcome [OF fast_tracked_applies [OF f _ h]])
qed

lemma run_handler_outcome:
  assumes "run_handler h env pkt s = Inr s'" and "firewallHandler s = Some h"
  shows "outcome pkt s s'"
proof (cases h)
  case FastTrackHandler
  with assms fast_track.handle_outcome [of env pkt s s'] show ?thesis by simp
next
  case GatherDataHandler
  with assms gathering.handle_outcome [of env pkt s s'] show ?thesis by simp
next
  case FilterHandler
  with assms filterHandler_outcome [of env pkt s s'] show ?thesis by simp
next
  case IcmpFilterHandler
  with assms icmp.handle_outcome [of env pkt s s'] show ?thesis by simp
next
  case InspectAndVerdictHandler
  with assms inspect.handle_outcome [of env pkt s s'] show ?thesis by simp
next
  case InspectDNSHandler
  with assms inspect_dns.handle_outcome [of env pkt s s'] show ?thesis by simp
qed

lemma handled_outcome:
  assumes "packetHandlerHandleConn env pkt s = Inr s'"
  shows "outcome pkt s s'"
proof (cases "firewallHandler s")
  case None
  with assms show ?thesis by (simp add: packetHandlerHandleConn_def default_handler.handle_outcome)
next
  case (Some h)
  with assms obtain s1 where "run_handler h env pkt s = Inr s1"
    "s' = on_fw (on_conn (\<lambda>c. c\<lparr>saveWhenFinished := False\<rparr>)) s1"
    by (auto simp: packetHandlerHandleConn_def bind_go_Inr_iff)
  then show ?thesis using run_handler_outcome [of h env pkt s s1] Some by (auto simp: outcome_def applies_def)
qed

section \<open>Runs\<close>

text \<open>The events of a connection: a packet arrives, the worker takes a turn, a re-evaluation.\<close>

datatype event = Arrive packet | Work bool | Reevaluate

fun event_step :: "ph_env \<Rightarrow> event \<Rightarrow> ph \<Rightarrow> ph go" where
  "event_step env (Arrive pkt) s = HandlePacket env pkt s"
| "event_step env (Work arrived) s = packetHandlerWorker env arrived s"
| "event_step env Reevaluate s = bind_go (resetConnectionVerdict env s) (\<lambda>(changed, s). Inr s)"

fun run_events :: "ph_env \<Rightarrow> event list \<Rightarrow> ph \<Rightarrow> ph go" where
  "run_events env [] s = Inr s"
| "run_events env (ev # evs) s = bind_go (event_step env ev s) (run_events env evs)"

fun arrivals :: "event list \<Rightarrow> packet list" where
  "arrivals [] = []"
| "arrivals (Arrive pkt # evs) = pkt # arrivals evs"
| "arrivals (_ # evs) = arrivals evs"

definition accounted :: "ph \<Rightarrow> packet multiset" where
  "accounted s = mset (map fst (applied s)) + mset (pktQueue s)"

lemma outcome_accounted: "outcome pkt s s' \<Longrightarrow> accounted s' \<subseteq># add_mset pkt (accounted s)"
  by (auto simp: outcome_def applies_def accounted_def)

lemma handled_accounted:
  "packetHandlerHandleConn env pkt s = Inr s' \<Longrightarrow> accounted s' \<subseteq># add_mset pkt (accounted s)"
  by (rule outcome_accounted) (rule handled_outcome)

lemma accounted_cong:
  "applied s' = applied s \<Longrightarrow> pktQueue s' = pktQueue s \<Longrightarrow> accounted s' = accounted s"
  by (simp add: accounted_def)

lemma worker_accounted:
  assumes "packetHandlerWorker env arrived s = Inr s'"
  shows "accounted s' \<subseteq># accounted s"
proof (cases "pktQueue s")
  case Nil
  with assms show ?thesis by (simp add: packetHandlerWorker_def)
next
  case (Cons pkt queue)
  have one: "accounted s' \<subseteq># accounted s"
    if "packetHandlerHandleConn env pkt t = Inr s'" "applied t = applied s" "pktQueue t = queue" for t
    using handled_accounted [OF that(1)] that(2,3) Cons by (simp add: accounted_def)
  have two: "accounted s' \<subseteq># accounted s"
    if "packetHandlerHandleConn env q t = Inr u" "packetHandlerHandleConn env pkt (u\<lparr>pktSeq := n\<rparr>) = Inr s'"
      "applied t = applied s" "queue = q # pktQueue t" for q t u n
  proof -
    have "accounted s' \<subseteq># add_mset pkt (accounted u)"
      using handled_accounted [OF that(2)] by (simp add: accounted_def)
    also have "\<dots> \<subseteq># add_mset pkt (add_mset q (accounted t))"
      using handled_accounted [OF that(1)] by simp
    also have "\<dots> = accounted s" using that(3,4) Cons by (simp add: accounted_def)
    finally show ?thesis .
  qed
  from assms show ?thesis
    unfolding packetHandlerWorker_def Cons list.case Let_def
    by (auto simp: bind_go_Inr_iff split: if_splits list.splits intro: one two)
qed

lemma HandlePacket_accounted:
  "HandlePacket env pkt s = Inr s' \<Longrightarrow> accounted s' \<subseteq># add_mset pkt (accounted s)"
  unfolding HandlePacket_def
  by (auto split: if_splits simp: apply_op_def accounted_def
      dest: outcome_accounted [OF default_handler.handle_outcome, unfolded accounted_def])

lemma reset_accounted:
  "resetConnectionVerdict env s = Inr (b, s') \<Longrightarrow> accounted s' = accounted s"
  by (auto simp: resetConnectionVerdict_def bind_go_Inr_iff Let_def kept_def split: if_splits
      dest!: FilterConnection_kept intro: accounted_cong)

lemma event_accounted:
  "event_step env ev s = Inr s' \<Longrightarrow> accounted s' \<subseteq># mset (arrivals [ev]) + accounted s"
  by (cases ev) (auto simp: bind_go_Inr_iff dest: HandlePacket_accounted worker_accounted reset_accounted)

lemma arrivals_Cons: "arrivals (ev # evs) = arrivals [ev] @ arrivals evs"
  by (cases ev) simp_all

lemma run_accounted:
  "run_events env evs s = Inr s' \<Longrightarrow> accounted s' \<subseteq># mset (arrivals evs) + accounted s"
proof (induction evs arbitrary: s)
  case (Cons ev evs)
  then obtain s1 where "event_step env ev s = Inr s1" "run_events env evs s1 = Inr s'"
    by (auto simp: bind_go_Inr_iff)
  with event_accounted Cons.IH have "accounted s1 \<subseteq># mset (arrivals [ev]) + accounted s"
    "accounted s' \<subseteq># mset (arrivals evs) + accounted s1" by blast+
  then have "accounted s' \<subseteq># mset (arrivals evs) + (mset (arrivals [ev]) + accounted s)"
    by (meson subset_mset.add_left_mono subset_mset.order_trans)
  then show ?case by (simp add: arrivals_Cons [of ev evs] ac_simps)
qed simp

lemma handle_new_accounted:
  "handle_new env pkt s = Inr s' \<Longrightarrow> accounted s' = add_mset pkt (mset (map fst (applied s)))"
  by (auto simp: handle_new_def HandlePacket_def SetFirewallHandler_def NewIncompleteConnection_def accounted_def Let_def)

section \<open>Pre-authenticated ports\<close>

lemma key_inject:
  "generateLocalPreAuthKey pr po = generateLocalPreAuthKey pr' po' \<longleftrightarrow> pr = pr' \<and> po = po'"
proof
  have t: "takeWhile is_digit (Itoa n @ '':'' @ ys) = Itoa n" for n ys
    using Itoa_set [of _ n] by (auto simp: takeWhile_append is_digit_def code_of_def)
  assume e: "generateLocalPreAuthKey pr po = generateLocalPreAuthKey pr' po'"
  from arg_cong [OF e, of "takeWhile is_digit"] have "Itoa (unat pr) = Itoa (unat pr')"
    by (simp add: generateLocalPreAuthKey_def t [simplified])
  with e have "digits_val (Itoa (unat pr)) = digits_val (Itoa (unat pr'))" "digits_val (Itoa (unat po)) = digits_val (Itoa (unat po'))"
    by (simp_all add: generateLocalPreAuthKey_def del: digits_val_Itoa)
  then show "pr = pr' \<and> po = po'" by (simp add: word_unat_eq_iff)
qed simp

text \<open>
  C29: a pre-authentication is used once.  Asking for a port takes its pre-authentication away and
  leaves those of every other protocol and port as they are: no two connections of other programs
  can pass as connections of the Portmaster on one permission.
\<close>

theorem preauth_single_use:
  "fst (localPortIsPreAuthenticated pr' po' (snd (localPortIsPreAuthenticated pr po ports))) =
     ((pr', po') \<noteq> (pr, po) \<and> fst (localPortIsPreAuthenticated pr' po' ports))"
  by (auto simp: localPortIsPreAuthenticated_def key_inject Let_def)

lemma port_range: "(r :: 64 word) \<le> 55535 \<Longrightarrow> 10000 \<le> (ucast (r + 10000) :: port)"
  by (simp add: word_le_nat_alt unsigned_ucast_eq unat_word_ariths take_bit_eq_mod)

lemma unused_port_free:
  "unused_port n draws conns pr = Inr (Some po) \<Longrightarrow> 10000 \<le> po \<and> \<not> port_taken conns pr po"
proof (induction n arbitrary: draws)
  case (Suc n)
  then obtain x where x: "Number 55535 draws = Inr x" by (auto simp: bind_go_Inr_iff)
  with Suc.prems obtain r ds where "x = Drawn r ds" by (cases x) auto
  with x Suc show ?case using port_range [OF Number_range] by (auto simp: Let_def split: if_splits)
qed simp

lemma unused_port_total: "\<exists>r. unused_port n draws conns pr = Inr r"
proof (induction n arbitrary: draws)
  case (Suc n)
  obtain r where "Number 55535 draws = Inr r"
    using Number_panics [of 55535 draws] by (cases "Number 55535 draws") auto
  then show ?case using Suc by (auto simp: Let_def split: drawn.split)
qed simp

text \<open>
  Permitted ports are sound.  Whatever the random generator gives, asking for a permitted port
  does not panic; it either gives port 0 and leaves the permissions alone, or an unprivileged port
  that no tracked connection of the protocol uses, which is then pre-authenticated.
\<close>

theorem permitted_port_sound:
  "\<exists>po ports'. GetPermittedPort draws conns pr ports = Inr (po, ports') \<and>
     (po = 0 \<and> ports' = ports \<or>
      10000 \<le> po \<and> \<not> port_taken conns pr po \<and> fst (localPortIsPreAuthenticated pr po ports'))"
proof -
  obtain r where r: "unused_port 1000 draws conns pr = Inr r" using unused_port_total by blast
  show ?thesis
  proof (cases r)
    case None
    with r show ?thesis by (simp add: GetPermittedPort_def GetUnusedLocalPort_def)
  next
    case (Some po)
    with r unused_port_free [of 1000 draws conns pr po] show ?thesis
      by (simp add: GetPermittedPort_def GetUnusedLocalPort_def localPortIsPreAuthenticated_def Let_def)
  qed
qed

section \<open>ICMP after fast tracking\<close>

text \<open>
  An outgoing ICMP connection whose first packet was accepted permanently accepts its echo packets
  too, without asking any decider.
\<close>

lemma icmp_fast_track_is_final:
  assumes "firewallHandler s = None" "IsICMP (c_IPProtocol (ph_conn s))" "c_Verdict (ph_conn s) = VerdictAccept"
    and "\<not> Inbound (ph_conn s)" "pkt_icmp pkt = ICMPEcho" "\<not> SubmitPacketToICMPListener env pkt"
    and "\<not> InfoOnly pkt" "\<not> FastTrackedByIntegration pkt"
  shows "\<exists>s'. packetHandlerHandleConn env pkt s = Inr s' \<and> applied s' = applied s @ [(pkt, PktAccept (VerdictPermanent s))]"
  using assms
  by (simp add: packetHandlerHandleConn_def defaultFirewallHandler_def icmpFilterHandler_def IsICMP_def issueVerdict_def
      apply_op_def less_Verdict_def Let_def)

end
