(* ===== verification/Firewall_Progress.thy ===== *)
theory Firewall_Progress
  imports Firewall_Decisions
begin

text \<open>
  The state that a decision leaves behind: after \<^verbatim>\<open>decideOnConnection\<close> on a state with a process, a
  profile and a consistent entity, the profile is up to date and usable, so that the check for
  tunneling that follows does not panic either.
\<close>

lemma core_layers: "core s' = core s \<Longrightarrow> map_option layers (fw_lp s') = map_option layers (fw_lp s)"
  by (cases "fw_lp s"; cases "fw_lp s'") (auto simp: core_def Let_def)

lemma createPrompt_core: "createPrompt env s = (n, s') \<Longrightarrow> fw_ok env s' = fw_ok env s \<and> core s' = core s"
  by (auto simp: createPrompt_def verdict_methods Let_def split: option.splits prod.splits if_splits)

lemma default_verdict_core:
  "fw_ok env (default_verdict env a s) = fw_ok env s \<and> core (default_verdict env a s) = core s"
  using createPrompt_core [of env s]
  by (cases "createPrompt env s")
     (auto simp: default_verdict_def prompt_def verdict_methods Let_def split: option.split prompt_event.split)

lemma decide_keeps_ok:
  assumes r: "usable env lp s"
  shows "ok_go (decideOnConnection env s) (\<lambda>s'. fw_ok env s' \<and> settled env s')"
proof -
  show ?thesis
  proof (rule decide_via_usable [OF r])
    fix s1 assume s1: "fw_ok env s1" "settled env s1"
    show "ok_go (runDeciders defaultDeciders env s1) (\<lambda>(done, a, s2).
      fw_ok env (if done then s2 else default_verdict env a s2) \<and>
      settled env (if done then s2 else default_verdict env a s2))"
      using runDeciders_ok [OF s1(1)]
    proof (rule ok_go_mono, clarify)
      fix b a s2 assume g: "good env s1 (b, s2)"
      let ?s = "if b then s2 else default_verdict env a s2"
      have "fw_ok env ?s \<and> core ?s = core s1"
        using g default_verdict_core [of env a s2] by (auto simp: good_def keeps_def)
      then show "fw_ok env ?s \<and> settled env ?s" using settled_layers [OF core_layers s1(2)] by blast
    qed
  qed
qed

lemma FetchData_ok: "ent_ok env e \<Longrightarrow> ent_ok env (FetchData env e)"
  by (simp add: FetchData_def LoadLists_ok getLocation_ok)

lemma tunnel_checked_ok:
  assumes u: "fw_ok env (snd (update_profile env lp s))"
  shows "ok_go (tunnel_checked env lp s) (fw_ok env)"
proof -
  let ?u = "snd (update_profile env lp s)"
  have match: "ok_go (with_profile s1 (\<lambda>lp. bind_go (match_entity (MatchSPNUsagePolicy (fe_intel env) (fe_cfg env) lp)
      (on_entity (FetchData (fe_intel env)) s1)) f)) (fw_ok env)"
    if k: "fw_ok env s1" and f: "\<And>r m s2. fw_ok env s2 \<Longrightarrow> ok_go (f (r, m, s2)) (fw_ok env)" for s1 f
  proof -
    obtain lp1 where "fw_lp s1 = Some lp1" using k by (auto simp: fw_ok_def split: option.splits)
    moreover have "fw_ok env (on_entity (FetchData (fe_intel env)) s1)"
      using k by (intro fw_ok_entity FetchData_ok fw_ok_ent)
    ultimately show ?thesis
      by (simp add: with_profile_def MatchSPNUsagePolicy_def [abs_def] match_layers_eq)
         (rule match_ok [where base = "on_entity (FetchData (fe_intel env)) s1"], simp_all add: keeps_refl f keeps_ok)
  qed
  have tunneled: "fw_ok env (on_conn (\<lambda>c. c\<lparr>Tunneled := b\<rparr>) t) = fw_ok env t" for b t
    by (simp add: fw_ok_def)
  show ?thesis
    unfolding tunnel_checked_def UseSPN_def ok_go_simps
  proof (rule read_ok [where base = ?u], rule keeps_refl [OF u], unfold prod.case)
    fix s1 assume "keeps env ?u s1"
    then have k: "fw_ok env s1" by blast
    show "ok_go (if \<not> setting env ?u ''spn/use'' then Inr s1 else with_profile s1 (\<lambda>lp.
         bind_go (match_entity (MatchSPNUsagePolicy (fe_intel env) (fe_cfg env) lp)
                    (on_entity (FetchData (fe_intel env)) s1)) (\<lambda>(result, reason, s).
           if result = MatchError
           then Inr (Failed (fe_cfg env) ''failed to check SPN rules'' ''spn/usagePolicy'' s)
           else if result = Denied then Inr s
           else let s = SaveWhenFinished s
                in if \<not> ClientReady env
                   then Inr (Failed (fe_cfg env) ''SPN not ready for tunneling'' [] s)
                   else Inr (on_conn (\<lambda>c. c\<lparr>Tunneled := True\<rparr>)
                          (SetVerdictDirectly VerdictRerouteToTunnel s))))) (fw_ok env)"
      using k match [OF k] by (auto simp: verdict_methods Let_def tunneled)
  qed
qed

definition has_local :: "fw \<Rightarrow> bool" where
  "has_local s \<longleftrightarrow> (case fw_lp s of None \<Rightarrow> False | Some lp \<Rightarrow> localProfile lp \<noteq> None)"

lemma fw_ok_local: "fw_ok env s \<Longrightarrow> has_local s"
  by (auto simp: fw_ok_def has_local_def lp_ok_def split: option.splits)

lemma usable_net: "usable env lp (s\<lparr>fw_net := n\<rparr>) = usable env lp s"
  by (simp add: usable_def update_profile_def set_revision_def SaveWhenFinished_def fw_ok_def settled_def
      split: prod.split)

lemma tunnel_ok:
  assumes u: "usable env lp s" and l: "has_local s"
  shows "ok_go (checkTunneling env s) has_local"
proof -
  have "ok_go (tunnel_checked env lp (s\<lparr>fw_net := n\<rparr>)) has_local" for n
    using tunnel_checked_ok [of env lp "s\<lparr>fw_net := n\<rparr>"] u usable_net [of env lp n s]
    by (auto simp: usable_def elim!: ok_go_mono intro: fw_ok_local)
  moreover obtain p where "c_process (fw_conn s) = Some p"
    using u update_profile_request [of env lp s]
    by (auto simp: usable_def fw_ok_def request_def Let_def)
  ultimately show ?thesis
    using u l by (auto simp: checkTunneling_def with_process_def has_local_def usable_def Let_def split: prod.split)
qed

end
