(* ===== verification/Packet_Progress.thy ===== *)
theory Packet_Progress
  imports Packet_Rules Firewall_Progress
begin

text \<open>
  Progress of packet handling: the first real packet of a connection is decided at once when the
  process of the connection and its profile can be found.  No step on the way panics, from fast
  tracking over collecting data, the decision and the check for tunneling to the operation that
  is applied to the packet.
\<close>

section \<open>A good environment\<close>

definition profiles_ok :: "ph_env \<Rightarrow> bool" where
  "profiles_ok env \<longleftrightarrow> geo_ok (fe_intel (pe_fw env)) \<and>
     (\<forall>pid. \<exists>p lp. GetProcessWithProfile env pid = Some (p, Some lp) \<and> lp_inv (cfg_of env, lp) \<and>
        localProfile lp \<noteq> None \<and> RevisionCounter lp \<noteq> -1 \<and>
        list_all (refetchable (GetLocalProfile (pe_fw env))) (layers lp))"

lemma loc_ok_new [simp]:
  "loc_ok (Init d (zero_entity\<lparr>e_IP := ip, e_Protocol := proto, e_Port := po\<rparr>))"
  by (simp add: loc_ok_def Init_def zero_entity_def)

lemma loc_ok_domain [simp]:
  "loc_ok (e\<lparr>e_Domain := d, CNAME := cs\<rparr>) = loc_ok e" "loc_ok (e\<lparr>e_Domain := d\<rparr>) = loc_ok e"
  by (simp_all add: loc_ok_def)

lemma ready_local: "ready env s \<Longrightarrow> has_local s"
  by (auto simp: ready_def has_local_def split: option.splits)

text \<open>Collecting data about a new connection gives a state that decisions can work on.\<close>

definition new_conn :: "ph \<Rightarrow> bool" where
  "new_conn s \<longleftrightarrow> c_process (ph_conn s) = None \<and> \<not> hasEntity s \<and> activeInspectors s = None"

definition decidable :: "ph_env \<Rightarrow> ph \<Rightarrow> bool" where
  "decidable env s \<longleftrightarrow> (\<exists>lp. usable (pe_fw env) lp (ph_fw s)) \<and> has_local (ph_fw s) \<and> activeInspectors s = None"

lemma gather_entity_new:
  "new_conn s \<Longrightarrow> loc_ok (Entity (ph_conn (gather_entity pkt s))) \<and> c_process (ph_conn (gather_entity pkt s)) = None \<and>
     activeInspectors (gather_entity pkt s) = None"
  by (simp add: new_conn_def gather_entity_def Let_def on_fw_def)

lemma gather_pid_new:
  "Entity (ph_conn (gather_pid env pkt s)) = Entity (ph_conn s)"
  "c_process (ph_conn (gather_pid env pkt s)) = c_process (ph_conn s)"
  "activeInspectors (gather_pid env pkt s) = activeInspectors s"
  by (simp_all add: gather_pid_def on_fw_def split: prod.split)

lemma gather_process_ready:
  assumes "profiles_ok env" "c_process (ph_conn s) = None" "loc_ok (Entity (ph_conn s))"
  shows "ready (pe_fw env) (ph_fw (gather_process env s)) \<and> activeInspectors (gather_process env s) = activeInspectors s"
proof -
  obtain p lp where lp: "GetProcessWithProfile env (ph_PID s) = Some (p, Some lp)" "lp_inv (cfg_of env, lp)"
    "localProfile lp \<noteq> None" "RevisionCounter lp \<noteq> -1" "list_all (refetchable (GetLocalProfile (pe_fw env))) (layers lp)"
    using assms(1) unfolding profiles_ok_def by blast
  then obtain loc where "localProfile lp = Some loc" by blast
  with lp assms show ?thesis
    by (simp add: gather_process_def ready_def ent_ok_def profiles_ok_def on_fw_def Let_def)
qed

lemma ready_entity:
  assumes "ready env (ph_fw s)" and "\<And>e. loc_ok (f e) = loc_ok e" and "\<And>c. c_process (g c) = c_process c"
    and "\<And>c. Entity (g c) = f (Entity c)"
  shows "ready env (ph_fw (on_fw (on_conn g) s))"
  using assms by (auto simp: ready_def ent_ok_def split: option.splits)

lemma gather_domain_ok:
  assumes r: "ready (pe_fw env) (ph_fw s)"
  shows "ok_go (gather_domain env pkt s) (\<lambda>s'. ready (pe_fw env) (ph_fw s') \<and> activeInspectors s' = activeInspectors s)"
proof -
  obtain lp loc where "fw_lp (ph_fw s) = Some lp" "localProfile lp = Some loc"
    using r by (auto simp: ready_def split: option.splits)
  moreover have "ready (pe_fw env) (ph_fw (on_fw (on_conn (\<lambda>c. c\<lparr>
      Entity := (Entity c)\<lparr>e_Domain := d, CNAME := cs\<rparr>, Resolver_IPScope := x\<rparr>)) s))" for d cs x
    by (rule ready_entity [OF r, where f = "\<lambda>e. e\<lparr>e_Domain := d, CNAME := cs\<rparr>"]) simp_all
  moreover have "activeInspectors (on_fw f s) = activeInspectors s" for f by (simp add: on_fw_def)
  ultimately show ?thesis using r by (auto simp: gather_domain_def Let_def split: option.split)
qed

lemma gather_portal_ready:
  assumes r: "ready (pe_fw env) (ph_fw s)"
  shows "ready (pe_fw env) (ph_fw (gather_portal env pkt s)) \<and> activeInspectors (gather_portal env pkt s) = activeInspectors s"
proof -
  have "ready (pe_fw env) (ph_fw (on_fw (on_conn (\<lambda>c. c\<lparr>Entity := (Entity c)\<lparr>e_Domain := d\<rparr>\<rparr>)) s))" for d
    by (rule ready_entity [OF r, where f = "\<lambda>e. e\<lparr>e_Domain := d\<rparr>"]) simp_all
  then show ?thesis using r by (simp add: gather_portal_def on_entity_def) (simp add: on_fw_def)
qed

lemma ready_flags:
  "ready env (SaveWhenFinished w) = ready env w"
  "ready env (on_conn (\<lambda>c. c\<lparr>dataComplete := b\<rparr>) w) = ready env w"
  by (simp_all add: ready_def SaveWhenFinished_def)

lemma gather_ok:
  assumes "profiles_ok env" "new_conn s" "\<not> InfoOnly pkt"
  shows "ok_go (GatherConnectionInfo env pkt s) (\<lambda>s'. decidable env s' \<and> dataComplete (ph_conn s'))"
proof -
  let ?s = "gather_process env (gather_pid env pkt (gather_entity pkt s))"
  have r: "ready (pe_fw env) (ph_fw ?s) \<and> activeInspectors ?s = None"
    using gather_process_ready [of env "gather_pid env pkt (gather_entity pkt s)"] gather_entity_new [OF assms(2)] assms(1)
    by (simp add: gather_pid_new)
  have dec: "(\<lambda>s. decidable env s \<and> dataComplete (ph_conn s)) (on_fw SaveWhenFinished (if c_process (ph_conn t) \<noteq> None \<and> fw_lp (ph_fw t) \<noteq> None
      then on_fw (on_conn (\<lambda>c. c\<lparr>dataComplete := True\<rparr>)) t else t))"
    if "ready (pe_fw env) (ph_fw t)" "activeInspectors t = None" for t
  proof -
    let ?t = "on_fw SaveWhenFinished (if c_process (ph_conn t) \<noteq> None \<and> fw_lp (ph_fw t) \<noteq> None
      then on_fw (on_conn (\<lambda>c. c\<lparr>dataComplete := True\<rparr>)) t else t)"
    have r: "ready (pe_fw env) (ph_fw ?t)" using that by (simp add: ready_flags)
    then obtain lp where "fw_lp (ph_fw ?t) = Some lp" by (auto simp: ready_def split: option.splits)
    with r have "usable (pe_fw env) lp (ph_fw ?t)" by (rule ready_usable)
    moreover have "c_process (ph_conn t) \<noteq> None \<and> fw_lp (ph_fw t) \<noteq> None"
      using that(1) by (auto simp: ready_def split: option.splits)
    ultimately show ?thesis
      using ready_local [OF r] that(2) by (auto simp: decidable_def SaveWhenFinished_def on_fw_def)
  qed
  have "ok_go (gather_domain env pkt ?s) (\<lambda>s. (\<lambda>s. decidable env s \<and> dataComplete (ph_conn s)) (let s = gather_portal env pkt s;
      s = (if c_process (ph_conn s) \<noteq> None \<and> fw_lp (ph_fw s) \<noteq> None
           then on_fw (on_conn (\<lambda>c. c\<lparr>dataComplete := True\<rparr>)) s else s) in on_fw SaveWhenFinished s))"
    using gather_domain_ok [OF conjunct1 [OF r], of pkt]
  proof (rule ok_go_mono)
    fix t :: ph assume "ready (pe_fw env) (ph_fw t) \<and> activeInspectors t = activeInspectors ?s"
    then have "ready (pe_fw env) (ph_fw (gather_portal env pkt t))" "activeInspectors (gather_portal env pkt t) = None"
      using gather_portal_ready [of env t pkt] r by auto
    then show "(\<lambda>s. decidable env s \<and> dataComplete (ph_conn s)) (let s = gather_portal env pkt t;
        s = (if c_process (ph_conn s) \<noteq> None \<and> fw_lp (ph_fw s) \<noteq> None
           then on_fw (on_conn (\<lambda>c. c\<lparr>dataComplete := True\<rparr>)) s else s) in on_fw SaveWhenFinished s)"
      unfolding Let_def by (rule dec)
  qed
  then show ?thesis
    using assms(3) by (simp add: GatherConnectionInfo_def Let_def)
qed

section \<open>Filtering does not panic\<close>

definition filtered :: "ph \<Rightarrow> bool" where
  "filtered s \<longleftrightarrow> has_local (ph_fw s) \<and> activeInspectors s = None"

lemma run_fw_ok: "ok_go (f (ph_fw s)) P \<Longrightarrow> ok_go (run_fw f s) (\<lambda>s'. P (ph_fw s') \<and> activeInspectors s' = activeInspectors s)"
  by (auto simp: run_fw_def ok_go_def)

lemma usable_verdict: "usable env lp (SetVerdict cfg v m k x w) = usable env lp w"
proof -
  have "fw_ok env (snd (update_profile env lp (SetVerdict cfg v m k x w))) = fw_ok env (snd (update_profile env lp w))"
    by (simp add: update_profile_def set_revision_def SaveWhenFinished_def fw_ok_def split: prod.split)
  moreover have "settled env (snd (update_profile env lp (SetVerdict cfg v m k x w))) = settled env (snd (update_profile env lp w))"
    by (simp add: update_profile_def set_revision_def SaveWhenFinished_def settled_def split: prod.split)
  ultimately show ?thesis by (simp add: usable_def)
qed

lemma request_tunnel_filtered: "filtered s \<Longrightarrow> filtered (request_tunnel env s)"
  by (auto simp: filtered_def request_tunnel_def has_local_def verdict_methods on_fw_def split: option.split)

lemma request_tunnel_decidable: "decidable env s \<Longrightarrow> decidable env (request_tunnel env s)"
  by (auto simp: decidable_def request_tunnel_def has_local_def verdict_methods usable_verdict on_fw_def split: option.split)

lemma mark_encrypted_frame [simp]:
  "ph_fw (mark_encrypted s) = ph_fw s" "activeInspectors (mark_encrypted s) = activeInspectors s"
  "decidable env (mark_encrypted s) = decidable env s"
  by (simp_all add: mark_encrypted_def decidable_def)

lemma decidable_filtered: "decidable env s \<Longrightarrow> filtered s"
  by (simp add: decidable_def filtered_def)

lemma apply_filter_ok:
  assumes "decidable env s"
  shows "ok_go (apply_filter env c s) (decidable env)"
proof -
  obtain lp where u: "usable (pe_fw env) lp (ph_fw s)" "has_local (ph_fw s)" "activeInspectors s = None"
    using assms by (auto simp: decidable_def)
  have "\<exists>lp. usable (pe_fw env) lp w" if "fw_ok (pe_fw env) w" "settled (pe_fw env) w" for w
    using that settled_usable by (auto simp: settled_def split: option.splits)
  then have "ok_go (run_fw (decideOnConnection (pe_fw env)) s) (decidable env)"
    using run_fw_ok [where f = "decideOnConnection (pe_fw env)", OF decide_keeps_ok [OF u(1)]] u(3)
    by (auto elim!: ok_go_mono simp: decidable_def intro: fw_ok_local)
  then show ?thesis
    using u by (auto simp: apply_filter_def assms decidable_def on_fw_def verdict_methods usable_verdict has_local_def)
qed

lemma FilterConnection_ok:
  assumes "decidable env s"
  shows "ok_go (FilterConnection env c b s) (\<lambda>s'. filtered s' \<and> (b \<or> decidable env s'))"
proof -
  have "ok_go (if b then run_fw (checkTunneling (pe_fw env)) (mark_encrypted s1) else Inr (mark_encrypted s1))
      (\<lambda>s. filtered (request_tunnel env s) \<and> (b \<or> decidable env (request_tunnel env s)))" if d: "decidable env s1" for s1
  proof -
    obtain lp where u: "usable (pe_fw env) lp (ph_fw s1)" "has_local (ph_fw s1)" "activeInspectors s1 = None"
      using d by (auto simp: decidable_def)
    have "ok_go (run_fw (checkTunneling (pe_fw env)) (mark_encrypted s1)) (\<lambda>s. filtered (request_tunnel env s))"
      using run_fw_ok [of "checkTunneling (pe_fw env)" "mark_encrypted s1" has_local] tunnel_ok [OF u(1,2)] u(3)
      by (auto elim!: ok_go_mono simp: filtered_def intro!: request_tunnel_filtered [unfolded filtered_def])
    then show ?thesis
      using d request_tunnel_decidable [of env "mark_encrypted s1"] request_tunnel_filtered [of "mark_encrypted s1" env]
      by (auto simp: decidable_filtered [of env])
  qed
  then have "ok_go (apply_filter env c s) (\<lambda>s. ok_go (if b then run_fw (checkTunneling (pe_fw env)) (mark_encrypted s)
      else Inr (mark_encrypted s)) (\<lambda>s. filtered (request_tunnel env s) \<and> (b \<or> decidable env (request_tunnel env s))))"
    using apply_filter_ok [OF assms, of c] by (rule ok_go_mono [rotated])
  then show ?thesis using assms decidable_filtered [OF assms] by (simp add: FilterConnection_def)
qed

lemma run_inspectors_ok:
  "length skips = length ins \<Longrightarrow> ok_go (run_inspectors cfg pkt skips ins w v c) (\<lambda>_. True)"
proof (induction cfg pkt skips ins w v c rule: run_inspectors.induct)
  case (4 cfg pkt skips f limit ins w v c)
  then show ?case by (auto simp: Let_def case_prod_unfold elim!: ok_go_mono split: inspect_action.split)
qed (auto elim!: ok_go_mono simp: Suc_length_conv split: prod.split)

lemma after_filter_ok:
  assumes "filtered s"
  shows "ok_go (after_filter env pkt s) (\<lambda>_. True)"
proof -
  obtain lp loc where l: "fw_lp (ph_fw s) = Some lp" "localProfile lp = Some loc"
    using assms by (auto simp: filtered_def has_local_def split: option.splits)
  have "ok_go (inspectDNSPacket env pkt s) (\<lambda>_. True)"
    using l by (auto simp: inspectDNSPacket_def split: dns_data.split)
  moreover have "ok_go (inspectAndVerdictHandler env pkt (UpdateFirewallHandler h s)) (\<lambda>_. True)" for h
    using run_inspectors_ok [of "replicate (length (pe_inspectors env)) False" "pe_inspectors env" "cfg_of env" pkt
        "ph_fw s" VerdictUndecided False] assms
    by (auto simp: inspectAndVerdictHandler_def RunInspectors_def UpdateFirewallHandler_def filtered_def
        case_prod_unfold elim!: ok_go_mono)
  ultimately show ?thesis by (simp add: after_filter_def)
qed

lemma decidable_simps [simp]:
  "decidable env (UpdateFirewallHandler h s) = decidable env s"
  "decidable env (s\<lparr>preAuthenticatedPorts := x\<rparr>) = decidable env s"
  by (simp_all add: decidable_def UpdateFirewallHandler_def)

lemma decidable_on_fw:
  assumes "decidable env s" and "\<And>lp. usable (pe_fw env) lp (f (ph_fw s)) = usable (pe_fw env) lp (ph_fw s)"
    and "fw_lp (f (ph_fw s)) = fw_lp (ph_fw s)"
  shows "decidable env (on_fw f s)"
  using assms by (auto simp: decidable_def on_fw_def has_local_def)

lemma usable_flags:
  "usable env lp (SaveWhenFinished w) = usable env lp w"
  "usable env lp (on_conn (\<lambda>c. c\<lparr>Internal := b\<rparr>) w) = usable env lp w"
  "usable env lp (on_conn (\<lambda>c. c\<lparr>Inbound := b\<rparr>) w) = usable env lp w"
  by (simp_all add: usable_def update_profile_def set_revision_def SaveWhenFinished_def fw_ok_def settled_def
      split: prod.split)

lemma filterHandler_ok:
  assumes d: "decidable env s"
  shows "ok_go (filterHandler env pkt s) (\<lambda>_. True)"
proof -
  let ?s = "on_fw SaveWhenFinished s"
  have d1: "decidable env ?s"
    by (rule decidable_on_fw [OF d]) (simp_all add: usable_flags, simp add: SaveWhenFinished_def)
  obtain b ports where pre: "(if Inbound (ph_conn ?s) then (False, preAuthenticatedPorts ?s)
      else localPortIsPreAuthenticated (e_Protocol (Entity (ph_conn ?s))) (LocalPort (ph_conn ?s)) (preAuthenticatedPorts ?s))
      = (b, ports)" by fastforce
  have run: "ok_go (FilterConnection env c True t) (\<lambda>t. ok_go (after_filter env pkt t) (\<lambda>_. True))" if "decidable env t" for c t
    using FilterConnection_ok [OF that, of c True] by (rule ok_go_mono) (simp add: after_filter_ok)
  have acc: "decidable env (on_fw (\<lambda>w. on_conn (\<lambda>c. c\<lparr>Internal := True\<rparr>) (Accept cfg m [] w)) (?s\<lparr>preAuthenticatedPorts := ports\<rparr>))" for cfg m
    using d1 by (intro decidable_on_fw) (simp_all add: usable_flags verdict_methods usable_verdict)
  have "ok_go (redirects_dns env pkt t) (\<lambda>_. True)" if "decidable env t" for t
  proof -
    obtain p where "c_process (ph_conn t) = Some p"
      using \<open>decidable env t\<close> update_profile_request [of "pe_fw env" _ "ph_fw t"]
      by (fastforce simp: decidable_def usable_def fw_ok_def request_def Let_def)
    then show ?thesis by (simp add: redirects_dns_def with_process_def)
  qed
  then have red: "ok_go (redirects_dns env pkt t) (\<lambda>r. \<not> r \<longrightarrow>
      ok_go (FilterConnection env True True t) (\<lambda>t. ok_go (after_filter env pkt t) (\<lambda>_. True)))" if "decidable env t" for t
    using that run [OF that, of True] by (auto elim!: ok_go_mono)
  show ?thesis
    using run [OF acc] red [of "?s\<lparr>preAuthenticatedPorts := ports\<rparr>"] d1
    unfolding filterHandler_def Let_def pre by simp
qed

lemma icmpFilterHandler_ok:
  assumes d: "decidable env s"
  shows "ok_go (icmpFilterHandler env pkt s) (\<lambda>_. True)"
proof -
  have save: "decidable env (on_fw SaveWhenFinished t)" if "decidable env t" for t
    by (rule decidable_on_fw [OF that]) (simp_all add: usable_flags, simp add: SaveWhenFinished_def)
  have refilter: "ok_go (if b then bind_go (FilterConnection env True False t') (\<lambda>s. Inr (on_fw SaveWhenFinished s)) else Inr t) (decidable env)"
    if "decidable env t" "decidable env t'" for b t t'
    using that(1) FilterConnection_ok [OF that(2), of True False] by (auto elim!: ok_go_mono intro: save)
  have flip: "decidable env (on_fw (on_conn (\<lambda>c. c\<lparr>Inbound := False\<rparr>)) t)" if "decidable env t" for t
    by (rule decidable_on_fw [OF that]) (simp_all add: usable_flags)
  have "ok_go (if c_Verdict (ph_conn s) \<in> {VerdictUndecided, VerdictUndeterminable}
      then bind_go (FilterConnection env True False s) (\<lambda>s. Inr (on_fw SaveWhenFinished s)) else Inr s) (\<lambda>s1.
      ok_go (if Inbound (ph_conn s1) \<and> Ended (ph_conn s1) = 0 \<and> IsOutbound pkt
        then bind_go (FilterConnection env True False (on_fw (on_conn (\<lambda>c. c\<lparr>Inbound := False\<rparr>)) s1))
               (\<lambda>s. Inr (on_fw SaveWhenFinished s)) else Inr s1) (\<lambda>_. True))"
    by (rule ok_go_mono [OF refilter [OF d d]]) (blast intro: ok_go_mono [OF refilter] flip)
  then show ?thesis unfolding icmpFilterHandler_def by simp
qed

section \<open>The first packet is decided\<close>

lemma applies_kept: "kept s s1 \<Longrightarrow> applies pkt s1 s' \<Longrightarrow> applies pkt s s'"
  by (simp add: applies_def kept_def)

lemma gatherDataHandler_ok:
  assumes "profiles_ok env" "new_conn s" "\<not> InfoOnly pkt" and r: "firewallHandler s \<noteq> None"
  shows "ok_go (gatherDataHandler env pkt s) (applies pkt s)"
proof -
  have "new_conn (on_fw SaveWhenFinished s)"
    using assms(2) by (simp add: new_conn_def on_fw_def SaveWhenFinished_def)
  from gather_ok [OF assms(1) this assms(3)] obtain s1 where
    s1: "GatherConnectionInfo env pkt (on_fw SaveWhenFinished s) = Inr s1" "decidable env s1" "dataComplete (ph_conn s1)"
    by (auto simp: ok_go_def)
  have k: "kept s s1" using GatherConnectionInfo_kept [OF s1(1)] by (simp add: kept_def)
  with r have r1: "firewallHandler s1 \<noteq> None" by (simp add: kept_def)
  have "ok_go (icmpFilterHandler env pkt (UpdateFirewallHandler h s1)) (applies pkt s)" for h
    using icmpFilterHandler_ok [of env "UpdateFirewallHandler h s1" pkt] s1(2) applies_update [OF icmp.handle_applies k]
    by (auto simp: ok_go_def)
  moreover have "ok_go (filterHandler env pkt (UpdateFirewallHandler h s1)) (applies pkt s)" for h
    using filterHandler_ok [of env "UpdateFirewallHandler h s1" pkt] s1(2,3) r1 applies_update [OF filtering.handle_applies k]
    by (auto simp: ok_go_def)
  ultimately show ?thesis using s1 by (simp add: gatherDataHandler_def)
qed

lemma from_own_ip_new: "from_own_ip env pkt s = (b, s') \<Longrightarrow> new_conn s' = new_conn s"
  by (auto simp: from_own_ip_def new_conn_def on_fw_def split: prod.splits)

lemma new_conn_simps [simp]:
  "new_conn (SaveDNSRequestConnection pkt s) = new_conn s" "new_conn (s\<lparr>ph_PID := n\<rparr>) = new_conn s"
  "new_conn (UpdateFirewallHandler h s) = new_conn s" "new_conn (on_fw SaveWhenFinished s) = new_conn s"
  by (simp_all add: new_conn_def SaveDNSRequestConnection_def UpdateFirewallHandler_def on_fw_def SaveWhenFinished_def
      split: option.split)

lemma fast_track_new:
  "fast_track_api env pkt s = (v, b, s') \<Longrightarrow> new_conn s' = new_conn s"
  "fast_track_dns env pkt s = (v, b, s') \<Longrightarrow> new_conn s' = new_conn s"
  by (auto simp: fast_track_api_def fast_track_dns_def Let_def split: if_splits option.splits prod.splits
      dest!: from_own_ip_new)

lemma fastTrackedPermit_new: "fastTrackedPermit env pkt s = (v, b, s') \<Longrightarrow> new_conn s' = new_conn s"
  unfolding fastTrackedPermit_def Let_def
  by (simp split: if_splits prod.splits) (auto dest: fast_track_new)

lemma fastTrackHandler_ok:
  assumes "profiles_ok env" "new_conn s" "\<not> InfoOnly pkt" and r: "firewallHandler s \<noteq> None"
  shows "ok_go (fastTrackHandler env pkt s) (applies pkt s)"
proof -
  obtain v p s1 where f: "fastTrackedPermit env pkt (on_fw SaveWhenFinished s) = (v, p, s1)"
    by (metis prod.exhaust)
  have k: "kept s s1" using fastTrackedPermit_kept [OF f] by (simp add: kept_def)
  show ?thesis
  proof (cases "v = VerdictUndecided")
    case True
    have "firewallHandler s1 \<noteq> None" using k r by (simp add: kept_def)
    moreover have "new_conn s1" using fastTrackedPermit_new [OF f] assms(2) by simp
    ultimately have "ok_go (gatherDataHandler env pkt (UpdateFirewallHandler GatherDataHandler s1)) (applies pkt s)"
      using gatherDataHandler_ok [OF assms(1) _ assms(3), of "UpdateFirewallHandler GatherDataHandler s1"]
        applies_update [OF _ k] by (auto elim!: ok_go_mono)
    then show ?thesis using f True by (simp add: fastTrackHandler_def)
  next
    case False
    then obtain s' where s': "fastTrackHandler env pkt s = Inr s'" using f by (simp add: fastTrackHandler_def Let_def)
    with fast_tracked_applies [OF f False] show ?thesis by (simp add: ok_go_def)
  qed
qed

lemma handle_new_state:
  "handle_new env pkt s = Inr (SetFirewallHandler (Some FastTrackHandler) (NewIncompleteConnection pkt s)\<lparr>pktQueue := [pkt]\<rparr>)"
  by (simp add: handle_new_def HandlePacket_def SetFirewallHandler_def NewIncompleteConnection_def Let_def)

end
