(* ===== verification/Packet_Runs.thy ===== *)
theory Packet_Runs
  imports Packet_Progress
begin

text \<open>
  What packet handling guarantees, for single packets and for whole runs of a connection: the
  theorems over the contract of the handlers, with runs of concrete packets as witnesses.
\<close>

section \<open>Sample packets\<close>

definition dns_profile :: profile where
  "dns_profile = sample_profile\<lparr>configPerspective := [''filter/preventBypassing'' \<mapsto>
     \<lparr>OptType = OptTypeBool, opt_ReleaseLevel = 0,
      valueCache = \<lparr>stringVal = [], stringArrayVal = [], intVal = 0, boolVal = True\<rparr>\<rparr>],
     defaultAction := DefaultActionBlock\<rparr>"

definition dns_packet :: packet where
  "dns_packet = \<lparr>pkt_Info = \<lparr>i_Inbound = False, i_Protocol = 17, i_SrcPort = 40000, i_DstPort = 53,
       i_Src = [10, 0, 0, 5], i_Dst = [9, 9, 9, 9], i_PID = 100\<rparr>,
     InfoOnly = False, ExpectInfo = False, FastTrackedByIntegration = False, pkt_icmp = NoICMPLayer,
     pkt_dns = DNSQuestion ''exfil.example.'' False\<rparr>"

definition web_packet :: packet where
  "web_packet = \<lparr>pkt_Info = \<lparr>i_Inbound = False, i_Protocol = 6, i_SrcPort = 40001, i_DstPort = 443,
       i_Src = [10, 0, 0, 5], i_Dst = [9, 9, 9, 9], i_PID = 100\<rparr>,
     InfoOnly = False, ExpectInfo = False, FastTrackedByIntegration = False, pkt_icmp = NoICMPLayer,
     pkt_dns = DNSLoadError\<rparr>"

definition sample_ph_env :: "profile \<Rightarrow> ph_env" where
  "sample_ph_env p = \<lparr>pe_fw = sample_fw_env\<lparr>resolver_IsDisabled := True\<rparr>, pe_apiPort = 817, pe_apiPortSet = True,
     pe_apiIP = [127, 0, 0, 1], nameserverIPMatcher = None, permanentVerdicts = True,
     dnsQueryInterception = True, filterEnabled = True, SubmitPacketToICMPListener = (\<lambda>_. False),
     AwaitRequest = (\<lambda>_. None), enableProcessDetection = True, state_Lookup = (\<lambda>_. ((100, False), False)),
     GetProcessWithProfile = (\<lambda>_. Some (sample_process, Some (NewLayeredProfile p))),
     profile_Internal = (\<lambda>_. False), GetIPInfo = (\<lambda>_ _. None), captivePortalIP = [], pe_inspectors = []\<rparr>"

definition empty_ph :: ph where
  "empty_ph = \<lparr>ph_fw = sample_fw, ph_PID = 0, hasEntity = False, VerdictPermanent = False, Encrypted = False,
     ConnectionEstablished = False, hasTunnelContext = False, firewallHandler = None, pktQueue = [],
     pktQueueActive = False, pktSeq = 0, activeInspectors = None, BytesReceived = 0, BytesSent = 0,
     preAuthenticatedPorts = {}, dnsRequestConnections = Map.empty, infoOnlyPacketsActive = False,
     packetsAccepted = 0, packetsBlocked = 0, packetsDropped = 0, packetsFailed = 0, applied = []\<rparr>"

text \<open>A connection that just got its first packet.\<close>

definition opened :: "packet \<Rightarrow> ph" where
  "opened pkt = SetFirewallHandler (Some FastTrackHandler) (NewIncompleteConnection pkt empty_ph)"

section \<open>Single packets\<close>

text \<open>
  C5: a denied connection gets no packet through.  When a handler accepts a packet, the verdict of
  the connection is then not stricter than accept: packets of blocked, dropped, failed or
  rerouted connections are never accepted, whatever verdict a handler or an inspector asks for.
  The only exception are connections that are left to DNS inspection.
\<close>

theorem denied_packets_not_accepted:
  assumes "packetHandlerHandleConn env pkt s = Inr s'"
    and "applied s' = applied s @ [(q, PktAccept permanent)]"
    and "firewallHandler s' \<noteq> Some InspectDNSHandler"
  shows "q = pkt \<and> c_Verdict (ph_conn s') \<le> VerdictAccept"
  using handled_outcome [OF assms(1)] assms(2,3) by (auto simp: outcome_def applies_def)

theorem denied_packets_not_accepted_witness:
  "\<exists>s'. packetHandlerHandleConn (sample_ph_env sample_profile) web_packet (opened web_packet) = Inr s' \<and>
     applied s' = [(web_packet, PktAccept True)] \<and> c_Verdict (ph_conn s') \<le> VerdictAccept"
proof -
  have "case packetHandlerHandleConn (sample_ph_env sample_profile) web_packet (opened web_packet) of
      Inl _ \<Rightarrow> False
    | Inr s' \<Rightarrow> applied s' = applied (opened web_packet) @ [(web_packet, PktAccept True)] \<and>
        firewallHandler s' \<noteq> Some InspectDNSHandler" by code_simp
  then obtain s' where s': "packetHandlerHandleConn (sample_ph_env sample_profile) web_packet (opened web_packet) = Inr s'"
    "applied s' = applied (opened web_packet) @ [(web_packet, PktAccept True)]" "firewallHandler s' \<noteq> Some InspectDNSHandler"
    by (auto split: sum.splits)
  have "applied (opened web_packet) = []" by code_simp
  with denied_packets_not_accepted [OF s'] s' show ?thesis by auto
qed

text \<open>
  No packet is forgotten.  Every real packet that a handler sees has exactly one operation
  applied to it by the time the data of its connection is complete, unless the operating system
  integration has already let it pass.
\<close>

theorem complete_packets_get_verdict:
  assumes "packetHandlerHandleConn env pkt s = Inr s'" and "dataComplete (ph_conn s')"
    and "\<not> InfoOnly pkt" "\<not> FastTrackedByIntegration pkt"
  shows "\<exists>op. applied s' = applied s @ [(pkt, op)]"
  using handled_outcome [OF assms(1)] assms(2-4) by (auto simp: outcome_def applies_def)

theorem complete_packets_get_verdict_witness:
  "\<exists>s' op. packetHandlerHandleConn (sample_ph_env dns_profile) web_packet (opened web_packet) = Inr s' \<and>
     applied s' = [(web_packet, op)]"
proof -
  have "case packetHandlerHandleConn (sample_ph_env dns_profile) web_packet (opened web_packet) of
      Inl _ \<Rightarrow> False | Inr s' \<Rightarrow> dataComplete (ph_conn s')" by code_simp
  then obtain s' where s': "packetHandlerHandleConn (sample_ph_env dns_profile) web_packet (opened web_packet) = Inr s'"
    "dataComplete (ph_conn s')" by (auto split: sum.splits)
  have "applied (opened web_packet) = []" "\<not> InfoOnly web_packet" "\<not> FastTrackedByIntegration web_packet"
    by code_simp+
  with complete_packets_get_verdict [OF s'] s' show ?thesis by auto
qed

text \<open>
  C28: DNS packets that are only observed pass whatever the verdict is.  Once a connection is left to
  DNS inspection, every further query is accepted without looking at the verdict of the connection,
  which does not change: a connection that the profile blocks can send its queries.
\<close>

theorem inspected_dns_ignores_verdict:
  assumes "firewallHandler s = Some InspectDNSHandler" and "\<not> InfoOnly pkt"
    and "pkt_dns pkt = DNSQuestion fqdn False"
  shows "\<exists>s'. packetHandlerHandleConn env pkt s = Inr s' \<and>
    applied s' = applied s @ [(pkt, PktAccept False)] \<and> c_Verdict (ph_conn s') = c_Verdict (ph_conn s)"
  using assms by (simp add: packetHandlerHandleConn_def inspectDNSPacket_def apply_op_def on_fw_def)

definition dns_run :: "ph go" where
  "dns_run = bind_go (handle_new (sample_ph_env dns_profile) dns_packet empty_ph)
     (run_events (sample_ph_env dns_profile) [Work False])"

theorem inspected_dns_ignores_verdict_witness:
  "\<exists>s s'. dns_run = Inr s \<and> map snd (applied s) = [PktAccept False] \<and> c_Verdict (ph_conn s) = VerdictBlock \<and>
     packetHandlerHandleConn (sample_ph_env dns_profile) dns_packet s = Inr s' \<and>
     map snd (applied s') = [PktAccept False, PktAccept False] \<and> c_Verdict (ph_conn s') = VerdictBlock"
proof -
  have "case dns_run of Inl _ \<Rightarrow> False
    | Inr s \<Rightarrow> map snd (applied s) = [PktAccept False] \<and> c_Verdict (ph_conn s) = VerdictBlock \<and>
        firewallHandler s = Some InspectDNSHandler" by code_simp
  then obtain s where s: "dns_run = Inr s" "map snd (applied s) = [PktAccept False]" "c_Verdict (ph_conn s) = VerdictBlock"
    "firewallHandler s = Some InspectDNSHandler" by (auto split: sum.splits)
  with inspected_dns_ignores_verdict [of s dns_packet "''exfil.example.''" "sample_ph_env dns_profile"] show ?thesis
    by (auto simp: dns_packet_def)
qed

section \<open>The first packet\<close>


lemma sample_profiles_ok:
  assumes "p_ID p = p_ID sample_profile" "p_Source p = p_Source sample_profile"
  shows "profiles_ok (sample_ph_env p)"
  using NewLayeredProfile_inv assms
  by (simp add: profiles_ok_def sample_ph_env_def sample_fw_env_def geo_ok_def empty_env_def sample_profile_def
      NewLayeredProfile_def refetchable_def)


section \<open>Whole runs\<close>

text \<open>
  C6: at most one operation per packet.  However packets arrive, the worker takes its turns and the
  verdict is re-evaluated, every packet of a connection has at most one operation applied to it, no
  packet is handled again while it waits in the queue, and nothing is applied to a packet that did
  not arrive.
\<close>

theorem one_operation_per_packet:
  assumes "bind_go (handle_new env pkt s) (run_events env evs) = Inr s'"
  shows "mset (map fst (applied s')) + mset (pktQueue s') \<subseteq># mset (map fst (applied s)) + mset (pkt # arrivals evs)"
proof -
  obtain s1 where s1: "handle_new env pkt s = Inr s1" "run_events env evs s1 = Inr s'"
    using assms by (auto simp: bind_go_Inr_iff)
  have "accounted s' \<subseteq># mset (map fst (applied s)) + mset (pkt # arrivals evs)"
    using run_accounted [OF s1(2)] by (simp add: handle_new_accounted [OF s1(1)] ac_simps)
  then show ?thesis by (simp only: accounted_def)
qed

theorem one_operation_per_packet_witness:
  "\<exists>s'. bind_go (handle_new (sample_ph_env sample_profile) web_packet empty_ph)
      (run_events (sample_ph_env sample_profile) [Arrive web_packet, Work False, Work False]) = Inr s' \<and>
    length (applied s') = 2 \<and> mset (map fst (applied s')) + mset (pktQueue s') \<subseteq># {#web_packet, web_packet#}"
proof -
  let ?r = "bind_go (handle_new (sample_ph_env sample_profile) web_packet empty_ph)
      (run_events (sample_ph_env sample_profile) [Arrive web_packet, Work False, Work False])"
  have "case ?r of Inl _ \<Rightarrow> False | Inr s' \<Rightarrow> length (applied s') = 2" by code_simp
  then obtain s' where s': "?r = Inr s'" "length (applied s') = 2" by (auto split: sum.splits)
  have "applied empty_ph = []" by (simp add: empty_ph_def)
  with one_operation_per_packet [OF s'(1)] have
    "mset (map fst (applied s')) + mset (pktQueue s') \<subseteq># {#web_packet, web_packet#}" by simp
  with s' show ?thesis by blast
qed

end
