(* ===== verification/Flow_Control.thy ===== *)
theory Flow_Control
  imports Go_Base
begin

text \<open>
  Flow control between two SPN terminals, \<^verbatim>\<open>spn/terminal/control_flow.go\<close>.  Each end of a connection
  has a \<open>DuplexFlowQueue\<close>: a queue of messages to send, a queue of messages received, the space it
  believes to be free at the other end, and the space it has reported to the other end.

  The code runs concurrently: the flow handler is a worker of its own, while senders, the receiver
  and the upstream terminal call in from their goroutines.  Atomic accesses are single steps here.
  \<open>reportableRecvSpace\<close> is three of them (load the reported space, read the length of the queue, add
  what is reported), the submission of a message and the decrement of the send space are separate,
  and so are putting a delivered message into the queue and the decrement of the reported space.
  Channels of capacity one that only signal are flags.

  The package of integer codings and the container of the message data are not part of the
  repository and are the parameter \<open>flow_env\<close>.  Left out are the unit scheduler, except for the
  priority of a message, and shutting down.  The product of a queue size and 0.75 is exact in
  single precision for all sizes up to the maximum.
\<close>

section \<open>Constants\<close>

datatype FlowControlType = FlowControlDefault | FlowControlDFQ | FlowControlNone

definition defaultFlowControl :: FlowControlType where
  "defaultFlowControl = FlowControlDFQ"

definition DefaultSize :: "FlowControlType \<Rightarrow> int" where
  "DefaultSize fct =
     (case (if fct = FlowControlDefault then defaultFlowControl else fct) of
        FlowControlDFQ \<Rightarrow> 50000 | FlowControlNone \<Rightarrow> 10000 | FlowControlDefault \<Rightarrow> 0)"

definition MaxQueueSize :: int where
  "MaxQueueSize = 1000000"

text \<open>Results of type \<^verbatim>\<open>int32\<close>.\<close>

definition i32 :: "int \<Rightarrow> int" where
  "i32 x = (x + 2 ^ 31) mod 2 ^ 32 - 2 ^ 31"

definition reportThreshold :: "nat \<Rightarrow> int" where
  "reportThreshold queueSize = i32 (3 * int queueSize div 4)"

section \<open>Messages and queues\<close>

record msg =
  msg_Data :: "byte list"
  HighPriority :: bool

datatype flow_error = ErrMalformedData | ErrQueueOverflow | ErrTimeout

record flow_env =
  fl_pack64 :: "64 word \<Rightarrow> byte list"
  fl_next16 :: "byte list \<Rightarrow> (16 word \<times> byte list) option"

text \<open>
  What the handler is doing: it waits in one of its two \<^verbatim>\<open>select\<close> statements, or it is on the way to
  submit a message, either one from the queue or a space report.
\<close>

datatype purpose = Carry msg | Force bool

datatype pc = Selecting | Depleted | LoadSpace purpose | Compute purpose int | AddReport purpose int
  | Submit purpose int | DecrementSpace

record dfq =
  queueCap :: nat
  sendQueue :: "msg list"
  prioMsgs :: int
  sendSpace :: int
  wakeSender :: bool
  recvQueue :: "msg list"
  reportedSpace :: int
  forceSpaceReport :: bool
  dfq_pc :: pc
  deliverPending :: bool
  flushWaiting :: nat
  flushDone :: nat

definition NewDuplexFlowQueue :: "nat \<Rightarrow> dfq" where
  "NewDuplexFlowQueue queueSize =
     \<lparr>queueCap = queueSize, sendQueue = [], prioMsgs = 0, sendSpace = i32 (int queueSize), wakeSender = False,
      recvQueue = [], reportedSpace = i32 (int queueSize), forceSpaceReport = False, dfq_pc = Selecting,
      deliverPending = False, flushWaiting = 0, flushDone = 0\<rparr>"

definition shouldReportRecvSpace :: "dfq \<Rightarrow> bool" where
  "shouldReportRecvSpace d \<longleftrightarrow> reportedSpace d < reportThreshold (queueCap d)"

definition decrementReportedRecvSpace :: "dfq \<Rightarrow> bool \<times> dfq" where
  "decrementReportedRecvSpace d =
     (let d = d\<lparr>reportedSpace := i32 (reportedSpace d - 1)\<rparr> in (reportedSpace d < reportThreshold (queueCap d), d))"

definition decrementSendSpace :: "dfq \<Rightarrow> int \<times> dfq" where
  "decrementSendSpace d = (let d = d\<lparr>sendSpace := i32 (sendSpace d - 1)\<rparr> in (sendSpace d, d))"

definition addToSendSpace :: "int \<Rightarrow> dfq \<Rightarrow> dfq" where
  "addToSendSpace n d = d\<lparr>sendSpace := i32 (sendSpace d + n), wakeSender := True\<rparr>"

section \<open>The three steps of a space report\<close>

definition report_load :: "purpose \<Rightarrow> dfq \<Rightarrow> dfq" where
  "report_load p d = d\<lparr>dfq_pc := Compute p (reportedSpace d)\<rparr>"

definition report_compute :: "purpose \<Rightarrow> int \<Rightarrow> dfq \<Rightarrow> dfq" where
  "report_compute p reported d =
     (let toReport = i32 (i32 (int (queueCap d) - int (length (recvQueue d))) - reported)
      in if toReport \<le> 1 then d\<lparr>dfq_pc := Submit p 0\<rparr> else d\<lparr>dfq_pc := AddReport p toReport\<rparr>)"

definition report_add :: "purpose \<Rightarrow> int \<Rightarrow> dfq \<Rightarrow> dfq" where
  "report_add p toReport d =
     d\<lparr>reportedSpace := i32 (reportedSpace d + toReport), dfq_pc := Submit p toReport\<rparr>"

text \<open>Without interference the steps are the function \<^verbatim>\<open>reportableRecvSpace\<close>.\<close>

definition reportableRecvSpace :: "dfq \<Rightarrow> int \<times> dfq" where
  "reportableRecvSpace d =
     (let toReport = i32 (i32 (int (queueCap d) - int (length (recvQueue d))) - reportedSpace d)
      in if toReport \<le> 1 then (0, d) else (toReport, d\<lparr>reportedSpace := i32 (reportedSpace d + toReport)\<rparr>))"

section \<open>The flow handler\<close>

datatype choice = TakeMsg | TakeForce | TakeWake | TakeFlush | Continue

definition take_msg :: "msg \<Rightarrow> msg list \<Rightarrow> dfq \<Rightarrow> dfq" where
  "take_msg m queue d =
     (let remaining = i32 (prioMsgs d - 1)
      in if remaining \<ge> 0
         then d\<lparr>sendQueue := queue, prioMsgs := remaining, dfq_pc := LoadSpace (Carry (m\<lparr>HighPriority := True\<rparr>))\<rparr>
         else d\<lparr>sendQueue := queue, prioMsgs := (if remaining < -30000 then 0 else remaining),
                dfq_pc := LoadSpace (Carry m)\<rparr>)"

definition take_flush :: "dfq \<Rightarrow> dfq" where
  "take_flush d =
     (if sendQueue d = [] then d\<lparr>flushDone := flushDone d + 1\<rparr> else d\<lparr>flushWaiting := flushWaiting d + 1\<rparr>)"

definition signal_flush :: "dfq \<Rightarrow> dfq" where
  "signal_flush d =
     (if flushWaiting d > 0 \<and> sendQueue d = [] then d\<lparr>flushDone := flushDone d + flushWaiting d, flushWaiting := 0\<rparr> else d)"

definition frame :: "flow_env \<Rightarrow> int \<Rightarrow> byte list \<Rightarrow> byte list" where
  "frame env space data = fl_pack64 env (word_of_int space) @ data"

text \<open>One step of the handler and what it submits; \<open>None\<close> if the alternative is not ready.\<close>

fun FlowHandler :: "flow_env \<Rightarrow> choice \<Rightarrow> dfq \<Rightarrow> pc \<Rightarrow> (dfq \<times> msg list) option" where
  "FlowHandler env TakeMsg d Selecting =
     (case sendQueue d of [] \<Rightarrow> None | m # queue \<Rightarrow> Some (take_msg m queue d, []))"
| "FlowHandler env TakeFlush d Selecting = Some (take_flush d, [])"
| "FlowHandler env TakeForce d Selecting =
     (if forceSpaceReport d
      then Some (d\<lparr>forceSpaceReport := False, dfq_pc := LoadSpace (Force False)\<rparr>, []) else None)"
| "FlowHandler env TakeForce d Depleted =
     (if forceSpaceReport d
      then Some (d\<lparr>forceSpaceReport := False, dfq_pc := LoadSpace (Force True)\<rparr>, []) else None)"
| "FlowHandler env TakeWake d Depleted =
     (if wakeSender d
      then Some (d\<lparr>wakeSender := False, dfq_pc := (if sendSpace d > 0 then Selecting else Depleted)\<rparr>, [])
      else None)"
| "FlowHandler env Continue d (LoadSpace p) = Some (report_load p d, [])"
| "FlowHandler env Continue d (Compute p reported) = Some (report_compute p reported d, [])"
| "FlowHandler env Continue d (AddReport p toReport) = Some (report_add p toReport d, [])"
| "FlowHandler env Continue d (Submit (Carry m) space) =
     Some (d\<lparr>dfq_pc := DecrementSpace\<rparr>, [m\<lparr>msg_Data := frame env space (msg_Data m)\<rparr>])"
| "FlowHandler env Continue d (Submit (Force depleted) space) =
     Some (d\<lparr>dfq_pc := (if depleted then Depleted else Selecting)\<rparr>,
           if space > 0 then [\<lparr>msg_Data = frame env space [], HighPriority = False\<rparr>] else [])"
| "FlowHandler env Continue d DecrementSpace =
     (case decrementSendSpace d of (space, d) \<Rightarrow>
        Some (signal_flush (d\<lparr>dfq_pc := (if space \<le> 0 then Depleted else Selecting)\<rparr>), []))"
| "FlowHandler env _ d _ = None"

section \<open>Sending and receiving\<close>

definition Send :: "msg \<Rightarrow> dfq \<Rightarrow> flow_error option \<times> dfq" where
  "Send m d =
     (if length (sendQueue d) < queueCap d
      then let d = d\<lparr>sendQueue := sendQueue d @ [m]\<rparr>
           in (None, if HighPriority m then d\<lparr>prioMsgs := i32 (int (length (sendQueue d)))\<rparr> else d)
      else (Some ErrTimeout, d))"

definition ReadyToSend :: "dfq \<Rightarrow> bool" where
  "ReadyToSend d \<longleftrightarrow> sendSpace d > 0 \<or> dfq_pc d = Selecting"

definition Receive :: "dfq \<Rightarrow> dfq" where
  "Receive d = (if shouldReportRecvSpace d then d\<lparr>forceSpaceReport := True\<rparr> else d)"

definition read_recvQueue :: "dfq \<Rightarrow> (msg \<times> dfq) option" where
  "read_recvQueue d = (case recvQueue d of [] \<Rightarrow> None | m # queue \<Rightarrow> Some (m, d\<lparr>recvQueue := queue\<rparr>))"

text \<open>The two halves of \<^verbatim>\<open>Deliver\<close>: up to the queue, and after it.\<close>

definition deliver_accept :: "flow_env \<Rightarrow> msg \<Rightarrow> dfq \<Rightarrow> flow_error option \<times> dfq" where
  "deliver_accept env m d =
     (case fl_next16 env (msg_Data m) of
        None \<Rightarrow> (Some ErrMalformedData, d)
      | Some (addSpace, data) \<Rightarrow>
          let d = (if addSpace > 0 then addToSendSpace (uint addSpace) d else d)
          in if data = [] then (None, d)
             else if length (recvQueue d) < queueCap d
             then (None, d\<lparr>recvQueue := recvQueue d @ [m\<lparr>msg_Data := data\<rparr>], deliverPending := True\<rparr>)
             else (Some ErrQueueOverflow, d))"

definition deliver_finish :: "dfq \<Rightarrow> dfq" where
  "deliver_finish d =
     (if deliverPending d
      then case decrementReportedRecvSpace d of (shouldReport, d) \<Rightarrow>
        if shouldReport then d\<lparr>deliverPending := False, forceSpaceReport := True\<rparr> else d\<lparr>deliverPending := False\<rparr>
      else d)"

definition Deliver :: "flow_env \<Rightarrow> msg option \<Rightarrow> dfq \<Rightarrow> flow_error option \<times> dfq" where
  "Deliver env m d =
     (case m of
        None \<Rightarrow> (Some ErrMalformedData, d)
      | Some m \<Rightarrow> (case deliver_accept env m d of (err, d) \<Rightarrow> (err, deliver_finish d)))"

section \<open>Two ends\<close>

datatype side = SideA | SideB

fun other :: "side \<Rightarrow> side" where
  "other SideA = SideB"
| "other SideB = SideA"

text \<open>
  The ends of a connection and the messages on their way; \<open>wire x\<close> leads from \<open>x\<close> to the other end.
  The terminals in between keep the order and lose nothing.  For the properties the state also
  records the data that was handed to \<open>Send\<close> and the data that was read at each end, and the
  errors of deliveries.
\<close>

record flow_sys =
  ends :: "side \<Rightarrow> dfq"
  wire :: "side \<Rightarrow> msg list"
  accepted :: "side \<Rightarrow> byte list list"
  received :: "side \<Rightarrow> byte list list"
  failures :: "side \<Rightarrow> flow_error list"

definition flow_init :: "nat \<Rightarrow> flow_sys" where
  "flow_init n = \<lparr>ends = (\<lambda>x. NewDuplexFlowQueue n), wire = (\<lambda>x. []), accepted = (\<lambda>x. []), received = (\<lambda>x. []),
     failures = (\<lambda>x. [])\<rparr>"

datatype flow_event = EvSend side msg | EvHandle side choice | EvDeliver side | EvFinish side | EvReceive side
  | EvRead side

fun flow_exec :: "flow_env \<Rightarrow> flow_event \<Rightarrow> flow_sys \<Rightarrow> flow_sys option" where
  "flow_exec env (EvSend x m) s =
     (if msg_Data m = [] then None
      else case Send m (ends s x) of
        (None, d) \<Rightarrow> Some (s\<lparr>ends := (ends s)(x := d), accepted := (accepted s)(x := accepted s x @ [msg_Data m])\<rparr>)
      | (Some err, d) \<Rightarrow> None)"
| "flow_exec env (EvHandle x ch) s =
     (case FlowHandler env ch (ends s x) (dfq_pc (ends s x)) of
        None \<Rightarrow> None
      | Some (d, out) \<Rightarrow> Some (s\<lparr>ends := (ends s)(x := d), wire := (wire s)(x := wire s x @ out)\<rparr>))"
| "flow_exec env (EvDeliver x) s =
     (if deliverPending (ends s x) then None
      else case wire s (other x) of
        [] \<Rightarrow> None
      | m # w \<Rightarrow>
          (case deliver_accept env m (ends s x) of (err, d) \<Rightarrow>
             Some (s\<lparr>ends := (ends s)(x := d), wire := (wire s)(other x := w),
                     failures := (case err of None \<Rightarrow> failures s | Some e \<Rightarrow> (failures s)(x := failures s x @ [e]))\<rparr>)))"
| "flow_exec env (EvFinish x) s = Some (s\<lparr>ends := (ends s)(x := deliver_finish (ends s x))\<rparr>)"
| "flow_exec env (EvReceive x) s = Some (s\<lparr>ends := (ends s)(x := Receive (ends s x))\<rparr>)"
| "flow_exec env (EvRead x) s =
     (case read_recvQueue (ends s x) of
        None \<Rightarrow> None
      | Some (m, d) \<Rightarrow> Some (s\<lparr>ends := (ends s)(x := d), received := (received s)(x := received s x @ [msg_Data m])\<rparr>))"

fun flow_run :: "flow_env \<Rightarrow> flow_event list \<Rightarrow> flow_sys \<Rightarrow> flow_sys option" where
  "flow_run env [] s = Some s"
| "flow_run env (ev # evs) s = (case flow_exec env ev s of None \<Rightarrow> None | Some s \<Rightarrow> flow_run env evs s)"

inductive flow_reachable :: "flow_env \<Rightarrow> nat \<Rightarrow> flow_sys \<Rightarrow> bool" for env n where
  init: "flow_reachable env n (flow_init n)"
| step: "flow_reachable env n s \<Longrightarrow> flow_exec env ev s = Some s' \<Longrightarrow> flow_reachable env n s'"

end
