(* ===== verification/Flow_Rules.thy ===== *)
theory Flow_Rules
  imports Flow_Control
begin

text \<open>
  Flow control works: no receive queue ever overflows, data arrives complete and in order, no
  counter wraps, and a depleted sender gets new space.  The invariant is an account of the space:
  what the sender believes to be free, the messages on their way and the reports on their way add
  up to what the receiver has reported and not yet taken back; and that, with the messages that
  wait in the receive queue, never exceeds the size of the queue.
\<close>

section \<open>Assumption on the coding\<close>

text \<open>A number below \<open>2\<^sup>16\<close> in front of data is read back, and the data is left.\<close>

definition flow_codec_ok :: "flow_env \<Rightarrow> bool" where
  "flow_codec_ok env \<longleftrightarrow> (\<forall>n data. n < 65536 \<longrightarrow> fl_next16 env (fl_pack64 env (of_nat n) @ data) = Some (of_nat n, data))"

lemma frame_read:
  assumes "flow_codec_ok env" "0 \<le> t" "t < 65536"
  shows "fl_next16 env (frame env t data) = Some (word_of_int t, data)"
proof -
  obtain n where n: "t = int n" using assms(2) nonneg_int_cases by blast
  then show ?thesis using assms(1,3) unfolding flow_codec_ok_def frame_def by simp
qed

lemma uint_space: "0 \<le> t \<Longrightarrow> t < 65536 \<Longrightarrow> uint (word_of_int t :: 16 word) = t"
  by (simp add: uint_word_of_int_eq take_bit_int_eq_self)

lemma i32_id: "-(2 ^ 31) \<le> x \<Longrightarrow> x < 2 ^ 31 \<Longrightarrow> i32 x = x"
  by (simp add: i32_def)

section \<open>The account\<close>

definition frame_load :: "flow_env \<Rightarrow> msg \<Rightarrow> byte list" where
  "frame_load env m = (case fl_next16 env (msg_Data m) of None \<Rightarrow> [] | Some (k, data) \<Rightarrow> data)"

definition frame_space :: "flow_env \<Rightarrow> msg \<Rightarrow> int" where
  "frame_space env m = (case fl_next16 env (msg_Data m) of None \<Rightarrow> 0 | Some (k, data) \<Rightarrow> uint k)"

definition frame_ok :: "flow_env \<Rightarrow> msg \<Rightarrow> bool" where
  "frame_ok env m \<longleftrightarrow> fl_next16 env (msg_Data m) \<noteq> None"

definition loads :: "flow_env \<Rightarrow> msg list \<Rightarrow> byte list list" where
  "loads env w = filter (\<lambda>d. d \<noteq> []) (map (frame_load env) w)"

definition spaces :: "flow_env \<Rightarrow> msg list \<Rightarrow> int" where
  "spaces env w = sum_list (map (frame_space env) w)"

lemma loads_simps [simp]:
  "loads env [] = []" "loads env (v @ w) = loads env v @ loads env w"
  "loads env (m # w) = (if frame_load env m = [] then loads env w else frame_load env m # loads env w)"
  by (simp_all add: loads_def)

lemma spaces_simps [simp]:
  "spaces env [] = 0" "spaces env (v @ w) = spaces env v + spaces env w"
  "spaces env (m # w) = frame_space env m + spaces env w"
  by (simp_all add: spaces_def)

lemma frame_space_nonneg [simp]: "0 \<le> frame_space env m"
  by (simp add: frame_space_def split: option.split)

lemma spaces_nonneg [simp]: "0 \<le> spaces env w"
  by (induction w) simp_all

fun carried :: "pc \<Rightarrow> msg list" where
  "carried (LoadSpace (Carry m)) = [m]"
| "carried (Compute (Carry m) r) = [m]"
| "carried (AddReport (Carry m) t) = [m]"
| "carried (Submit (Carry m) t) = [m]"
| "carried _ = []"

fun submitting :: "pc \<Rightarrow> int" where
  "submitting (Submit p t) = t"
| "submitting _ = 0"

fun adding :: "pc \<Rightarrow> int" where
  "adding (AddReport p t) = t"
| "adding _ = 0"

fun owed :: "pc \<Rightarrow> int" where
  "owed DecrementSpace = 1"
| "owed _ = 0"

text \<open>The handler is in, or will return to, the state in which it waits for space.\<close>

fun depleted :: "pc \<Rightarrow> bool" where
  "depleted Depleted = True"
| "depleted (LoadSpace p) = (p = Force True)"
| "depleted (Compute p r) = (p = Force True)"
| "depleted (AddReport p t) = (p = Force True)"
| "depleted (Submit p t) = (p = Force True)"
| "depleted _ = False"

fun pc_ok :: "nat \<Rightarrow> int \<Rightarrow> pc \<Rightarrow> bool" where
  "pc_ok n reported (Compute p r) = (reported \<le> r \<and> r \<le> int n)"
| "pc_ok n reported (AddReport p t) = (1 < t)"
| "pc_ok n reported (Submit p t) = (0 \<le> t \<and> t \<le> int n)"
| "pc_ok n reported _ = True"

definition granted :: "dfq \<Rightarrow> int" where
  "granted d = reportedSpace d - of_bool (deliverPending d)"

definition usable_space :: "dfq \<Rightarrow> int" where
  "usable_space d = sendSpace d - owed (dfq_pc d)"

definition end_inv :: "nat \<Rightarrow> dfq \<Rightarrow> bool" where
  "end_inv n d \<longleftrightarrow> queueCap d = n \<and> 0 \<le> usable_space d \<and> usable_space d \<le> int n \<and>
     (\<not> depleted (dfq_pc d) \<longrightarrow> 0 < sendSpace d) \<and> (depleted (dfq_pc d) \<and> 0 < sendSpace d \<longrightarrow> wakeSender d) \<and>
     0 \<le> granted d \<and> granted d + int (length (recvQueue d)) + adding (dfq_pc d) \<le> int n \<and>
     reportedSpace d + adding (dfq_pc d) \<le> int n \<and> pc_ok n (reportedSpace d) (dfq_pc d) \<and>
     list_all (\<lambda>m. msg_Data m \<noteq> []) (carried (dfq_pc d) @ sendQueue d)"

definition balanced :: "flow_env \<Rightarrow> dfq \<Rightarrow> dfq \<Rightarrow> msg list \<Rightarrow> msg list \<Rightarrow> bool" where
  "balanced env a b wab wba \<longleftrightarrow>
     usable_space a + int (length (loads env wab)) + spaces env wba + submitting (dfq_pc b) = granted b"

definition outgoing :: "dfq \<Rightarrow> byte list list" where
  "outgoing d = map msg_Data (carried (dfq_pc d) @ sendQueue d)"

definition in_order :: "flow_env \<Rightarrow> dfq \<Rightarrow> dfq \<Rightarrow> msg list \<Rightarrow> byte list list \<Rightarrow> byte list list \<Rightarrow> bool" where
  "in_order env a b wab sent got \<longleftrightarrow>
     sent = got @ map msg_Data (recvQueue b) @ loads env wab @ outgoing a"

definition flow_inv :: "flow_env \<Rightarrow> nat \<Rightarrow> flow_sys \<Rightarrow> bool" where
  "flow_inv env n s \<longleftrightarrow> (\<forall>x. end_inv n (ends s x) \<and> list_all (frame_ok env) (wire s x) \<and>
     balanced env (ends s x) (ends s (other x)) (wire s x) (wire s (other x)) \<and>
     in_order env (ends s x) (ends s (other x)) (wire s x) (accepted s x) (received s (other x)) \<and>
     failures s x = [])"

section \<open>Steps of the handler\<close>

lemmas end_defs = end_inv_def granted_def usable_space_def outgoing_def

lemma pc_cases:
  obtains (sel) "pc = Selecting" | (dep) "pc = Depleted" | (load) p where "pc = LoadSpace p"
  | (comp) p r where "pc = Compute p r" | (add) p t where "pc = AddReport p t"
  | (carry) m t where "pc = Submit (Carry m) t" | (force) b t where "pc = Submit (Force b) t" | (dec) "pc = DecrementSpace"
  by (metis pc.exhaust purpose.exhaust)

text \<open>What a step of the handler does to the account, as sender and as receiver.\<close>

definition handled :: "flow_env \<Rightarrow> nat \<Rightarrow> dfq \<Rightarrow> dfq \<Rightarrow> msg list \<Rightarrow> bool" where
  "handled env n d d' out \<longleftrightarrow> end_inv n d' \<and> list_all (frame_ok env) out \<and> recvQueue d' = recvQueue d \<and>
     usable_space d' + int (length (loads env out)) = usable_space d \<and>
     granted d' - submitting (dfq_pc d') - spaces env out = granted d - submitting (dfq_pc d) \<and>
     loads env out @ outgoing d' = outgoing d"

lemma carried_shift [simp]:
  "carried (LoadSpace p) = carried (Submit p 0)" "carried (Compute p r) = carried (Submit p 0)"
  "carried (AddReport p t) = carried (Submit p 0)" "t \<noteq> 0 \<Longrightarrow> carried (Submit p t) = carried (Submit p 0)"
  by (cases p; simp)+

lemma reported_nonneg: "end_inv n d \<Longrightarrow> 0 \<le> reportedSpace d"
  by (cases "deliverPending d") (auto simp: end_defs)

lemma take_msg_handled:
  assumes "end_inv n d" "dfq_pc d = Selecting" "sendQueue d = m # q"
  shows "handled env n d (take_msg m q d) []"
  using assms by (auto simp: handled_def take_msg_def end_defs Let_def)

lemma take_flush_handled: "end_inv n d \<Longrightarrow> dfq_pc d = Selecting \<Longrightarrow> handled env n d (take_flush d) []"
  by (auto simp: handled_def take_flush_def end_defs)

lemma force_handled:
  "end_inv n d \<Longrightarrow> dfq_pc d = (if b then Depleted else Selecting) \<Longrightarrow>
   handled env n d (d\<lparr>forceSpaceReport := False, dfq_pc := LoadSpace (Force b)\<rparr>) []"
  by (cases b) (auto simp: handled_def end_defs)

lemma wake_handled:
  "end_inv n d \<Longrightarrow> dfq_pc d = Depleted \<Longrightarrow>
   handled env n d (d\<lparr>wakeSender := False, dfq_pc := (if sendSpace d > 0 then Selecting else Depleted)\<rparr>) []"
  by (auto simp: handled_def end_defs)

lemma load_handled: "end_inv n d \<Longrightarrow> dfq_pc d = LoadSpace p \<Longrightarrow> handled env n d (report_load p d) []"
  by (auto simp: handled_def end_defs report_load_def)

lemma compute_handled:
  assumes "end_inv n d" "dfq_pc d = Compute p r" "n < 65536"
  shows "handled env n d (report_compute p r d) []"
proof -
  have "0 \<le> reportedSpace d" by (rule reported_nonneg) (rule assms(1))
  then have r: "0 \<le> r" "r \<le> int n" "reportedSpace d \<le> r" and g: "0 \<le> granted d"
    "granted d + int (length (recvQueue d)) \<le> int n" "queueCap d = n" "reportedSpace d \<le> int n"
    using assms(1,2) by (auto simp: end_inv_def)
  let ?t = "int n - int (length (recvQueue d)) - r"
  have l: "int (length (recvQueue d)) \<le> int n" using g by linarith
  have "i32 (int n - int (length (recvQueue d))) = int n - int (length (recvQueue d))"
    using l assms(3) by (intro i32_id) simp_all
  moreover have "i32 ?t = ?t" using l r assms(3) by (intro i32_id) simp_all
  ultimately have "report_compute p r d = (if ?t \<le> 1 then d\<lparr>dfq_pc := Submit p 0\<rparr> else d\<lparr>dfq_pc := AddReport p ?t\<rparr>)"
    using g(3) by (simp add: report_compute_def)
  moreover have "handled env n d (d\<lparr>dfq_pc := Submit p 0\<rparr>) []"
    using assms by (auto simp: handled_def end_defs)
  moreover have "handled env n d (d\<lparr>dfq_pc := AddReport p ?t\<rparr>) []" if "1 < ?t"
    using assms that r g by (auto simp: handled_def end_defs)
  ultimately show ?thesis by auto
qed

lemma add_handled:
  assumes "end_inv n d" "dfq_pc d = AddReport p t" "n < 65536"
  shows "handled env n d (report_add p t d) []"
proof -
  have "0 \<le> reportedSpace d" "reportedSpace d + t \<le> int n" "1 < t"
    using assms(1,2) reported_nonneg [OF assms(1)] by (simp_all add: end_inv_def)
  moreover from this have "i32 (reportedSpace d + t) = reportedSpace d + t" using assms(3) by (intro i32_id) simp_all
  ultimately show ?thesis using assms by (auto simp: handled_def end_defs report_add_def)
qed

lemma frame_data:
  assumes "flow_codec_ok env" "0 \<le> t" "t \<le> int n" "n < 65536" "fl_next16 env (msg_Data m) = fl_next16 env (frame env t data)"
  shows "frame_ok env m" "frame_load env m = data" "frame_space env m = t"
  using assms frame_read [of env t data] uint_space [of t]
  by (simp_all add: frame_ok_def frame_load_def frame_space_def)

lemma submit_carry_handled:
  assumes "flow_codec_ok env" "end_inv n d" "dfq_pc d = Submit (Carry m) t" "n < 65536"
  shows "handled env n d (d\<lparr>dfq_pc := DecrementSpace\<rparr>) [m\<lparr>msg_Data := frame env t (msg_Data m)\<rparr>]"
proof -
  have t: "0 \<le> t" "t \<le> int n" "msg_Data m \<noteq> []" "0 < sendSpace d" using assms by (auto simp: end_defs)
  note f = frame_data [OF assms(1) t(1,2) assms(4), of "m\<lparr>msg_Data := frame env t (msg_Data m)\<rparr>" "msg_Data m", simplified]
  show ?thesis using assms t f by (auto simp: handled_def end_defs)
qed

lemma submit_force_handled:
  assumes "flow_codec_ok env" "end_inv n d" "dfq_pc d = Submit (Force b) t" "n < 65536"
  shows "handled env n d (d\<lparr>dfq_pc := (if b then Depleted else Selecting)\<rparr>)
    (if t > 0 then [\<lparr>msg_Data = frame env t [], HighPriority = False\<rparr>] else [])"
proof -
  have t: "0 \<le> t" "t \<le> int n" using assms by (auto simp: end_defs)
  note f = frame_data [OF assms(1) t assms(4), of "\<lparr>msg_Data = frame env t [], HighPriority = False\<rparr>" "[]", simplified]
  show ?thesis using assms t f by (cases b) (auto simp: handled_def end_defs)
qed

lemma decrement_handled:
  assumes "end_inv n d" "dfq_pc d = DecrementSpace" "n < 65536"
  shows "handled env n d (signal_flush ((d\<lparr>sendSpace := i32 (sendSpace d - 1)\<rparr>)
    \<lparr>dfq_pc := (if i32 (sendSpace d - 1) \<le> 0 then Depleted else Selecting)\<rparr>)) []"
proof -
  have s: "1 \<le> sendSpace d" "sendSpace d \<le> int n + 1" using assms by (auto simp: end_defs)
  then have "i32 (sendSpace d - 1) = sendSpace d - 1" using assms(3) by (intro i32_id) simp_all
  then show ?thesis using assms s by (auto simp: handled_def end_defs signal_flush_def)
qed

lemma FlowHandler_handled:
  assumes "flow_codec_ok env" "end_inv n d" "n < 65536" "FlowHandler env ch d (dfq_pc d) = Some (d', out)"
  shows "handled env n d d' out"
proof (cases "dfq_pc d" rule: pc_cases)
  case sel
  then show ?thesis
    using assms take_msg_handled [OF assms(2) sel] take_flush_handled [OF assms(2) sel] force_handled [OF assms(2), of False]
    by (cases ch) (auto split: list.splits if_splits)
next
  case dep
  then show ?thesis
    using assms wake_handled [OF assms(2) dep] force_handled [OF assms(2), of True] by (cases ch) (auto split: if_splits)
next
  case (load p)
  with assms load_handled [OF assms(2) load] show ?thesis by (cases ch) auto
next
  case (comp p r)
  with assms show ?thesis by (cases ch) (auto simp: compute_handled)
next
  case (add p t)
  with assms show ?thesis by (cases ch) (auto simp: add_handled)
next
  case (carry m t)
  with assms submit_carry_handled [OF assms(1,2) carry assms(3)] show ?thesis by (cases ch) auto
next
  case (force b t)
  with assms submit_force_handled [OF assms(1,2) force assms(3)] show ?thesis by (cases ch) auto
next
  case dec
  with assms decrement_handled [OF assms(2) dec assms(3)] show ?thesis
    by (cases ch) (auto simp: decrementSendSpace_def Let_def)
qed

section \<open>Every event keeps the account\<close>

lemma other_other [simp]: "other (other x) = x" "other x \<noteq> x" "x \<noteq> other x"
  by (cases x; simp)+

lemma all_sides: "(\<forall>x. P x) \<longleftrightarrow> P y \<and> P (other y)"
  by (metis (full_types) other.simps side.exhaust)

lemma balanced_receiver:
  assumes "balanced env a b wab wba" "end_inv n a" "end_inv n b"
  shows "int (length (loads env wab)) \<le> granted b" "usable_space a + spaces env wba \<le> granted b" "granted b \<le> int n"
    "0 \<le> submitting (dfq_pc b)"
proof -
  show nn: "0 \<le> submitting (dfq_pc b)" using assms(3) by (cases "dfq_pc b") (auto simp: end_inv_def)
  have "0 \<le> adding (dfq_pc b)" using assms(3) by (cases "dfq_pc b") (auto simp: end_inv_def)
  with assms(3) show "granted b \<le> int n" by (simp add: end_inv_def)
  have "0 \<le> usable_space a" using assms(2) by (simp add: end_inv_def)
  with assms(1) nn spaces_nonneg [of env wba] show "int (length (loads env wab)) \<le> granted b"
    "usable_space a + spaces env wba \<le> granted b" unfolding balanced_def by linarith+
qed

text \<open>A delivery: the frame is taken apart, its space is added, its data goes into the queue.\<close>

definition delivered :: "flow_env \<Rightarrow> nat \<Rightarrow> msg \<Rightarrow> dfq \<Rightarrow> dfq \<Rightarrow> bool" where
  "delivered env n m d d' \<longleftrightarrow> end_inv n d' \<and> usable_space d' = usable_space d + frame_space env m \<and>
     granted d' = granted d - int (length (loads env [m])) \<and> submitting (dfq_pc d') = submitting (dfq_pc d) \<and>
     map msg_Data (recvQueue d') = map msg_Data (recvQueue d) @ loads env [m] \<and> outgoing d' = outgoing d"

lemma add_space_end:
  assumes "end_inv n d" "0 \<le> k" "usable_space d + k \<le> int n" "n < 65536"
  shows "end_inv n (addToSendSpace k d) \<and> usable_space (addToSendSpace k d) = usable_space d + k"
proof -
  have "0 \<le> owed (dfq_pc d)" "owed (dfq_pc d) \<le> 1" by (cases "dfq_pc d"; simp)+
  with assms have "0 \<le> sendSpace d" "sendSpace d + k \<le> int n + 1" by (auto simp: end_defs)
  with assms have "i32 (sendSpace d + k) = sendSpace d + k" by (intro i32_id) simp_all
  with assms \<open>0 \<le> sendSpace d\<close> show ?thesis by (auto simp: end_defs addToSendSpace_def)
qed

lemma enqueue_end:
  assumes "end_inv n d" "\<not> deliverPending d" "0 < granted d"
  shows "end_inv n (d\<lparr>recvQueue := recvQueue d @ [m], deliverPending := True\<rparr>) \<and>
    granted (d\<lparr>recvQueue := recvQueue d @ [m], deliverPending := True\<rparr>) = granted d - 1"
  using assms by (auto simp: end_defs)

lemma deliver_accept_delivered:
  assumes d: "end_inv n d" "\<not> deliverPending d" and m: "frame_ok env m" and n: "n < 65536"
    and sp: "usable_space d + frame_space env m \<le> int n" and gr: "int (length (loads env [m])) \<le> granted d"
    and acc: "deliver_accept env m d = (err, d')"
  shows "err = None \<and> delivered env n m d d'"
proof -
  obtain k data where f: "fl_next16 env (msg_Data m) = Some (k, data)" using m by (auto simp: frame_ok_def)
  then have fl: "frame_load env m = data" "frame_space env m = uint k" by (simp_all add: frame_load_def frame_space_def)
  let ?d = "if k > 0 then addToSendSpace (uint k) d else d"
  have e: "end_inv n ?d \<and> usable_space ?d = usable_space d + uint k \<and> granted ?d = granted d"
    using add_space_end [OF d(1), of "uint k"] sp n d(1) fl
    by (auto simp: word_gt_0 granted_def addToSendSpace_def)
  have fr: "recvQueue ?d = recvQueue d" "deliverPending ?d = deliverPending d" "dfq_pc ?d = dfq_pc d"
    "sendQueue ?d = sendQueue d" "queueCap ?d = queueCap d" by (simp_all add: addToSendSpace_def)
  show ?thesis
  proof (cases "data = []")
    case True
    with f acc have "err = None" "d' = ?d" by (auto simp: deliver_accept_def Let_def)
    with e fr fl True show ?thesis by (auto simp: delivered_def outgoing_def)
  next
    case False
    have "0 \<le> adding (dfq_pc d)" using d(1) by (cases "dfq_pc d") (auto simp: end_inv_def)
    with gr False fl d(1) have g: "0 < granted d" "length (recvQueue d) < queueCap d" by (auto simp: end_inv_def)
    with f acc False fr have "err = None"
      "d' = ?d\<lparr>recvQueue := recvQueue ?d @ [m\<lparr>msg_Data := data\<rparr>], deliverPending := True\<rparr>"
      by (auto simp: deliver_accept_def Let_def split: if_splits)
    moreover note enqueue_end [of n ?d "m\<lparr>msg_Data := data\<rparr>"]
    ultimately show ?thesis using e fr fl False d(2) g(1) by (auto simp: delivered_def outgoing_def usable_space_def)
  qed
qed

lemma deliver_finish_end:
  assumes "end_inv n d" "n < 65536"
  shows "end_inv n (deliver_finish d) \<and> usable_space (deliver_finish d) = usable_space d \<and>
    granted (deliver_finish d) = granted d \<and> dfq_pc (deliver_finish d) = dfq_pc d \<and>
    recvQueue (deliver_finish d) = recvQueue d \<and> outgoing (deliver_finish d) = outgoing d"
proof (cases "deliverPending d")
  case True
  with assms have r: "1 \<le> reportedSpace d" by (simp add: end_inv_def granted_def)
  have "0 \<le> adding (dfq_pc d)" using assms(1) by (cases "dfq_pc d") (auto simp: end_inv_def)
  with assms have "reportedSpace d \<le> int n" by (simp add: end_inv_def)
  with r assms(2) have i: "i32 (reportedSpace d - 1) = reportedSpace d - 1" by (intro i32_id) simp_all
  have "pc_ok n (reportedSpace d - 1) (dfq_pc d)" if "pc_ok n (reportedSpace d) (dfq_pc d)"
    using that by (cases "dfq_pc d") auto
  with True assms r i show ?thesis
    by (auto simp: deliver_finish_def decrementReportedRecvSpace_def Let_def end_defs)
qed (simp add: deliver_finish_def assms)

lemma Receive_end:
  "end_inv n d \<Longrightarrow> end_inv n (Receive d) \<and> usable_space (Receive d) = usable_space d \<and> granted (Receive d) = granted d \<and>
    dfq_pc (Receive d) = dfq_pc d \<and> recvQueue (Receive d) = recvQueue d \<and> outgoing (Receive d) = outgoing d"
  by (auto simp: Receive_def end_defs)

lemma read_end:
  assumes "end_inv n d" "read_recvQueue d = Some (m, d')"
  shows "end_inv n d' \<and> usable_space d' = usable_space d \<and> granted d' = granted d \<and> dfq_pc d' = dfq_pc d \<and>
    recvQueue d = m # recvQueue d' \<and> outgoing d' = outgoing d"
  using assms by (auto simp: read_recvQueue_def end_defs split: list.splits)

lemma Send_end:
  assumes "end_inv n d" "Send m d = (None, d')" "msg_Data m \<noteq> []"
  shows "end_inv n d' \<and> usable_space d' = usable_space d \<and> granted d' = granted d \<and> dfq_pc d' = dfq_pc d \<and>
    recvQueue d' = recvQueue d \<and> outgoing d' = outgoing d @ [msg_Data m]"
proof -
  have "d' = d\<lparr>sendQueue := sendQueue d @ [m], prioMsgs :=
      (if HighPriority m then i32 (int (length (sendQueue d @ [m]))) else prioMsgs d)\<rparr>"
    using assms(2) by (simp add: Send_def Let_def split: if_splits)
  then show ?thesis using assms(1,3) by (simp add: end_defs)
qed

lemma flow_init_inv: "0 < n \<Longrightarrow> n < 65536 \<Longrightarrow> flow_inv env n (flow_init n)"
  using i32_id [of "int n"]
  by (simp add: flow_inv_def flow_init_def NewDuplexFlowQueue_def end_defs balanced_def in_order_def)

lemma flow_exec_inv:
  assumes codec: "flow_codec_ok env" and n: "n < 65536" and inv: "flow_inv env n s" and ex: "flow_exec env ev s = Some s'"
  shows "flow_inv env n s'"
proof -
  have e: "end_inv n (ends s x)" and w: "list_all (frame_ok env) (wire s x)"
    and b: "balanced env (ends s x) (ends s (other x)) (wire s x) (wire s (other x))"
    and o: "in_order env (ends s x) (ends s (other x)) (wire s x) (accepted s x) (received s (other x))"
    and f: "failures s x = []" for x
    using inv by (auto simp: flow_inv_def)
  show ?thesis
  proof (cases ev)
    case (EvSend x m)
    with ex obtain d where d: "Send m (ends s x) = (None, d)" "msg_Data m \<noteq> []"
      "s' = s\<lparr>ends := (ends s)(x := d), accepted := (accepted s)(x := accepted s x @ [msg_Data m])\<rparr>"
      by (auto split: if_splits prod.splits option.splits)
    show ?thesis
      using Send_end [OF e d(1,2)] e [of "other x"] w [of x] w [of "other x"] b [of x] b [of "other x"]
        o [of x] o [of "other x"] f [of x] f [of "other x"]
      unfolding flow_inv_def all_sides [of _ x] d(3) by (simp add: balanced_def in_order_def)
  next
    case (EvHandle x ch)
    with ex obtain d out where d: "FlowHandler env ch (ends s x) (dfq_pc (ends s x)) = Some (d, out)"
      "s' = s\<lparr>ends := (ends s)(x := d), wire := (wire s)(x := wire s x @ out)\<rparr>"
      by (auto split: option.splits)
    show ?thesis
      using FlowHandler_handled [OF codec e n d(1)] e [of "other x"] w [of x] w [of "other x"] b [of x] b [of "other x"]
        o [of x] o [of "other x"] f [of x] f [of "other x"]
      unfolding flow_inv_def all_sides [of _ x] d(2) by (simp add: balanced_def in_order_def handled_def)
  next
    case (EvDeliver x)
    with ex obtain m v err d where d: "\<not> deliverPending (ends s x)" "wire s (other x) = m # v"
      "deliver_accept env m (ends s x) = (err, d)"
      "s' = s\<lparr>ends := (ends s)(x := d), wire := (wire s)(other x := v),
         failures := (case err of None \<Rightarrow> failures s | Some e \<Rightarrow> (failures s)(x := failures s x @ [e]))\<rparr>"
      by (auto split: if_splits list.splits prod.splits)
    have "err = None \<and> delivered env n m (ends s x) d"
    proof (rule deliver_accept_delivered [OF e d(1) _ n _ _ d(3)])
      show "frame_ok env m" using w [of "other x"] d(2) by simp
      show "usable_space (ends s x) + frame_space env m \<le> int n"
        using balanced_receiver(2,3) [OF b [of x] e e] spaces_nonneg [of env v] unfolding d(2) spaces_simps by linarith
      show "int (length (loads env [m])) \<le> granted (ends s x)"
        using balanced_receiver(1) [OF b [of "other x"] e e] d(2) by (simp split: if_splits)
    qed
    then show ?thesis
      using e [of "other x"] w [of x] w [of "other x"] b [of x] b [of "other x"] o [of x] o [of "other x"] f [of x]
        f [of "other x"] d(2)
      unfolding flow_inv_def all_sides [of _ x] d(4) by (auto simp: balanced_def in_order_def delivered_def)
  next
    case (EvFinish x)
    then show ?thesis
      using ex deliver_finish_end [OF e n] e [of "other x"] w b [of x] b [of "other x"] o [of x] o [of "other x"] f
      unfolding flow_inv_def all_sides [of _ x] by (auto simp: balanced_def in_order_def)
  next
    case (EvReceive x)
    then show ?thesis
      using ex Receive_end [OF e] e [of "other x"] w b [of x] b [of "other x"] o [of x] o [of "other x"] f
      unfolding flow_inv_def all_sides [of _ x] by (auto simp: balanced_def in_order_def)
  next
    case (EvRead x)
    with ex obtain m d where d: "read_recvQueue (ends s x) = Some (m, d)"
      "s' = s\<lparr>ends := (ends s)(x := d), received := (received s)(x := received s x @ [msg_Data m])\<rparr>"
      by (auto split: option.splits)
    show ?thesis
      using read_end [OF e d(1)] e [of "other x"] w b [of x] b [of "other x"] o [of x] o [of "other x"] f
      unfolding flow_inv_def all_sides [of _ x] d(2) by (auto simp: balanced_def in_order_def)
  qed
qed

lemma flow_reachable_inv:
  assumes "flow_reachable env n s" "flow_codec_ok env" "0 < n" "n < 65536"
  shows "flow_inv env n s"
  using assms(1) by (induction rule: flow_reachable.induct) (auto intro: flow_init_inv flow_exec_inv assms(2-4))

end
