(* ===== verification/Container.thy ===== *)
theory Container
  imports Go_Base
begin

text \<open>
  Byte containers, \<^verbatim>\<open>base/container/container.go\<close>: a list of byte slices with an offset to the first
  one in use, for appending and prepending without copying.  The integer coding is a third-party
  package and a parameter (\<open>varint_env\<close>), together with the size above which the allocation of a
  slice panics.  Slices are values here: the code re-slices and drops its slices but never writes
  into one that it was given.
\<close>

section \<open>Data\<close>

record container =
  compartments :: "byte list list"
  c_offset :: nat
  c_err :: "string option"

record varint_env =
  Pack64 :: "64 word \<Rightarrow> byte list"
  Unpack8 :: "byte list \<Rightarrow> string + 8 word \<times> nat"
  Unpack16 :: "byte list \<Rightarrow> string + 16 word \<times> nat"
  Unpack32 :: "byte list \<Rightarrow> string + 32 word \<times> nat"
  Unpack64 :: "byte list \<Rightarrow> string + 64 word \<times> nat"
  maxAlloc :: int

definition New :: "byte list list \<Rightarrow> container" where
  "New data = \<lparr>compartments = data, c_offset = 0, c_err = None\<rparr>"

section \<open>Internal operations\<close>

definition renewCompartments :: "container \<Rightarrow> container go" where
  "renewCompartments c =
     (if c_offset c > length (compartments c) then Inl IndexOutOfRange
      else Inr (c\<lparr>compartments := replicate 5 [] @ drop (c_offset c) (compartments c), c_offset := 4\<rparr>))"

definition clean :: "container \<Rightarrow> container go" where
  "clean c = (if c_offset c > 100 then renewCompartments c else Inr c)"

definition checkOffset :: "container \<Rightarrow> container" where
  "checkOffset c =
     (if c_offset c \<ge> length (compartments c) then c\<lparr>c_offset := length (compartments c) div 2\<rparr> else c)"

text \<open>The loop of \<^verbatim>\<open>skip\<close> over the slices in use: the slices after it and how many of them are done.\<close>

fun skip_loop :: "nat \<Rightarrow> byte list list \<Rightarrow> byte list list \<times> nat" where
  "skip_loop n [] = ([], 0)"
| "skip_loop n (x # xs) =
     (if length x \<le> n
      then if n - length x = 0 then ([] # xs, 1)
           else let (ys, k) = skip_loop (n - length x) xs in ([] # ys, Suc k)
      else (drop n x # xs, 0))"

definition skip :: "nat \<Rightarrow> container \<Rightarrow> container" where
  "skip n c =
     (let (ys, k) = skip_loop n (drop (c_offset c) (compartments c))
      in checkOffset (c\<lparr>compartments := take (c_offset c) (compartments c) @ ys, c_offset := c_offset c + k\<rparr>))"

section \<open>Adding data\<close>

definition Prepend :: "byte list \<Rightarrow> container \<Rightarrow> container go" where
  "Prepend data c =
     bind_go (if c_offset c < 1 then renewCompartments c else Inr c) (\<lambda>c.
       let i = c_offset c - 1
       in if i < length (compartments c)
          then Inr (c\<lparr>compartments := (compartments c)[i := data], c_offset := i\<rparr>)
          else Inl IndexOutOfRange)"

definition Append :: "byte list \<Rightarrow> container \<Rightarrow> container" where
  "Append data c = c\<lparr>compartments := compartments c @ [data]\<rparr>"

definition PrependNumber :: "varint_env \<Rightarrow> 64 word \<Rightarrow> container \<Rightarrow> container go" where
  "PrependNumber env n c = Prepend (Pack64 env n) c"

definition AppendNumber :: "varint_env \<Rightarrow> 64 word \<Rightarrow> container \<Rightarrow> container" where
  "AppendNumber env n c = Append (Pack64 env n) c"

definition PrependInt :: "varint_env \<Rightarrow> int \<Rightarrow> container \<Rightarrow> container go" where
  "PrependInt env n c = Prepend (Pack64 env (word_of_int n)) c"

definition AppendInt :: "varint_env \<Rightarrow> int \<Rightarrow> container \<Rightarrow> container" where
  "AppendInt env n c = Append (Pack64 env (word_of_int n)) c"

definition AppendAsBlock :: "varint_env \<Rightarrow> byte list \<Rightarrow> container \<Rightarrow> container" where
  "AppendAsBlock env data c = Append data (AppendNumber env (of_nat (length data)) c)"

definition PrependAsBlock :: "varint_env \<Rightarrow> byte list \<Rightarrow> container \<Rightarrow> container go" where
  "PrependAsBlock env data c =
     bind_go (Prepend data c) (PrependNumber env (of_nat (length data)))"

definition AppendContainer :: "container \<Rightarrow> container \<Rightarrow> container" where
  "AppendContainer data c = c\<lparr>compartments := compartments c @ compartments data\<rparr>"

section \<open>Reading data\<close>

definition HoldsData :: "container \<Rightarrow> bool" where
  "HoldsData c = list_ex (\<lambda>x. length x > 0) (drop (c_offset c) (compartments c))"

definition Length :: "container \<Rightarrow> nat" where
  "Length c = sum_list (map length (drop (c_offset c) (compartments c)))"

definition AppendContainerAsBlock :: "varint_env \<Rightarrow> container \<Rightarrow> container \<Rightarrow> container" where
  "AppendContainerAsBlock env data c = AppendContainer data (AppendNumber env (of_nat (Length data)) c)"

definition PrependLength :: "varint_env \<Rightarrow> container \<Rightarrow> container go" where
  "PrependLength env c = Prepend (Pack64 env (of_nat (Length c))) c"

definition Replace :: "byte list \<Rightarrow> container \<Rightarrow> container" where
  "Replace data c = c\<lparr>compartments := [data]\<rparr>"

definition CompileData :: "container \<Rightarrow> byte list \<times> container" where
  "CompileData c =
     (let c = (if length (compartments c) \<noteq> 1
               then c\<lparr>compartments := [concat (drop (c_offset c) (compartments c))], c_offset := 0\<rparr> else c)
      in (hd (compartments c), c))"

fun peek_loop :: "nat \<Rightarrow> byte list list \<Rightarrow> byte list" where
  "peek_loop n [] = []"
| "peek_loop n (x # xs) = (if n \<le> length x then take n x else x @ peek_loop (n - length x) xs)"

definition Peek :: "varint_env \<Rightarrow> int \<Rightarrow> container \<Rightarrow> byte list go" where
  "Peek env n c =
     (if n \<le> 0 then Inr []
      else if c_offset c \<ge> length (compartments c) then Inl IndexOutOfRange
      else if int (length (compartments c ! c_offset c)) \<ge> n then Inr (take (nat n) (compartments c ! c_offset c))
      else if n > maxAlloc env then Inl MakesliceOutOfRange
      else Inr (peek_loop (nat n) (drop (c_offset c) (compartments c))))"

text \<open>The slices of the new container and the number of bytes that are missing.\<close>

fun peek_container_loop :: "nat \<Rightarrow> byte list list \<Rightarrow> byte list list \<times> nat" where
  "peek_container_loop n [] = ([], n)"
| "peek_container_loop n (x # xs) =
     (if n \<ge> length x
      then let (ys, m) = peek_container_loop (n - length x) xs in (x # ys, m)
      else let (ys, m) = peek_container_loop 0 xs in (take n x # ys, m))"

definition PeekContainer :: "int \<Rightarrow> container \<Rightarrow> container option" where
  "PeekContainer n c =
     (if n < 0 then None
      else if n = 0 then Some (New [])
      else case peek_container_loop (nat n) (drop (c_offset c) (compartments c)) of (xs, m) \<Rightarrow>
        if m > 0 then None else Some (New xs))"

definition ErrNotEnoughData :: string where
  "ErrNotEnoughData = ''container: not enough data to return''"

definition Get :: "varint_env \<Rightarrow> int \<Rightarrow> container \<Rightarrow> ((string + byte list) \<times> container) go" where
  "Get env n c =
     bind_go (Peek env n c) (\<lambda>buf.
       Inr (if int (length buf) < n then (Inl ErrNotEnoughData, c) else (Inr buf, skip (length buf) c)))"

definition GetAll :: "varint_env \<Rightarrow> container \<Rightarrow> (byte list \<times> container) go" where
  "GetAll env c = bind_go (Peek env (int (Length c)) c) (\<lambda>buf. Inr (buf, skip (length buf) c))"

definition GetAsContainer :: "int \<Rightarrow> container \<Rightarrow> (string + container) \<times> container" where
  "GetAsContainer n c =
     (case PeekContainer n c of
        None \<Rightarrow> (Inl ErrNotEnoughData, c)
      | Some newC \<Rightarrow> (Inr newC, skip (nat n) c))"

definition GetMax :: "varint_env \<Rightarrow> int \<Rightarrow> container \<Rightarrow> (byte list \<times> container) go" where
  "GetMax env n c = bind_go (Peek env n c) (\<lambda>buf. Inr (buf, skip (length buf) c))"

text \<open>
  The loop of \<^verbatim>\<open>WriteToSlice\<close> for a slice of the given length: what is copied, the slices after it,
  how many of them are done, and whether all are.
\<close>

fun write_loop :: "nat \<Rightarrow> byte list list \<Rightarrow> byte list \<times> byte list list \<times> nat \<times> bool" where
  "write_loop m [] = ([], [], 0, True)"
| "write_loop m (x # xs) =
     (if m < length x then (take m x, drop m x # xs, 0, False)
      else let (w, ys, k, emptied) = write_loop (m - length x) xs in (x @ w, [] # ys, Suc k, emptied))"

definition WriteToSlice :: "nat \<Rightarrow> container \<Rightarrow> (byte list \<times> bool) \<times> container" where
  "WriteToSlice m c =
     (let (w, ys, k, emptied) = write_loop m (drop (c_offset c) (compartments c))
      in ((w, emptied),
          checkOffset (c\<lparr>compartments := take (c_offset c) (compartments c) @ ys, c_offset := c_offset c + k\<rparr>)))"

section \<open>Numbers and blocks\<close>

definition next_number ::
    "varint_env \<Rightarrow> (byte list \<Rightarrow> string + 'n \<times> nat) \<Rightarrow> int \<Rightarrow> container \<Rightarrow> ((string + 'n) \<times> container) go" where
  "next_number env unpack width c =
     bind_go (Peek env width c) (\<lambda>buf.
       Inr (case unpack buf of Inl err \<Rightarrow> (Inl err, c) | Inr (num, n) \<Rightarrow> (Inr num, skip n c)))"

definition GetNextN8 :: "varint_env \<Rightarrow> container \<Rightarrow> ((string + 8 word) \<times> container) go" where
  "GetNextN8 env = next_number env (Unpack8 env) 2"

definition GetNextN16 :: "varint_env \<Rightarrow> container \<Rightarrow> ((string + 16 word) \<times> container) go" where
  "GetNextN16 env = next_number env (Unpack16 env) 3"

definition GetNextN32 :: "varint_env \<Rightarrow> container \<Rightarrow> ((string + 32 word) \<times> container) go" where
  "GetNextN32 env = next_number env (Unpack32 env) 5"

definition GetNextN64 :: "varint_env \<Rightarrow> container \<Rightarrow> ((string + 64 word) \<times> container) go" where
  "GetNextN64 env = next_number env (Unpack64 env) 10"

definition GetNextBlock :: "varint_env \<Rightarrow> container \<Rightarrow> ((string + byte list) \<times> container) go" where
  "GetNextBlock env c =
     bind_go (GetNextN64 env c) (\<lambda>(r, c). case r of
       Inl err \<Rightarrow> Inr (Inl err, c)
     | Inr blockSize \<Rightarrow> Get env (sint blockSize) c)"

definition GetNextBlockAsContainer :: "varint_env \<Rightarrow> container \<Rightarrow> ((string + container) \<times> container) go" where
  "GetNextBlockAsContainer env c =
     bind_go (GetNextN64 env c) (\<lambda>(r, c). case r of
       Inl err \<Rightarrow> Inr (Inl err, c)
     | Inr blockSize \<Rightarrow> Inr (GetAsContainer (sint blockSize) c))"

end
