(* ===== verification/Container_Rules.thy ===== *)
theory Container_Rules
  imports Container
begin

text \<open>
  Containers refine byte sequences: the abstract value of a container is the concatenation of the
  slices in use (\<open>held\<close>), and every operation acts on it as the corresponding operation on lists.
  The invariant says that the offset points to a slice and that no data is left before it.
\<close>

section \<open>Abstraction and invariant\<close>

definition held :: "container \<Rightarrow> byte list" where
  "held c = concat (drop (c_offset c) (compartments c))"

definition container_inv :: "container \<Rightarrow> bool" where
  "container_inv c \<longleftrightarrow> c_offset c < length (compartments c) \<and>
     (\<forall>x \<in> set (take (c_offset c) (compartments c)). x = [])"

lemma concat_empty: "\<forall>x \<in> set xs. x = [] \<Longrightarrow> concat xs = []"
  by (induction xs) simp_all

lemma inv_all: "container_inv c \<Longrightarrow> concat (compartments c) = held c"
proof -
  assume "container_inv c"
  then have "concat (take (c_offset c) (compartments c)) = []"
    by (simp add: container_inv_def concat_empty)
  then show ?thesis
    unfolding held_def by (metis append_Nil append_take_drop_id concat_append)
qed

lemma New_inv: "data \<noteq> [] \<Longrightarrow> container_inv (New data) \<and> held (New data) = concat data"
  by (simp add: container_inv_def held_def New_def)

section \<open>Adding data\<close>

lemma Append_held: "container_inv c \<Longrightarrow> container_inv (Append x c) \<and> held (Append x c) = held c @ x"
  by (simp add: container_inv_def held_def Append_def)

lemma AppendContainer_held:
  "container_inv c \<Longrightarrow> container_inv d \<Longrightarrow>
   container_inv (AppendContainer d c) \<and> held (AppendContainer d c) = held c @ held d"
  using inv_all [of d] by (simp add: container_inv_def held_def AppendContainer_def)

lemma renew_held:
  assumes "c_offset c \<le> length (compartments c)"
  shows "\<exists>c'. renewCompartments c = Inr c' \<and> container_inv c' \<and> held c' = held c \<and> c_offset c' = 4"
proof -
  have "drop 4 (replicate 5 [] @ ys) = [] # ys" for ys :: "byte list list" by (simp add: eval_nat_numeral)
  moreover have "set (take 4 (replicate 5 [] @ ys)) \<subseteq> {[]}" for ys :: "byte list list"
    by (auto dest: in_set_takeD)
  ultimately show ?thesis
    using assms by (auto simp: renewCompartments_def container_inv_def held_def)
qed

lemma prepend_at:
  assumes "container_inv c" "c_offset c = Suc i"
  shows "container_inv (c\<lparr>compartments := (compartments c)[i := x], c_offset := i\<rparr>) \<and>
    held (c\<lparr>compartments := (compartments c)[i := x], c_offset := i\<rparr>) = x @ held c"
proof -
  have "i < length (compartments c)" using assms by (simp add: container_inv_def)
  moreover have "set (take i (compartments c)) \<subseteq> set (take (Suc i) (compartments c))"
    by (rule set_take_subset_set_take) simp
  ultimately show ?thesis
    using assms by (auto simp: container_inv_def held_def drop_update_swap Cons_nth_drop_Suc [symmetric])
qed

lemma Prepend_held:
  assumes "container_inv c"
  shows "\<exists>c'. Prepend x c = Inr c' \<and> container_inv c' \<and> held c' = x @ held c"
proof -
  have go: "\<exists>c''. (let i = c_offset c' - 1 in if i < length (compartments c')
      then Inr (c'\<lparr>compartments := (compartments c')[i := x], c_offset := i\<rparr>) else Inl IndexOutOfRange) = Inr c'' \<and>
      container_inv c'' \<and> held c'' = x @ held c'" if c': "container_inv c'" "c_offset c' \<ge> 1" for c'
  proof -
    obtain i where i: "c_offset c' = Suc i" using c'(2) by (cases "c_offset c'") simp_all
    then show ?thesis using prepend_at [OF c'(1) i, of x] c'(1) by (simp add: container_inv_def)
  qed
  show ?thesis
  proof (cases "c_offset c < 1")
    case True
    obtain c1 where "renewCompartments c = Inr c1" "container_inv c1" "held c1 = held c" "c_offset c1 = 4"
      using renew_held [of c] True by auto
    then show ?thesis using go [of c1] True unfolding Prepend_def by simp
  next
    case False
    then show ?thesis using go [of c] assms unfolding Prepend_def by simp
  qed
qed

section \<open>Measuring and compiling\<close>

lemma Length_held: "Length c = length (held c)"
  by (simp add: Length_def held_def length_concat)

lemma HoldsData_held: "HoldsData c \<longleftrightarrow> held c \<noteq> []"
  by (auto simp: HoldsData_def held_def list_ex_iff)

lemma CompileData_held:
  assumes "container_inv c"
  shows "fst (CompileData c) = held c \<and> container_inv (snd (CompileData c)) \<and> held (snd (CompileData c)) = held c"
proof (cases "length (compartments c) = 1")
  case True
  then obtain x where "compartments c = [x]" by (metis One_nat_def length_0_conv length_Suc_conv)
  with assms show ?thesis by (simp add: CompileData_def container_inv_def held_def)
next
  case False
  then show ?thesis by (simp add: CompileData_def Let_def container_inv_def held_def)
qed

section \<open>Reading and skipping\<close>

lemma peek_loop_concat: "peek_loop n xs = take n (concat xs)"
  by (induction n xs rule: peek_loop.induct) simp_all

lemma Peek_held:
  assumes "container_inv c" "n \<le> maxAlloc env"
  shows "Peek env n c = Inr (take (nat n) (held c))"
proof -
  let ?x = "compartments c ! c_offset c"
  have "held c = ?x @ concat (drop (Suc (c_offset c)) (compartments c))"
    using assms(1) by (simp add: held_def container_inv_def Cons_nth_drop_Suc [symmetric])
  moreover have "int (length ?x) \<ge> n \<Longrightarrow> nat n \<le> length ?x" by simp
  ultimately show ?thesis
    using assms by (auto simp: Peek_def container_inv_def peek_loop_concat held_def [symmetric])
qed

lemma peek_container_loop_concat:
  "peek_container_loop n xs = (ys, m) \<Longrightarrow> concat ys = take n (concat xs) \<and> m = n - length (concat xs)"
  by (induction n xs arbitrary: ys m rule: peek_container_loop.induct) (auto split: if_splits prod.splits)

lemma skip_loop_concat:
  "skip_loop n xs = (ys, k) \<Longrightarrow>
   length ys = length xs \<and> k \<le> length ys \<and> concat (drop k ys) = drop n (concat xs) \<and> (\<forall>y \<in> set (take k ys). y = [])"
  by (induction n xs arbitrary: ys k rule: skip_loop.induct) (auto split: if_splits prod.splits)

lemma write_loop_concat:
  "write_loop m xs = (w, ys, k, b) \<Longrightarrow>
   length ys = length xs \<and> k \<le> length ys \<and> concat (drop k ys) = drop m (concat xs) \<and> (\<forall>y \<in> set (take k ys). y = []) \<and>
   w = take m (concat xs) \<and> b = (length (concat xs) \<le> m)"
  by (induction m xs arbitrary: w ys k b rule: write_loop.induct) (auto split: if_splits prod.splits)

text \<open>Moving the offset over slices that are done, as both loops do.\<close>

lemma advance_held:
  assumes c: "container_inv c" and "length ys = length (drop (c_offset c) (compartments c))" "k \<le> length ys"
    and e: "\<forall>y \<in> set (take k ys). y = []"
  defines "c' \<equiv> checkOffset (c\<lparr>compartments := take (c_offset c) (compartments c) @ ys, c_offset := c_offset c + k\<rparr>)"
  shows "container_inv c' \<and> held c' = concat (drop k ys)"
proof -
  let ?cs = "take (c_offset c) (compartments c) @ ys"
  have l: "length (take (c_offset c) (compartments c)) = c_offset c" using c by (simp add: container_inv_def)
  have len: "length ?cs = length (compartments c)" "0 < length ?cs" using assms(2) c by (auto simp: container_inv_def)
  have tk: "take (c_offset c + k) ?cs = take (c_offset c) (compartments c) @ take k ys" using l by simp
  have emp: "\<forall>x \<in> set (take (c_offset c + k) ?cs). x = []"
    unfolding tk using c e by (auto simp: container_inv_def)
  have dr: "drop (c_offset c + k) ?cs = drop k ys" using l by simp
  show ?thesis
  proof (cases "c_offset c + k < length ?cs")
    case True
    then show ?thesis using emp dr unfolding c'_def checkOffset_def container_inv_def held_def by simp
  next
    case False
    then have all: "\<forall>x \<in> set ?cs. x = []" and "drop k ys = []" using emp dr by auto
    moreover have "\<forall>x \<in> set (take j ?cs). x = []" "concat (drop j ?cs) = []" for j
      using all by (blast dest: in_set_takeD, intro concat_empty, blast dest: in_set_dropD)
    ultimately show ?thesis
      using False len(2) unfolding c'_def checkOffset_def container_inv_def held_def by simp
  qed
qed

lemma skip_held:
  assumes "container_inv c"
  shows "container_inv (skip n c) \<and> held (skip n c) = drop n (held c)"
proof -
  obtain ys k where s: "skip_loop n (drop (c_offset c) (compartments c)) = (ys, k)" by fastforce
  with skip_loop_concat [OF s] advance_held [OF assms, of ys k] show ?thesis by (simp add: skip_def held_def)
qed

lemma WriteToSlice_held:
  assumes "container_inv c"
  shows "fst (WriteToSlice m c) = (take m (held c), length (held c) \<le> m) \<and>
    container_inv (snd (WriteToSlice m c)) \<and> held (snd (WriteToSlice m c)) = drop m (held c)"
proof -
  obtain w ys k b where s: "write_loop m (drop (c_offset c) (compartments c)) = (w, ys, k, b)" by (metis prod.exhaust)
  with write_loop_concat [OF s] advance_held [OF assms, of ys k] show ?thesis by (simp add: WriteToSlice_def held_def)
qed

lemma Get_held:
  assumes "container_inv c" "n \<le> maxAlloc env"
  shows "\<exists>c'. Get env n c = Inr (if int (length (held c)) < n then Inl ErrNotEnoughData else Inr (take (nat n) (held c)), c') \<and>
    container_inv c' \<and> held c' = (if int (length (held c)) < n then held c else drop (nat n) (held c))"
proof (cases "int (length (held c)) < n")
  case True
  then show ?thesis using assms by (simp add: Get_def Peek_held)
next
  case False
  then have "length (take (nat n) (held c)) = nat n" "\<not> int (length (take (nat n) (held c))) < n" by auto
  with False show ?thesis using assms skip_held [OF assms(1), of "nat n"] by (simp add: Get_def Peek_held)
qed

lemma GetMax_held:
  assumes "container_inv c" "n \<le> maxAlloc env"
  shows "\<exists>c'. GetMax env n c = Inr (take (nat n) (held c), c') \<and> container_inv c' \<and> held c' = drop (nat n) (held c)"
proof -
  have "drop (min (length (held c)) (nat n)) (held c) = drop (nat n) (held c)" by (cases "nat n \<le> length (held c)") simp_all
  then show ?thesis
    using assms skip_held [OF assms(1), of "length (take (nat n) (held c))"]
    by (simp add: GetMax_def Peek_held)
qed

lemma GetAll_held:
  assumes "container_inv c" "int (Length c) \<le> maxAlloc env"
  shows "\<exists>c'. GetAll env c = Inr (held c, c') \<and> container_inv c' \<and> held c' = []"
  using assms skip_held [OF assms(1), of "length (held c)"] by (simp add: GetAll_def Peek_held Length_held)

lemma GetAsContainer_held:
  assumes "container_inv c"
  shows "\<exists>r c'. GetAsContainer n c = (r, c') \<and> container_inv c' \<and>
    (if n < 0 \<or> int (length (held c)) < n then r = Inl ErrNotEnoughData \<and> c' = c
     else (\<exists>d. r = Inr d \<and> held d = take (nat n) (held c)) \<and> held c' = drop (nat n) (held c))"
proof -
  obtain xs m where l: "peek_container_loop (nat n) (drop (c_offset c) (compartments c)) = (xs, m)" by fastforce
  have "concat xs = take (nat n) (held c)" "m = nat n - length (held c)"
    using peek_container_loop_concat [OF l] by (simp_all add: held_def)
  moreover have "held (New ys) = concat ys" for ys by (simp add: held_def New_def)
  ultimately show ?thesis
    using l assms skip_held [OF assms, of "nat n"] by (auto simp: GetAsContainer_def PeekContainer_def)
qed

section \<open>Containers refine byte sequences\<close>

text \<open>The operations of a client, with what they return, on containers and on byte sequences.\<close>

datatype cop =
  OpAppend "byte list" | OpPrepend "byte list" | OpCompile | OpGet int | OpGetMax int | OpWrite nat | OpLength | OpHolds

datatype cres = RNone | RBytes "byte list" | RError string | RNat nat | RBool bool | RWritten "byte list" bool

fun run_cop :: "varint_env \<Rightarrow> cop \<Rightarrow> container \<Rightarrow> (cres \<times> container) go" where
  "run_cop env (OpAppend x) c = Inr (RNone, Append x c)"
| "run_cop env (OpPrepend x) c = bind_go (Prepend x c) (\<lambda>c. Inr (RNone, c))"
| "run_cop env OpCompile c = (case CompileData c of (x, c) \<Rightarrow> Inr (RBytes x, c))"
| "run_cop env (OpGet n) c =
     bind_go (Get env n c) (\<lambda>(r, c). Inr (case r of Inl e \<Rightarrow> RError e | Inr x \<Rightarrow> RBytes x, c))"
| "run_cop env (OpGetMax n) c = bind_go (GetMax env n c) (\<lambda>(x, c). Inr (RBytes x, c))"
| "run_cop env (OpWrite m) c = (case WriteToSlice m c of ((w, b), c) \<Rightarrow> Inr (RWritten w b, c))"
| "run_cop env OpLength c = Inr (RNat (Length c), c)"
| "run_cop env OpHolds c = Inr (RBool (HoldsData c), c)"

fun spec_cop :: "cop \<Rightarrow> byte list \<Rightarrow> cres \<times> byte list" where
  "spec_cop (OpAppend x) bs = (RNone, bs @ x)"
| "spec_cop (OpPrepend x) bs = (RNone, x @ bs)"
| "spec_cop OpCompile bs = (RBytes bs, bs)"
| "spec_cop (OpGet n) bs =
     (if int (length bs) < n then (RError ErrNotEnoughData, bs) else (RBytes (take (nat n) bs), drop (nat n) bs))"
| "spec_cop (OpGetMax n) bs = (RBytes (take (nat n) bs), drop (nat n) bs)"
| "spec_cop (OpWrite m) bs = (RWritten (take m bs) (length bs \<le> m), drop m bs)"
| "spec_cop OpLength bs = (RNat (length bs), bs)"
| "spec_cop OpHolds bs = (RBool (bs \<noteq> []), bs)"

fun run_cops :: "varint_env \<Rightarrow> cop list \<Rightarrow> container \<Rightarrow> (cres list \<times> container) go" where
  "run_cops env [] c = Inr ([], c)"
| "run_cops env (op # ops) c =
     bind_go (run_cop env op c) (\<lambda>(r, c). bind_go (run_cops env ops c) (\<lambda>(rs, c). Inr (r # rs, c)))"

fun spec_cops :: "cop list \<Rightarrow> byte list \<Rightarrow> cres list \<times> byte list" where
  "spec_cops [] bs = ([], bs)"
| "spec_cops (op # ops) bs =
     (let (r, bs) = spec_cop op bs; (rs, bs) = spec_cops ops bs in (r # rs, bs))"

fun cop_fits :: "varint_env \<Rightarrow> cop \<Rightarrow> bool" where
  "cop_fits env (OpGet n) = (n \<le> maxAlloc env)"
| "cop_fits env (OpGetMax n) = (n \<le> maxAlloc env)"
| "cop_fits env _ = True"

lemma run_cop_refines:
  assumes "container_inv c" "cop_fits env op"
  shows "\<exists>r c'. run_cop env op c = Inr (r, c') \<and> container_inv c' \<and> (r, held c') = spec_cop op (held c)"
proof (cases op)
  case (OpAppend x)
  with assms Append_held show ?thesis by simp
next
  case (OpPrepend x)
  with Prepend_held [OF assms(1), of x] show ?thesis by auto
next
  case OpCompile
  with CompileData_held [OF assms(1)] show ?thesis by (cases "CompileData c") simp
next
  case (OpGet n)
  with Get_held [OF assms(1), of n env] assms(2) show ?thesis by (auto split: if_splits)
next
  case (OpGetMax n)
  with GetMax_held [OF assms(1), of n env] assms(2) show ?thesis by auto
next
  case (OpWrite m)
  obtain w b c' where "WriteToSlice m c = ((w, b), c')" by (metis prod.exhaust)
  with OpWrite WriteToSlice_held [OF assms(1), of m] show ?thesis by simp
qed (use assms(1) in \<open>simp_all add: Length_held HoldsData_held\<close>)

lemma run_cops_refines:
  "container_inv c \<Longrightarrow> list_all (cop_fits env) ops \<Longrightarrow>
   \<exists>rs c'. run_cops env ops c = Inr (rs, c') \<and> (rs, held c') = spec_cops ops (held c)"
proof (induction ops arbitrary: c)
  case (Cons op ops)
  from Cons.prems obtain r c1 where c1: "run_cop env op c = Inr (r, c1)" "container_inv c1"
    "spec_cop op (held c) = (r, held c1)" using run_cop_refines [of c env op] by auto
  obtain rs c2 where "run_cops env ops c1 = Inr (rs, c2)" "spec_cops ops (held c1) = (rs, held c2)"
    using Cons.IH [OF c1(2)] Cons.prems(2) by auto
  with c1 show ?case by simp
qed simp

text \<open>
  C39: containers are byte sequences.  Any sequence of operations on a container that was created
  with data gives the results it gives on the plain sequence of bytes: appending, prepending,
  reading with and without consuming, in any order and whatever the division into slices is.  No
  operation panics as long as nobody asks for more bytes than can be allocated.
\<close>

theorem container_refines_bytes:
  assumes "data \<noteq> []" "list_all (cop_fits env) ops"
  shows "\<exists>rs c. run_cops env ops (New data) = Inr (rs, c) \<and> (rs, held c) = spec_cops ops (concat data)"
  using run_cops_refines [of "New data" env ops] New_inv [OF assms(1)] assms(2) by simp

section \<open>Blocks\<close>

text \<open>
  What the integer coding promises: a packed number takes one to ten bytes and is recognised at the
  front of what is read, which is ten bytes or what is left.
\<close>

definition varint_ok :: "varint_env \<Rightarrow> bool" where
  "varint_ok env \<longleftrightarrow> 10 \<le> maxAlloc env \<and>
     (\<forall>n xs. length (Pack64 env n) \<le> 10 \<and> Unpack64 env (take 10 (Pack64 env n @ xs)) = Inr (n, length (Pack64 env n)))"

lemma GetNextN64_packed:
  assumes "varint_ok env" "container_inv c" "held c = Pack64 env n @ xs"
  shows "\<exists>c'. GetNextN64 env c = Inr (Inr n, c') \<and> container_inv c' \<and> held c' = xs"
proof -
  have "Unpack64 env (take 10 (held c)) = Inr (n, length (Pack64 env n))" "10 \<le> maxAlloc env"
    using assms(1,3) unfolding varint_ok_def by metis+
  then show ?thesis
    using assms(2,3) skip_held [OF assms(2), of "length (Pack64 env n)"]
    by (simp add: GetNextN64_def next_number_def Peek_held)
qed

definition block_fits :: "varint_env \<Rightarrow> byte list \<Rightarrow> bool" where
  "block_fits env x \<longleftrightarrow> int (length x) \<le> maxAlloc env \<and> length x < 2 ^ 63"

lemma GetNextBlock_packed:
  assumes "varint_ok env" "container_inv c" "block_fits env x" "held c = Pack64 env (of_nat (length x)) @ x @ xs"
  shows "\<exists>c'. GetNextBlock env c = Inr (Inr x, c') \<and> container_inv c' \<and> held c' = xs"
proof -
  obtain c1 where c1: "GetNextN64 env c = Inr (Inr (of_nat (length x)), c1)" "container_inv c1" "held c1 = x @ xs"
    using GetNextN64_packed [OF assms(1,2,4)] by blast
  have "sint (of_nat (length x) :: 64 word) = int (length x)"
    using assms(3) by (simp add: block_fits_def sint_uint unsigned_of_nat signed_take_bit_int_eq_self take_bit_nat_eq_self)
  then show ?thesis
    using c1 Get_held [OF c1(2), of "int (length x)" env] assms(3) by (auto simp: GetNextBlock_def block_fits_def)
qed

definition append_blocks :: "varint_env \<Rightarrow> byte list list \<Rightarrow> container \<Rightarrow> container" where
  "append_blocks env = fold (AppendAsBlock env)"

fun get_blocks :: "varint_env \<Rightarrow> nat \<Rightarrow> container \<Rightarrow> ((string + byte list) list \<times> container) go" where
  "get_blocks env 0 c = Inr ([], c)"
| "get_blocks env (Suc n) c =
     bind_go (GetNextBlock env c) (\<lambda>(r, c). bind_go (get_blocks env n c) (\<lambda>(rs, c). Inr (r # rs, c)))"

definition framed :: "varint_env \<Rightarrow> byte list \<Rightarrow> byte list" where
  "framed env x = Pack64 env (of_nat (length x)) @ x"

lemma append_blocks_held:
  "container_inv c \<Longrightarrow> container_inv (append_blocks env xs c) \<and>
     held (append_blocks env xs c) = held c @ concat (map (framed env) xs)"
proof (induction xs arbitrary: c)
  case (Cons x xs)
  have "container_inv (AppendAsBlock env x c) \<and> held (AppendAsBlock env x c) = held c @ framed env x"
    using Cons.prems Append_held by (simp add: AppendAsBlock_def AppendNumber_def framed_def)
  with Cons.IH [of "AppendAsBlock env x c"] show ?case by (simp add: append_blocks_def)
qed (simp add: append_blocks_def)

lemma get_blocks_held:
  "varint_ok env \<Longrightarrow> container_inv c \<Longrightarrow> list_all (block_fits env) xs \<Longrightarrow>
   held c = concat (map (framed env) xs) @ rest \<Longrightarrow>
   \<exists>c'. get_blocks env (length xs) c = Inr (map Inr xs, c') \<and> held c' = rest"
proof (induction xs arbitrary: c)
  case (Cons x xs)
  then obtain c1 where "GetNextBlock env c = Inr (Inr x, c1)" "container_inv c1"
    "held c1 = concat (map (framed env) xs) @ rest"
    using GetNextBlock_packed [of env c x "concat (map (framed env) xs) @ rest"] by (auto simp: framed_def [of env x])
  with Cons.IH [of c1] Cons.prems show ?case by auto
qed simp

text \<open>
  C40: blocks survive a container.  Blocks that are appended with their lengths are read back one by
  one, in order and unchanged, and what followed them is left.
\<close>

theorem blocks_roundtrip:
  assumes "varint_ok env" "list_all (block_fits env) xs"
  shows "\<exists>c. get_blocks env (length xs) (Append rest (append_blocks env xs (New [[]]))) = Inr (map Inr xs, c) \<and>
    held c = rest"
proof -
  have "container_inv (New [[]])" "held (New [[]]) = []" using New_inv [of "[[]]"] by simp_all
  then have "container_inv (Append rest (append_blocks env xs (New [[]])))"
    "held (Append rest (append_blocks env xs (New [[]]))) = concat (map (framed env) xs) @ rest"
    using append_blocks_held [of "New [[]]" env xs] Append_held by simp_all
  with get_blocks_held [OF assms(1) _ assms(2)] show ?thesis by blast
qed

section \<open>A coding\<close>

text \<open>The variable-length coding of package \<^verbatim>\<open>encoding/binary\<close>: seven bits per byte, low bits first.\<close>

fun PutUvarint :: "nat \<Rightarrow> byte list" where
  "PutUvarint n = (if n < 128 then [of_nat n] else of_nat (n mod 128 + 128) # PutUvarint (n div 128))"

fun Uvarint :: "byte list \<Rightarrow> (nat \<times> nat) option" where
  "Uvarint [] = None"
| "Uvarint (b # bs) =
     (if unat b < 128 then Some (unat b, 1)
      else case Uvarint bs of None \<Rightarrow> None | Some (v, k) \<Rightarrow> Some (unat b - 128 + 128 * v, Suc k))"

declare PutUvarint.simps [simp del]

lemma Uvarint_Put: "Uvarint (PutUvarint n @ xs) = Some (n, length (PutUvarint n))"
proof (induction n rule: PutUvarint.induct)
  case (1 n)
  have u: "unat (of_nat (n mod 128 + 128) :: byte) = n mod 128 + 128"
    by (simp add: unat_of_nat take_bit_nat_eq_self del: of_nat_add)
  show ?case
  proof (cases "n < 128")
    case True
    then have "unat (of_nat n :: byte) = n" by (simp add: unat_of_nat take_bit_nat_eq_self)
    with True show ?thesis by (subst (1 2) PutUvarint.simps) simp
  next
    case False
    with 1 u show ?thesis by (subst (1 2) PutUvarint.simps) (simp del: of_nat_add)
  qed
qed

lemma Put_length: "n < 128 ^ Suc k \<Longrightarrow> length (PutUvarint n) \<le> Suc k"
proof (induction k arbitrary: n)
  case (Suc k)
  then have "n div 128 < 128 ^ Suc k" by (simp add: less_mult_imp_div_less mult.commute)
  with Suc.IH [of "n div 128"] show ?case by (subst PutUvarint.simps) simp
qed (simp add: PutUvarint.simps)

definition unpack_uvarint :: "byte list \<Rightarrow> string + ('a::len) word \<times> nat" where
  "unpack_uvarint bs =
     (case Uvarint bs of
        None \<Rightarrow> Inl ''not enough data''
      | Some (v, k) \<Rightarrow> if v < 2 ^ LENGTH('a) then Inr (of_nat v, k) else Inl ''number too big'')"

definition uvarint_env :: varint_env where
  "uvarint_env = \<lparr>Pack64 = \<lambda>n. PutUvarint (unat n), Unpack8 = unpack_uvarint, Unpack16 = unpack_uvarint,
     Unpack32 = unpack_uvarint, Unpack64 = unpack_uvarint, maxAlloc = 2 ^ 47\<rparr>"

lemma unpack_packed:
  fixes n :: "64 word"
  assumes "unat n < 128 ^ Suc k" "Suc k \<le> m" "unat n < 2 ^ LENGTH('a)"
  shows "(unpack_uvarint (take m (PutUvarint (unat n) @ xs)) :: string + ('a::len) word \<times> nat) =
     Inr (of_nat (unat n), length (PutUvarint (unat n)))"
proof -
  have "length (PutUvarint (unat n)) \<le> m" using Put_length [OF assms(1)] assms(2) by simp
  then have "take m (PutUvarint (unat n) @ xs) = PutUvarint (unat n) @ take (m - length (PutUvarint (unat n))) xs" by simp
  then show ?thesis using assms(3) by (simp add: unpack_uvarint_def Uvarint_Put)
qed

lemma uvarint_ok: "varint_ok uvarint_env"
proof -
  have b: "unat n < 128 ^ Suc 9" for n :: "64 word"
    using unsigned_less [of n, where 'a = nat] by simp
  have "length (PutUvarint (unat n)) \<le> 10" for n :: "64 word" using Put_length [OF b] by simp
  moreover have "(unpack_uvarint (take 10 (PutUvarint (unat n) @ xs)) :: string + 64 word \<times> nat) =
      Inr (n, length (PutUvarint (unat n)))" for n :: "64 word" and xs
    using unpack_packed [OF b, of 10 n, where 'a = 64] unsigned_less [of n, where 'a = nat] by simp
  ultimately show ?thesis by (simp add: varint_ok_def uvarint_env_def)
qed

theorem blocks_roundtrip_witness:
  "\<exists>c. get_blocks uvarint_env 2 (Append [7] (append_blocks uvarint_env [[1, 2, 3], []] (New [[]]))) =
     Inr ([Inr [1, 2, 3], Inr []], c) \<and> held c = [7]"
proof -
  have "list_all (block_fits uvarint_env) [[1, 2, 3], []]" by (simp add: block_fits_def uvarint_env_def)
  from blocks_roundtrip [OF uvarint_ok this, of "[7]"] show ?thesis by (simp add: numeral_2_eq_2)
qed

theorem container_refines_bytes_witness:
  "\<exists>rs c. run_cops uvarint_env [OpPrepend [1], OpAppend [4], OpGet 3, OpGet 2] (New [[2], [3]]) = Inr (rs, c) \<and>
     (rs, held c) = ([RNone, RNone, RBytes [1, 2, 3], RError ErrNotEnoughData], [4])"
  using container_refines_bytes [of "[[2], [3]]" uvarint_env "[OpPrepend [1], OpAppend [4], OpGet 3, OpGet 2]"]
  by (simp add: uvarint_env_def)

section \<open>Where containers lose data\<close>

text \<open>
  Replacing the data keeps the offset: after something was prepended or consumed the new data is
  not held by the container, and reading panics.  A container without slices panics on reading
  too, such as the one that is returned for an empty block.
\<close>

lemma Replace_loses_data:
  "c_offset c > 0 \<Longrightarrow> n > 0 \<Longrightarrow> held (Replace x c) = [] \<and> Get env n (Replace x c) = Inl IndexOutOfRange"
  by (simp add: Replace_def held_def Get_def Peek_def)

lemma empty_container_panics:
  "PeekContainer 0 c = Some (New []) \<and> GetNextN8 env (New []) = Inl IndexOutOfRange"
  by (simp add: PeekContainer_def GetNextN8_def next_number_def Peek_def New_def)

text \<open>A block whose length does not fit a signed number is read as an empty block.\<close>

lemma negative_length_is_empty:
  assumes "GetNextN64 env c = Inr (Inr n, c')" "sint n < 0"
  shows "GetNextBlock env c = Inr (Inr [], skip 0 c')"
  using assms by (simp add: GetNextBlock_def Get_def Peek_def)

end
