(* ===== verification/Flow_Progress.thy ===== *)
theory Flow_Progress
  imports Flow_Rules Container_Rules
begin

text \<open>
  Flow control does not get stuck: from every reachable state there is a continuation, without any
  further call of \<open>Send\<close>, in which the other end reads everything that was handed to \<open>Send\<close>.  The
  proof follows a message: a handler that is on its way reaches one of its two \<^verbatim>\<open>select\<close> statements,
  a depleted sender is woken by a report, the report is forced by the receiver's next read.
\<close>

section \<open>Continuations\<close>

fun quiet :: "flow_event \<Rightarrow> bool" where
  "quiet (EvSend x m) = False"
| "quiet _ = True"

definition can :: "flow_env \<Rightarrow> (flow_sys \<Rightarrow> bool) \<Rightarrow> flow_sys \<Rightarrow> bool" where
  "can env P s \<longleftrightarrow> (\<exists>evs s'. flow_run env evs s = Some s' \<and> list_all quiet evs \<and> P s')"

lemma can_now: "P s \<Longrightarrow> can env P s"
  unfolding can_def by (intro exI [of _ "[]"]) simp

lemma can_step:
  assumes "flow_exec env ev s = Some s'" "can env P s'" "quiet ev"
  shows "can env P s"
proof -
  obtain evs s2 where "flow_run env evs s' = Some s2" "list_all quiet evs" "P s2" using assms(2) by (auto simp: can_def)
  with assms show ?thesis unfolding can_def by (intro exI [of _ "ev # evs"]) simp
qed

lemma flow_run_append:
  "flow_run env (evs @ evs') s = (case flow_run env evs s of None \<Rightarrow> None | Some s \<Rightarrow> flow_run env evs' s)"
  by (induction evs arbitrary: s) (simp_all split: option.split)

lemma can_trans:
  assumes "can env Q s" "\<And>s'. Q s' \<Longrightarrow> can env P s'"
  shows "can env P s"
proof -
  obtain evs s1 where 1: "flow_run env evs s = Some s1" "list_all quiet evs" "Q s1" using assms(1) by (auto simp: can_def)
  obtain evs' s2 where "flow_run env evs' s1 = Some s2" "list_all quiet evs'" "P s2" using assms(2) [OF 1(3)] by (auto simp: can_def)
  with 1 show ?thesis unfolding can_def by (intro exI [of _ "evs @ evs'"]) (simp add: flow_run_append)
qed

section \<open>Handlers reach a select statement\<close>

fun rank :: "pc \<Rightarrow> nat" where
  "rank (LoadSpace p) = 5"
| "rank (Compute p r) = 4"
| "rank (AddReport p t) = 3"
| "rank (Submit p t) = 2"
| "rank DecrementSpace = 1"
| "rank _ = 0"

lemma rank_0: "rank pc = 0 \<longleftrightarrow> pc = Selecting \<or> pc = Depleted"
  by (cases pc) simp_all

lemma continue_rank:
  assumes "0 < rank (dfq_pc d)"
  shows "\<exists>d' out. FlowHandler env Continue d (dfq_pc d) = Some (d', out) \<and> rank (dfq_pc d') < rank (dfq_pc d) \<and>
    recvQueue d' = recvQueue d \<and> sendQueue d' = sendQueue d \<and> deliverPending d' = deliverPending d"
proof (cases "dfq_pc d" rule: pc_cases)
  case (comp p r)
  then show ?thesis by (simp add: report_compute_def Let_def)
qed (use assms in \<open>simp_all add: report_load_def report_add_def decrementSendSpace_def signal_flush_def Let_def\<close>)

text \<open>
  What the other side of the connection, the records of data and the queues of an end keep while
  its handler continues.
\<close>

definition still :: "side \<Rightarrow> flow_sys \<Rightarrow> flow_sys \<Rightarrow> bool" where
  "still x s s' \<longleftrightarrow> ends s' (other x) = ends s (other x) \<and> wire s' (other x) = wire s (other x) \<and>
     accepted s' = accepted s \<and> received s' = received s \<and> recvQueue (ends s' x) = recvQueue (ends s x) \<and>
     sendQueue (ends s' x) = sendQueue (ends s x) \<and> deliverPending (ends s' x) = deliverPending (ends s x)"

lemma still_refl: "still x s s"
  by (simp add: still_def)

lemma still_trans: "still x s s1 \<Longrightarrow> still x s1 s2 \<Longrightarrow> still x s s2"
  by (simp add: still_def)

lemma handler_idles:
  assumes "flow_codec_ok env" "n < 65536" "flow_inv env n s"
  shows "can env (\<lambda>s'. flow_inv env n s' \<and> still x s s' \<and> rank (dfq_pc (ends s' x)) = 0) s"
  using assms(3)
proof (induction "rank (dfq_pc (ends s x))" arbitrary: s rule: less_induct)
  case less
  show ?case
  proof (cases "rank (dfq_pc (ends s x)) = 0")
    case True
    with less.prems show ?thesis by (intro can_now) (simp add: still_refl)
  next
    case False
    then obtain d out where d: "FlowHandler env Continue (ends s x) (dfq_pc (ends s x)) = Some (d, out)"
      "rank (dfq_pc d) < rank (dfq_pc (ends s x))" "recvQueue d = recvQueue (ends s x)"
      "sendQueue d = sendQueue (ends s x)" "deliverPending d = deliverPending (ends s x)"
      using continue_rank [of "ends s x" env] by auto
    let ?s = "s\<lparr>ends := (ends s)(x := d), wire := (wire s)(x := wire s x @ out)\<rparr>"
    have ex: "flow_exec env (EvHandle x Continue) s = Some ?s" using d(1) by simp
    have st: "still x s ?s" using d by (simp add: still_def)
    have "can env (\<lambda>s'. flow_inv env n s' \<and> still x ?s s' \<and> rank (dfq_pc (ends s' x)) = 0) ?s"
      using less.hyps [of ?s] d(2) flow_exec_inv [OF assms(1,2) less.prems ex] by simp
    then have "can env (\<lambda>s'. flow_inv env n s' \<and> still x s s' \<and> rank (dfq_pc (ends s' x)) = 0) ?s"
      by (rule can_trans) (blast intro: can_now still_trans [OF st])
    with ex show ?thesis by (rule can_step) simp
  qed
qed

section \<open>Deliveries\<close>

lemma exec_deliver:
  assumes codec: "flow_codec_ok env" and n: "n < 65536" and inv: "flow_inv env n s" and w: "wire s (other x) = m # v"
  shows "\<exists>s'. flow_run env [EvFinish x, EvDeliver x] s = Some s' \<and> flow_inv env n s' \<and> wire s' = (wire s)(other x := v) \<and>
    ends s' (other x) = ends s (other x) \<and> accepted s' = accepted s \<and> received s' = received s \<and>
    dfq_pc (ends s' x) = dfq_pc (ends s x) \<and> sendQueue (ends s' x) = sendQueue (ends s x)"
proof -
  let ?s = "s\<lparr>ends := (ends s)(x := deliver_finish (ends s x))\<rparr>"
  have f: "\<not> deliverPending (deliver_finish d)" "dfq_pc (deliver_finish d) = dfq_pc d" "sendQueue (deliver_finish d) = sendQueue d" for d
    by (simp_all add: deliver_finish_def decrementReportedRecvSpace_def Let_def)
  obtain err d where d: "deliver_accept env m (deliver_finish (ends s x)) = (err, d)" by fastforce
  then have a: "dfq_pc d = dfq_pc (ends s x)" "sendQueue d = sendQueue (ends s x)"
    using f by (auto simp: deliver_accept_def addToSendSpace_def Let_def split: option.splits if_splits)
  have e1: "flow_exec env (EvFinish x) s = Some ?s" by simp
  obtain s' where s': "flow_exec env (EvDeliver x) ?s = Some s'" "wire s' = (wire s)(other x := v)"
    "ends s' = (ends s)(x := d)" "accepted s' = accepted s" "received s' = received s"
    using d w f(1) by simp
  have "flow_inv env n s'"
    using flow_exec_inv [OF codec n flow_exec_inv [OF codec n inv e1] s'(1)] .
  with s' a show ?thesis using e1 by (intro exI [of _ s']) simp
qed

lemma can_run: "flow_run env evs s = Some s' \<Longrightarrow> list_all quiet evs \<Longrightarrow> can env P s' \<Longrightarrow> can env P s"
  by (rule can_trans [of env "\<lambda>t. t = s'"]) (auto simp: can_def [of env "\<lambda>t. t = s'"])

text \<open>The frames on their way to an end are delivered to it.\<close>

lemma wire_drains:
  assumes "flow_codec_ok env" "n < 65536" "flow_inv env n s"
  shows "can env (\<lambda>s'. flow_inv env n s' \<and> wire s' = (wire s)(other x := []) \<and> ends s' (other x) = ends s (other x) \<and>
    accepted s' = accepted s \<and> received s' = received s \<and> dfq_pc (ends s' x) = dfq_pc (ends s x) \<and>
    sendQueue (ends s' x) = sendQueue (ends s x)) s"
  using assms(3)
proof (induction "length (wire s (other x))" arbitrary: s)
  case 0
  then show ?case by (intro can_now) (simp add: fun_upd_idem)
next
  case (Suc k)
  then obtain m v where w: "wire s (other x) = m # v" by (cases "wire s (other x)") simp_all
  obtain s1 where s1: "flow_run env [EvFinish x, EvDeliver x] s = Some s1" "flow_inv env n s1"
    "wire s1 = (wire s)(other x := v)" "ends s1 (other x) = ends s (other x)" "accepted s1 = accepted s"
    "received s1 = received s" "dfq_pc (ends s1 x) = dfq_pc (ends s x)" "sendQueue (ends s1 x) = sendQueue (ends s x)"
    using exec_deliver [OF assms(1,2) Suc.prems w] by blast
  from Suc.hyps(1) [of s1] Suc.hyps(2) s1(2,3) w
  have "can env (\<lambda>s'. flow_inv env n s' \<and> wire s' = (wire s1)(other x := []) \<and> ends s' (other x) = ends s1 (other x) \<and>
    accepted s' = accepted s1 \<and> received s' = received s1 \<and> dfq_pc (ends s' x) = dfq_pc (ends s1 x) \<and>
    sendQueue (ends s' x) = sendQueue (ends s1 x)) s1" by simp
  with s1 show ?case by (intro can_run [OF s1(1)]) simp_all
qed

lemma can_mono: "can env P s \<Longrightarrow> (\<And>s'. P s' \<Longrightarrow> Q s') \<Longrightarrow> can env Q s"
  by (rule can_trans [where Q = P]) (auto intro: can_now)

section \<open>Data arrives\<close>

text \<open>Data of an end that is on the wire or in the queue of the other end is read there.\<close>

lemma inv_order:
  "flow_inv env n s \<Longrightarrow>
   accepted s x = received s (other x) @ map msg_Data (recvQueue (ends s (other x))) @ loads env (wire s x) @ outgoing (ends s x)"
  by (simp add: flow_inv_def in_order_def)

definition same_data :: "flow_sys \<Rightarrow> flow_sys \<Rightarrow> bool" where
  "same_data s s' \<longleftrightarrow> accepted s' = accepted s \<and> received s' = received s"

lemma queued_is_read:
  assumes "flow_codec_ok env" "n < 65536" "flow_inv env n s" "recvQueue (ends s (other x)) \<noteq> []"
  shows "can env (\<lambda>s'. flow_inv env n s' \<and> accepted s' = accepted s \<and>
    length (received s' (other x)) = Suc (length (received s (other x)))) s"
proof -
  obtain m d where d: "read_recvQueue (ends s (other x)) = Some (m, d)"
    using assms(4) by (auto simp: read_recvQueue_def neq_Nil_conv)
  let ?s = "s\<lparr>ends := (ends s)(other x := d), received := (received s)(other x := received s (other x) @ [msg_Data m])\<rparr>"
  have ex: "flow_exec env (EvRead (other x)) s = Some ?s" using d by simp
  show ?thesis
    by (rule can_step [OF ex can_now]) (use flow_exec_inv [OF assms(1-3) ex] in simp_all)
qed

lemma sent_is_read:
  assumes "flow_codec_ok env" "n < 65536" "flow_inv env n s" "loads env (wire s x) \<noteq> []"
  shows "can env (\<lambda>s'. flow_inv env n s' \<and> accepted s' = accepted s \<and>
    length (received s' (other x)) = Suc (length (received s (other x)))) s"
proof (rule can_trans [OF wire_drains [OF assms(1-3), of "other x"]])
  fix t assume t: "flow_inv env n t \<and> wire t = (wire s)(other (other x) := []) \<and> ends t (other (other x)) = ends s (other (other x)) \<and>
    accepted t = accepted s \<and> received t = received s \<and> dfq_pc (ends t (other x)) = dfq_pc (ends s (other x)) \<and>
    sendQueue (ends t (other x)) = sendQueue (ends s (other x))"
  then have "map msg_Data (recvQueue (ends t (other x))) = map msg_Data (recvQueue (ends s (other x))) @ loads env (wire s x)"
    using inv_order [OF assms(3), of x] inv_order [of env n t x] by simp
  with assms(4) have "recvQueue (ends t (other x)) \<noteq> []" by auto
  with queued_is_read [OF assms(1,2), of t x] t
  show "can env (\<lambda>s'. flow_inv env n s' \<and> accepted s' = accepted s \<and>
    length (received s' (other x)) = Suc (length (received s (other x)))) t" by simp
qed

text \<open>A handler that may send puts the next message on the wire.\<close>

lemma message_is_sent:
  assumes "flow_codec_ok env" "n < 65536" "flow_inv env n s" "dfq_pc (ends s x) = Selecting" "outgoing (ends s x) \<noteq> []"
  shows "can env (\<lambda>s'. flow_inv env n s' \<and> same_data s s' \<and> loads env (wire s' x) \<noteq> []) s"
proof -
  obtain m q where q: "sendQueue (ends s x) = m # q" using assms(4,5) by (auto simp: outgoing_def neq_Nil_conv)
  let ?d = "take_msg m q (ends s x)"
  let ?s = "s\<lparr>ends := (ends s)(x := ?d), wire := (wire s)(x := wire s x @ [])\<rparr>"
  have ex: "flow_exec env (EvHandle x TakeMsg) s = Some ?s" using assms(4) q by simp
  have inv: "flow_inv env n ?s" by (rule flow_exec_inv [OF assms(1-3) ex])
  have sq: "sendQueue ?d = q" by (simp add: take_msg_def Let_def)
  have "can env (\<lambda>s'. flow_inv env n s' \<and> same_data s s' \<and> loads env (wire s' x) \<noteq> []) ?s"
  proof (rule can_mono [OF handler_idles [OF assms(1,2) inv, of x]])
    fix t assume t: "flow_inv env n t \<and> still x ?s t \<and> rank (dfq_pc (ends t x)) = 0"
    then have "outgoing (ends t x) = map msg_Data q" using sq by (auto simp: outgoing_def still_def rank_0)
    moreover have "loads env (wire t x) @ outgoing (ends t x) = loads env (wire s x) @ outgoing (ends s x)"
      using t inv_order [OF assms(3), of x] inv_order [of env n t x] by (simp add: still_def)
    ultimately have "length (loads env (wire t x)) > 0" using q assms(4) by (auto simp: outgoing_def)
    with t show "flow_inv env n t \<and> same_data s t \<and> loads env (wire t x) \<noteq> []" by (auto simp: still_def same_data_def)
  qed
  with ex show ?thesis by (rule can_step) simp
qed

text \<open>A depleted handler with space is woken.\<close>

lemma sender_wakes:
  assumes "flow_codec_ok env" "n < 65536" "flow_inv env n s" "dfq_pc (ends s x) = Depleted" "0 < sendSpace (ends s x)"
    "outgoing (ends s x) \<noteq> []"
  shows "can env (\<lambda>s'. flow_inv env n s' \<and> same_data s s' \<and> loads env (wire s' x) \<noteq> []) s"
proof -
  have w: "wakeSender (ends s x)" using assms(3-5) by (auto simp: flow_inv_def end_inv_def)
  let ?s = "s\<lparr>ends := (ends s)(x := (ends s x)\<lparr>wakeSender := False, dfq_pc := Selecting\<rparr>), wire := (wire s)(x := wire s x @ [])\<rparr>"
  have ex: "flow_exec env (EvHandle x TakeWake) s = Some ?s" using assms(4,5) w by simp
  have "can env (\<lambda>s'. flow_inv env n s' \<and> same_data ?s s' \<and> loads env (wire s' x) \<noteq> []) ?s"
    using assms(4,6) by (intro message_is_sent assms(1,2) flow_exec_inv [OF assms(1-3) ex]) (simp_all add: outgoing_def)
  with ex show ?thesis by (rule can_step [OF _ can_mono]) (simp_all add: same_data_def)
qed

section \<open>The receiver reports\<close>

text \<open>An end whose reported space is used up reports the whole queue when it is asked for data.\<close>

lemma space_is_reported:
  assumes "flow_codec_ok env" "2 \<le> n" "n < 65536" "flow_inv env n s"
    and y: "reportedSpace (ends s y) = 0" "recvQueue (ends s y) = []" "rank (dfq_pc (ends s y)) = 0"
  shows "can env (\<lambda>s'. flow_inv env n s' \<and> same_data s s' \<and> ends s' (other y) = ends s (other y) \<and>
    wire s' (other y) = wire s (other y) \<and> recvQueue (ends s' y) = [] \<and> reportedSpace (ends s' y) = int n \<and>
    rank (dfq_pc (ends s' y)) = 0 \<and> deliverPending (ends s' y) = deliverPending (ends s y)) s"
proof -
  let ?d = "ends s y"
  obtain b where b: "dfq_pc ?d = (if b then Depleted else Selecting)" using y(3) by (metis rank_0)
  have "queueCap ?d = n" using assms(4) by (simp add: flow_inv_def end_inv_def)
  moreover have "i32 (int n) = int n" "reportThreshold n = 3 * int n div 4"
    unfolding reportThreshold_def using assms(3) by (intro i32_id; simp)+
  moreover have "0 < 3 * int n div 4" using assms(2) by simp
  ultimately obtain s' where
    run: "flow_run env [EvReceive y, EvHandle y TakeForce, EvHandle y Continue, EvHandle y Continue, EvHandle y Continue,
      EvHandle y Continue] s = Some s'" and
    s': "same_data s s'" "ends s' (other y) = ends s (other y)" "wire s' (other y) = wire s (other y)"
      "recvQueue (ends s' y) = []" "reportedSpace (ends s' y) = int n" "rank (dfq_pc (ends s' y)) = 0"
      "deliverPending (ends s' y) = deliverPending ?d"
    using b y(1,2) assms(2)
    by (cases b) (auto simp: Receive_def shouldReportRecvSpace_def report_load_def report_compute_def report_add_def same_data_def)
  have inv_run: "flow_inv env n t'" if "flow_run env evs t = Some t'" "flow_inv env n t" for evs t t'
    using that by (induction evs arbitrary: t) (auto split: option.splits intro: flow_exec_inv [OF assms(1,3)])
  show ?thesis using s' inv_run [OF run assms(4)] by (intro can_run [OF run] can_now) simp_all
qed

text \<open>
  A depleted sender gets its message out: the ends deliver what is on its way to the sender, the
  other end finishes what it does, and reports when there is nothing more to come.
\<close>

lemma finish_pending:
  assumes "flow_codec_ok env" "n < 65536" "flow_inv env n s"
  shows "can env (\<lambda>s'. flow_inv env n s' \<and> same_data s s' \<and> ends s' (other y) = ends s (other y) \<and> wire s' = wire s \<and>
    recvQueue (ends s' y) = recvQueue (ends s y) \<and> dfq_pc (ends s' y) = dfq_pc (ends s y) \<and> \<not> deliverPending (ends s' y)) s"
proof -
  let ?s = "s\<lparr>ends := (ends s)(y := deliver_finish (ends s y))\<rparr>"
  have ex: "flow_exec env (EvFinish y) s = Some ?s" by simp
  have f: "\<not> deliverPending (deliver_finish d)" "recvQueue (deliver_finish d) = recvQueue d" "dfq_pc (deliver_finish d) = dfq_pc d" for d
    by (simp_all add: deliver_finish_def decrementReportedRecvSpace_def Let_def)
  show ?thesis by (rule can_step [OF ex can_now]) (use flow_exec_inv [OF assms ex] f in \<open>simp_all add: same_data_def\<close>)
qed

definition stuck :: "flow_env \<Rightarrow> nat \<Rightarrow> side \<Rightarrow> flow_sys \<Rightarrow> flow_sys \<Rightarrow> bool" where
  "stuck env n x s t \<longleftrightarrow> flow_inv env n t \<and> same_data s t \<and> dfq_pc (ends t x) = Depleted \<and> loads env (wire t x) = [] \<and>
     recvQueue (ends t (other x)) = []"

definition settled_end :: "dfq \<Rightarrow> bool" where
  "settled_end d \<longleftrightarrow> rank (dfq_pc d) = 0 \<and> \<not> deliverPending d"

lemma receiver_settles:
  assumes "flow_codec_ok env" "n < 65536" "stuck env n x s t"
  shows "can env (\<lambda>u. stuck env n x s u \<and> settled_end (ends u (other x))) t"
proof -
  have inv: "flow_inv env n t" using assms(3) by (simp add: stuck_def)
  show ?thesis
  proof (rule can_trans [OF handler_idles [OF assms(1,2) inv, of "other x"]])
    fix u assume u: "flow_inv env n u \<and> still (other x) t u \<and> rank (dfq_pc (ends u (other x))) = 0"
    then have "stuck env n x s u" using assms(3) by (simp add: stuck_def still_def same_data_def)
    with u show "can env (\<lambda>u. stuck env n x s u \<and> settled_end (ends u (other x))) u"
      by (intro can_mono [OF finish_pending [OF assms(1,2), of u "other x"]])
         (auto simp: stuck_def settled_end_def same_data_def)
  qed
qed

lemma sender_gets_frames:
  assumes "flow_codec_ok env" "n < 65536" "stuck env n x s t" "settled_end (ends t (other x))"
  shows "can env (\<lambda>u. stuck env n x s u \<and> settled_end (ends u (other x)) \<and>
    sendSpace (ends u x) = reportedSpace (ends t (other x)) \<and> reportedSpace (ends u (other x)) = reportedSpace (ends t (other x))) t"
proof -
  have "flow_inv env n t" using assms(3) by (simp add: stuck_def)
  from wire_drains [OF assms(1,2) this, of x] show ?thesis
  proof (rule can_mono)
    fix u assume u: "flow_inv env n u \<and> wire u = (wire t)(other x := []) \<and> ends u (other x) = ends t (other x) \<and>
      accepted u = accepted t \<and> received u = received t \<and> dfq_pc (ends u x) = dfq_pc (ends t x) \<and>
      sendQueue (ends u x) = sendQueue (ends t x)"
    then have st: "stuck env n x s u" using assms(3) by (simp add: stuck_def same_data_def)
    have "balanced env (ends u x) (ends u (other x)) (wire u x) (wire u (other x))"
      using conjunct1 [OF u] unfolding flow_inv_def by blast
    moreover have "submitting (dfq_pc (ends t (other x))) = 0" using assms(4) by (auto simp: settled_end_def rank_0)
    ultimately have "sendSpace (ends u x) = reportedSpace (ends t (other x))"
      using u st assms(4) by (simp add: balanced_def stuck_def settled_end_def usable_space_def granted_def)
    with u st assms(4) show "stuck env n x s u \<and> settled_end (ends u (other x)) \<and>
      sendSpace (ends u x) = reportedSpace (ends t (other x)) \<and> reportedSpace (ends u (other x)) = reportedSpace (ends t (other x))"
      by simp
  qed
qed

lemma stuck_reports:
  assumes "flow_codec_ok env" "2 \<le> n" "n < 65536" "stuck env n x s t" "settled_end (ends t (other x))"
    and "reportedSpace (ends t (other x)) = 0"
  shows "can env (\<lambda>u. stuck env n x s u \<and> settled_end (ends u (other x)) \<and> 0 < reportedSpace (ends u (other x))) t"
proof -
  have "flow_inv env n t" "recvQueue (ends t (other x)) = []" "rank (dfq_pc (ends t (other x))) = 0"
    using assms(4,5) by (simp_all add: stuck_def settled_end_def)
  from space_is_reported [OF assms(1-3) this(1) assms(6) this(2,3)] show ?thesis
    by (rule can_mono) (use assms(2,4,5) in \<open>auto simp: stuck_def settled_end_def same_data_def\<close>)
qed

lemma depleted_sender_sends:
  assumes "flow_codec_ok env" "2 \<le> n" "n < 65536" "stuck env n x s s" "outgoing (ends s x) \<noteq> []"
  shows "can env (\<lambda>s'. flow_inv env n s' \<and> same_data s s' \<and> loads env (wire s' x) \<noteq> []) s"
proof -
  let ?goal = "\<lambda>s'. flow_inv env n s' \<and> same_data s s' \<and> loads env (wire s' x) \<noteq> []"
  have wakes: "can env ?goal t" if "stuck env n x s t" "0 < sendSpace (ends t x)" for t
  proof -
    have "outgoing (ends t x) = outgoing (ends s x)"
      using inv_order [of env n s x] inv_order [of env n t x] assms(4) that(1) by (simp add: stuck_def same_data_def)
    with that assms(5) have "can env (\<lambda>s'. flow_inv env n s' \<and> same_data t s' \<and> loads env (wire s' x) \<noteq> []) t"
      by (intro sender_wakes assms(1,3)) (simp_all add: stuck_def)
    then show ?thesis by (rule can_mono) (use that(1) in \<open>simp add: stuck_def same_data_def\<close>)
  qed
  have gets: "can env ?goal t"
    if "stuck env n x s t" "settled_end (ends t (other x))" "0 < reportedSpace (ends t (other x))" for t
    by (rule can_trans [OF sender_gets_frames [OF assms(1,3) that(1,2)]]) (use that(3) in \<open>auto intro: wakes\<close>)
  have settled: "can env ?goal t" if t: "stuck env n x s t" "settled_end (ends t (other x))" for t
  proof (cases "reportedSpace (ends t (other x)) = 0")
    case True
    show ?thesis by (rule can_trans [OF stuck_reports [OF assms(1-3) t True]]) (auto intro: gets)
  next
    case False
    moreover have "0 \<le> reportedSpace (ends t (other x))"
      using t(1) by (intro reported_nonneg [of n]) (simp add: stuck_def flow_inv_def)
    ultimately show ?thesis using t by (intro gets) simp_all
  qed
  show ?thesis by (rule can_trans [OF receiver_settles [OF assms(1,3,4)]]) (auto intro: settled)
qed

section \<open>Everything arrives\<close>

lemma next_data_arrives:
  assumes "flow_codec_ok env" "2 \<le> n" "n < 65536" "flow_inv env n s" "received s (other x) \<noteq> accepted s x"
  shows "can env (\<lambda>s'. flow_inv env n s' \<and> accepted s' = accepted s \<and>
    length (received s' (other x)) = Suc (length (received s (other x)))) s"
    (is "can env ?goal s")
proof -
  have on_wire: "can env ?goal t" if "flow_inv env n t" "same_data s t" "loads env (wire t x) \<noteq> []" for t
    using sent_is_read [OF assms(1,3) that(1,3)] that(2) by (simp add: same_data_def)
  have queued: "can env ?goal t" if "flow_inv env n t" "same_data s t" "recvQueue (ends t (other x)) \<noteq> []" for t
    using queued_is_read [OF assms(1,3) that(1,3)] that(2) by (simp add: same_data_def)
  have idle: "can env ?goal t" if t: "flow_inv env n t" "same_data s t" "rank (dfq_pc (ends t x)) = 0" for t
  proof (cases "loads env (wire t x) = [] \<and> recvQueue (ends t (other x)) = []")
    case True
    then have out: "outgoing (ends t x) \<noteq> []"
      using inv_order [OF t(1), of x] assms(5) t(2) by (simp add: same_data_def)
    have "can env (\<lambda>s'. flow_inv env n s' \<and> same_data t s' \<and> loads env (wire s' x) \<noteq> []) t"
    proof (cases "dfq_pc (ends t x) = Selecting")
      case True
      with out t(1) show ?thesis by (intro message_is_sent assms(1,3))
    next
      case False
      with t True out show ?thesis
        by (intro depleted_sender_sends assms(1-3)) (auto simp: stuck_def same_data_def rank_0)
    qed
    then show ?thesis by (rule can_trans) (use t(2) in \<open>auto intro: on_wire simp: same_data_def\<close>)
  qed (use t on_wire queued in blast)
  show ?thesis
    by (rule can_trans [OF handler_idles [OF assms(1,3,4), of x]]) (auto intro: idle simp: still_def same_data_def)
qed

lemma all_data_arrives:
  assumes "flow_codec_ok env" "2 \<le> n" "n < 65536" "flow_inv env n s"
  shows "can env (\<lambda>s'. received s' (other x) = accepted s x) s"
  using assms(4)
proof (induction "length (accepted s x) - length (received s (other x))" arbitrary: s rule: less_induct)
  case less
  show ?case
  proof (cases "received s (other x) = accepted s x")
    case False
    from next_data_arrives [OF assms(1-3) less.prems False] show ?thesis
    proof (rule can_trans)
      fix t assume t: "flow_inv env n t \<and> accepted t = accepted s \<and>
        length (received t (other x)) = Suc (length (received s (other x)))"
      then have "length (received t (other x)) \<le> length (accepted t x)" using inv_order [of env n t x] by simp
      with t less.hyps [of t] show "can env (\<lambda>s'. received s' (other x) = accepted s x) t" by simp
    qed
  qed (rule can_now)
qed

section \<open>Properties of flow control\<close>

text \<open>
  C10: flow control prevents overflows.  Whatever the two ends do and however their goroutines are
  interleaved, a delivery never fails: the receive queue has room for every message that arrives,
  and every frame can be taken apart.  The counters stay between zero and the size of the queue
  (the send space may exceed it by the one message that was just submitted), so that no 32-bit
  counter wraps.  The size of the queues is the same at both ends and fits 16 bits.
\<close>

theorem flow_never_overflows:
  assumes "flow_codec_ok env" "0 < n" "n < 65536" "flow_reachable env n s"
  shows "failures s x = [] \<and> length (recvQueue (ends s x)) \<le> n \<and>
    0 \<le> sendSpace (ends s x) \<and> sendSpace (ends s x) \<le> int n + 1 \<and>
    0 \<le> reportedSpace (ends s x) \<and> reportedSpace (ends s x) \<le> int n"
proof -
  have inv: "flow_inv env n s" by (rule flow_reachable_inv [OF assms(4,1-3)])
  then have e: "end_inv n (ends s x)" and f: "failures s x = []" by (simp_all add: flow_inv_def)
  have "0 \<le> owed (dfq_pc (ends s x))" "owed (dfq_pc (ends s x)) \<le> 1" "0 \<le> adding (dfq_pc (ends s x))"
    using e by (cases "dfq_pc (ends s x)"; simp add: end_inv_def)+
  with e f reported_nonneg [OF e] show ?thesis by (auto simp: end_inv_def usable_space_def)
qed

text \<open>
  C11: data arrives complete and in order.  At any moment the data that was handed to \<open>Send\<close> at one
  end is what was read at the other end, followed by what waits there, what is on the wire and what
  has not been sent yet: nothing is lost, duplicated, changed or reordered.
\<close>

theorem flow_data_in_order:
  assumes "flow_codec_ok env" "0 < n" "n < 65536" "flow_reachable env n s"
  shows "accepted s x = received s (other x) @ map msg_Data (recvQueue (ends s (other x))) @
    loads env (wire s x) @ outgoing (ends s x)"
  by (rule inv_order [OF flow_reachable_inv [OF assms(4,1-3)]])

text \<open>
  C9: flow control does not get stuck.  From every reachable state, the ends can continue without
  any further call of \<open>Send\<close> until everything that was handed to \<open>Send\<close> at one end was read at the
  other: a depleted sender always gets new space from the reads of its peer.  The size of the queue
  is at least two.
\<close>

theorem flow_all_data_arrives:
  assumes "flow_codec_ok env" "2 \<le> n" "n < 65536" "flow_reachable env n s"
  shows "\<exists>evs s'. flow_run env evs s = Some s' \<and> list_all quiet evs \<and> received s' (other x) = accepted s x"
proof -
  have "0 < n" using assms(2) by simp
  from all_data_arrives [OF assms(1-3) flow_reachable_inv [OF assms(4,1) this assms(3)]] show ?thesis
    unfolding can_def .
qed

section \<open>An instance\<close>

text \<open>Frames made and read by the containers of the repository with the standard integer coding.\<close>

definition container_flow_env :: flow_env where
  "container_flow_env = \<lparr>fl_pack64 = Pack64 uvarint_env,
     fl_next16 = (\<lambda>bs. case GetNextN16 uvarint_env (New [bs]) of
        Inr (Inr k, c) \<Rightarrow> Some (k, fst (CompileData c)) | _ \<Rightarrow> None)\<rparr>"

lemma container_flow_ok: "flow_codec_ok container_flow_env"
  unfolding flow_codec_ok_def
proof (intro allI impI)
  fix n :: nat and data :: "byte list" assume n: "n < 65536"
  let ?w = "of_nat n :: 64 word"
  have u: "unat ?w = n" using n by (simp add: unat_of_nat take_bit_nat_eq_self)
  let ?bs = "PutUvarint n @ data"
  have c: "container_inv (New [?bs])" "held (New [?bs]) = ?bs" using New_inv [of "[?bs]"] by simp_all
  have un: "(unpack_uvarint (take 3 ?bs) :: string + 16 word \<times> nat) = Inr (of_nat n, length (PutUvarint n))"
    using unpack_packed [of ?w 2 3, where 'a = 16] u n by simp
  note sk = skip_held [OF c(1), of "length (PutUvarint n)"]
  have "GetNextN16 uvarint_env (New [?bs]) = Inr (Inr (of_nat n), skip (length (PutUvarint n)) (New [?bs]))"
    using un c Peek_held [OF c(1), of 3 uvarint_env] by (simp add: GetNextN16_def next_number_def uvarint_env_def)
  then show "fl_next16 container_flow_env (fl_pack64 container_flow_env ?w @ data) = Some (of_nat n, data)"
    using sk c(2) CompileData_held [OF conjunct1 [OF sk]] u
    by (simp add: container_flow_env_def) (simp add: uvarint_env_def)
qed

lemma run_reachable:
  "flow_run env evs s = Some s' \<Longrightarrow> flow_reachable env n s \<Longrightarrow> flow_reachable env n s'"
  by (induction evs arbitrary: s) (auto split: option.splits intro: flow_reachable.step)

text \<open>A run with queues of size two in which the sender is depleted.\<close>

definition sample_msg :: "byte \<Rightarrow> msg" where
  "sample_msg b = \<lparr>msg_Data = [b], HighPriority = False\<rparr>"

definition sample_run :: "flow_event list" where
  "sample_run =
     [EvSend SideA (sample_msg 1), EvSend SideA (sample_msg 2), EvHandle SideA TakeMsg] @
     replicate 4 (EvHandle SideA Continue) @ [EvHandle SideA TakeMsg] @ replicate 4 (EvHandle SideA Continue) @
     [EvSend SideA (sample_msg 3), EvDeliver SideB, EvFinish SideB, EvDeliver SideB]"

lemma sample_run_state:
  "\<exists>s. flow_run container_flow_env sample_run (flow_init 2) = Some s \<and> length (recvQueue (ends s SideB)) = 2 \<and>
     sendSpace (ends s SideA) = 0 \<and> length (accepted s SideA) = 3"
proof -
  have "case flow_run container_flow_env sample_run (flow_init 2) of None \<Rightarrow> False
    | Some s \<Rightarrow> length (recvQueue (ends s SideB)) = 2 \<and> sendSpace (ends s SideA) = 0 \<and> length (accepted s SideA) = 3"
    by code_simp
  then show ?thesis by (auto split: option.splits)
qed

lemma sample_run_reachable: "flow_run container_flow_env sample_run (flow_init 2) = Some s \<Longrightarrow> flow_reachable container_flow_env 2 s"
  by (rule run_reachable) (auto intro: flow_reachable.init)

theorem flow_never_overflows_witness:
  "\<exists>s. flow_run container_flow_env sample_run (flow_init 2) = Some s \<and> length (recvQueue (ends s SideB)) = 2 \<and>
     failures s SideB = []"
proof -
  obtain s where s: "flow_run container_flow_env sample_run (flow_init 2) = Some s" "length (recvQueue (ends s SideB)) = 2"
    using sample_run_state by blast
  from flow_never_overflows [OF container_flow_ok _ _ sample_run_reachable [OF s(1)], of SideB] s show ?thesis by simp
qed

theorem flow_data_in_order_witness:
  "\<exists>s. flow_run container_flow_env sample_run (flow_init 2) = Some s \<and> length (accepted s SideA) = 3 \<and>
     accepted s SideA = received s SideB @ map msg_Data (recvQueue (ends s SideB)) @
       loads container_flow_env (wire s SideA) @ outgoing (ends s SideA)"
proof -
  obtain s where s: "flow_run container_flow_env sample_run (flow_init 2) = Some s" "length (accepted s SideA) = 3"
    using sample_run_state by blast
  from flow_data_in_order [OF container_flow_ok _ _ sample_run_reachable [OF s(1)], of SideA] s show ?thesis by simp
qed

theorem flow_all_data_arrives_witness:
  "\<exists>s evs s'. flow_run container_flow_env sample_run (flow_init 2) = Some s \<and> sendSpace (ends s SideA) = 0 \<and>
     flow_run container_flow_env evs s = Some s' \<and> length (received s' SideB) = 3"
proof -
  obtain s where s: "flow_run container_flow_env sample_run (flow_init 2) = Some s" "sendSpace (ends s SideA) = 0"
    "length (accepted s SideA) = 3" using sample_run_state by blast
  from flow_all_data_arrives [OF container_flow_ok _ _ sample_run_reachable [OF s(1)], of SideA]
  obtain evs s' where "flow_run container_flow_env evs s = Some s'" "received s' SideB = accepted s SideA" by auto
  with s show ?thesis by (intro exI [of _ s] exI [of _ evs] exI [of _ s']) simp
qed

section \<open>Limits\<close>

text \<open>The three steps of a report are the function of the code when nothing happens in between.\<close>

lemma report_steps:
  assumes "reportableRecvSpace d = (k, d')"
  shows "report_compute p (reportedSpace d) (report_load p d) = d\<lparr>dfq_pc := Submit p 0\<rparr> \<and> k = 0 \<and> d' = d \<or>
    report_compute p (reportedSpace d) (report_load p d) = d\<lparr>dfq_pc := AddReport p k\<rparr> \<and>
    report_add p k (d\<lparr>dfq_pc := AddReport p k\<rparr>) = d'\<lparr>dfq_pc := Submit p k\<rparr>"
  using assms by (auto simp: reportableRecvSpace_def report_load_def report_compute_def report_add_def Let_def split: if_splits)

text \<open>
  A queue of size one never reports, because a report of one is suppressed: its sender stays
  depleted after one message.
\<close>

lemma size_one_never_reports:
  assumes "queueCap d = 1" "0 \<le> reportedSpace d" "reportedSpace d \<le> 1" "length (recvQueue d) \<le> 1"
  shows "reportableRecvSpace d = (0, d)"
proof -
  have "i32 (1 - int (length (recvQueue d))) = 1 - int (length (recvQueue d))"
    using assms by (intro i32_id) simp_all
  moreover have "i32 (1 - int (length (recvQueue d)) - reportedSpace d) = 1 - int (length (recvQueue d)) - reportedSpace d"
    using assms by (intro i32_id) simp_all
  ultimately show ?thesis using assms by (simp add: reportableRecvSpace_def)
qed

text \<open>A report that needs more than 16 bits, which larger queues can make, is rejected as malformed.\<close>

lemma large_report_malformed:
  "fst (deliver_accept container_flow_env \<lparr>msg_Data = frame container_flow_env 70000 [], HighPriority = False\<rparr>
     (NewDuplexFlowQueue 100000)) = Some ErrMalformedData"
  by code_simp

text \<open>A message without data costs its sender a slot that the receiver never reports again.\<close>

lemma empty_message_leaks_space:
  assumes "flow_codec_ok env"
  shows "deliver_accept env \<lparr>msg_Data = frame env 0 [], HighPriority = p\<rparr> d = (None, d)"
  using frame_read [OF assms, of 0 "[]"] by (simp add: deliver_accept_def)

end
