(* ===== verification/Terminal.thy ===== *)
theory Terminal
  imports Flow_Control Container_Rules "HOL-Library.Signed_Division"
begin

text \<open>
  The small parts of SPN terminals in \<^verbatim>\<open>spn/terminal\<close>: errors and their transport (\<^verbatim>\<open>errors.go\<close>),
  message headers (\<^verbatim>\<open>msgtypes.go\<close>, \<^verbatim>\<open>msg.go\<close>), the options of a terminal (\<^verbatim>\<open>init.go\<close>), the limits
  of a session (\<^verbatim>\<open>session.go\<close>) and the limiter of transfers (\<^verbatim>\<open>rate_limit.go\<close>).  Data containers are
  byte sequences, as in flow control; the integer coding and the serialisation of options are
  parameters.  Clocks are arguments: seconds for sessions, nanoseconds for the limiter.
\<close>

section \<open>Errors\<close>

record terr =
  te_id :: byte
  te_external :: bool
  te_err :: string

type_synonym error_registry = "(byte \<times> terr) list"

text \<open>An error is a pointer: \<open>None\<close> for nil.\<close>

definition te_Error :: "terr \<Rightarrow> string" where
  "te_Error e = (if te_external e then ''[ext] '' @ te_err e else te_err e)"

definition te_IsExternal :: "terr option \<Rightarrow> bool" where
  "te_IsExternal e = (case e of None \<Rightarrow> False | Some e \<Rightarrow> te_external e)"

definition te_Is :: "terr option \<Rightarrow> terr option \<Rightarrow> bool" where
  "te_Is e target = (case (e, target) of (Some e, Some t) \<Rightarrow> te_id e = te_id t | _ \<Rightarrow> False)"

text \<open>The details are formatted by the caller.\<close>

definition te_With :: "string \<Rightarrow> terr option \<Rightarrow> terr option" where
  "te_With details = map_option (\<lambda>e. \<lparr>te_id = te_id e, te_external = False, te_err = te_Error e @ '': '' @ details\<rparr>)"

definition te_Wrap :: "string \<Rightarrow> terr option \<Rightarrow> terr option" where
  "te_Wrap details = map_option (\<lambda>e. \<lparr>te_id = te_id e, te_external = False, te_err = details @ '': '' @ te_Error e\<rparr>)"

definition AsExternal :: "terr option \<Rightarrow> terr option" where
  "AsExternal = map_option (\<lambda>e. e\<lparr>te_external := True\<rparr>)"

definition te_IsError :: "terr option \<Rightarrow> bool" where
  "te_IsError e = (case e of None \<Rightarrow> False | Some e \<Rightarrow> te_id e = 0 \<or> te_id e \<ge> 8)"

definition te_IsOK :: "terr option \<Rightarrow> bool" where
  "te_IsOK e \<longleftrightarrow> \<not> te_IsError e"

text \<open>Registering an ID twice panics; the panic carries the text of the code.\<close>

definition registerError :: "byte \<Rightarrow> string \<Rightarrow> error_registry \<Rightarrow> string + terr \<times> error_registry" where
  "registerError ident err reg =
     (case map_of reg ident of
        Some e \<Rightarrow> Inl (''error with id '' @ Itoa (unat ident) @ '' already registered'')
      | None \<Rightarrow>
          let e = \<lparr>te_id = ident, te_external = False, te_err = err\<rparr> in Inr (e, (ident, e) # reg))"

definition terminal_errors :: "(byte \<times> string) list" where
  "terminal_errors =
     [(0, ''unknown error''), (2, ''stopping''), (3, ''explicit ack''), (4, ''no activity''),
      (8, ''internal error''), (9, ''malformed data''), (10, ''unexpected message type''),
      (11, ''unknown operation type''), (12, ''unknown operation id''), (13, ''permission denied''),
      (14, ''integrity violated''), (15, ''invalid options''), (16, ''hub not ready''),
      (24, ''rate limited''), (22, ''incorrect usage''), (62, ''timed out''), (93, ''unsupported version''),
      (101, ''hub unavailable''), (102, ''terminal is being abandoned''), (108, ''ship sunk''),
      (113, ''destination unavailable''), (114, ''try again later''), (121, ''connection error''),
      (122, ''queue overflowed''), (125, ''context canceled'')]"

fun register_all :: "(byte \<times> string) list \<Rightarrow> error_registry \<Rightarrow> string + error_registry" where
  "register_all [] reg = Inr reg"
| "register_all ((ident, err) # errs) reg =
     (case registerError ident err reg of Inl p \<Rightarrow> Inl p | Inr (e, reg) \<Rightarrow> register_all errs reg)"

record small_codec =
  Pack8 :: "byte \<Rightarrow> byte list"
  UnpackByte :: "byte list \<Rightarrow> string + byte \<times> nat"
  Pack32 :: "32 word \<Rightarrow> byte list"
  PackLen :: "64 word \<Rightarrow> byte list"
  Next32 :: "byte list \<Rightarrow> (string + 32 word) \<times> byte list"

definition te_Pack :: "small_codec \<Rightarrow> terr option \<Rightarrow> byte list" where
  "te_Pack cd e = (case e of None \<Rightarrow> [] | Some e \<Rightarrow> Pack8 cd (te_id e))"

definition NewExternalError :: "error_registry \<Rightarrow> byte \<Rightarrow> terr option" where
  "NewExternalError reg ident =
     AsExternal (case map_of reg ident of Some e \<Rightarrow> Some e | None \<Rightarrow> map_of reg 0)"

definition ParseExternalError :: "small_codec \<Rightarrow> error_registry \<Rightarrow> byte list \<Rightarrow> string + terr option" where
  "ParseExternalError cd reg bs =
     (if bs = [] then Inr (AsExternal (map_of reg 2))
      else case UnpackByte cd bs of
        Inl err \<Rightarrow> Inl (''failed to unpack error ID: '' @ err)
      | Inr (parsedID, n) \<Rightarrow> Inr (NewExternalError reg parsedID))"

section \<open>Message headers\<close>

datatype MsgType = MsgTypePriorityData | MsgTypeInit | MsgTypeData | MsgTypeStop

fun msg_type_num :: "MsgType \<Rightarrow> 32 word" where
  "msg_type_num MsgTypePriorityData = 0"
| "msg_type_num MsgTypeInit = 1"
| "msg_type_num MsgTypeData = 2"
| "msg_type_num MsgTypeStop = 3"

definition msg_type_of :: "32 word \<Rightarrow> MsgType" where
  "msg_type_of n = (if n = 0 then MsgTypePriorityData else if n = 1 then MsgTypeInit
     else if n = 2 then MsgTypeData else MsgTypeStop)"

definition AddIDType :: "small_codec \<Rightarrow> 32 word \<Rightarrow> MsgType \<Rightarrow> byte list \<Rightarrow> byte list" where
  "AddIDType cd ident t data = Pack32 cd (ident OR msg_type_num t) @ data"

definition MakeMsg :: "small_codec \<Rightarrow> 32 word \<Rightarrow> MsgType \<Rightarrow> byte list \<Rightarrow> byte list" where
  "MakeMsg cd ident t data =
     (let body = AddIDType cd ident t data in PackLen cd (of_nat (length body)) @ body)"

definition ParseIDType :: "small_codec \<Rightarrow> byte list \<Rightarrow> (string + 32 word \<times> MsgType) \<times> byte list" where
  "ParseIDType cd bs =
     (case Next32 cd bs of
        (Inl err, rest) \<Rightarrow> (Inl err, rest)
      | (Inr idType, rest) \<Rightarrow>
          let t = idType mod 4 in (Inr (idType - t, msg_type_of t), rest))"

record tmsg =
  FlowID :: "32 word"
  tm_Type :: MsgType
  tm_Data :: "byte list"
  tm_HighPriority :: bool

text \<open>A message is packed and appended to another; it passes its priority on.\<close>

definition tm_Pack :: "small_codec \<Rightarrow> tmsg \<Rightarrow> tmsg" where
  "tm_Pack cd m = m\<lparr>tm_Data := MakeMsg cd (FlowID m) (tm_Type m) (tm_Data m)\<rparr>"

definition Consume :: "small_codec \<Rightarrow> tmsg \<Rightarrow> tmsg \<Rightarrow> tmsg" where
  "Consume cd other_msg m =
     m\<lparr>tm_Data := tm_Data m @ tm_Data (tm_Pack cd other_msg),
       tm_HighPriority := tm_HighPriority m \<or> tm_HighPriority other_msg\<rparr>"

section \<open>Options of a terminal\<close>

record TerminalOpts =
  to_Version :: byte
  to_Encrypt :: bool
  to_Padding :: "16 word"
  to_FlowControl :: byte
  FlowControlSize :: "32 word"
  UsePriorityDataMsgs :: bool

text \<open>Types of flow control as they are sent.\<close>

definition fc_type :: "byte \<Rightarrow> FlowControlType option" where
  "fc_type b = (if b = 0 then Some FlowControlDefault else if b = 1 then Some FlowControlDFQ
     else if b = 2 then Some FlowControlNone else None)"

definition opts_Check :: "bool \<Rightarrow> TerminalOpts \<Rightarrow> bool \<times> TerminalOpts" where
  "opts_Check useDefaults opts =
     (let opts = (if to_Version opts = 0 \<and> useDefaults then opts\<lparr>to_Version := 1\<rparr> else opts)
      in if to_Version opts \<noteq> 1 then (False, opts)
         else case fc_type (to_FlowControl opts) of
           None \<Rightarrow> (False, opts)
         | Some t \<Rightarrow>
             let opts = (if t = FlowControlDefault then opts\<lparr>to_FlowControl := 1\<rparr> else opts);
                 t = (if t = FlowControlDefault then defaultFlowControl else t);
                 opts = (if FlowControlSize opts = 0 \<and> useDefaults
                         then opts\<lparr>FlowControlSize := word_of_int (DefaultSize t)\<rparr> else opts)
             in (\<not> (FlowControlSize opts = 0 \<or> uint (FlowControlSize opts) > MaxQueueSize), opts))"

section \<open>Limits of a session\<close>

record session =
  started :: int
  opCount :: int
  suspicionScore :: int

definition NewSession :: "int \<Rightarrow> session" where
  "NewSession now = \<lparr>started = now - 1, opCount = 0, suspicionScore = 0\<rparr>"

definition go_div :: "int \<Rightarrow> int \<Rightarrow> int go" where
  "go_div a b = (if b = 0 then Inl DivideByZero else Inr (a sdiv b))"

definition check_suspicion :: "int \<Rightarrow> session \<Rightarrow> (bool \<times> session) go" where
  "check_suspicion secondsActive s =
     (let score = suspicionScore s in
      if score > 25
      then bind_go (go_div score secondsActive) (\<lambda>scorePerSecond.
             if scorePerSecond \<ge> 1 then Inr (True, s\<lparr>suspicionScore := suspicionScore s + 1\<rparr>)
             else Inr (score > 2500 \<and> score * 5 > opCount s * 4, s))
      else Inr (False, s))"

text \<open>The result says whether the operation is limited.\<close>

definition RateLimit :: "int \<Rightarrow> session \<Rightarrow> (bool \<times> session) go" where
  "RateLimit now s =
     (let secondsActive = now - started s in
      bind_go (check_suspicion secondsActive s) (\<lambda>(limited, s).
        if limited then Inr (True, s)
        else let s = s\<lparr>opCount := opCount s + 1\<rparr>
             in if opCount s > 250
                then bind_go (go_div (opCount s) secondsActive) (\<lambda>opsPerSecond. Inr (opsPerSecond \<ge> 5, s))
                else Inr (False, s)))"

definition RateLimitInfo :: "int \<Rightarrow> session \<Rightarrow> (int \<times> int \<times> int) go" where
  "RateLimitInfo now s =
     (let secondsActive = now - started s in
      bind_go (go_div (opCount s) secondsActive) (\<lambda>ops.
      bind_go (go_div (suspicionScore s) secondsActive) (\<lambda>sus. Inr (ops, sus, secondsActive))))"

definition ReportSuspiciousActivity :: "int \<Rightarrow> session \<Rightarrow> session" where
  "ReportSuspiciousActivity factor s = s\<lparr>suspicionScore := suspicionScore s + factor\<rparr>"

section \<open>The limiter of transfers\<close>

record RateLimiter =
  maxBytesPerSlot :: nat
  slotBytes :: nat
  slotStarted :: int

definition u64 :: "nat \<Rightarrow> nat" where
  "u64 n = n mod 2 ^ 64"

definition NewRateLimiter :: "nat \<Rightarrow> int \<Rightarrow> RateLimiter" where
  "NewRateLimiter mbits now =
     \<lparr>maxBytesPerSlot = u64 ((mbits div 8) * 1000000), slotBytes = 0, slotStarted = now\<rparr>"

definition limit_sleep :: "int \<Rightarrow> RateLimiter \<Rightarrow> int" where
  "limit_sleep now rl =
     (if slotBytes rl > maxBytesPerSlot rl \<and> now - slotStarted rl < 1000000000
      then 1000000000 - (now - slotStarted rl) else 0)"

text \<open>The call is made at \<open>now\<close>; the clock shows \<open>woke\<close> after the sleep.\<close>

definition Limit :: "int \<Rightarrow> nat \<Rightarrow> RateLimiter \<Rightarrow> RateLimiter" where
  "Limit woke xferBytes rl =
     (let rl = (if slotBytes rl > maxBytesPerSlot rl then rl\<lparr>slotBytes := 0, slotStarted := woke\<rparr> else rl)
      in rl\<lparr>slotBytes := u64 (slotBytes rl + xferBytes)\<rparr>)"

section \<open>Properties of errors, headers and options\<close>

definition small_codec_ok :: "small_codec \<Rightarrow> bool" where
  "small_codec_ok cd \<longleftrightarrow>
     (\<forall>b. Pack8 cd b \<noteq> [] \<and> UnpackByte cd (Pack8 cd b) = Inr (b, length (Pack8 cd b))) \<and>
     (\<forall>n data. Next32 cd (Pack32 cd n @ data) = (Inr n, data))"

text \<open>The registry of the code can be built: no ID is used twice.\<close>

lemma terminal_errors_register: "\<exists>reg. register_all terminal_errors [] = Inr reg \<and> map_of reg 0 \<noteq> None"
proof -
  have "case register_all terminal_errors [] of Inl _ \<Rightarrow> False | Inr reg \<Rightarrow> map_of reg 0 \<noteq> None" by code_simp
  then show ?thesis by (auto split: sum.splits)
qed

lemma error_roundtrip:
  assumes "small_codec_ok cd" "map_of reg (te_id e) = Some e'"
  shows "ParseExternalError cd reg (te_Pack cd (Some e)) = Inr (AsExternal (Some e'))"
  using assms by (simp add: ParseExternalError_def te_Pack_def small_codec_ok_def NewExternalError_def)

lemma type_bits: "msg_type_num t AND NOT 3 = 0" "msg_type_num t mod 4 = msg_type_num t" "msg_type_of (msg_type_num t) = t"
  by (cases t; simp add: msg_type_of_def; code_simp)+

lemma mod4: "x mod 4 = x AND 3" for x :: "32 word"
  using take_bit_eq_mod [of 2 x] take_bit_eq_mask [of 2 x] by (simp add: mask_eq_exp_minus_1)

lemma or_type:
  assumes "ident mod 4 = 0"
  shows "ident OR msg_type_num t = ident + msg_type_num t" "(ident OR msg_type_num t) mod 4 = msg_type_num t"
proof -
  have i: "ident AND 3 = 0" using assms by (simp add: mod4)
  have t: "msg_type_num t AND 3 = msg_type_num t" using type_bits(2) [of t] by (simp add: mod4)
  have "ident AND (3 AND msg_type_num t) = 0" using i by (simp add: and.assoc [symmetric])
  with t have "ident AND msg_type_num t = 0" by (simp add: and.commute)
  then show "ident OR msg_type_num t = ident + msg_type_num t" by (rule disjunctive_add_eq_or [symmetric])
  show "(ident OR msg_type_num t) mod 4 = msg_type_num t" using i t by (simp add: mod4 bit.conj_disj_distrib2)
qed

text \<open>
  Message headers survive.  The ID and the type of a message are read back from the header for
  every ID that is a multiple of four, and what follows the header is left untouched.
\<close>

theorem message_header_roundtrip:
  assumes "small_codec_ok cd" "ident mod 4 = 0"
  shows "ParseIDType cd (AddIDType cd ident t data) = (Inr (ident, t), data)"
  using assms or_type [OF assms(2), of t]
  by (simp add: ParseIDType_def AddIDType_def small_codec_ok_def type_bits(3) Let_def)

text \<open>Options that pass the check are complete, and checking them again changes nothing.\<close>

lemma opts_Check_valid:
  assumes "opts_Check b opts = (True, opts')"
  shows "to_Version opts' = 1 \<and> to_FlowControl opts' \<in> {1, 2} \<and> 0 < FlowControlSize opts' \<and>
    uint (FlowControlSize opts') \<le> MaxQueueSize \<and> opts_Check b' opts' = (True, opts')"
  using assms
  by (auto simp: opts_Check_def fc_type_def Let_def word_gt_0 not_less split: if_splits option.splits)

section \<open>Limits hold\<close>

datatype session_event = Operation int | Suspicious int

fun run_session :: "session_event list \<Rightarrow> session \<Rightarrow> (nat \<times> session) go" where
  "run_session [] s = Inr (0, s)"
| "run_session (Suspicious f # evs) s = run_session evs (ReportSuspiciousActivity f s)"
| "run_session (Operation now # evs) s =
     bind_go (RateLimit now s) (\<lambda>(limited, s).
     bind_go (run_session evs s) (\<lambda>(granted, s). Inr (if limited then granted else Suc granted, s)))"

fun event_time :: "session_event \<Rightarrow> int \<Rightarrow> int \<Rightarrow> bool" where
  "event_time (Operation now) t0 t1 = (t0 < now \<and> now \<le> t1)"
| "event_time (Suspicious f) t0 t1 = True"

lemma sdiv_less: "0 < b \<Longrightarrow> 0 \<le> a \<Longrightarrow> a sdiv b < (c::int) \<Longrightarrow> a < c * b"
proof -
  assume a: "0 < b" "0 \<le> a" "a sdiv b < c"
  then have "a sdiv b = a div b" by (cases "a = 0") (simp_all add: signed_divide_int_def)
  with a have "a div b + 1 \<le> c" by simp
  then have "(a div b + 1) * b \<le> c * b" using a(1) by (intro mult_right_mono) simp_all
  moreover have "a < (a div b + 1) * b"
    using pos_mod_bound [OF a(1), of a] div_mult_mod_eq [of a b] unfolding distrib_right by linarith
  ultimately show ?thesis by simp
qed

lemma RateLimit_bound:
  assumes "started s < now" "0 \<le> opCount s"
  shows "\<exists>limited s'. RateLimit now s = Inr (limited, s') \<and> started s' = started s \<and>
    (if limited then opCount s \<le> opCount s' \<and> opCount s' \<le> opCount s + 1
     else opCount s' = opCount s + 1 \<and> (opCount s' \<le> 250 \<or> opCount s' < 5 * (now - started s)))"
proof -
  have d: "go_div a (now - started s) = Inr (a sdiv (now - started s))" for a using assms(1) by (simp add: go_div_def)
  obtain l s1 where c: "check_suspicion (now - started s) s = Inr (l, s1)" "started s1 = started s" "opCount s1 = opCount s"
    by (cases "suspicionScore s > 25"; cases "suspicionScore s sdiv (now - started s) \<ge> 1")
       (auto simp: check_suspicion_def d Let_def)
  have "opCount s + 1 < 5 * (now - started s)" if "(opCount s + 1) sdiv (now - started s) < 5"
    using sdiv_less [of "now - started s" "opCount s + 1" 5] that assms by simp
  then show ?thesis using c d by (cases l) (auto simp: RateLimit_def Let_def)
qed

lemma run_session_bound:
  assumes "\<And>ev. ev \<in> set evs \<Longrightarrow> event_time ev (started s) t" "0 \<le> opCount s"
  shows "\<exists>g s'. run_session evs s = Inr (g, s') \<and>
    (g = 0 \<or> opCount s + int g \<le> 250 \<or> opCount s + int g < 5 * (t - started s))"
  using assms
proof (induction evs arbitrary: s)
  case (Cons ev evs)
  show ?case
  proof (cases ev)
    case (Suspicious f)
    with Cons.IH [of "ReportSuspiciousActivity f s"] Cons.prems show ?thesis by (simp add: ReportSuspiciousActivity_def)
  next
    case (Operation now)
    then have n: "started s < now" "now \<le> t" using Cons.prems(1) [of ev] by simp_all
    obtain l s1 where r: "RateLimit now s = Inr (l, s1)" "started s1 = started s"
      "if l then opCount s \<le> opCount s1 \<and> opCount s1 \<le> opCount s + 1
       else opCount s1 = opCount s + 1 \<and> (opCount s1 \<le> 250 \<or> opCount s1 < 5 * (now - started s))"
      using RateLimit_bound [OF n(1) Cons.prems(2)] by blast
    have "0 \<le> opCount s1" using r(3) Cons.prems(2) by (auto split: if_splits)
    then obtain g s2 where g: "run_session evs s1 = Inr (g, s2)"
      "g = 0 \<or> opCount s1 + int g \<le> 250 \<or> opCount s1 + int g < 5 * (t - started s)"
      using Cons.IH [of s1] Cons.prems(1) r(2) by auto
    with r n Operation show ?thesis by (auto split: if_splits)
  qed
qed simp

text \<open>
  A session cannot exceed its rate.  While the clock is ahead of the start of the session, no
  check of the limits panics, and the operations that are let through until some time are at most
  250 or fewer than five per second of the session so far, whatever suspicious activity is reported
  in between.
\<close>

theorem session_rate_bounded:
  assumes "\<And>ev. ev \<in> set evs \<Longrightarrow> event_time ev (t0 - 1) t"
  shows "\<exists>g s. run_session evs (NewSession t0) = Inr (g, s) \<and> (int g \<le> 250 \<or> int g < 5 * (t - t0 + 1))"
  using run_session_bound [of evs "NewSession t0" t] assms by (fastforce simp: NewSession_def)

theorem session_rate_bounded_witness:
  "\<exists>g s. run_session [Operation 10, Suspicious 30, Operation 10, Operation 60] (NewSession 10) = Inr (g, s) \<and>
     (int g \<le> 250 \<or> int g < 5 * (60 - 10 + 1))"
  by (rule session_rate_bounded) auto

text \<open>
  When the clock was set back to the start of the session, a session beyond its first operations
  panics; when it was set back further, nothing is limited by rate any more.
\<close>

lemma clock_at_start_panics: "suspicionScore s > 25 \<Longrightarrow> RateLimit (started s) s = Inl DivideByZero"
  by (simp add: RateLimit_def check_suspicion_def go_div_def)

lemma clock_before_start_unlimited:
  assumes "now < started s" "0 \<le> opCount s" "suspicionScore s \<le> 2500" "0 \<le> suspicionScore s"
  shows "\<exists>s'. RateLimit now s = Inr (False, s')"
proof -
  have "a sdiv (now - started s) \<le> 0" if "0 \<le> a" for a
    using that assms(1) by (simp add: signed_divide_int_def sgn_if mult_le_0_iff pos_imp_zdiv_nonneg_iff)
  from this [of "opCount s + 1"] this [of "suspicionScore s"] show ?thesis
    using assms by (auto simp: RateLimit_def check_suspicion_def go_div_def Let_def not_le)
qed

section \<open>Transfers are limited\<close>

text \<open>Calls at times that do not go back, each returning after its sleep; all chunks are at most \<open>c\<close>.\<close>

fun run_limiter :: "(int \<times> int \<times> nat) list \<Rightarrow> RateLimiter \<Rightarrow> nat \<times> RateLimiter" where
  "run_limiter [] rl = (0, rl)"
| "run_limiter ((now, woke, n) # calls) rl =
     (let (total, rl) = run_limiter calls (Limit woke n rl) in (n + total, rl))"

fun timely :: "(int \<times> int \<times> nat) list \<Rightarrow> nat \<Rightarrow> int \<Rightarrow> int \<Rightarrow> RateLimiter \<Rightarrow> bool" where
  "timely [] c clk t rl = (clk \<le> t)"
| "timely ((now, woke, n) # calls) c clk t rl =
     (clk \<le> now \<and> now + limit_sleep now rl \<le> woke \<and> n \<le> c \<and> timely calls c woke t (Limit woke n rl))"

lemma run_limiter_bound:
  assumes "timely calls c clk t rl" "slotBytes rl \<le> maxBytesPerSlot rl + c" "maxBytesPerSlot rl + c < 2 ^ 64"
    and "slotStarted rl \<le> clk" "slotStarted rl \<le> t"
  shows "\<exists>k. fst (run_limiter calls rl) + slotBytes rl \<le> Suc k * (maxBytesPerSlot rl + c) \<and>
    slotStarted rl + int k * 1000000000 \<le> t"
  using assms
proof (induction calls arbitrary: clk rl)
  case Nil
  then show ?case by (intro exI [of _ 0]) simp
next
  case (Cons call calls)
  obtain now woke n where call: "call = (now, woke, n)" by (metis prod.exhaust)
  let ?rl = "Limit woke n rl"
  have t: "clk \<le> now" "now + limit_sleep now rl \<le> woke" "n \<le> c" "timely calls c woke t ?rl"
    using Cons.prems(1) call by simp_all
  have m: "maxBytesPerSlot ?rl = maxBytesPerSlot rl" by (simp add: Limit_def Let_def)
  have "timely cs c k t r \<Longrightarrow> k \<le> t" for cs k r
    by (induction cs c k t r rule: timely.induct) (auto simp: limit_sleep_def split: if_splits)
  with t(4) have wt: "woke \<le> t" by blast
  show ?case
  proof (cases "slotBytes rl > maxBytesPerSlot rl")
    case True
    then have r: "slotBytes ?rl = n" "slotStarted ?rl = woke"
      using t(3) Cons.prems(3) by (simp_all add: Limit_def u64_def)
    have w: "slotStarted rl + 1000000000 \<le> woke"
      using t(2) True by (auto simp: limit_sleep_def split: if_splits)
    obtain k where k: "fst (run_limiter calls ?rl) + n \<le> Suc k * (maxBytesPerSlot rl + c)"
      "woke + int k * 1000000000 \<le> t"
      using Cons.IH [OF t(4)] r m t(3) wt Cons.prems(3) by auto
    then show ?thesis
      using w Cons.prems(2) call by (intro exI [of _ "Suc k"]) (auto simp: case_prod_unfold Let_def algebra_simps)
  next
    case False
    then have r: "slotBytes ?rl = slotBytes rl + n" "slotStarted ?rl = slotStarted rl"
      using t(3) Cons.prems(3) by (simp_all add: Limit_def u64_def)
    moreover have "now \<le> woke" using t(2) by (auto simp: limit_sleep_def split: if_splits)
    ultimately obtain k where "fst (run_limiter calls ?rl) + (slotBytes rl + n) \<le> Suc k * (maxBytesPerSlot rl + c)"
      "slotStarted rl + int k * 1000000000 \<le> t"
      using Cons.IH [OF t(4)] m t(1,3) False Cons.prems(3-5) by auto
    then show ?thesis using call by (intro exI [of _ k]) (auto simp: case_prod_unfold Let_def algebra_simps)
  qed
qed

text \<open>
  Transfers keep to their limit.  For calls of the limiter that follow each other in time, with
  chunks of at most \<open>c\<close> bytes, the bytes let through until some time are at most the limit of one
  second plus one chunk, for each second that has begun since the limiter was made.
\<close>

theorem transfer_rate_bounded:
  assumes "timely calls c t0 t (NewRateLimiter mbits t0)" "t0 \<le> t"
    and "maxBytesPerSlot (NewRateLimiter mbits t0) + c < 2 ^ 64"
  shows "int (fst (run_limiter calls (NewRateLimiter mbits t0))) \<le>
    ((t - t0) div 1000000000 + 1) * int (maxBytesPerSlot (NewRateLimiter mbits t0) + c)"
proof -
  let ?m = "maxBytesPerSlot (NewRateLimiter mbits t0) + c"
  obtain k where k: "fst (run_limiter calls (NewRateLimiter mbits t0)) \<le> Suc k * ?m" "t0 + int k * 1000000000 \<le> t"
    using run_limiter_bound [OF assms(1) _ assms(3)] assms(2) by (auto simp: NewRateLimiter_def)
  have "int k \<le> (t - t0) div 1000000000" using zdiv_mono1 [of "int k * 1000000000" "t - t0" 1000000000] k(2) by simp
  then have "int (Suc k) * int ?m \<le> ((t - t0) div 1000000000 + 1) * int ?m" by (intro mult_right_mono) simp_all
  moreover have "int (fst (run_limiter calls (NewRateLimiter mbits t0))) \<le> int (Suc k) * int ?m"
    using k(1) by (simp only: of_nat_mult [symmetric] of_nat_le_iff)
  ultimately show ?thesis by linarith
qed

theorem transfer_rate_bounded_witness:
  "int (fst (run_limiter [(0, 0, 1000001), (5, 1000000000, 7)] (NewRateLimiter 8 0))) \<le>
     ((1000000000 - 0) div 1000000000 + 1) * int (maxBytesPerSlot (NewRateLimiter 8 0) + 2000000)"
  by (rule transfer_rate_bounded) (simp_all add: NewRateLimiter_def Limit_def limit_sleep_def u64_def)

section \<open>A coding for messages\<close>

definition uvarint_codec :: small_codec where
  "uvarint_codec = \<lparr>Pack8 = (\<lambda>b. PutUvarint (unat b)), UnpackByte = unpack_uvarint, Pack32 = (\<lambda>n. PutUvarint (unat n)),
     PackLen = (\<lambda>n. PutUvarint (unat n)),
     Next32 = (\<lambda>bs. case Uvarint bs of
        None \<Rightarrow> (Inl ''not enough data'', bs)
      | Some (v, k) \<Rightarrow> if v < 2 ^ 32 then (Inr (of_nat v), drop k bs) else (Inl ''number too big'', bs))\<rparr>"

lemma uvarint_codec_ok: "small_codec_ok uvarint_codec"
proof -
  have ne: "PutUvarint n \<noteq> []" for n by (simp add: PutUvarint.simps)
  have "(unpack_uvarint (PutUvarint (unat b)) :: string + byte \<times> nat) = Inr (b, length (PutUvarint (unat b)))" for b :: byte
    using Uvarint_Put [of "unat b" "[]"] unsigned_less [of b, where 'a = nat] by (simp add: unpack_uvarint_def)
  moreover have "unat n < 2 ^ 32" for n :: "32 word" using unsigned_less [of n, where 'a = nat] by simp
  ultimately show ?thesis using ne by (simp add: small_codec_ok_def uvarint_codec_def Uvarint_Put)
qed

theorem message_header_roundtrip_witness:
  "ParseIDType uvarint_codec (AddIDType uvarint_codec 4096 MsgTypeStop [1, 2, 3]) = (Inr (4096, MsgTypeStop), [1, 2, 3])"
  by (rule message_header_roundtrip [OF uvarint_codec_ok]) code_simp

end
