(* ===== verification/Resolver_Data.thy ===== *)
theory Resolver_Data
  imports Netenv
begin

text \<open>
  The data of the resolver, \<^verbatim>\<open>service/resolver\<close>: resource records and responses (\<^verbatim>\<open>rrcache.go\<close>), their
  form in the database (\<^verbatim>\<open>namerecord.go\<close>), resolvers and queries (\<^verbatim>\<open>resolver.go\<close>, \<^verbatim>\<open>resolve.go\<close>), the
  domains that were resolved to an address (\<^verbatim>\<open>ipinfo.go\<close>), the detection of blocked responses
  (\<^verbatim>\<open>block-detection.go\<close>), and the selection of resolvers for a query (\<^verbatim>\<open>scopes.go\<close>).

  The packages \<^verbatim>\<open>dns\<close> and \<^verbatim>\<open>publicsuffix\<close> are not part of the repository.  Their records are the type
  \<open>rr\<close>, their functions are fields of \<open>resolver_env\<close>, next to the settings of the module and what the
  operating system and the network say, as functions of the time.  Times are in nanoseconds.
\<close>

section \<open>Resource records\<close>

text \<open>The hints of \<^verbatim>\<open>SVCB\<close> and \<^verbatim>\<open>HTTPS\<close> records are the addresses of their parameters of type hint.\<close>

datatype rdata = RR_A ip | RR_AAAA ip | RR_CNAME string | RR_PTR string
  | RR_SVCB string "ip list" | RR_HTTPS string "ip list" | RR_Other string

record rr =
  rr_Name :: string
  rr_Rrtype :: nat
  rr_Class :: nat
  rr_Ttl :: "32 word"
  rr_data :: rdata

abbreviation (input) TypeA :: nat where "TypeA \<equiv> 1"
abbreviation (input) TypeSOA :: nat where "TypeSOA \<equiv> 6"
abbreviation (input) TypeNULL :: nat where "TypeNULL \<equiv> 10"
abbreviation (input) TypePTR :: nat where "TypePTR \<equiv> 12"
abbreviation (input) TypeAAAA :: nat where "TypeAAAA \<equiv> 28"
abbreviation (input) TypeOPT :: nat where "TypeOPT \<equiv> 41"
abbreviation (input) TypeSVCB :: nat where "TypeSVCB \<equiv> 64"
abbreviation (input) TypeHTTPS :: nat where "TypeHTTPS \<equiv> 65"
abbreviation (input) ClassINET :: nat where "ClassINET \<equiv> 1"
abbreviation (input) RcodeSuccess :: int where "RcodeSuccess \<equiv> 0"
abbreviation (input) RcodeServerFailure :: int where "RcodeServerFailure \<equiv> 2"
abbreviation (input) RcodeNameError :: int where "RcodeNameError \<equiv> 3"
abbreviation (input) RcodeRefused :: int where "RcodeRefused \<equiv> 5"

section \<open>Resolvers and queries\<close>

definition ServerTypeDNS :: string where "ServerTypeDNS = ''dns''"
definition ServerTypeTCP :: string where "ServerTypeTCP = ''tcp''"
definition ServerTypeDoT :: string where "ServerTypeDoT = ''dot''"
definition ServerTypeDoH :: string where "ServerTypeDoH = ''doh''"
definition ServerTypeMDNS :: string where "ServerTypeMDNS = ''mdns''"
definition ServerTypeEnv :: string where "ServerTypeEnv = ''env''"
definition ServerSourceConfigured :: string where "ServerSourceConfigured = ''config''"
definition ServerSourceOperatingSystem :: string where "ServerSourceOperatingSystem = ''system''"
definition ServerSourceMDNS :: string where "ServerSourceMDNS = ''mdns''"
definition ServerSourceEnv :: string where "ServerSourceEnv = ''env''"

record ResolverInfo =
  ri_Name :: string
  ri_Type :: string
  ri_Source :: string
  ri_IP :: ip
  ri_Domain :: string
  ri_IPScope :: IPScope
  ri_Port :: "16 word"

definition ResolverInfo_ID :: "ResolverInfo \<Rightarrow> string" where
  "ResolverInfo_ID info =
     (let port = '':'' @ Itoa (unat (ri_Port info)) @ ''#'' @ ri_Source info
      in if ri_Type info = ServerTypeMDNS then ServerTypeMDNS
         else if ri_Type info = ServerTypeEnv then ServerTypeEnv
         else if ri_Type info = ServerTypeDoH then ''https://'' @ ri_Domain info @ port
         else if ri_Type info = ServerTypeDoT then ''dot://'' @ ri_Domain info @ port
         else ri_Type info @ ''://'' @ IP_String (ri_IP info) @ port)"

definition DescriptiveName :: "ResolverInfo \<Rightarrow> string" where
  "DescriptiveName info =
     (if ri_Type info = ServerTypeMDNS then ''MDNS''
      else if ri_Type info = ServerTypeEnv then ''Portmaster Environment''
      else (if ri_Name info \<noteq> [] then ri_Name info
            else if ri_Domain info \<noteq> [] then ri_Domain info
            else IP_String (ri_IP info)) @ '' ('' @ ResolverInfo_ID info @ '')'')"

text \<open>
  The backend of a resolver.  The state of a network connection is kept under its address, as
  several lists refer to the same resolver.
\<close>

datatype resolver_conn = EnvConn | MDNSConn | NetConn nat

record Resolver =
  ConfigURL :: string
  r_Info :: ResolverInfo
  ServerAddress :: string
  UpstreamBlockDetection :: string
  r_Search :: "string list"
  SearchOnly :: bool
  r_Path :: string
  LinkLocalUnavailable :: bool
  r_Conn :: resolver_conn

record Query =
  q_FQDN :: string
  QType :: nat
  NoCaching :: bool
  ICANNSpace :: bool
  DomainRoot :: string
  dotPrefixedFQDN :: string

record Scope =
  sc_Domain :: string
  sc_Resolvers :: "Resolver list"

section \<open>Responses\<close>

record RRCache =
  rc_Domain :: string
  rc_Question :: nat
  RCode :: int
  rc_Answer :: "rr list"
  rc_Ns :: "rr list"
  rc_Extra :: "rr list"
  rc_Expires :: int
  rc_Resolver :: ResolverInfo
  ServedFromCache :: bool
  RequestingNew :: bool
  IsBackup :: bool
  Filtered :: bool
  FilteredEntries :: "string list"
  rc_Modified :: int

record dns_msg =
  m_Rcode :: int
  m_Question :: "(string \<times> nat) list"
  m_Answer :: "rr list"
  m_Ns :: "rr list"
  m_Extra :: "rr list"

text \<open>The errors of the resolver; \<open>AllFailed\<close> wraps the last error, as \<^verbatim>\<open>%w\<close> does.\<close>

datatype res_error = ErrNotFound | ErrBlocked | ErrLocalhost | ErrTimeout | ErrOffline | ErrFailure
  | ErrContinue | ErrShuttingDown | ErrTestDomainsDisabled | ErrSpecialDomainsDisabled | ErrInvalid
  | ErrNoCompliance | BlockedUpstreamError string | ErrCanceled | ErrDeadlineExceeded
  | AllFailed nat res_error | OtherError string

fun errors_Is :: "res_error \<Rightarrow> res_error \<Rightarrow> bool" where
  "errors_Is (AllFailed n err) target = (AllFailed n err = target \<or> errors_Is err target)"
| "errors_Is ErrTestDomainsDisabled target = (target \<in> {ErrTestDomainsDisabled, ErrBlocked})"
| "errors_Is ErrSpecialDomainsDisabled target = (target \<in> {ErrSpecialDomainsDisabled, ErrBlocked})"
| "errors_Is ErrInvalid target = (target \<in> {ErrInvalid, ErrNotFound})"
| "errors_Is ErrNoCompliance target = (target \<in> {ErrNoCompliance, ErrBlocked})"
| "errors_Is (BlockedUpstreamError n) target = (target \<in> {BlockedUpstreamError n, ErrBlocked})"
| "errors_Is err target = (err = target)"

record resolver_env =
  re_net :: net_env
  re_onlineStatus :: "int \<Rightarrow> nat"
  re_IsDone :: "int \<Rightarrow> bool"
  type_String :: "nat \<Rightarrow> string"
  RR_String :: "rr \<Rightarrow> string"
  dns_NewRR :: "string \<Rightarrow> rr option"
  dns_Fqdn :: "string \<Rightarrow> string"
  dns_ReverseAddr :: "string \<Rightarrow> string option"
  publicsuffix :: "string \<Rightarrow> string \<times> bool"
  noInsecureProtocols :: bool
  noAssignedNameservers :: bool
  noMulticastDNS :: bool
  dontResolveSpecialDomains :: bool
  useStaleCache :: bool
  exchange :: "Resolver \<Rightarrow> Query \<Rightarrow> int \<Rightarrow> int \<times> (res_error + dns_msg option)"
  mdns_response :: "Query \<Rightarrow> int \<Rightarrow> int \<times> (res_error + RRCache)"
  re_captivePortalIP :: ip
  re_Gateways :: "ip list"
  CompatDNSCheckInternalDomainScope :: string
  CompatSubmitDNSCheckDomain :: "string \<Rightarrow> ip option"

definition Unix :: "int \<Rightarrow> int" where
  "Unix t = t div 1000000000"

definition StatusOffline :: nat where "StatusOffline = 1"

text \<open>Online and semi-online, values 4 and 5 of the status.\<close>

definition Online :: "resolver_env \<Rightarrow> int \<Rightarrow> bool" where
  "Online env t \<longleftrightarrow> re_onlineStatus env t = 5 \<or> re_onlineStatus env t = 4"

definition Query_ID :: "resolver_env \<Rightarrow> Query \<Rightarrow> string" where
  "Query_ID env q = q_FQDN q @ type_String env (QType q)"

definition Query_check :: "resolver_env \<Rightarrow> Query \<Rightarrow> Query option" where
  "Query_check env q =
     (if q_FQDN q = [] then None
      else let fqdn = dns_Fqdn env (q_FQDN q)
           in Some (q\<lparr>q_FQDN := fqdn, dotPrefixedFQDN := (if fqdn = ''.'' then fqdn else ''.'' @ fqdn)\<rparr>))"

text \<open>The position after the last dot, \<^verbatim>\<open>strings.LastIndex(s, ".") + 1\<close>.\<close>

definition after_last_dot :: "string \<Rightarrow> nat" where
  "after_last_dot s = length s - length (takeWhile (\<lambda>c. c \<noteq> CHR ''.'') (rev s))"

text \<open>
  The slice \<^verbatim>\<open>FQDN[:len(FQDN)-len(suffix)-1]\<close> has a bound of at least 0, as the case says that the
  name is longer than its suffix.
\<close>

definition InitPublicSuffixData :: "resolver_env \<Rightarrow> Query \<Rightarrow> Query" where
  "InitPublicSuffixData env q =
     (case publicsuffix env (TrimSuffix (q_FQDN q) ''.'') of (sfx, icann) \<Rightarrow>
        let space = (if sfx \<in> {''example'', ''invalid'', ''local'', ''localhost'', ''test''} then True
                     else if sfx = ''onion'' then False
                     else icann \<or> CHR ''.'' \<in> set sfx \<or> ICANNSpace q);
            n = length sfx + 1; fqdn = q_FQDN q; q = q\<lparr>ICANNSpace := space\<rparr>
        in if length fqdn = n then q\<lparr>DomainRoot := []\<rparr>
           else if length fqdn > n
           then q\<lparr>DomainRoot := drop (after_last_dot (take (length fqdn - n - 1) fqdn)) fqdn\<rparr>
           else q)"

section \<open>Operations on responses\<close>

definition minTTL :: "32 word" where "minTTL = 60"
definition maxTTL :: "32 word" where "maxTTL = 86400"
definition refreshTTL :: int where "refreshTTL = 30"

definition Expired :: "int \<Rightarrow> RRCache \<Rightarrow> bool" where
  "Expired t c \<longleftrightarrow> rc_Expires c \<le> Unix t"

definition ExpiresSoon :: "int \<Rightarrow> RRCache \<Rightarrow> bool" where
  "ExpiresSoon t c \<longleftrightarrow> rc_Expires c \<le> Unix t + refreshTTL"

text \<open>
  The records of a response are pointers; their headers are changed in place, in all sections.
\<close>

definition lowest_ttl :: "rr list \<Rightarrow> 32 word" where
  "lowest_ttl rrs = foldl (\<lambda>low x. if low > rr_Ttl x then rr_Ttl x else low) 0xFFFFFFFF rrs"

definition set_ttls :: "rr list \<Rightarrow> rr list" where
  "set_ttls = map (\<lambda>x. x\<lparr>rr_Ttl := 17\<rparr>)"

definition cache_ttl :: "resolver_env \<Rightarrow> int \<Rightarrow> 32 word \<Rightarrow> RRCache \<Rightarrow> 32 word" where
  "cache_ttl env t minExpires c =
     (let lowestTTL = lowest_ttl (rc_Answer c @ rc_Ns c @ rc_Extra c);
          limited = (if lowestTTL < minExpires then minExpires
                     else if lowestTTL > maxTTL then maxTTL else lowestTTL)
      in if RCode c \<noteq> RcodeSuccess then 10
         else if IsConnectivityDomain (re_net env) (rc_Domain c) then 3
         else if rc_Answer c = [] then 60
         else if \<not> Online env t then 60
         else limited)"

definition Clean :: "resolver_env \<Rightarrow> int \<Rightarrow> 32 word \<Rightarrow> RRCache \<Rightarrow> RRCache" where
  "Clean env t minExpires c =
     c\<lparr>rc_Answer := set_ttls (rc_Answer c), rc_Ns := set_ttls (rc_Ns c), rc_Extra := set_ttls (rc_Extra c),
       rc_Expires := Unix t + uint (cache_ttl env t minExpires c)\<rparr>"

fun export_a :: "rr \<Rightarrow> ip list" where
  "export_a x =
     (if rr_Class x \<noteq> ClassINET then []
      else case rr_data x of
        RR_A ip \<Rightarrow> (if rr_Rrtype x = TypeA then [ip] else [])
      | RR_AAAA ip \<Rightarrow> (if rr_Rrtype x = TypeAAAA then [ip] else [])
      | _ \<Rightarrow> [])"

definition ExportAllARecords :: "RRCache \<Rightarrow> ip list" where
  "ExportAllARecords c = concat (map export_a (rc_Answer c))"

definition rcodeIsCacheable :: "int \<Rightarrow> bool" where
  "rcodeIsCacheable rCode \<longleftrightarrow> rCode \<in> {RcodeSuccess, RcodeNameError, RcodeRefused}"

definition ReplaceAnswerNames :: "string \<Rightarrow> RRCache \<Rightarrow> RRCache" where
  "ReplaceAnswerNames fqdn c =
     c\<lparr>rc_Answer := map (\<lambda>x. if rr_Name x = rc_Domain c then x\<lparr>rr_Name := fqdn\<rparr> else x) (rc_Answer c)\<rparr>"

definition Flags :: "RRCache \<Rightarrow> string" where
  "Flags c =
     (let s = (if ServedFromCache c then ''C'' else []) @ (if RequestingNew c then ''R'' else []) @
              (if IsBackup c then ''B'' else []) @ (if Filtered c then ''F'' else [])
      in if s \<noteq> [] then '' ['' @ s @ '']'' else [])"

section \<open>Responses in the database\<close>

record NameRecord =
  nr_Domain :: string
  nr_Question :: string
  nr_RCode :: int
  nr_Answer :: "string list"
  nr_Ns :: "string list"
  nr_Extra :: "string list"
  nr_Expires :: int
  nr_Resolver :: "ResolverInfo option"
  nr_meta_Modified :: int
  nr_meta_Expires :: int

definition NameRecord_IsValid :: "NameRecord \<Rightarrow> bool" where
  "NameRecord_IsValid nr = (case nr_Resolver nr of None \<Rightarrow> False | Some info \<Rightarrow> ri_Type info \<noteq> [])"

definition makeNameRecordKey :: "string \<Rightarrow> string \<Rightarrow> string" where
  "makeNameRecordKey domain question = ''cache:intel/nameRecord/'' @ domain @ question"

definition toNameRecordSection :: "resolver_env \<Rightarrow> rr list \<Rightarrow> string list" where
  "toNameRecordSection env rrs = map (RR_String env) (filter (\<lambda>x. rr_Rrtype x \<notin> {TypeOPT, TypeNULL}) rrs)"

definition ToNameRecord :: "resolver_env \<Rightarrow> RRCache \<Rightarrow> NameRecord" where
  "ToNameRecord env c =
     \<lparr>nr_Domain = rc_Domain c, nr_Question = type_String env (rc_Question c), nr_RCode = RCode c,
      nr_Answer = toNameRecordSection env (rc_Answer c), nr_Ns = toNameRecordSection env (rc_Ns c),
      nr_Extra = toNameRecordSection env (rc_Extra c), nr_Expires = rc_Expires c,
      nr_Resolver = Some (rc_Resolver c), nr_meta_Modified = 0, nr_meta_Expires = 0\<rparr>"

type_synonym name_db = "string \<rightharpoonup> NameRecord"

definition databaseOvertime :: int where "databaseOvertime = 86400 * 14"

definition NameRecord_Save :: "int \<Rightarrow> NameRecord \<Rightarrow> name_db \<Rightarrow> name_db" where
  "NameRecord_Save t nr db =
     (if nr_Domain nr = [] \<or> nr_Question nr = [] then db
      else db(makeNameRecordKey (nr_Domain nr) (nr_Question nr) \<mapsto>
             nr\<lparr>nr_meta_Modified := Unix t, nr_meta_Expires := nr_Expires nr + databaseOvertime\<rparr>))"

text \<open>An expired record is not found: the database checks the validity of its meta data.\<close>

definition GetNameRecord :: "int \<Rightarrow> string \<Rightarrow> string \<Rightarrow> name_db \<Rightarrow> NameRecord option" where
  "GetNameRecord t domain question db =
     (case db (makeNameRecordKey domain question) of
        None \<Rightarrow> None
      | Some nr \<Rightarrow>
          if nr_meta_Expires nr > 0 \<and> nr_meta_Expires nr < Unix t then None
          else if \<not> NameRecord_IsValid nr then None else Some nr)"

definition ResetCachedRecord :: "string \<Rightarrow> string \<Rightarrow> name_db \<Rightarrow> name_db" where
  "ResetCachedRecord domain question db = db(makeNameRecordKey domain question := None)"

definition parse_section :: "resolver_env \<Rightarrow> string list \<Rightarrow> rr list" where
  "parse_section env entries = List.map_filter (dns_NewRR env) entries"

definition GetRRCache :: "resolver_env \<Rightarrow> int \<Rightarrow> string \<Rightarrow> nat \<Rightarrow> name_db \<Rightarrow> RRCache option" where
  "GetRRCache env t domain question db =
     (case GetNameRecord t domain (type_String env question) db of
        None \<Rightarrow> None
      | Some nr \<Rightarrow> (case nr_Resolver nr of
          None \<Rightarrow> None
        | Some info \<Rightarrow>
            Some \<lparr>rc_Domain = domain, rc_Question = question, RCode = nr_RCode nr,
              rc_Answer = parse_section env (nr_Answer nr), rc_Ns = parse_section env (nr_Ns nr),
              rc_Extra = parse_section env (nr_Extra nr), rc_Expires = nr_Expires nr, rc_Resolver = info,
              ServedFromCache = True, RequestingNew = False, IsBackup = False, Filtered = False,
              FilteredEntries = [], rc_Modified = nr_meta_Modified nr\<rparr>))"

definition RRCache_Save :: "resolver_env \<Rightarrow> int \<Rightarrow> RRCache \<Rightarrow> name_db \<Rightarrow> name_db" where
  "RRCache_Save env t c db =
     (if rcodeIsCacheable (RCode c) then NameRecord_Save t (ToNameRecord env c) db else db)"

section \<open>Upstream blocking\<close>

definition rr_ips :: "rr \<Rightarrow> ip list" where
  "rr_ips x = (case rr_data x of RR_A ip \<Rightarrow> [ip] | RR_AAAA ip \<Rightarrow> [ip] | _ \<Rightarrow> [])"

definition zero_ip :: "ip \<Rightarrow> bool" where
  "zero_ip ip =
     (if To4 ip \<noteq> None then IP_Equal ip IPv4zero
      else IP_Equal (case To16 ip of None \<Rightarrow> [] | Some i \<Rightarrow> i) IPv6zero)"

definition isBlockedUpstream :: "Resolver \<Rightarrow> dns_msg \<Rightarrow> bool" where
  "isBlockedUpstream r answer =
     (let detection = UpstreamBlockDetection r
      in if detection = ''disabled'' then False
         else if detection = ''refused'' then m_Rcode answer = RcodeRefused
         else if detection = ''zeroip''
         then m_Rcode answer = RcodeSuccess \<and>
              (let ips = concat (map rr_ips (m_Answer answer)) in ips \<noteq> [] \<and> list_all zero_ip ips)
         else if detection = ''empty''
         then m_Rcode answer = RcodeNameError \<and> m_Ns answer = [] \<and> m_Answer answer = [] \<and> m_Extra answer = []
         else False)"

section \<open>The domains of an address\<close>

record DNSRequestContext =
  dc_Domain :: string
  dc_Question :: string
  dc_RCode :: int
  dc_ServedFromCache :: bool
  dc_RequestingNew :: bool
  dc_IsBackup :: bool
  dc_Filtered :: bool
  dc_Modified :: int
  dc_Expires :: int

text \<open>The name of the response code is kept as its number.\<close>

definition ToDNSRequestContext :: "resolver_env \<Rightarrow> RRCache \<Rightarrow> DNSRequestContext" where
  "ToDNSRequestContext env c =
     \<lparr>dc_Domain = rc_Domain c, dc_Question = type_String env (rc_Question c), dc_RCode = RCode c,
      dc_ServedFromCache = ServedFromCache c, dc_RequestingNew = RequestingNew c, dc_IsBackup = IsBackup c,
      dc_Filtered = Filtered c, dc_Modified = rc_Modified c, dc_Expires = rc_Expires c\<rparr>"

record ResolvedDomain =
  rs_Domain :: string
  rs_CNAMEs :: "string list"
  rs_Resolver :: ResolverInfo
  rs_Context :: DNSRequestContext
  rs_Expires :: int

text \<open>The loop of \<^verbatim>\<open>AddCNAMEs\<close> with the number of rounds that are left.\<close>

fun cname_chain :: "nat \<Rightarrow> string \<Rightarrow> (string \<rightharpoonup> string) \<Rightarrow> string \<Rightarrow> string list" where
  "cname_chain 0 start cnames domain = []"
| "cname_chain (Suc n) start cnames domain =
     (case cnames domain of
        None \<Rightarrow> []
      | Some nextDomain \<Rightarrow>
          if nextDomain = start \<or> nextDomain = domain then []
          else nextDomain # cname_chain n start cnames nextDomain)"

definition AddCNAMEs :: "(string \<rightharpoonup> string) \<Rightarrow> ResolvedDomain \<Rightarrow> ResolvedDomain" where
  "AddCNAMEs cnames rd =
     rd\<lparr>rs_CNAMEs := rs_CNAMEs rd @ cname_chain 50 (rs_Domain rd) cnames (rs_Domain rd)\<rparr>"

definition ResolvedDomain_String :: "ResolvedDomain \<Rightarrow> string" where
  "ResolvedDomain_String rd =
     rs_Domain rd @ (if rs_CNAMEs rd \<noteq> [] then '' (-> '' @ Join (rs_CNAMEs rd) ''->'' @ '')'' else [])"

definition ResolvedDomains_String :: "ResolvedDomain list \<Rightarrow> string" where
  "ResolvedDomains_String rds = Join (map ResolvedDomain_String rds) '' or ''"

record IPInfo =
  ii_IP :: string
  ii_ProfileID :: string
  ResolvedDomains :: "ResolvedDomain list"
  ii_Key :: "string option"
  ii_meta_Expires :: int

text \<open>Only the first entry for the domain is deleted.\<close>

fun delete_domain :: "string \<Rightarrow> ResolvedDomain list \<Rightarrow> ResolvedDomain list" where
  "delete_domain domain [] = []"
| "delete_domain domain (d # ds) = (if rs_Domain d = domain then ds else d # delete_domain domain ds)"

definition AddDomain :: "ResolvedDomain \<Rightarrow> IPInfo \<Rightarrow> IPInfo" where
  "AddDomain resolved info =
     info\<lparr>ResolvedDomains := delete_domain (rs_Domain resolved) (ResolvedDomains info) @ [resolved]\<rparr>"

definition MostRecentDomain :: "IPInfo \<Rightarrow> ResolvedDomain option" where
  "MostRecentDomain info =
     (if ResolvedDomains info = [] then None else Some (last (ResolvedDomains info)))"

definition makeIPInfoKey :: "string \<Rightarrow> string \<Rightarrow> string" where
  "makeIPInfoKey profileID ip = ''cache:intel/ipInfo/'' @ profileID @ ''/'' @ ip"

type_synonym ip_db = "string \<rightharpoonup> IPInfo"

definition resolver_GetIPInfo :: "int \<Rightarrow> string \<Rightarrow> string \<Rightarrow> ip_db \<Rightarrow> IPInfo option" where
  "resolver_GetIPInfo t profileID ip db =
     (case db (makeIPInfoKey profileID ip) of
        None \<Rightarrow> None
      | Some info \<Rightarrow> if ii_meta_Expires info > 0 \<and> ii_meta_Expires info < Unix t then None else Some info)"

definition IPInfo_Save :: "int \<Rightarrow> IPInfo \<Rightarrow> ip_db \<Rightarrow> ip_db" where
  "IPInfo_Save t info db =
     (let info = (case ii_Key info of
                    Some key \<Rightarrow> info
                  | None \<Rightarrow>
                      let profileID = (if ii_ProfileID info = [] then ''global'' else ii_ProfileID info)
                      in info\<lparr>ii_ProfileID := profileID, ii_Key := Some (makeIPInfoKey profileID (ii_IP info))\<rparr>);
          expires = foldl (\<lambda>ex rd. if rs_Expires rd > ex then rs_Expires rd else ex) (Unix t + 86400)
                      (ResolvedDomains info)
      in db(the (ii_Key info) \<mapsto> info\<lparr>ii_meta_Expires := expires + 3600\<rparr>))"

section \<open>The state of the resolver\<close>

text \<open>
  The lists of resolvers, the connections behind them, the cached responses and the log of the
  queries that were sent.  The log and the clock are not part of the code.
\<close>

record basic_conn =
  failing :: bool
  failingStarted :: "int option"
  fails :: int

record resolver_state =
  now :: int
  res_net :: net_state
  globalResolvers :: "Resolver list"
  localResolvers :: "Resolver list"
  systemResolvers :: "Resolver list"
  localScopes :: "Scope list"
  activeResolvers :: "string \<rightharpoonup> Resolver"
  currentResolverConfig :: "string list"
  resolverInitDomains :: "string set"
  conns :: "nat \<Rightarrow> basic_conn"
  nextConn :: nat
  name_cache :: name_db
  cacheResetID :: string
  cacheResetSeenCnt :: int
  ConnectedToDNS :: bool
  isDisabled :: bool
  failingNotification :: bool
  async_queries :: "Query list"
  asked :: "(Resolver \<times> Query) list"

end
