(* ===== verification/Resolver.thy ===== *)
theory Resolver
  imports Resolver_Data
begin

text \<open>
  Resolving a query, \<^verbatim>\<open>service/resolver\<close>: which resolvers may be asked (\<^verbatim>\<open>scopes.go\<close>), the backends
  (\<^verbatim>\<open>resolver-plain.go\<close>, \<^verbatim>\<open>resolver-tcp.go\<close>, \<^verbatim>\<open>resolver-https.go\<close>, \<^verbatim>\<open>resolver-env.go\<close>), failing resolvers
  (\<^verbatim>\<open>failing.go\<close>), the cache and the loop over the resolvers (\<^verbatim>\<open>resolve.go\<close>).

  What a server or the multicast group replies, and how long that takes, is the environment; the
  clock of the state moves with it.  Hints to the network environment are left out, except for the
  flag \<open>ConnectedToDNS\<close>; a notification is the flag that it is shown.  The cache is the database with the responses that were saved.
  A query that is started in the background is put into \<open>async_queries\<close>.  When a request waits for
  another one for the same name, the argument \<open>others\<close> of \<open>Resolve\<close> is what happens meanwhile.
\<close>

section \<open>Domain scopes\<close>

definition localhostDomain :: string where "localhostDomain = ''.localhost.''"
definition invalidDomain :: string where "invalidDomain = ''.invalid.''"
definition InternalSpecialUseDomain :: string where "InternalSpecialUseDomain = ''portmaster.home.arpa.''"

definition internalSpecialUseDomains :: "string list" where
  "internalSpecialUseDomains = [''.'' @ InternalSpecialUseDomain]"

definition multicastDomains :: "string list" where
  "multicastDomains =
     [''.local.'', ''.254.169.in-addr.arpa.'', ''.8.e.f.ip6.arpa.'', ''.9.e.f.ip6.arpa.'',
      ''.a.e.f.ip6.arpa.'', ''.b.e.f.ip6.arpa.'']"

definition specialUseDomains :: "string list" where
  "specialUseDomains =
     [''.home.arpa.'', ''.intranet.'', ''.internal.'', ''.private.'', ''.corp.'', ''.home.'', ''.lan.'',
      ''.10.in-addr.arpa.'', ''.16.172.in-addr.arpa.'', ''.17.172.in-addr.arpa.'',
      ''.18.172.in-addr.arpa.'', ''.19.172.in-addr.arpa.'', ''.20.172.in-addr.arpa.'',
      ''.21.172.in-addr.arpa.'', ''.22.172.in-addr.arpa.'', ''.23.172.in-addr.arpa.'',
      ''.24.172.in-addr.arpa.'', ''.25.172.in-addr.arpa.'', ''.26.172.in-addr.arpa.'',
      ''.27.172.in-addr.arpa.'', ''.28.172.in-addr.arpa.'', ''.29.172.in-addr.arpa.'',
      ''.30.172.in-addr.arpa.'', ''.31.172.in-addr.arpa.'', ''.168.192.in-addr.arpa.'',
      ''.d.f.ip6.arpa.'', ''.c.f.ip6.arpa.'',
      ''.example.'', ''.example.com.'', ''.example.net.'', ''.example.org.'', ''.test.'']"

definition specialServiceDomains :: "string list" where
  "specialServiceDomains =
     [''.onion.'', ''.i2p.'', ''.loki.'', ''.bit.'', ''.eth.'',
      ''.888.'', ''.bitcoin.'', ''.coin.'', ''.crypto.'', ''.dao.'', ''.nft.'', ''.wallet.'', ''.x.'', ''.zil.'',
      ''.bazar.'', ''.coin.'', ''.emc.'', ''.lib.'',
      ''.bbs.'', ''.chan.'', ''.dyn.'', ''.free.'', ''.fur.'', ''.geek.'', ''.glue.'', ''.gopher.'', ''.indy.'',
      ''.libre.'', ''.neo.'', ''.null.'', ''.o.'', ''.oss.'', ''.oz.'', ''.parody.'', ''.pirate.'',
      ''.ku.'', ''.te.'', ''.ti.'', ''.uu.'']"

definition domainInScope :: "string \<Rightarrow> string list \<Rightarrow> bool" where
  "domainInScope fqdn scopeList \<longleftrightarrow> list_ex (HasSuffix fqdn) scopeList"

definition mDNSResolver :: Resolver where
  "mDNSResolver =
     \<lparr>ConfigURL = ServerSourceMDNS,
      r_Info = \<lparr>ri_Name = [], ri_Type = ServerTypeMDNS, ri_Source = ServerSourceMDNS, ri_IP = [],
        ri_Domain = [], ri_IPScope = SiteLocal, ri_Port = 0\<rparr>,
      ServerAddress = [], UpstreamBlockDetection = [], r_Search = [], SearchOnly = False, r_Path = [],
      LinkLocalUnavailable = False, r_Conn = MDNSConn\<rparr>"

definition envResolver :: Resolver where
  "envResolver =
     \<lparr>ConfigURL = ServerSourceEnv,
      r_Info = \<lparr>ri_Name = [], ri_Type = ServerTypeEnv, ri_Source = ServerSourceEnv, ri_IP = [],
        ri_Domain = [], ri_IPScope = SiteLocal, ri_Port = 0\<rparr>,
      ServerAddress = [], UpstreamBlockDetection = [], r_Search = [], SearchOnly = False, r_Path = [],
      LinkLocalUnavailable = False, r_Conn = EnvConn\<rparr>"

definition checkCompliance :: "resolver_env \<Rightarrow> Resolver \<Rightarrow> Query \<Rightarrow> string option" where
  "checkCompliance env r q =
     (let info = r_Info r
      in if noInsecureProtocols env \<and> ri_Type info \<notin> {ServerTypeDoT, ServerTypeDoH, ServerTypeEnv}
         then Some ''insecure protocols disabled''
         else if noAssignedNameservers env \<and> ri_Source info = ServerSourceOperatingSystem
         then Some ''assigned (dhcp) nameservers disabled''
         else if noMulticastDNS env \<and> ri_Source info = ServerSourceMDNS
         then Some ''multicast DNS disabled''
         else if SearchOnly r \<and> \<not> domainInScope (dotPrefixedFQDN q) (r_Search r)
         then Some ''query out of scope for resolver''
         else None)"

definition Query_checkCompliance :: "resolver_env \<Rightarrow> Query \<Rightarrow> res_error option" where
  "Query_checkCompliance env q =
     (if HasSuffix (dotPrefixedFQDN q) invalidDomain then Some ErrNotFound
      else if HasSuffix (dotPrefixedFQDN q) localhostDomain
      then if QType q = TypeA \<or> QType q = TypeAAAA then Some ErrLocalhost else Some ErrNotFound
      else if dontResolveSpecialDomains env \<and> domainInScope (dotPrefixedFQDN q) specialServiceDomains
      then Some ErrSpecialDomainsDisabled
      else None)"

fun addResolvers :: "resolver_env \<Rightarrow> string set \<Rightarrow> Query \<Rightarrow> Resolver list \<Rightarrow> Resolver list \<Rightarrow> Resolver list" where
  "addResolvers env initDomains q selected [] = selected"
| "addResolvers env initDomains q selected (r # rs) =
     (if checkCompliance env r q \<noteq> None \<or>
         (\<exists>x\<in>set selected. ResolverInfo_ID (r_Info x) = ResolverInfo_ID (r_Info r)) \<or>
         ri_Source (r_Info r) = ServerSourceConfigured \<and> ri_IP (r_Info r) = [] \<and> q_FQDN q \<in> initDomains
      then addResolvers env initDomains q selected rs
      else addResolvers env initDomains q (selected @ [r]) rs)"

text \<open>The resolvers of all matching search scopes.\<close>

definition scope_resolvers :: "resolver_env \<Rightarrow> string set \<Rightarrow> Query \<Rightarrow> Scope list \<Rightarrow> Resolver list \<Rightarrow> Resolver list" where
  "scope_resolvers env d q scs sel =
     foldl (\<lambda>sel sc. if HasSuffix (dotPrefixedFQDN q) (sc_Domain sc) then addResolvers env d q sel (sc_Resolvers sc) else sel)
       sel scs"

definition GetResolversInScope ::
    "resolver_env \<Rightarrow> Query \<Rightarrow> resolver_state \<Rightarrow> Resolver list \<times> string \<times> bool" where
  "GetResolversInScope env q s =
     (let add = addResolvers env (resolverInitDomains s) q; fqdn = dotPrefixedFQDN q
      in if domainInScope fqdn internalSpecialUseDomains then ([envResolver], ServerSourceEnv, False)
         else if IsConnectivityDomain (re_net env) (q_FQDN q) \<and> systemResolvers s \<noteq> []
         then let selected = add [] (systemResolvers s);
                  selected = (if selected = [] then add (add selected (localResolvers s)) (globalResolvers s)
                              else selected)
              in (selected, ServerSourceOperatingSystem, False)
         else let selected = scope_resolvers env (resolverInitDomains s) q (localScopes s) []
              in if domainInScope fqdn multicastDomains
                 then (add (add (add selected [mDNSResolver]) (localResolvers s)) (systemResolvers s),
                       ServerSourceMDNS, True)
                 else if domainInScope fqdn specialUseDomains \<or> domainInScope fqdn specialServiceDomains
                 then (add selected (localResolvers s), ''special'', True)
                 else (add selected (globalResolvers s), ServerSourceConfigured, False))"

section \<open>Backends\<close>

definition IPsToRRs :: "resolver_env \<Rightarrow> string \<Rightarrow> ip list \<Rightarrow> rr list option" where
  "IPsToRRs env domain ips =
     those (map (\<lambda>ip. dns_NewRR env (domain @ (if To4 ip \<noteq> None then '' 17 IN A '' else '' 17 IN AAAA '') @
                                     IP_String ip)) ips)"

definition routerDomain :: string where
  "routerDomain = ''router.local.'' @ InternalSpecialUseDomain"

definition res_captivePortalDomain :: string where
  "res_captivePortalDomain = ''captiveportal.local.'' @ InternalSpecialUseDomain"

definition PortalTestIP :: ip where "PortalTestIP = v4InV6Prefix @ [192, 0, 2, 1]"

definition internalSpecialUseSOA :: "resolver_env \<Rightarrow> rr list" where
  "internalSpecialUseSOA env =
     (case dns_NewRR env (InternalSpecialUseDomain @ '' 17 IN SOA localhost. none.localhost. 0 0 0 0 0'') of
        None \<Rightarrow> [] | Some x \<Rightarrow> [x])"

definition internalSpecialUseComment :: "resolver_env \<Rightarrow> rr list" where
  "internalSpecialUseComment env =
     (case dns_NewRR env (InternalSpecialUseDomain @
             '' 17 IN TXT '' @ [CHR 0x22] @ ''This is a special use TLD of the Portmaster.'' @ [CHR 0x22]) of
        None \<Rightarrow> [] | Some x \<Rightarrow> [x])"

definition new_RRCache :: "Query \<Rightarrow> dns_msg \<Rightarrow> ResolverInfo \<Rightarrow> RRCache" where
  "new_RRCache q reply info =
     \<lparr>rc_Domain = q_FQDN q, rc_Question = QType q, RCode = m_Rcode reply, rc_Answer = m_Answer reply,
      rc_Ns = m_Ns reply, rc_Extra = m_Extra reply, rc_Expires = 0, rc_Resolver = info,
      ServedFromCache = False, RequestingNew = False, IsBackup = False, Filtered = False,
      FilteredEntries = [], rc_Modified = 0\<rparr>"

definition makeRRCache :: "resolver_env \<Rightarrow> Query \<Rightarrow> rr list \<Rightarrow> RRCache" where
  "makeRRCache env q answers =
     new_RRCache q \<lparr>m_Rcode = (if answers = [] then RcodeNameError else RcodeSuccess), m_Question = [],
       m_Answer = answers, m_Ns = [], m_Extra = internalSpecialUseComment env\<rparr> (r_Info envResolver)"

definition env_records :: "resolver_env \<Rightarrow> Query \<Rightarrow> ip list \<Rightarrow> RRCache" where
  "env_records env q ips =
     (case IPsToRRs env (q_FQDN q) ips of None \<Rightarrow> makeRRCache env q [] | Some rrs \<Rightarrow> makeRRCache env q rrs)"

text \<open>The environment resolver answers on its own; it turns off caching for the query.\<close>

definition env_Query :: "resolver_env \<Rightarrow> Query \<Rightarrow> RRCache" where
  "env_Query env q =
     (let noMatch = (makeRRCache env q [])\<lparr>rc_Ns := internalSpecialUseSOA env\<rparr>;
          scope = CompatDNSCheckInternalDomainScope env
      in if QType q = TypeA \<or> QType q = TypeAAAA
         then if q_FQDN q = res_captivePortalDomain
              then env_records env q [if re_captivePortalIP env = [] then PortalTestIP else re_captivePortalIP env]
              else if q_FQDN q = routerDomain
              then if re_Gateways env = [] then makeRRCache env q [] else env_records env q (re_Gateways env)
              else if HasSuffix (q_FQDN q) scope
              then (case CompatSubmitDNSCheckDomain env (TrimSuffix (q_FQDN q) scope) of
                      Some ip \<Rightarrow> if QType q = TypeA then env_records env q [ip] else noMatch
                    | None \<Rightarrow> noMatch)
              else noMatch
         else if QType q = TypeSOA \<and> q_FQDN q = InternalSpecialUseDomain
         then makeRRCache env q (internalSpecialUseSOA env)
         else noMatch)"

text \<open>
  The network backends after the exchange with the server.  Only the plain and the TCP resolver look
  for upstream blocking; a TCP connection that is closed gives no reply.
\<close>

definition net_Query :: "resolver_env \<Rightarrow> Resolver \<Rightarrow> Query \<Rightarrow> int \<Rightarrow> int \<times> (res_error + RRCache option)" where
  "net_Query env r q t =
     (case exchange env r q t of (duration, result) \<Rightarrow>
        (duration,
         case result of
           Inl err \<Rightarrow> Inl err
         | Inr None \<Rightarrow> Inl ErrFailure
         | Inr (Some reply) \<Rightarrow>
             if ri_Type (r_Info r) \<noteq> ServerTypeDoH \<and> isBlockedUpstream r reply
             then Inl (BlockedUpstreamError (DescriptiveName (r_Info r)))
             else Inr (Some (new_RRCache q reply (r_Info r)))))"

definition Conn_Query ::
    "resolver_env \<Rightarrow> Resolver \<Rightarrow> Query \<Rightarrow> resolver_state \<Rightarrow> (res_error + RRCache option) \<times> Query \<times> resolver_state" where
  "Conn_Query env r q s =
     (let s = s\<lparr>asked := asked s @ [(r, q)]\<rparr>
      in case r_Conn r of
           EnvConn \<Rightarrow> (Inr (Some (env_Query env q)), q\<lparr>NoCaching := True\<rparr>, s)
         | MDNSConn \<Rightarrow> (case mdns_response env q (now s) of (duration, result) \<Rightarrow>
             (map_sum id Some result, q, s\<lparr>now := now s + duration\<rparr>))
         | NetConn a \<Rightarrow> (case net_Query env r q (now s) of (duration, result) \<Rightarrow>
             (result, q, s\<lparr>now := now s + duration\<rparr>)))"

section \<open>Failing resolvers\<close>

definition FailThreshold :: int where "FailThreshold = 5"
definition FailObserveDuration :: int where "FailObserveDuration = FailThreshold * 10 * 1000000000"

definition IsFailing :: "resolver_state \<Rightarrow> Resolver \<Rightarrow> bool" where
  "IsFailing s r = (case r_Conn r of NetConn a \<Rightarrow> failing (conns s a) | _ \<Rightarrow> False)"

definition report_failure :: "int \<Rightarrow> basic_conn \<Rightarrow> basic_conn" where
  "report_failure t c =
     (case failingStarted c of
        Some started \<Rightarrow>
          if t - started > FailObserveDuration then c\<lparr>fails := 1, failingStarted := Some t\<rparr>
          else c\<lparr>fails := fails c + 1, failing := (fails c + 1 > FailThreshold \<or> failing c)\<rparr>
      | None \<Rightarrow> c\<lparr>fails := 1, failingStarted := Some t\<rparr>)"

text \<open>Only a failure within the observation period is reported to the network environment.\<close>

definition ReportFailure :: "resolver_env \<Rightarrow> Resolver \<Rightarrow> resolver_state \<Rightarrow> resolver_state" where
  "ReportFailure env r s =
     (case r_Conn r of
        NetConn a \<Rightarrow>
          if \<not> Online env (now s) \<or> failing (conns s a) then s
          else let c = conns s a;
                   observed = (case failingStarted c of None \<Rightarrow> False
                               | Some started \<Rightarrow> now s - started \<le> FailObserveDuration);
                   s = s\<lparr>conns := (conns s)(a := report_failure (now s) c)\<rparr>
               in if observed \<and> ri_Source (r_Info r) = ServerSourceConfigured
                  then s\<lparr>ConnectedToDNS := False\<rparr> else s
      | _ \<Rightarrow> s)"

definition ResetFailure :: "Resolver \<Rightarrow> resolver_state \<Rightarrow> resolver_state" where
  "ResetFailure r s =
     (case r_Conn r of
        NetConn a \<Rightarrow>
          let s = (if failing (conns s a)
                   then s\<lparr>conns := (conns s)(a := \<lparr>failing = False, failingStarted = None, fails = 0\<rparr>)\<rparr> else s)
          in if ri_Source (r_Info r) = ServerSourceConfigured then s\<lparr>ConnectedToDNS := True\<rparr> else s
      | _ \<Rightarrow> s)"

definition allConfiguredResolversAreFailing :: "resolver_state \<Rightarrow> bool" where
  "allConfiguredResolversAreFailing s =
     (if currentResolverConfig s = [] then False
      else \<not> (\<exists>r\<in>set (globalResolvers s). \<not> IsFailing s r \<and> ri_Source (r_Info r) = ServerSourceConfigured))"

definition notifyAboutFailingResolvers :: "resolver_state \<Rightarrow> resolver_state" where
  "notifyAboutFailingResolvers s = s\<lparr>failingNotification := True\<rparr>"

definition resetFailingResolversNotification :: "resolver_state \<Rightarrow> resolver_state" where
  "resetFailingResolversNotification s = s\<lparr>failingNotification := False\<rparr>"

section \<open>The cache\<close>

definition shouldResetCache :: "resolver_env \<Rightarrow> Query \<Rightarrow> resolver_state \<Rightarrow> bool \<times> resolver_state" where
  "shouldResetCache env q s =
     (let qID = Query_ID env q
      in if qID \<noteq> cacheResetID s then (False, s\<lparr>cacheResetID := qID, cacheResetSeenCnt := 1\<rparr>)
         else if cacheResetSeenCnt s + 1 \<ge> 3 then (True, s\<lparr>cacheResetSeenCnt := -7\<rparr>)
         else (False, s\<lparr>cacheResetSeenCnt := cacheResetSeenCnt s + 1\<rparr>))"

definition startAsyncQuery :: "Query \<Rightarrow> RRCache \<Rightarrow> resolver_state \<Rightarrow> RRCache \<times> resolver_state" where
  "startAsyncQuery q c s =
     (if RequestingNew c then (c, s)
      else (c\<lparr>RequestingNew := True\<rparr>, s\<lparr>async_queries := async_queries s @ [q]\<rparr>))"

definition checkCache :: "resolver_env \<Rightarrow> Query \<Rightarrow> resolver_state \<Rightarrow> RRCache option \<times> resolver_state" where
  "checkCache env q s =
     (if IsConnectivityDomain (re_net env) (q_FQDN q) then (None, s)
      else case GetRRCache env (now s) (q_FQDN q) (QType q) (name_cache s) of
        None \<Rightarrow> (None, s)
      | Some c \<Rightarrow> (case activeResolvers s (ResolverInfo_ID (rc_Resolver c)) of
          None \<Rightarrow> (None, s)
        | Some r \<Rightarrow>
            if checkCompliance env r q \<noteq> None then (None, s)
            else case shouldResetCache env q s of (reset, s) \<Rightarrow>
              if reset
              then (None, s\<lparr>name_cache := ResetCachedRecord (q_FQDN q) (type_String env (QType q)) (name_cache s)\<rparr>)
              else if Expired (now s) c then (if RCode c = RcodeSuccess then Some c else None, s)
              else if ExpiresSoon (now s) c
              then (case startAsyncQuery q c s of (c, s) \<Rightarrow> (Some c, s))
              else (Some c, s)))"

section \<open>Asking the resolvers\<close>

definition DNSTestDomain :: string where "DNSTestDomain = ''online-check.safing.io.''"

definition DNSTestExpectedIP :: ip where "DNSTestExpectedIP = v4InV6Prefix @ [0, 65, 67, 75]"

definition offline_for :: "resolver_env \<Rightarrow> Query \<Rightarrow> resolver_state \<Rightarrow> bool" where
  "offline_for env q s \<longleftrightarrow> re_onlineStatus env (now s) = StatusOffline \<and> q_FQDN q \<noteq> DNSTestDomain \<and>
     \<not> IsConnectivityDomain (re_net env) (q_FQDN q)"

text \<open>
  How the loop goes on after an error: return the error, return the old response with the error that
  the device is offline, or try the next resolver, with or without reporting a failure.
\<close>

datatype after_error = ReturnError | ReturnOffline | TryNext | ReportAndTryNext

definition on_error :: "resolver_env \<Rightarrow> Query \<Rightarrow> bool \<Rightarrow> res_error \<Rightarrow> resolver_state \<Rightarrow> after_error" where
  "on_error env q tryAll err s =
     (if errors_Is err ErrNotFound then (if tryAll then TryNext else ReturnError)
      else if errors_Is err ErrBlocked then ReturnError
      else if offline_for env q s then ReturnOffline
      else if errors_Is err ErrContinue then TryNext
      else if errors_Is err ErrTimeout then ReportAndTryNext
      else if errors_Is err ErrCanceled \<or> errors_Is err ErrDeadlineExceeded \<or> errors_Is err ErrShuttingDown
      then ReturnError
      else ReportAndTryNext)"

datatype loop_end = Return "RRCache option" "res_error option" | LoopDone "RRCache option" "res_error option"

text \<open>
  The loop over the resolvers, with the response and the error of the round before.  It returns how
  it ended, whether a failure was reported, and the query, which a backend may change.
\<close>

fun query_loop ::
    "resolver_env \<Rightarrow> string \<Rightarrow> bool \<Rightarrow> RRCache option \<Rightarrow> Resolver list \<Rightarrow> RRCache option \<times> res_error option \<Rightarrow>
     bool \<Rightarrow> Query \<Rightarrow> resolver_state \<Rightarrow> loop_end \<times> bool \<times> Query \<times> resolver_state" where
  "query_loop env source tryAll old [] (c, err) reported q s = (LoopDone c err, reported, q, s)"
| "query_loop env source tryAll old (r # rs) (c, err) reported q s =
     (if re_IsDone env (now s) then (Return None (Some ErrShuttingDown), reported, q, s)
      else if IsFailing s r \<or> LinkLocalUnavailable r then query_loop env source tryAll old rs (c, err) reported q s
      else case Conn_Query env r q s of (result, q, s) \<Rightarrow>
        (case result of
           Inl err \<Rightarrow>
             (case on_error env q tryAll err s of
                ReturnError \<Rightarrow> (Return None (Some err), reported, q, s)
              | ReturnOffline \<Rightarrow> (Return old (Some ErrOffline), reported, q, s)
              | TryNext \<Rightarrow> query_loop env source tryAll old rs (None, Some err) reported q s
              | ReportAndTryNext \<Rightarrow>
                  query_loop env source tryAll old rs (None, Some err) True q (ReportFailure env r s))
         | Inr None \<Rightarrow> query_loop env source tryAll old rs (None, None) reported q s
         | Inr (Some c) \<Rightarrow>
             if RCode c \<noteq> RcodeSuccess \<and> tryAll
             then query_loop env source tryAll old rs (Some c, None) reported q s
             else let s = ResetFailure r s;
                      s = (if source = ServerSourceConfigured \<and> \<not> allConfiguredResolversAreFailing s
                           then resetFailingResolversNotification s else s)
                  in (LoopDone (Some c) None, reported, q, s)))"

text \<open>The deferred report at the end.\<close>

definition report_failing :: "resolver_env \<Rightarrow> string \<Rightarrow> bool \<Rightarrow> resolver_state \<Rightarrow> resolver_state" where
  "report_failing env source reported s =
     (if reported \<and> Online env (now s) \<and> source = ServerSourceConfigured \<and> allConfiguredResolversAreFailing s
      then notifyAboutFailingResolvers s else s)"

text \<open>After the loop: the old response instead of an error, or the new one, cleaned and saved.\<close>

definition finish_query ::
    "resolver_env \<Rightarrow> RRCache option \<Rightarrow> nat \<Rightarrow> RRCache option \<Rightarrow> res_error option \<Rightarrow> Query \<Rightarrow> resolver_state \<Rightarrow>
     (RRCache option \<times> res_error option) \<times> resolver_state" where
  "finish_query env old n c err q s =
     (case (case err of Some e \<Rightarrow> Inl e | None \<Rightarrow> (case c of None \<Rightarrow> Inl ErrNotFound | Some c \<Rightarrow> Inr c)) of
        Inl err \<Rightarrow>
          (case old of
             Some oldCache \<Rightarrow> ((Some (oldCache\<lparr>IsBackup := True\<rparr>), None), s)
           | None \<Rightarrow> ((None, Some (AllFailed n err)), s))
      | Inr c \<Rightarrow>
          let c = Clean env (now s) minTTL c;
              s = (if \<not> NoCaching q \<and> rcodeIsCacheable (RCode c)
                   then s\<lparr>name_cache := RRCache_Save env (now s) c (name_cache s)\<rparr> else s)
          in ((Some c, None), s))"

definition resolveAndCache ::
    "resolver_env \<Rightarrow> Query \<Rightarrow> RRCache option \<Rightarrow> resolver_state \<Rightarrow> (RRCache option \<times> res_error option) \<times> resolver_state" where
  "resolveAndCache env q old s =
     (case GetResolversInScope env q s of (resolvers, source, tryAll) \<Rightarrow>
        if resolvers = [] then ((None, Some ErrNoCompliance), s)
        else if source \<noteq> ServerSourceEnv \<and> offline_for env q s then ((old, Some ErrOffline), s)
        else case query_loop env source tryAll old resolvers (None, None) False q s of (outcome, reported, q, s) \<Rightarrow>
          (case outcome of
             Return c err \<Rightarrow> ((c, err), report_failing env source reported s)
           | LoopDone c err \<Rightarrow>
               (case finish_query env old (length resolvers) c err q s of (result, s) \<Rightarrow>
                  (result, report_failing env source reported s))))"

definition usable_cache :: "resolver_env \<Rightarrow> RRCache option \<Rightarrow> resolver_state \<Rightarrow> bool" where
  "usable_cache env c s = (case c of None \<Rightarrow> False | Some c \<Rightarrow> \<not> Expired (now s) c \<or> useStaleCache env)"

definition Resolve ::
    "resolver_env \<Rightarrow> (resolver_state \<Rightarrow> resolver_state) option \<Rightarrow> Query \<Rightarrow> resolver_state \<Rightarrow>
     (RRCache option \<times> res_error option) \<times> resolver_state" where
  "Resolve env others q s =
     (case Query_check env q of
        None \<Rightarrow> ((None, Some ErrInvalid), s)
      | Some q \<Rightarrow> (case Query_checkCompliance env q of
          Some err \<Rightarrow> ((None, Some err), s)
        | None \<Rightarrow>
            if NoCaching q then resolveAndCache env q None s
            else case checkCache env q s of (c, s) \<Rightarrow>
              if usable_cache env c s
              then (case c of
                      None \<Rightarrow> ((None, None), s)
                    | Some c \<Rightarrow>
                        if \<not> Expired (now s) c then ((Some c, None), s)
                        else (case startAsyncQuery q c s of (c, s) \<Rightarrow> ((Some c, None), s)))
              else (case others of
                      None \<Rightarrow> resolveAndCache env q c s
                    | Some f \<Rightarrow> (case checkCache env q (f s) of (c, s) \<Rightarrow>
                        if usable_cache env c s then ((c, None), s) else resolveAndCache env q c s))))"

text \<open>A query in the background.\<close>

definition run_async :: "resolver_env \<Rightarrow> resolver_state \<Rightarrow> resolver_state" where
  "run_async env s =
     (case async_queries s of
        [] \<Rightarrow> s
      | q # qs \<Rightarrow> snd (resolveAndCache env q None (s\<lparr>async_queries := qs\<rparr>)))"

section \<open>Connectivity tests and reverse lookups\<close>

definition interpret_test ::
    "RRCache option \<times> res_error option \<Rightarrow> (ip list \<times> bool \<times> res_error option) go" where
  "interpret_test result =
     (case result of
        (c, None) \<Rightarrow> (case c of
          None \<Rightarrow> Inl NilDereference
        | Some c \<Rightarrow>
            if RCode c = RcodeNameError then Inr ([], True, Some ErrNotFound)
            else if RCode c = RcodeRefused then Inr ([], True, Some (OtherError ''refused''))
            else let ips = ExportAllARecords c
                 in if ips \<noteq> [] then Inr (ips, True, None) else Inr ([], True, Some ErrNotFound))
      | (_, Some err) \<Rightarrow>
          Inr ([], errors_Is err ErrNotFound \<or> errors_Is err ErrNoCompliance \<or> errors_Is err ErrBlocked, Some err))"

definition test_query :: "resolver_env \<Rightarrow> string \<Rightarrow> Query option" where
  "test_query env fqdn =
     Query_check env \<lparr>q_FQDN = fqdn, QType = TypeA, NoCaching = True, ICANNSpace = False, DomainRoot = [],
       dotPrefixedFQDN = []\<rparr>"

definition testConnectivity ::
    "resolver_env \<Rightarrow> string \<Rightarrow> Resolver option \<Rightarrow> resolver_state \<Rightarrow>
     ((ip list \<times> bool \<times> res_error option) \<times> resolver_state) go" where
  "testConnectivity env fqdn r s =
     (case test_query env fqdn of
        None \<Rightarrow> Inr (([], False, Some ErrInvalid), s)
      | Some q \<Rightarrow>
          (case (case r of
                   Some r \<Rightarrow> (case Conn_Query env r q s of (result, q, s) \<Rightarrow>
                     (case result of Inl err \<Rightarrow> (None, Some err) | Inr c \<Rightarrow> (c, None), s))
                 | None \<Rightarrow> resolveAndCache env q None s) of
             (result, s) \<Rightarrow> bind_go (interpret_test result) (\<lambda>x. Inr (x, s))))"

fun check_failing :: "resolver_env \<Rightarrow> Resolver list \<Rightarrow> resolver_state \<Rightarrow> resolver_state go" where
  "check_failing env [] s = Inr s"
| "check_failing env (r # rs) s =
     (if \<not> IsFailing s r then check_failing env rs s
      else bind_go (testConnectivity env DNSTestDomain (Some r) s) (\<lambda>((ips, ok, err), s).
        if err = None \<and> ips \<noteq> [] \<and> IP_Equal (hd ips) DNSTestExpectedIP
        then check_failing env rs (ResetFailure r s)
        else check_failing env rs s))"

definition checkFailingResolvers :: "resolver_env \<Rightarrow> resolver_state \<Rightarrow> resolver_state go" where
  "checkFailingResolvers env s = check_failing env (globalResolvers s) s"

definition new_query :: "string \<Rightarrow> nat \<Rightarrow> Query" where
  "new_query fqdn qtype =
     \<lparr>q_FQDN = fqdn, QType = qtype, NoCaching = False, ICANNSpace = False, DomainRoot = [], dotPrefixedFQDN = []\<rparr>"

text \<open>The errors that are formatted with the query keep the error that they wrap.\<close>

definition ResolveIPAndValidate ::
    "resolver_env \<Rightarrow> string \<Rightarrow> resolver_state \<Rightarrow> (res_error + string) \<times> resolver_state" where
  "ResolveIPAndValidate env ip s =
     (case dns_ReverseAddr env ip of
        None \<Rightarrow> (Inl ErrInvalid, s)
      | Some reverseIP \<Rightarrow>
          (case Resolve env None (new_query reverseIP TypePTR) s of
             ((_, Some err), s) \<Rightarrow> (Inl err, s)
           | ((None, None), s) \<Rightarrow> (Inl (OtherError ''failed to resolve''), s)
           | ((Some c, None), s) \<Rightarrow>
               (case List.map_filter (\<lambda>x. case rr_data x of RR_PTR name \<Rightarrow> Some name | _ \<Rightarrow> None) (rc_Answer c) of
                  [] \<Rightarrow> (Inl ErrNotFound, s)
                | ptrName # _ \<Rightarrow>
                    if ptrName = [] then (Inl ErrNotFound, s)
                    else case Resolve env None
                           (new_query ptrName (if CHR '':'' \<in> set ip then TypeAAAA else TypeA)) s of
                      ((_, Some err), s) \<Rightarrow> (Inl err, s)
                    | ((None, None), s) \<Rightarrow> (Inl (OtherError ''failed to resolve''), s)
                    | ((Some c, None), s) \<Rightarrow>
                        if list_ex (\<lambda>x. list_ex (\<lambda>i. ip = IP_String i) (rr_ips x)) (rc_Answer c)
                        then (Inr ptrName, s) else (Inl ErrBlocked, s))))"

end
