(* ===== verification/Resolver_Config.thy ===== *)
theory Resolver_Config
  imports Resolver
begin

text \<open>
  Setting up the resolvers, \<^verbatim>\<open>service/resolver/resolvers.go\<close>, the deduplication of requests in
  \<^verbatim>\<open>resolve.go\<close>, and the message IDs of \<^verbatim>\<open>resolver-tcp.go\<close>.

  A URL is given by what \<^verbatim>\<open>net/url\<close> makes of it: scheme, host name, port, path and the list of query
  parameters in the order of the map iteration.  \<^verbatim>\<open>sort.Slice\<close> is modelled by a stable sort, which it
  is for short lists; the code does not rely on the order of scopes of the same length.
\<close>

section \<open>Resolver URLs\<close>

record url =
  u_Scheme :: string
  u_Hostname :: string
  u_Port :: string
  u_Path :: string
  u_Query :: "(string \<times> string list) list"

definition query_Get :: "url \<Rightarrow> string \<Rightarrow> string" where
  "query_Get u key = (case map_of (u_Query u) key of Some (v # vs) \<Rightarrow> v | _ \<Rightarrow> [])"

definition query_Has :: "url \<Rightarrow> string \<Rightarrow> bool" where
  "query_Has u key \<longleftrightarrow> map_of (u_Query u) key \<noteq> None"

definition res_JoinHostPort :: "string \<Rightarrow> nat \<Rightarrow> string" where
  "res_JoinHostPort host prt =
     (if CHR '':'' \<in> set host then ''['' @ host @ '']:'' @ Itoa prt else host @ '':'' @ Itoa prt)"

definition formatIPAndPort :: "ip \<Rightarrow> nat \<Rightarrow> string" where
  "formatIPAndPort ip prt =
     (case To4 ip of
        Some ip4 \<Rightarrow> IP_String ip4 @ '':'' @ Itoa prt
      | None \<Rightarrow> ''['' @ IP_String ip @ '']:'' @ Itoa prt)"

definition parsePortFromURL :: "url \<Rightarrow> string + 16 word" where
  "parsePortFromURL u =
     (if u_Port u \<noteq> []
      then (case ParseUint (u_Port u) 16 of
              None \<Rightarrow> Inl ''invalid port''
            | Some n \<Rightarrow> Inr (of_nat n))
      else if u_Scheme u = ServerTypeDNS \<or> u_Scheme u = ServerTypeTCP then Inr 53
      else if u_Scheme u = ServerTypeDoH then Inr 443
      else if u_Scheme u = ServerTypeDoT then Inr 853
      else Inl ''cannot determine port'')"

definition known_parameters :: "string list" where
  "known_parameters = [''name'', ''verify'', ''ip'', ''blockedif'', ''search'', ''search-only'', ''link-local'']"

text \<open>The result also has the domain that is added to \<^verbatim>\<open>resolverInitDomains\<close>.\<close>

definition checkAndSetResolverParamters ::
    "resolver_env \<Rightarrow> url \<Rightarrow> Resolver \<Rightarrow> string + Resolver \<times> string option" where
  "checkAndSetResolverParamters env u r =
     (let ip = ParseIP (u_Hostname u); secure = u_Scheme u = ServerTypeDoT \<or> u_Scheme u = ServerTypeDoH
      in if ip = None \<and> \<not> secure then Inl ''resolver IP is invalid''
         else bind_go (parsePortFromURL u) (\<lambda>prt.
           if list_ex (\<lambda>(key, vs). key \<notin> set known_parameters) (u_Query u) then Inl ''unknown parameter''
           else let verify = query_Get u ''verify''; server = query_Get u ''ip'';
                    set_info = (\<lambda>addr name sa. r\<lparr>r_Info := (r_Info r)\<lparr>ri_Port := prt, ri_IP := addr, ri_Domain := name\<rparr>,
                                                 ServerAddress := sa\<rparr>)
                in case ip of
                     None \<Rightarrow>
                       if verify \<noteq> []
                       then Inl ''cannot set the domain name via both the hostname in the URL and the verify parameter''
                       else if server \<noteq> []
                       then Inr (set_info (case ParseIP server of None \<Rightarrow> [] | Some i \<Rightarrow> i) (u_Hostname u)
                                   (res_JoinHostPort server (unat prt)), Some (dns_Fqdn env (u_Hostname u)))
                       else Inr (set_info [] (u_Hostname u) (res_JoinHostPort (u_Hostname u) (unat prt)),
                                 Some (dns_Fqdn env (u_Hostname u)))
                   | Some i \<Rightarrow>
                       if secure
                       then if verify = [] then Inl ''verify parameter must be set when using ip as domain''
                            else if server \<noteq> []
                            then Inl ''cannot set the IP address via both the hostname in the URL and the ip parameter''
                            else Inr (set_info i verify (res_JoinHostPort (IP_String i) (unat prt)), None)
                       else if verify \<noteq> [] then Inl ''domain verification is only supported by DoT and DoH servers''
                       else Inr (set_info i [] (res_JoinHostPort (IP_String i) (unat prt)), None)))"

section \<open>Search domains\<close>

text \<open>
  The position before the public suffix is an index into the augmented domain: \<^verbatim>\<open>publicsuffix\<close> returns
  a proper suffix of it, with a dot before.
\<close>

definition checkSearchScope :: "resolver_env \<Rightarrow> string \<Rightarrow> string option" where
  "checkSearchScope env d =
     (if d = [] \<or> hd d = CHR ''.'' \<or> last d = CHR ''.'' then Some ''invalid (1) search domain''
      else if domainInScope (''.'' @ d @ ''.'') specialServiceDomains then None
      else let augmented = ''*.*.*.*.*.'' @ d
           in case publicsuffix env augmented of (sfx, icann) \<Rightarrow>
                if sfx = [] then Some ''invalid (2) search domain''
                else if \<not> icann \<and> CHR ''.'' \<notin> set sfx then None
                else let split = length augmented - length sfx - 1;
                         eTLDplus1 = drop (after_last_dot (take split augmented)) augmented
                     in if CHR ''*'' \<in> set eTLDplus1
                        then Some ''search domain is dangerously high up the hierarchy'' else None)"

definition maxSearchDomains :: nat where "maxSearchDomains = 100"

definition configureSearchDomains ::
    "resolver_env \<Rightarrow> Resolver \<Rightarrow> string list \<Rightarrow> bool \<Rightarrow> string option \<times> Resolver" where
  "configureSearchDomains env r searches hardfail =
     (let trimmed = map (\<lambda>v. ToLower (Trim v CHR ''.'')) searches;
          good = filter (\<lambda>d. checkSearchScope env d = None) trimmed;
          found = map (\<lambda>d. ''.'' @ d @ ''.'') good
      in if hardfail \<and> length good < length trimmed
         then (Some ''failed to validate search domain'', r\<lparr>r_Search := []\<rparr>)
         else if length found > maxSearchDomains
         then if hardfail then (Some ''too many search domains'', r\<lparr>r_Search := found\<rparr>)
              else (None, r\<lparr>r_Search := take maxSearchDomains found\<rparr>)
         else (None, r\<lparr>r_Search := found\<rparr>))"

section \<open>Creating resolvers\<close>

datatype created = Created Resolver | Skip

definition scheme_of :: "string \<Rightarrow> string option" where
  "scheme_of scheme =
     (if scheme \<in> {ServerTypeDNS, ServerTypeDoT, ServerTypeDoH, ServerTypeTCP} then Some scheme
      else if scheme = ''https'' then Some ServerTypeDoH
      else if scheme = ''tls'' then Some ServerTypeDoT else None)"

definition block_detections :: "string list" where
  "block_detections = [''disabled'', ''empty'', ''refused'', ''zeroip'']"

text \<open>The parameter that a resolver is only for its search domains.\<close>

definition set_search_only :: "url \<Rightarrow> Resolver \<Rightarrow> string + Resolver" where
  "set_search_only u r =
     (if query_Has u ''search-only''
      then if query_Get u ''search-only'' \<noteq> [] then Inl ''search-only may only be used as an empty parameter''
           else if r_Search r = [] then Inl ''cannot use search-only without search scopes''
           else Inr (r\<lparr>SearchOnly := True\<rparr>)
      else Inr r)"

definition set_link_local ::
    "resolver_env \<Rightarrow> url \<Rightarrow> Resolver \<Rightarrow> resolver_state \<Rightarrow> string + Resolver \<times> resolver_state" where
  "set_link_local env u r s =
     (if query_Has u ''link-local''
      then if query_Get u ''link-local'' \<noteq> [] then Inl ''link-local may only be used as an empty parameter''
           else case GetLocalNetwork (re_net env) (ri_IP (r_Info r)) (res_net s) of (result, net) \<Rightarrow>
             Inr (r\<lparr>LinkLocalUnavailable := (case result of Inr (Some n) \<Rightarrow> False | _ \<Rightarrow> True)\<rparr>, s\<lparr>res_net := net\<rparr>)
      else Inr (r, s))"

definition new_basic_conn :: basic_conn where
  "new_basic_conn = \<lparr>failing = False, failingStarted = None, fails = 0\<rparr>"

definition resolverConnFactory :: "Resolver \<Rightarrow> resolver_state \<Rightarrow> Resolver \<times> resolver_state" where
  "resolverConnFactory r s =
     (r\<lparr>r_Conn := NetConn (nextConn s)\<rparr>,
      s\<lparr>conns := (conns s)(nextConn s := new_basic_conn), nextConn := nextConn s + 1\<rparr>)"

definition set_detection :: "url \<Rightarrow> Resolver \<Rightarrow> string + Resolver" where
  "set_detection u r =
     (let detection = (if query_Get u ''blockedif'' = [] then ''zeroip'' else query_Get u ''blockedif'')
      in if detection \<in> set block_detections then Inr (r\<lparr>UpstreamBlockDetection := detection\<rparr>)
         else Inl ''invalid value for upstream block detection (blockedif=)'')"

definition set_search :: "resolver_env \<Rightarrow> url \<Rightarrow> Resolver \<Rightarrow> string + Resolver" where
  "set_search env u r =
     (if query_Get u ''search'' = [] then Inr r
      else case configureSearchDomains env r (Split (query_Get u ''search'') CHR '','') True of
        (Some err, r) \<Rightarrow> Inl err | (None, r) \<Rightarrow> Inr r)"

definition finish_resolver ::
    "resolver_env \<Rightarrow> url \<Rightarrow> Resolver \<Rightarrow> resolver_state \<Rightarrow> (string + created) \<times> resolver_state" where
  "finish_resolver env u r s =
     (case bind_go (set_search env u r) (\<lambda>r. bind_go (set_search_only u r) (\<lambda>r. set_link_local env u r s)) of
        Inl err \<Rightarrow> (Inl err, s)
      | Inr (r, s) \<Rightarrow> (case resolverConnFactory r s of (r, s) \<Rightarrow> (Inr (Created r), s)))"

definition createResolver ::
    "resolver_env \<Rightarrow> string \<Rightarrow> url option \<Rightarrow> string \<Rightarrow> resolver_state \<Rightarrow> (string + created) \<times> resolver_state" where
  "createResolver env resolverURL parsed source s =
     (case parsed of
        None \<Rightarrow> (Inl ''invalid URL'', s)
      | Some u \<Rightarrow> (case scheme_of (u_Scheme u) of
          None \<Rightarrow> (Inl ''DNS resolver scheme invalid'', s)
        | Some scheme \<Rightarrow>
            let u = u\<lparr>u_Scheme := scheme\<rparr>;
                r = \<lparr>ConfigURL = resolverURL,
                     r_Info = \<lparr>ri_Name = query_Get u ''name'', ri_Type = scheme, ri_Source = source, ri_IP = [],
                       ri_Domain = [], ri_IPScope = Global, ri_Port = 0\<rparr>,
                     ServerAddress = [], UpstreamBlockDetection = [], r_Search = [], SearchOnly = False,
                     r_Path = u_Path u, LinkLocalUnavailable = False, r_Conn = NetConn 0\<rparr>
            in case checkAndSetResolverParamters env u r of
                 Inl err \<Rightarrow> (Inl err, s)
               | Inr (r, initDomain) \<Rightarrow>
                   let s = (case initDomain of None \<Rightarrow> s
                            | Some d \<Rightarrow> s\<lparr>resolverInitDomains := insert d (resolverInitDomains s)\<rparr>)
                   in case set_detection u r of
                        Inl err \<Rightarrow> (Inl err, s)
                      | Inr r \<Rightarrow>
                          let ip = ri_IP (r_Info r);
                              r = (if ip \<noteq> [] then r\<lparr>r_Info := (r_Info r)\<lparr>ri_IPScope := GetIPScope ip\<rparr>\<rparr> else r)
                          in if ip \<noteq> [] \<and> IsLocalhost (ri_IPScope (r_Info r)) \<and> source = ServerSourceOperatingSystem
                             then (Inr Skip, s)
                             else finish_resolver env u r s))"

record nameserver =
  ns_IP :: ip
  ns_Search :: "string list"

text \<open>What \<^verbatim>\<open>url.Parse\<close> makes of a URL is the argument \<open>parse\<close>.\<close>

fun getConfiguredResolvers ::
    "resolver_env \<Rightarrow> (string \<Rightarrow> url option) \<Rightarrow> string list \<Rightarrow> resolver_state \<Rightarrow> Resolver list \<times> resolver_state" where
  "getConfiguredResolvers env parse [] s = ([], s)"
| "getConfiguredResolvers env parse (server # servers) s =
     (case createResolver env server (parse server) ServerSourceConfigured s of (result, s) \<Rightarrow>
        case getConfiguredResolvers env parse servers s of (rs, s) \<Rightarrow>
          (case result of Inr (Created r) \<Rightarrow> r # rs | _ \<Rightarrow> rs, s))"

fun getSystemResolvers ::
    "resolver_env \<Rightarrow> (string \<Rightarrow> url option) \<Rightarrow> nameserver list \<Rightarrow> resolver_state \<Rightarrow> Resolver list \<times> resolver_state" where
  "getSystemResolvers env parse [] s = ([], s)"
| "getSystemResolvers env parse (ns # nss) s =
     (let serverURL = ''dns://'' @ formatIPAndPort (ns_IP ns) 53
      in case createResolver env serverURL (parse serverURL) ServerSourceOperatingSystem s of (result, s) \<Rightarrow>
        case getSystemResolvers env parse nss s of (rs, s) \<Rightarrow>
          (case result of
             Inr (Created r) \<Rightarrow>
               (if IsLAN (ri_IPScope (r_Info r)) then snd (configureSearchDomains env r (ns_Search ns) False) else r) # rs
           | _ \<Rightarrow> rs, s))"

section \<open>Loading resolvers\<close>

text \<open>Adds a resolver to the scope of a search domain, or a new scope.\<close>

fun add_to_scope :: "string \<Rightarrow> Resolver \<Rightarrow> Scope list \<Rightarrow> Scope list" where
  "add_to_scope search r [] = [\<lparr>sc_Domain = search, sc_Resolvers = [r]\<rparr>]"
| "add_to_scope search r (sc # scs) =
     (if sc_Domain sc = search then sc\<lparr>sc_Resolvers := sc_Resolvers sc @ [r]\<rparr> # scs
      else sc # add_to_scope search r scs)"

definition add_scopes :: "Resolver \<Rightarrow> Scope list \<Rightarrow> Scope list" where
  "add_scopes r scopes =
     foldl (\<lambda>scs search. if search = ''.'' then scs else add_to_scope search r scs) scopes (r_Search r)"

definition is_local :: "resolver_env \<Rightarrow> Resolver \<Rightarrow> net_state \<Rightarrow> bool \<times> net_state" where
  "is_local env r net =
     (if IsLAN (ri_IPScope (r_Info r)) then (True, net)
      else case GetLocalNetwork (re_net env) (ri_IP (r_Info r)) net of (result, net) \<Rightarrow>
        (case result of Inr (Some n) \<Rightarrow> True | _ \<Rightarrow> False, net))"

fun local_resolvers :: "resolver_env \<Rightarrow> Resolver list \<Rightarrow> net_state \<Rightarrow> Resolver list \<times> net_state" where
  "local_resolvers env [] net = ([], net)"
| "local_resolvers env (r # rs) net =
     (case is_local env r net of (yes, net) \<Rightarrow>
        case local_resolvers env rs net of (loc, net) \<Rightarrow> (if yes then r # loc else loc, net))"

definition setScopedResolvers :: "resolver_env \<Rightarrow> Resolver list \<Rightarrow> resolver_state \<Rightarrow> resolver_state" where
  "setScopedResolvers env resolvers s =
     (case local_resolvers env resolvers (res_net s) of (loc, net) \<Rightarrow>
        s\<lparr>res_net := net, localResolvers := loc,
          systemResolvers := filter (\<lambda>r. ri_Source (r_Info r) = ServerSourceOperatingSystem) resolvers,
          localScopes := sort_key (\<lambda>sc. - int (length (sc_Domain sc))) (foldl (\<lambda>scs r. add_scopes r scs) [] resolvers)\<rparr>)"

definition defaultNameServers :: "string list" where
  "defaultNameServers =
     [''dot://cloudflare-dns.com?ip=1.1.1.2&name=Cloudflare&blockedif=zeroip'',
      ''dot://cloudflare-dns.com?ip=1.0.0.2&name=Cloudflare&blockedif=zeroip'']"

definition active_map :: "Resolver list \<Rightarrow> string \<rightharpoonup> Resolver" where
  "active_map rs = foldl (\<lambda>m r. m(ResolverInfo_ID (r_Info r) \<mapsto> r)) Map.empty (rs @ [mDNSResolver, envResolver])"

text \<open>
  A changed configuration clears the cache of responses, in a worker of its own; here at once.
\<close>

definition loadResolvers ::
    "resolver_env \<Rightarrow> (string \<Rightarrow> url option) \<Rightarrow> string list \<Rightarrow> nameserver list \<Rightarrow> resolver_state \<Rightarrow> resolver_state" where
  "loadResolvers env parse config nameservers s =
     (let s = (if currentResolverConfig s \<noteq> [] \<and> currentResolverConfig s \<noteq> config
               then s\<lparr>name_cache := Map.empty\<rparr> else s);
          s = s\<lparr>currentResolverConfig := config, isDisabled := (config = [])\<rparr>
      in case getConfiguredResolvers env parse config s of (configured, s) \<Rightarrow>
         case getSystemResolvers env parse nameservers s of (system, s) \<Rightarrow>
         case (if configured @ system = [] then getConfiguredResolvers env parse defaultNameServers s
               else (configured @ system, s)) of (rs, s) \<Rightarrow>
           let s = setScopedResolvers env rs (s\<lparr>globalResolvers := rs\<rparr>);
               s = s\<lparr>activeResolvers := active_map rs\<rparr>
           in if allConfiguredResolversAreFailing s then s else resetFailingResolversNotification s)"

definition IsResolverAddress :: "ip \<Rightarrow> 16 word \<Rightarrow> resolver_state \<Rightarrow> bool" where
  "IsResolverAddress ip prt s \<longleftrightarrow>
     list_ex (\<lambda>r. prt = ri_Port (r_Info r) \<and> IP_Equal (ri_IP (r_Info r)) ip) (globalResolvers s)"

end
