(* ===== verification/Resolver_Requests.thy ===== *)
theory Resolver_Requests
  imports Resolver_Config
begin

text \<open>
  Requests in flight.  First the deduplication of requests for the same name and type,
  \<^verbatim>\<open>deduplicateRequest\<close> of \<^verbatim>\<open>service/resolver/resolve.go\<close>: requests enter and finish in any order, and
  the entries of the map are pointers to their status.  Then the IDs of messages on a TCP connection,
  \<^verbatim>\<open>assignUniqueID\<close> and \<^verbatim>\<open>handleQueryResponse\<close> of \<^verbatim>\<open>resolver-tcp.go\<close>.
\<close>

section \<open>Deduplication\<close>

text \<open>
  The status of a request; \<open>st_key\<close> is the key that its finish function has captured, \<open>st_started\<close> when
  it was created.
\<close>

record dedupeStatus =
  st_completed :: bool
  st_waitUntil :: int
  st_superseded :: bool
  st_key :: string
  st_started :: int

record dedupe_state =
  dd_now :: int
  dupReqMap :: "string \<rightharpoonup> nat"
  statuses :: "dedupeStatus list"

definition dd_init :: "int \<Rightarrow> dedupe_state" where
  "dd_init t = \<lparr>dd_now = t, dupReqMap = Map.empty, statuses = []\<rparr>"

definition maxRequestTimeout :: int where "maxRequestTimeout = 5 * 1000000000"

datatype entered = WaitFor nat | First nat

definition create_status :: "string \<Rightarrow> dedupe_state \<Rightarrow> entered \<times> dedupe_state" where
  "create_status dupKey s =
     (First (length (statuses s)),
      s\<lparr>statuses := statuses s @ [\<lparr>st_completed = False, st_waitUntil = dd_now s + maxRequestTimeout,
          st_superseded = False, st_key = dupKey, st_started = dd_now s\<rparr>],
        dupReqMap := (dupReqMap s)(dupKey \<mapsto> length (statuses s))\<rparr>)"

text \<open>Under the lock: wait for the request in the map, or supersede it when it takes too long.\<close>

definition deduplicateRequest :: "string \<Rightarrow> dedupe_state \<Rightarrow> entered \<times> dedupe_state" where
  "deduplicateRequest dupKey s =
     (case dupReqMap s dupKey of
        None \<Rightarrow> create_status dupKey s
      | Some i \<Rightarrow>
          if dd_now s < st_waitUntil (statuses s ! i) then (WaitFor i, s)
          else create_status dupKey (s\<lparr>statuses := (statuses s)[i := (statuses s ! i)\<lparr>st_superseded := True\<rparr>]\<rparr>))"

text \<open>The function to mark a request as finished.  Closing a channel twice panics: \<open>None\<close>.\<close>

definition finishRequest :: "nat \<Rightarrow> dedupe_state \<Rightarrow> dedupe_state option" where
  "finishRequest i s =
     (let st = statuses s ! i
      in if st_completed st then None
         else Some (s\<lparr>statuses := (statuses s)[i := st\<lparr>st_completed := True\<rparr>],
                      dupReqMap := (if st_superseded st then dupReqMap s else (dupReqMap s)(st_key st := None))\<rparr>))"

text \<open>
  Time passes, a request enters, or a request that was let through and has not finished yet finishes.
\<close>

inductive dedupe_step :: "dedupe_state \<Rightarrow> dedupe_state \<Rightarrow> bool" where
  Tick: "0 \<le> d \<Longrightarrow> dedupe_step s (s\<lparr>dd_now := dd_now s + d\<rparr>)"
| Enter: "deduplicateRequest dupKey s = (e, s') \<Longrightarrow> dedupe_step s s'"
| Finish: "i < length (statuses s) \<Longrightarrow> \<not> st_completed (statuses s ! i) \<Longrightarrow> finishRequest i s = Some s' \<Longrightarrow> dedupe_step s s'"

abbreviation dedupe_run :: "dedupe_state \<Rightarrow> dedupe_state \<Rightarrow> bool" where
  "dedupe_run \<equiv> dedupe_step\<^sup>*\<^sup>*"

text \<open>
  The map points to the request that is neither finished nor superseded; a request is superseded only
  when its time is over; and of two requests for the same key that have not finished, the later one
  started after the time of the earlier one.
\<close>

definition current :: "dedupe_state \<Rightarrow> string \<Rightarrow> nat \<Rightarrow> bool" where
  "current s k i \<longleftrightarrow> i < length (statuses s) \<and> st_key (statuses s ! i) = k \<and>
     \<not> st_completed (statuses s ! i) \<and> \<not> st_superseded (statuses s ! i)"

definition map_inv :: "dedupe_state \<Rightarrow> bool" where
  "map_inv s \<longleftrightarrow> (\<forall>k i. dupReqMap s k = Some i \<longleftrightarrow> current s k i)"

definition time_inv :: "dedupe_state \<Rightarrow> bool" where
  "time_inv s \<longleftrightarrow> (\<forall>st\<in>set (statuses s). st_waitUntil st = st_started st + maxRequestTimeout \<and>
     (st_superseded st \<longrightarrow> st_waitUntil st \<le> dd_now s))"

definition order_inv :: "dedupe_state \<Rightarrow> bool" where
  "order_inv s \<longleftrightarrow> (\<forall>i j. i < j \<longrightarrow> j < length (statuses s) \<longrightarrow> st_key (statuses s ! i) = st_key (statuses s ! j) \<longrightarrow>
     \<not> st_completed (statuses s ! i) \<longrightarrow> st_waitUntil (statuses s ! i) \<le> st_started (statuses s ! j))"

definition dedupe_inv :: "dedupe_state \<Rightarrow> bool" where
  "dedupe_inv s \<longleftrightarrow> map_inv s \<and> time_inv s \<and> order_inv s"

lemma map_inv_unique: "map_inv s \<Longrightarrow> current s k i \<Longrightarrow> current s k j \<Longrightarrow> i = j"
  unfolding map_inv_def by (metis option.inject)

lemma dedupe_inv_init: "dedupe_inv (dd_init t)"
  by (simp add: dedupe_inv_def map_inv_def time_inv_def order_inv_def current_def dd_init_def)

lemma dedupe_inv_tick: "0 \<le> d \<Longrightarrow> dedupe_inv s \<Longrightarrow> dedupe_inv (s\<lparr>dd_now := dd_now s + d\<rparr>)"
  unfolding dedupe_inv_def map_inv_def time_inv_def order_inv_def current_def by fastforce

text \<open>
  Finishing or superseding the request of the map: its status changes so that it is no longer current,
  and its entry is removed.  The keys and times stay as they are.
\<close>

lemma dedupe_inv_retire:
  assumes inv: "dedupe_inv s" and cur: "current s k i"
    and st: "st_key st = k" "st_waitUntil st = st_waitUntil (statuses s ! i)" "st_started st = st_started (statuses s ! i)"
      "st_completed st \<or> st_superseded st" "st_superseded st \<longrightarrow> st_waitUntil st \<le> dd_now s"
  shows "dedupe_inv (s\<lparr>statuses := (statuses s)[i := st], dupReqMap := (dupReqMap s)(k := None)\<rparr>)" (is "dedupe_inv ?s")
proof -
  have i: "i < length (statuses s)" "st_key (statuses s ! i) = k" using cur by (auto simp: current_def)
  have "current ?s k' j \<longleftrightarrow> j \<noteq> i \<and> current s k' j" for k' j
    using st(4) i(1) by (cases "j = i") (auto simp: current_def)
  moreover have "dupReqMap s k = Some i" using inv cur by (simp add: dedupe_inv_def map_inv_def)
  ultimately have "map_inv ?s"
    using inv map_inv_unique [of s k i] cur i(2) by (auto simp: dedupe_inv_def map_inv_def current_def split: if_splits)
  moreover have "time_inv ?s"
    using inv i st by (auto simp: dedupe_inv_def time_inv_def dest!: set_update_subset_insert [THEN subsetD])
  moreover have "order_inv ?s"
    using inv i st cur unfolding dedupe_inv_def order_inv_def
    by (auto simp: nth_list_update current_def split: if_splits)
  ultimately show ?thesis by (simp add: dedupe_inv_def)
qed

lemma dedupe_inv_create:
  assumes inv: "dedupe_inv (s\<lparr>dupReqMap := (dupReqMap s)(k := None)\<rparr>)" and c: "create_status k s = (e, s')"
  shows "dedupe_inv s'"
proof -
  let ?new = "\<lparr>st_completed = False, st_waitUntil = dd_now s + maxRequestTimeout, st_superseded = False,
    st_key = k, st_started = dd_now s\<rparr>"
  have s': "s' = s\<lparr>statuses := statuses s @ [?new], dupReqMap := (dupReqMap s)(k \<mapsto> length (statuses s))\<rparr>"
    using c by (simp add: create_status_def)
  have m: "((dupReqMap s)(k := None)) k' = Some i \<longleftrightarrow> current s k' i" for k' i
    using inv by (simp add: dedupe_inv_def map_inv_def current_def)
  have none: "\<not> current s k i" and other: "k' \<noteq> k \<Longrightarrow> dupReqMap s k' = Some i \<longleftrightarrow> current s k' i" for k' i
    using m [of k i] m [of k' i] by simp_all
  have "current s' k' i \<longleftrightarrow> current s k' i \<or> i = length (statuses s) \<and> k' = k" for k' i
    by (auto simp: current_def s' nth_append less_Suc_eq)
  then have "map_inv s'" using none other by (auto simp: map_inv_def s')
  moreover have "time_inv s'" using inv by (auto simp: dedupe_inv_def time_inv_def s')
  moreover have over: "st_waitUntil (statuses s ! i) \<le> dd_now s"
    if "i < length (statuses s)" "st_key (statuses s ! i) = k" "\<not> st_completed (statuses s ! i)" for i
    using inv none [of i] that unfolding dedupe_inv_def time_inv_def by (auto simp: current_def)
  then have "order_inv s'"
    using inv by (auto simp: dedupe_inv_def order_inv_def s' nth_append less_Suc_eq)
  ultimately show ?thesis by (simp add: dedupe_inv_def)
qed

lemma dedupe_inv_enter:
  assumes inv: "dedupe_inv s" and e: "deduplicateRequest k s = (e, s')" shows "dedupe_inv s'"
proof (cases "dupReqMap s k")
  case None
  then have "s\<lparr>dupReqMap := (dupReqMap s)(k := None)\<rparr> = s" by (simp add: fun_upd_idem)
  then show ?thesis using None inv e dedupe_inv_create [of s k] by (auto simp: deduplicateRequest_def)
next
  case (Some i)
  let ?st = "(statuses s ! i)\<lparr>st_superseded := True\<rparr>"
  show ?thesis
  proof (cases "dd_now s < st_waitUntil (statuses s ! i)")
    case False
    have "current s k i" using inv Some by (simp add: dedupe_inv_def map_inv_def)
    then have "dedupe_inv (s\<lparr>statuses := (statuses s)[i := ?st], dupReqMap := (dupReqMap s)(k := None)\<rparr>)"
      using inv False by (intro dedupe_inv_retire) (auto simp: current_def)
    then show ?thesis
      using dedupe_inv_create [of "s\<lparr>statuses := (statuses s)[i := ?st]\<rparr>" k] e Some False by (simp add: deduplicateRequest_def)
  qed (use Some inv e in \<open>auto simp: deduplicateRequest_def\<close>)
qed

text \<open>Finishing a request that was superseded before leaves the map alone.\<close>

lemma dedupe_inv_finish:
  assumes inv: "dedupe_inv s" and i: "i < length (statuses s)" "\<not> st_completed (statuses s ! i)"
    and f: "finishRequest i s = Some s'"
  shows "dedupe_inv s'"
proof (cases "st_superseded (statuses s ! i)")
  case False
  then have "current s (st_key (statuses s ! i)) i" using i by (simp add: current_def)
  then show ?thesis
    using dedupe_inv_retire [OF inv, of "st_key (statuses s ! i)" i "(statuses s ! i)\<lparr>st_completed := True\<rparr>"] False i f
    by (auto simp: finishRequest_def Let_def)
next
  case True
  have s': "s' = s\<lparr>statuses := (statuses s)[i := (statuses s ! i)\<lparr>st_completed := True\<rparr>]\<rparr>"
    using f True i by (simp add: finishRequest_def Let_def)
  have "current s' k j = current s k j" for k j
    using True i by (cases "j = i") (auto simp: current_def s')
  then have "map_inv s'" using inv by (simp add: dedupe_inv_def map_inv_def s')
  moreover have "time_inv s'"
    using inv i by (auto simp: dedupe_inv_def time_inv_def s' dest!: set_update_subset_insert [THEN subsetD])
  moreover have "order_inv s'"
    using inv i(1) unfolding dedupe_inv_def order_inv_def s' by (auto simp: nth_list_update split: if_splits)
  ultimately show ?thesis by (simp add: dedupe_inv_def)
qed

lemma dedupe_inv_run: "dedupe_run (dd_init t) s \<Longrightarrow> dedupe_inv s"
  by (induction rule: rtranclp_induct)
     (auto simp: dedupe_inv_init elim!: dedupe_step.cases intro: dedupe_inv_tick dedupe_inv_enter dedupe_inv_finish)

text \<open>
  C24: Requests are deduplicated.  In every run of requests that enter, finish and take their time, two
  requests for the same name and type that have both not finished started at least the maximum time of a
  request apart, and finishing a request neither closes its channel twice nor removes the entry of
  another request.
\<close>

theorem requests_deduplicated:
  assumes run: "dedupe_run (dd_init t) s" and i: "i < length (statuses s)" "\<not> st_completed (statuses s ! i)"
  shows "(\<forall>j<length (statuses s). i < j \<longrightarrow> st_key (statuses s ! j) = st_key (statuses s ! i) \<longrightarrow>
      st_started (statuses s ! i) + maxRequestTimeout \<le> st_started (statuses s ! j)) \<and>
    (\<exists>s'. finishRequest i s = Some s' \<and> (\<forall>k j. j \<noteq> i \<longrightarrow> dupReqMap s k = Some j \<longrightarrow> dupReqMap s' k = Some j))"
proof -
  have inv: "map_inv s" "time_inv s" "order_inv s" using dedupe_inv_run [OF run] by (auto simp: dedupe_inv_def)
  have "st_waitUntil (statuses s ! i) = st_started (statuses s ! i) + maxRequestTimeout"
    using inv(2) i(1) by (auto simp: time_inv_def)
  then have "\<forall>j<length (statuses s). i < j \<longrightarrow> st_key (statuses s ! j) = st_key (statuses s ! i) \<longrightarrow>
      st_started (statuses s ! i) + maxRequestTimeout \<le> st_started (statuses s ! j)"
    using inv(3) i(2) unfolding order_inv_def by metis
  moreover have "dupReqMap s (st_key (statuses s ! i)) \<noteq> Some j"
    if "j \<noteq> i" "\<not> st_superseded (statuses s ! i)" for j
    using inv(1) map_inv_unique [OF inv(1), of "st_key (statuses s ! i)" i j] that i by (auto simp: map_inv_def current_def)
  ultimately show ?thesis using i(2) by (auto simp: finishRequest_def Let_def)
qed

definition sample_dedupe :: dedupe_state where
  "sample_dedupe = snd (deduplicateRequest ''safing.io.A'' (dd_init 0))"

theorem requests_deduplicated_witness:
  "\<exists>s'. finishRequest 0 sample_dedupe = Some s'"
proof -
  have "dedupe_run (dd_init 0) sample_dedupe"
    unfolding sample_dedupe_def
    by (rule r_into_rtranclp, rule dedupe_step.Enter [of "''safing.io.A''" _ "fst (deduplicateRequest ''safing.io.A'' (dd_init 0))"])
       simp
  moreover have "0 < length (statuses sample_dedupe)" "\<not> st_completed (statuses sample_dedupe ! 0)"
    by (simp_all add: sample_dedupe_def deduplicateRequest_def create_status_def dd_init_def)
  ultimately show ?thesis using requests_deduplicated [of 0 sample_dedupe 0] by blast
qed

section \<open>Message IDs\<close>

text \<open>
  The random IDs are those that \<^verbatim>\<open>dns.Id\<close> returns next.  The search through the complete space counts
  with 16 bits: the condition of its loop is always true, and the counter wraps.
\<close>

fun random_id :: "nat \<Rightarrow> (nat \<Rightarrow> 16 word) \<Rightarrow> 16 word set \<Rightarrow> 16 word \<Rightarrow> 16 word option" where
  "random_id 0 rnd inFlight msgId = None"
| "random_id (Suc n) rnd inFlight msgId =
     (if msgId \<notin> inFlight then Some msgId else random_id n (\<lambda>k. rnd (Suc k)) inFlight (rnd 0))"

partial_function (option) search_id :: "16 word set \<Rightarrow> 16 word \<Rightarrow> 16 word option" where
  "search_id inFlight msgId = (if msgId \<notin> inFlight then Some msgId else search_id inFlight (msgId + 1))"

definition assignUniqueID :: "(nat \<Rightarrow> 16 word) \<Rightarrow> 16 word set \<Rightarrow> 16 word \<Rightarrow> 16 word option" where
  "assignUniqueID rnd inFlight msgId =
     (case random_id 10000 rnd inFlight msgId of Some i \<Rightarrow> Some i | None \<Rightarrow> search_id inFlight 0)"

lemma random_id_free: "random_id n rnd inFlight msgId = Some i \<Longrightarrow> i \<notin> inFlight"
  by (induction n arbitrary: rnd msgId) (auto split: if_splits)

lemma search_id_free: "search_id inFlight msgId = Some i \<Longrightarrow> i \<notin> inFlight"
  by (induction rule: search_id.raw_induct [rotated 1, consumes 1]) (auto split: if_splits)

lemma search_id_finds: "msgId + of_nat n \<notin> inFlight \<Longrightarrow> search_id inFlight msgId \<noteq> None"
proof (induction n arbitrary: msgId)
  case 0
  then show ?case by (simp add: search_id.simps)
next
  case (Suc n)
  have "search_id inFlight (msgId + 1) \<noteq> None" using Suc.IH [of "msgId + 1"] Suc.prems by (simp add: algebra_simps)
  then show ?case by (subst search_id.simps) simp
qed

lemma search_id_full: "search_id UNIV msgId = None"
proof (rule ccontr)
  assume "search_id UNIV msgId \<noteq> None"
  then obtain i where "search_id UNIV msgId = Some i" by auto
  from search_id_free [OF this] show False by simp
qed

text \<open>
  C25: Message IDs are unique.  A message on a connection gets an ID that no query in flight has.  This
  ends whenever an ID is free, and otherwise never.
\<close>

theorem assigned_ids_unique:
  "(case assignUniqueID rnd inFlight msgId of Some i \<Rightarrow> i \<notin> inFlight | None \<Rightarrow> True) \<and>
   (assignUniqueID rnd inFlight msgId = None \<longleftrightarrow> inFlight = UNIV)"
proof -
  have "search_id inFlight 0 \<noteq> None" if "i \<notin> inFlight" for i
    using search_id_finds [of 0 "unat i" inFlight] that by simp
  then have "search_id inFlight 0 = None \<longleftrightarrow> inFlight = UNIV" using search_id_full by (metis UNIV_eq_I)
  then show ?thesis
    by (auto simp: assignUniqueID_def split: option.split dest: random_id_free search_id_free)
qed

end
