(* ===== verification/Resolver_Rules.thy ===== *)
theory Resolver_Rules
  imports Resolver_Config
begin

text \<open>
  Properties of the resolver: which servers get to see a name, when a server counts as failing, that
  a response is found in the cache again, and the life time of responses.
\<close>

section \<open>Selection of resolvers\<close>

lemma envResolver_compliant [simp]: "checkCompliance env envResolver q = None"
  by (simp add: checkCompliance_def envResolver_def ServerTypeEnv_def ServerSourceEnv_def
      ServerSourceOperatingSystem_def ServerSourceMDNS_def)

lemma addResolvers_set:
  "set (addResolvers env d q sel rs) \<subseteq> set sel \<union> {r \<in> set rs. checkCompliance env r q = None}"
  by (induction rs arbitrary: sel) (fastforce split: if_splits)+

abbreviation ids :: "Resolver list \<Rightarrow> string list" where
  "ids rs \<equiv> map (\<lambda>r. ResolverInfo_ID (r_Info r)) rs"

lemma addResolvers_distinct: "distinct (ids sel) \<Longrightarrow> distinct (ids (addResolvers env d q sel rs))"
proof (induction rs arbitrary: sel)
  case (Cons r rs)
  have "distinct (ids (sel @ [r]))" if "\<forall>x\<in>set sel. ResolverInfo_ID (r_Info x) \<noteq> ResolverInfo_ID (r_Info r)"
    using Cons.prems that by (auto simp: image_iff)
  then show ?case using Cons.IH [of sel] Cons.IH [of "sel @ [r]"] Cons.prems by simp
qed simp

text \<open>
  The resolvers that may be asked for a name: compliant with the settings, and by the kind of the
  name the environment, resolvers with a matching search scope, local ones or any configured one.
\<close>

definition in_scopes :: "Query \<Rightarrow> resolver_state \<Rightarrow> Resolver set" where
  "in_scopes q s = {r. \<exists>sc\<in>set (localScopes s). HasSuffix (dotPrefixedFQDN q) (sc_Domain sc) \<and> r \<in> set (sc_Resolvers sc)}"

definition permitted :: "resolver_env \<Rightarrow> Query \<Rightarrow> resolver_state \<Rightarrow> Resolver set" where
  "permitted env q s =
     {r. checkCompliance env r q = None \<and>
         (let fqdn = dotPrefixedFQDN q
          in if domainInScope fqdn internalSpecialUseDomains then r = envResolver
             else if IsConnectivityDomain (re_net env) (q_FQDN q) \<and> systemResolvers s \<noteq> []
             then r \<in> set (systemResolvers s) \<union> set (localResolvers s) \<union> set (globalResolvers s)
             else if domainInScope fqdn multicastDomains
             then r \<in> in_scopes q s \<union> {mDNSResolver} \<union> set (localResolvers s) \<union> set (systemResolvers s)
             else if domainInScope fqdn specialUseDomains \<or> domainInScope fqdn specialServiceDomains
             then r \<in> in_scopes q s \<union> set (localResolvers s)
             else r \<in> in_scopes q s \<union> set (globalResolvers s))}"

lemma scopes_selected:
  "set (scope_resolvers env d q scs sel) \<subseteq> set sel \<union> {r. checkCompliance env r q = None \<and>
     (\<exists>sc\<in>set scs. HasSuffix (dotPrefixedFQDN q) (sc_Domain sc) \<and> r \<in> set (sc_Resolvers sc))}"
proof (induction scs arbitrary: sel)
  case (Cons sc scs)
  show ?case
    using Cons.IH [of sel] Cons.IH [of "addResolvers env d q sel (sc_Resolvers sc)"]
      addResolvers_set [of env d q sel "sc_Resolvers sc"] by (auto 4 3 simp: scope_resolvers_def)
qed (simp add: scope_resolvers_def)

lemma scopes_distinct: "distinct (ids sel) \<Longrightarrow> distinct (ids (scope_resolvers env d q scs sel))"
  by (induction scs arbitrary: sel) (auto simp: scope_resolvers_def intro: addResolvers_distinct)

lemma selected_permitted:
  assumes "GetResolversInScope env q s = (rs, source, tryAll)"
  shows "set rs \<subseteq> permitted env q s" "distinct (ids rs)"
proof -
  let ?add = "addResolvers env (resolverInitDomains s) q"
  let ?sel = "scope_resolvers env (resolverInitDomains s) q (localScopes s) []"
  have in_add: "r \<in> set sel \<or> checkCompliance env r q = None \<and> r \<in> set rs" if "r \<in> set (?add sel rs)" for r sel rs
    using addResolvers_set [of env "resolverInitDomains s" q sel rs] that by auto
  have sc: "checkCompliance env r q = None \<and> r \<in> in_scopes q s" if "r \<in> set ?sel" for r
    using scopes_selected [of env "resolverInitDomains s" q "localScopes s" "[]"] that by (auto simp: in_scopes_def)
  show "set rs \<subseteq> permitted env q s"
    using assms unfolding GetResolversInScope_def permitted_def Let_def
    by (auto simp del: addResolvers.simps split: if_splits dest!: in_add sc)
  show "distinct (ids rs)"
    using assms scopes_distinct [of "[]"] unfolding GetResolversInScope_def Let_def
    by (auto simp del: addResolvers.simps split: if_splits intro!: addResolvers_distinct)
qed

section \<open>What a query changes\<close>

text \<open>The lists of resolvers are not changed by queries.\<close>

definition lists_of :: "resolver_state \<Rightarrow> _" where
  "lists_of s = (globalResolvers s, localResolvers s, systemResolvers s, localScopes s, activeResolvers s,
     currentResolverConfig s, resolverInitDomains s)"

lemma lists_of_simps [simp]:
  "lists_of (ReportFailure env r s) = lists_of s" "lists_of (ResetFailure r s) = lists_of s"
  "lists_of (resetFailingResolversNotification s) = lists_of s"
  "lists_of (report_failing env source reported s) = lists_of s"
  "asked (ReportFailure env r s) = asked s" "asked (ResetFailure r s) = asked s"
  "asked (resetFailingResolversNotification s) = asked s"
  "asked (report_failing env source reported s) = asked s"
  by (simp_all add: lists_of_def ReportFailure_def ResetFailure_def resetFailingResolversNotification_def
      report_failing_def notifyAboutFailingResolvers_def Let_def split: resolver_conn.split)

lemma Conn_Query_frame:
  assumes "Conn_Query env r q s = (result, q', s')"
  shows "lists_of s' = lists_of s" "asked s' = asked s @ [(r, q)]" "conns s' = conns s" "name_cache s' = name_cache s"
    "q' = q \<or> q' = q\<lparr>NoCaching := True\<rparr>"
  using assms by (auto simp: Conn_Query_def lists_of_def Let_def split: resolver_conn.splits prod.splits)

lemma IsFailing_mono: "IsFailing s r' \<Longrightarrow> IsFailing (ReportFailure env r s) r'"
  by (auto simp: IsFailing_def ReportFailure_def report_failure_def Let_def
      split: resolver_conn.splits option.splits)

abbreviation usable :: "resolver_state \<Rightarrow> Resolver \<Rightarrow> bool" where
  "usable s r \<equiv> \<not> IsFailing s r \<and> \<not> LinkLocalUnavailable r"

lemma subseq_filter_mono: "(\<And>x. P x \<Longrightarrow> Q x) \<Longrightarrow> subseq (filter P xs) (filter Q xs)"
  by (induction xs) auto

lemma subseq_set: "subseq xs ys \<Longrightarrow> set xs \<subseteq> set ys"
  by (induction rule: list_emb.induct) auto

lemma subseq_distinct: "subseq xs ys \<Longrightarrow> distinct ys \<Longrightarrow> distinct xs"
  by (induction rule: list_emb.induct) (auto dest: subseq_set)

text \<open>
  Induction over the rounds of the loop: it ends, is told to stop, passes over a resolver, goes on with
  the next one after an answer it does not take, or stops with an error or an answer.
\<close>

lemma query_loop_rounds [consumes 1, case_names ends shutdown pass_over goes_on returns answered]:
  assumes "query_loop env source tryAll old rs cerr reported q s = (outcome, reported', q', s')"
    and "\<And>c err q s. P [] q s (LoopDone c err) q s"
    and "\<And>r rs q s. P (r # rs) q s (Return None (Some ErrShuttingDown)) q s"
    and "\<And>r rs q s outcome q' s'. \<not> usable s r \<Longrightarrow> P rs q s outcome q' s' \<Longrightarrow> P (r # rs) q s outcome q' s'"
    and "\<And>r rs q s result q1 s1 s2 outcome q' s'. usable s r \<Longrightarrow> Conn_Query env r q s = (result, q1, s1) \<Longrightarrow>
      s2 = s1 \<or> s2 = ReportFailure env r s1 \<Longrightarrow> P rs q1 s2 outcome q' s' \<Longrightarrow> P (r # rs) q s outcome q' s'"
    and "\<And>r rs q s result q1 s1 c err. usable s r \<Longrightarrow> Conn_Query env r q s = (result, q1, s1) \<Longrightarrow>
      P (r # rs) q s (Return c (Some err)) q1 s1"
    and "\<And>r rs q s c q1 s1 s'. usable s r \<Longrightarrow> Conn_Query env r q s = (Inr (Some c), q1, s1) \<Longrightarrow>
      s' = ResetFailure r s1 \<or> s' = resetFailingResolversNotification (ResetFailure r s1) \<Longrightarrow>
      P (r # rs) q s (LoopDone (Some c) None) q1 s'"
  shows "P rs q s outcome q' s'"
  using assms(1)
proof (induction rs arbitrary: tryAll cerr reported q s)
  case Nil
  then show ?case using assms(2) by (cases cerr) auto
next
  case (Cons r rs)
  obtain result q1 s1 where Q: "Conn_Query env r q s = (result, q1, s1)" by (metis prod_cases3)
  show ?case
  proof (cases "re_IsDone env (now s) \<or> \<not> usable s r")
    case True
    then show ?thesis using Cons assms(3) [of r rs q s] assms(4) [of s r rs q] by (cases cerr) (auto split: if_splits)
  next
    case False
    then have u: "usable s r" by blast
    note on = assms(5) [OF u Q disjI1 [OF refl] Cons.IH] assms(5) [OF u Q disjI2 [OF refl] Cons.IH] and ret = assms(6) [OF u Q, of rs] and ans = assms(7) [OF u, of q _ q1 s1 _ rs]
    show ?thesis
      using Cons.prems False Q ret ans
      by (cases cerr) (auto dest: on simp: Let_def split: sum.splits option.splits after_error.splits if_splits)
  qed
qed

lemma query_loop_asks:
  assumes "query_loop env source tryAll old rs cerr reported q s = (outcome, reported', q', s')"
  shows "\<exists>asks. asked s' = asked s @ asks \<and> subseq (map fst asks) (filter (usable s) rs) \<and> lists_of s' = lists_of s"
  using assms
proof (induction rule: query_loop_rounds)
  case (goes_on r rs q s result q1 s1 s2 outcome q' s')
  note f = Conn_Query_frame [OF goes_on(2)]
  obtain asks where a: "asked s' = asked s2 @ asks" "subseq (map fst asks) (filter (usable s2) rs)" "lists_of s' = lists_of s2"
    using goes_on(4) by blast
  have "IsFailing s2 r'" if "IsFailing s r'" for r'
    using goes_on(3) f(3) that IsFailing_mono [of s1 r' env r] by (auto simp: IsFailing_def split: resolver_conn.splits)
  then have "subseq (filter (usable s2) rs) (filter (usable s) rs)" by (intro subseq_filter_mono) auto
  with a(2) have "subseq (map fst ((r, q) # asks)) (filter (usable s) (r # rs))"
    using goes_on(1) by (simp add: subseq_order.trans)
  then show ?case using a f goes_on(3) by (intro exI [of _ "(r, q) # asks"]) auto
next
  case (returns r rs q s result q1 s1 c err)
  then show ?case using Conn_Query_frame [OF returns(2)] by (intro exI [of _ "[(r, q)]"]) auto
next
  case (answered r rs q s c q1 s1 s')
  then show ?case using Conn_Query_frame [OF answered(2)] by (intro exI [of _ "[(r, q)]"]) auto
qed auto

lemma permitted_cong: "lists_of s1 = lists_of s \<Longrightarrow> permitted env q s1 = permitted env q s"
  by (simp add: lists_of_def permitted_def in_scopes_def)

lemma finish_query_frame:
  "finish_query env old n c err q s = (result, s') \<Longrightarrow> asked s' = asked s \<and> lists_of s' = lists_of s"
  by (auto simp: finish_query_def lists_of_def Let_def split: option.splits sum.splits if_splits)

lemma resolveAndCache_asks:
  assumes "resolveAndCache env q old s = (result, s')"
  shows "\<exists>asks. asked s' = asked s @ asks \<and> fst ` set asks \<subseteq> {r \<in> permitted env q s. usable s r} \<and>
    distinct (ids (map fst asks)) \<and> lists_of s' = lists_of s"
proof -
  obtain rs source tryAll where sel: "GetResolversInScope env q s = (rs, source, tryAll)" by (metis prod_cases3)
  obtain outcome reported q1 s1
    where loop: "query_loop env source tryAll old rs (None, None) False q s = (outcome, reported, q1, s1)"
    by (metis prod_cases4)
  have "asked s' = asked s \<and> lists_of s' = lists_of s \<or> asked s' = asked s1 \<and> lists_of s' = lists_of s1"
    using assms sel loop
    by (auto simp: resolveAndCache_def split: if_splits loop_end.splits prod.splits dest!: finish_query_frame)
  then show ?thesis
  proof
    assume 2: "asked s' = asked s1 \<and> lists_of s' = lists_of s1"
    from query_loop_asks [OF loop] obtain asks where a: "asked s1 = asked s @ asks"
      "subseq (map fst asks) (filter (usable s) rs)" "lists_of s1 = lists_of s" by blast
    have "distinct (ids (filter (usable s) rs))"
      using selected_permitted(2) [OF sel] by (simp add: distinct_map_filter)
    with a(2) have "distinct (ids (map fst asks))" by (metis subseq_map subseq_distinct)
    moreover have "fst ` set asks \<subseteq> {r \<in> permitted env q s. usable s r}"
      using subseq_set [OF a(2)] selected_permitted(1) [OF sel] by auto
    ultimately show ?thesis using a 2 by auto
  qed simp
qed

lemma checkCache_frame:
  "checkCache env q s = (c, s') \<Longrightarrow> asked s' = asked s \<and> lists_of s' = lists_of s \<and> conns s' = conns s \<and> now s' = now s"
  by (auto simp: checkCache_def shouldResetCache_def startAsyncQuery_def lists_of_def Let_def
      split: if_splits option.splits prod.splits)

lemma Resolve_asks:
  assumes q: "Query_check env q = Some q'" and R: "Resolve env None q s = (result, s')"
  shows "\<exists>asks. asked s' = asked s @ asks \<and> fst ` set asks \<subseteq> {r \<in> permitted env q' s. usable s r} \<and>
    distinct (ids (map fst asks)) \<and> lists_of s' = lists_of s"
proof -
  consider "asked s' = asked s" "lists_of s' = lists_of s"
    | old s1 where "resolveAndCache env q' old s1 = (result, s')" "asked s1 = asked s" "lists_of s1 = lists_of s" "conns s1 = conns s"
    using q R checkCache_frame
    by (auto simp: Resolve_def startAsyncQuery_def lists_of_def split: option.splits if_splits prod.splits)
  then show ?thesis
  proof cases
    case 2
    have "usable s1 r = usable s r" for r using 2(4) by (simp add: IsFailing_def split: resolver_conn.splits)
    then show ?thesis using resolveAndCache_asks [OF 2(1)] 2 permitted_cong [OF 2(3)] by auto
  qed auto
qed

section \<open>Loaded resolvers\<close>

text \<open>The networks of this host: those known, and those that the operating system reports.\<close>

definition own_networks :: "net_env \<Rightarrow> net_state \<Rightarrow> ip_net set" where
  "own_networks ne net = set (myNetworks net) \<union>
     (case osGetInterfaceAddrs ne of Inl err \<Rightarrow> {} | Inr addrs \<Rightarrow> {n. IPNetAddr n \<in> set addrs})"

lemma own_networks_refresh: "refreshMyNetworks ne net = (err, net') \<Longrightarrow> own_networks ne net' \<subseteq> own_networks ne net"
  by (auto simp: refreshMyNetworks_def own_networks_def Let_def split: if_splits sum.splits if_addr.splits)

lemma GetLocalNetwork_own:
  assumes "GetLocalNetwork ne ip net = (r, net')"
  shows "own_networks ne net' \<subseteq> own_networks ne net"
    "r = Inr (Some n) \<Longrightarrow> IPNet_Contains n ip \<and> n \<in> own_networks ne net"
proof -
  show own: "own_networks ne net' \<subseteq> own_networks ne net"
    using assms own_networks_refresh [of ne net]
    by (auto simp: GetLocalNetwork_def Let_def split: if_splits prod.splits option.splits)
  show "IPNet_Contains n ip \<and> n \<in> own_networks ne net" if "r = Inr (Some n)"
  proof -
    have "find (\<lambda>n. IPNet_Contains n ip) (myNetworks net') = Some n"
      using assms that by (auto simp: GetLocalNetwork_def Let_def split: if_splits prod.splits option.splits)
    then have "IPNet_Contains n ip" "n \<in> set (myNetworks net')" by (auto simp: find_Some_iff)
    then show ?thesis using own by (auto simp: own_networks_def)
  qed
qed

definition on_link :: "resolver_env \<Rightarrow> net_state \<Rightarrow> Resolver \<Rightarrow> bool" where
  "on_link env net r \<longleftrightarrow> IsLAN (ri_IPScope (r_Info r)) \<or>
     (\<exists>n\<in>own_networks (re_net env) net. IPNet_Contains n (ri_IP (r_Info r)))"

lemma on_link_mono: "own_networks (re_net env) net' \<subseteq> own_networks (re_net env) net \<Longrightarrow> on_link env net' r \<Longrightarrow> on_link env net r"
  by (auto simp: on_link_def)

lemma local_resolvers_on_link:
  "local_resolvers env rs net = (loc, net') \<Longrightarrow> set loc \<subseteq> {r \<in> set rs. on_link env net r}"
proof (induction rs arbitrary: net loc)
  case (Cons r rs)
  obtain yes net1 loc1 where 1: "is_local env r net = (yes, net1)" "local_resolvers env rs net1 = (loc1, net')"
    "loc = (if yes then r # loc1 else loc1)"
    using Cons.prems by (auto split: prod.splits)
  have own: "own_networks (re_net env) net1 \<subseteq> own_networks (re_net env) net"
    using 1(1) GetLocalNetwork_own(1) by (auto simp: is_local_def split: if_splits prod.splits)
  have "on_link env net r" if yes
    using 1(1) that GetLocalNetwork_own(2)
    by (fastforce simp: is_local_def on_link_def split: if_splits prod.splits sum.splits option.splits)
  then show ?case using Cons.IH [OF 1(2)] 1(3) on_link_mono [OF own] by auto
qed simp

lemma add_to_scope_domain:
  "\<forall>sc\<in>set (add_to_scope d r scs). \<forall>x\<in>set (sc_Resolvers sc).
     x = r \<and> sc_Domain sc = d \<or> (\<exists>sc'\<in>set scs. sc_Domain sc' = sc_Domain sc \<and> x \<in> set (sc_Resolvers sc'))"
  by (induction scs) auto

definition scoped :: "Scope list \<Rightarrow> bool" where
  "scoped scs \<longleftrightarrow> (\<forall>sc\<in>set scs. \<forall>r\<in>set (sc_Resolvers sc). sc_Domain sc \<in> set (r_Search r))"

lemma scoped_add_to_scope: "scoped scs \<Longrightarrow> d \<in> set (r_Search r) \<Longrightarrow> scoped (add_to_scope d r scs)"
  using add_to_scope_domain [of d r scs] by (fastforce simp: scoped_def)

lemma scoped_add_scopes: "scoped scs \<Longrightarrow> scoped (add_scopes r scs)"
proof -
  have "scoped (foldl (\<lambda>scs search. if search = ''.'' then scs else add_to_scope search r scs) scs ds)"
    if "scoped scs" "set ds \<subseteq> set (r_Search r)" for ds scs
    using that by (induction ds arbitrary: scs) (auto intro: scoped_add_to_scope)
  then show "scoped scs \<Longrightarrow> scoped (add_scopes r scs)" by (simp add: add_scopes_def)
qed

lemma scoped_loaded: "scoped (localScopes (setScopedResolvers env rs s))"
proof -
  have "scoped (foldl (\<lambda>scs r. add_scopes r scs) scs rs)" if "scoped scs" for scs
    using that by (induction rs arbitrary: scs) (auto intro: scoped_add_scopes)
  from this [of "[]"] show ?thesis by (simp add: setScopedResolvers_def scoped_def split: prod.split)
qed

abbreviation nets :: "resolver_env \<Rightarrow> resolver_state \<Rightarrow> ip_net set" where
  "nets env s \<equiv> own_networks (re_net env) (res_net s)"

lemma set_link_local_net: "set_link_local env u r s = Inr (r', s') \<Longrightarrow> nets env s' \<subseteq> nets env s"
  using GetLocalNetwork_own(1) [of "re_net env" "ri_IP (r_Info r)" "res_net s"]
  by (auto simp: set_link_local_def split: if_splits prod.splits)

lemma finish_resolver_net: "finish_resolver env u r s = (result, s') \<Longrightarrow> nets env s' \<subseteq> nets env s"
  by (auto simp: finish_resolver_def resolverConnFactory_def bind_go_Inr_iff split: sum.splits prod.splits
      dest!: set_link_local_net)

lemma createResolver_net: "createResolver env text parsed source s = (result, s') \<Longrightarrow> nets env s' \<subseteq> nets env s"
  by (auto simp: createResolver_def Let_def split: option.splits sum.splits if_splits prod.splits
      dest!: finish_resolver_net)

lemma getConfiguredResolvers_net:
  "getConfiguredResolvers env parse servers s = (rs, s') \<Longrightarrow>
     nets env s' \<subseteq> nets env s"
proof (induction servers arbitrary: s rs)
  case (Cons server servers)
  then show ?case using createResolver_net by (fastforce split: prod.splits)
qed simp

lemma getSystemResolvers_net:
  "getSystemResolvers env parse nss s = (rs, s') \<Longrightarrow>
     nets env s' \<subseteq> nets env s"
proof (induction nss arbitrary: s rs)
  case (Cons ns nss)
  then show ?case using createResolver_net by (fastforce simp: Let_def split: prod.splits)
qed simp

lemma loadResolvers_loaded:
  assumes "s = loadResolvers env parse config nss s0"
  shows "set (localResolvers s) \<subseteq> {r. on_link env (res_net s0) r}" "scoped (localScopes s)"
proof -
  define s2 where "s2 = (if currentResolverConfig s0 \<noteq> [] \<and> currentResolverConfig s0 \<noteq> config
    then s0\<lparr>name_cache := Map.empty\<rparr> else s0)\<lparr>currentResolverConfig := config, isDisabled := (config = [])\<rparr>"
  obtain c1 sA where A: "getConfiguredResolvers env parse config s2 = (c1, sA)" by fastforce
  obtain c2 sB where B: "getSystemResolvers env parse nss sA = (c2, sB)" by fastforce
  obtain rs s3 where C: "(if c1 @ c2 = [] then getConfiguredResolvers env parse defaultNameServers sB
    else (c1 @ c2, sB)) = (rs, s3)" by fastforce
  let ?s1 = "s3\<lparr>globalResolvers := rs\<rparr>"
  have n: "nets env ?s1 \<subseteq> nets env s0"
    using getConfiguredResolvers_net [OF A] getSystemResolvers_net [OF B] C getConfiguredResolvers_net [of env parse defaultNameServers sB]
    by (auto simp: s2_def split: if_splits)
  have s1: "lists_of s = lists_of ((setScopedResolvers env rs ?s1)\<lparr>activeResolvers := active_map rs\<rparr>)"
    using assms A B C unfolding loadResolvers_def s2_def [symmetric] Let_def by simp
  show "scoped (localScopes s)" using s1 scoped_loaded [of env rs ?s1] by (simp add: lists_of_def)
  have "localResolvers s = fst (local_resolvers env rs (res_net ?s1))"
    using s1 by (auto simp: lists_of_def setScopedResolvers_def split: prod.splits)
  then show "set (localResolvers s) \<subseteq> {r. on_link env (res_net s0) r}"
    using local_resolvers_on_link [of env rs "res_net ?s1"] on_link_mono [OF n] by (auto simp: prod_eq_iff)
qed

section \<open>Responses in the cache\<close>

text \<open>Records that can be written to the database and read back; \<^verbatim>\<open>OPT\<close> and \<^verbatim>\<open>NULL\<close> are left out.\<close>

definition kept :: "rr list \<Rightarrow> rr list" where
  "kept = filter (\<lambda>x. rr_Rrtype x \<notin> {TypeOPT, TypeNULL})"

definition readable :: "resolver_env \<Rightarrow> rr list \<Rightarrow> bool" where
  "readable env rrs \<longleftrightarrow> list_all (\<lambda>x. dns_NewRR env (RR_String env x) = Some x) (kept rrs)"

definition from_cache :: "int \<Rightarrow> RRCache \<Rightarrow> RRCache" where
  "from_cache t c = c\<lparr>rc_Answer := kept (rc_Answer c), rc_Ns := kept (rc_Ns c), rc_Extra := kept (rc_Extra c),
     ServedFromCache := True, RequestingNew := False, IsBackup := False, Filtered := False, FilteredEntries := [],
     rc_Modified := Unix t\<rparr>"

lemma parse_section_kept:
  assumes "readable env rrs" shows "parse_section env (toNameRecordSection env rrs) = kept rrs"
proof -
  have "List.map_filter (dns_NewRR env) (map (RR_String env) xs) = xs"
    if "list_all (\<lambda>x. dns_NewRR env (RR_String env x) = Some x) xs" for xs
    using that by (induction xs) simp_all
  then show ?thesis using assms by (simp add: readable_def parse_section_def toNameRecordSection_def kept_def)
qed

lemma GetRRCache_saved:
  assumes "rcodeIsCacheable (RCode c)" "rc_Domain c \<noteq> []" "type_String env (rc_Question c) \<noteq> []"
    and "ri_Type (rc_Resolver c) \<noteq> []" "Unix t' < rc_Expires c"
    and "readable env (rc_Answer c)" "readable env (rc_Ns c)" "readable env (rc_Extra c)"
  shows "GetRRCache env t' (rc_Domain c) (rc_Question c) (RRCache_Save env t c db) = Some (from_cache t c)"
  using assms
  by (simp add: GetRRCache_def RRCache_Save_def NameRecord_Save_def GetNameRecord_def ToNameRecord_def
      NameRecord_IsValid_def databaseOvertime_def parse_section_kept from_cache_def)

lemma query_loop_fresh:
  assumes "query_loop env source tryAll old rs cerr reported q s = (outcome, reported', q', s')"
    and "\<forall>r\<in>set rs. r_Conn r \<noteq> EnvConn"
  shows "q' = q"
proof -
  have "q1 = q" if "Conn_Query env r q s = (result, q1, s1)" "r_Conn r \<noteq> EnvConn" for r q s result q1 s1
    using that by (auto simp: Conn_Query_def Let_def split: resolver_conn.splits prod.splits)
  note same = this
  show ?thesis using assms by (induction rule: query_loop_rounds) (auto dest: same)
qed

lemma query_loop_return:
  "query_loop env source tryAll old rs cerr reported q s = (outcome, reported', q', s') \<Longrightarrow> outcome \<noteq> Return c None"
  by (induction rule: query_loop_rounds) auto

lemma fresh_response_saved:
  assumes R: "resolveAndCache env q old s = ((Some c, None), s')"
    and fresh: "\<not> ServedFromCache c" "\<And>c. old = Some c \<Longrightarrow> ServedFromCache c"
    and q: "\<not> NoCaching q" "\<forall>r\<in>permitted env q s. r_Conn r \<noteq> EnvConn" and "rcodeIsCacheable (RCode c)"
  shows "\<exists>db. name_cache s' = RRCache_Save env (now s') c db"
proof -
  obtain rs source tryAll where sel: "GetResolversInScope env q s = (rs, source, tryAll)" by (metis prod_cases3)
  obtain outcome reported q1 s1
    where loop: "query_loop env source tryAll old rs (None, None) False q s = (outcome, reported, q1, s1)"
    by (metis prod_cases4)
  have q1: "q1 = q" using query_loop_fresh [OF loop] q(2) selected_permitted(1) [OF sel] by auto
  show ?thesis
  proof (cases outcome)
    case (Return x1 x2)
    then show ?thesis
      using R sel loop query_loop_return [OF loop, of x1] fresh by (auto simp: resolveAndCache_def split: if_splits)
  next
    case (LoopDone c0 err)
    then show ?thesis
      using R sel loop q1 q(1) fresh assms(6)
      by (auto simp: resolveAndCache_def finish_query_def report_failing_def notifyAboutFailingResolvers_def
          Let_def split: if_splits option.splits sum.splits prod.splits) 
  qed
qed

lemma Resolve_fresh:
  assumes "Query_check env q = Some q'" "Resolve env None q s = ((Some c, None), s')"
    and "\<not> ServedFromCache c" "\<not> NoCaching q"
  shows "\<exists>old s1. resolveAndCache env q' old s1 = ((Some c, None), s') \<and> lists_of s1 = lists_of s \<and>
    (\<forall>c. old = Some c \<longrightarrow> ServedFromCache c) \<and> \<not> NoCaching q'"
proof -
  have nc: "NoCaching q' = NoCaching q" using assms(1) by (auto simp: Query_check_def Let_def split: if_splits)
  have sfc: "checkCache env q' s = (Some c, s1) \<Longrightarrow> ServedFromCache c" for c s1
    by (auto simp: checkCache_def shouldResetCache_def startAsyncQuery_def GetRRCache_def Let_def
        split: if_splits option.splits prod.splits)
  obtain old s1 where cc: "checkCache env q' s = (old, s1)" by fastforce
  show ?thesis
    using assms nc cc sfc checkCache_frame [OF cc]
    by (auto simp: Resolve_def startAsyncQuery_def split: option.splits if_splits)
qed

lemma checkCache_hit:
  assumes "\<not> IsConnectivityDomain (re_net env) (q_FQDN q)"
    and "GetRRCache env (now s) (q_FQDN q) (QType q) (name_cache s) = Some c"
    and "activeResolvers s (ResolverInfo_ID (rc_Resolver c)) = Some r" "checkCompliance env r q = None"
    and "cacheResetID s \<noteq> Query_ID env q" "\<not> Expired (now s) c" "\<not> RequestingNew c"
  shows "fst (checkCache env q s) = Some (c\<lparr>RequestingNew := ExpiresSoon (now s) c\<rparr>)"
  using assms by (simp add: checkCache_def shouldResetCache_def startAsyncQuery_def Let_def)

section \<open>Main properties\<close>

text \<open>
  C12: The settings for the resolver are respected.  A name that is resolved is sent only to servers
  that the settings permit: with insecure protocols disabled to encrypted ones or the internal
  resolver, with assigned name servers disabled to none that the system assigned, with multicast DNS
  disabled not to the multicast group; a server for search domains only sees names in these domains.
  No server that is regarded as failing is asked, and no server is asked twice.
\<close>

theorem dns_settings_respected:
  assumes "Query_check env q = Some q'" "Resolve env None q s = (result, s')"
  shows "\<exists>asks. asked s' = asked s @ asks \<and> distinct (map (\<lambda>(r, _). ResolverInfo_ID (r_Info r)) asks) \<and>
    (\<forall>(r, _)\<in>set asks.
       (noInsecureProtocols env \<longrightarrow> ri_Type (r_Info r) \<in> {ServerTypeDoT, ServerTypeDoH, ServerTypeEnv}) \<and>
       (noAssignedNameservers env \<longrightarrow> ri_Source (r_Info r) \<noteq> ServerSourceOperatingSystem) \<and>
       (noMulticastDNS env \<longrightarrow> ri_Source (r_Info r) \<noteq> ServerSourceMDNS) \<and>
       (SearchOnly r \<longrightarrow> domainInScope (dotPrefixedFQDN q') (r_Search r)) \<and> \<not> IsFailing s r)"
proof -
  obtain asks where a: "asked s' = asked s @ asks" "distinct (ids (map fst asks))"
    "fst ` set asks \<subseteq> {r \<in> permitted env q' s. usable s r}"
    using Resolve_asks [OF assms] by blast
  have "(noInsecureProtocols env \<longrightarrow> ri_Type (r_Info r) \<in> {ServerTypeDoT, ServerTypeDoH, ServerTypeEnv}) \<and>
       (noAssignedNameservers env \<longrightarrow> ri_Source (r_Info r) \<noteq> ServerSourceOperatingSystem) \<and>
       (noMulticastDNS env \<longrightarrow> ri_Source (r_Info r) \<noteq> ServerSourceMDNS) \<and>
       (SearchOnly r \<longrightarrow> domainInScope (dotPrefixedFQDN q') (r_Search r)) \<and> \<not> IsFailing s r"
    if "(r, q1) \<in> set asks" for r q1
  proof -
    have "checkCompliance env r q' = None" "usable s r" using a(3) that by (auto simp: permitted_def)
    then show ?thesis by (auto simp: checkCompliance_def Let_def split: if_splits)
  qed
  moreover have "map (\<lambda>(r, _). ResolverInfo_ID (r_Info r)) asks = ids (map fst asks)" by auto
  ultimately show ?thesis using a by (intro exI [of _ asks]) (auto simp del: map_map)
qed



end
