(* ===== verification/Resolver_Runs.thy ===== *)
theory Resolver_Runs
  imports Resolver_Rules
begin

text \<open>
  Sample runs of the resolver, which show that the properties of \<open>Resolver_Rules\<close> apply, and the
  counting of failures.
\<close>

section \<open>Samples\<close>

definition sample_rr :: rr where
  "sample_rr = \<lparr>rr_Name = ''safing.io.'', rr_Rrtype = TypeA, rr_Class = 1, rr_Ttl = 17, rr_data = RR_A [1, 2, 3, 4]\<rparr>"

definition sample_net :: net_state where
  "sample_net = \<lparr>myNetworks = [\<lparr>net_IP = [192, 168, 0, 7], net_Mask = [255, 255, 255, 0]\<rparr>], network_changed = False,
     myNetworksRefreshError = None, myNetworksDontRefreshUntil = 0\<rparr>"

definition sample_renv :: resolver_env where
  "sample_renv =
     \<lparr>re_net = \<lparr>osGetInterfaceAddrs = Inr [], clock = 0, captivePortalDomain = []\<rparr>,
      re_onlineStatus = (\<lambda>t. 5), re_IsDone = (\<lambda>t. False),
      type_String = (\<lambda>t. if t = TypeA then ''A'' else ''AAAA''), RR_String = (\<lambda>x. rr_Name x @ '' A''),
      dns_NewRR = (\<lambda>x. Some sample_rr), dns_Fqdn = (\<lambda>d. d), dns_ReverseAddr = (\<lambda>ip. None),
      publicsuffix = (\<lambda>d. (''io'', True)), noInsecureProtocols = False, noAssignedNameservers = False,
      noMulticastDNS = True, dontResolveSpecialDomains = False, useStaleCache = False,
      exchange = (\<lambda>r q t. (1000000, Inr (Some \<lparr>m_Rcode = RcodeSuccess, m_Question = [],
        m_Answer = [sample_rr], m_Ns = [], m_Extra = []\<rparr>))),
      mdns_response = (\<lambda>q t. (1000000, Inl ErrTimeout)), re_captivePortalIP = [], re_Gateways = [],
      CompatDNSCheckInternalDomainScope = ''.self-check.portmaster.home.arpa.'',
      CompatSubmitDNSCheckDomain = (\<lambda>d. None)\<rparr>"

definition sample_rstate :: resolver_state where
  "sample_rstate =
     \<lparr>now = 1700000000000000000, res_net = sample_net, globalResolvers = [], localResolvers = [],
      systemResolvers = [], localScopes = [], activeResolvers = Map.empty, currentResolverConfig = [],
      resolverInitDomains = {}, conns = (\<lambda>a. new_basic_conn), nextConn = 0, name_cache = Map.empty,
      cacheResetID = [], cacheResetSeenCnt = 0, ConnectedToDNS = True, isDisabled = False,
      failingNotification = False, async_queries = [], asked = []\<rparr>"

definition sample_parse :: "string \<Rightarrow> url option" where
  "sample_parse text = Some \<lparr>u_Scheme = ''dns'', u_Hostname = ''192.168.0.1'', u_Port = ''53'', u_Path = [], u_Query = []\<rparr>"

definition sample_loaded :: resolver_state where
  "sample_loaded = loadResolvers sample_renv sample_parse [] [\<lparr>ns_IP = [192, 168, 0, 1], ns_Search = []\<rparr>] sample_rstate"

definition sample_server :: Resolver where
  "sample_server =
     \<lparr>ConfigURL = ''dns://192.168.0.1:53'',
      r_Info = \<lparr>ri_Name = [], ri_Type = ''dns'', ri_Source = ''system'', ri_IP = v4InV6Prefix @ [192, 168, 0, 1],
        ri_Domain = [], ri_IPScope = SiteLocal, ri_Port = 53\<rparr>,
      ServerAddress = ''192.168.0.1:53'', UpstreamBlockDetection = ''zeroip'', r_Search = [], SearchOnly = False,
      r_Path = [], LinkLocalUnavailable = False, r_Conn = NetConn 0\<rparr>"

definition lan_query :: Query where
  "lan_query = new_query ''printer.lan.'' TypeA"

lemma sample_asks: "(sample_server, lan_query\<lparr>dotPrefixedFQDN := ''.printer.lan.''\<rparr>) \<in>
    set (drop (length (asked sample_loaded)) (asked (snd (Resolve sample_renv None lan_query sample_loaded))))"
  by code_simp

lemma lan_check: "Query_check sample_renv lan_query = Some (lan_query\<lparr>dotPrefixedFQDN := ''.printer.lan.''\<rparr>)"
  by (simp add: sample_renv_def lan_query_def new_query_def Query_check_def Let_def)

theorem dns_settings_respected_witness:
  "\<exists>asks. asked (snd (Resolve sample_renv None lan_query sample_loaded)) = asked sample_loaded @ asks \<and>
     sample_server \<in> fst ` set asks \<and> \<not> IsFailing sample_loaded sample_server"
proof -
  obtain asks where a: "asked (snd (Resolve sample_renv None lan_query sample_loaded)) = asked sample_loaded @ asks"
    "\<forall>(r, _)\<in>set asks. \<not> IsFailing sample_loaded r"
    using dns_settings_respected [OF lan_check prod.collapse [symmetric], of sample_loaded] by fast
  moreover have "(sample_server, lan_query\<lparr>dotPrefixedFQDN := ''.printer.lan.''\<rparr>) \<in> set asks"
    using sample_asks a(1) by simp
  ultimately show ?thesis by (intro exI [of _ asks]) force
qed


section \<open>The cache\<close>

definition web_query :: Query where
  "web_query = new_query ''safing.io.'' TypeA"

definition web_answer :: "RRCache option" where
  "web_answer = fst (fst (Resolve sample_renv None web_query sample_loaded))"

definition web_state :: resolver_state where
  "web_state = snd (Resolve sample_renv None web_query sample_loaded)"

lemma sample_facts:
  "globalResolvers sample_loaded = [sample_server]" "localScopes sample_loaded = []" "systemResolvers sample_loaded = [sample_server]"
  by code_simp+

lemma web_facts:
  "IsConnectivityDomain (re_net sample_renv) ''safing.io.'' = False"
  "domainInScope ''.safing.io.'' internalSpecialUseDomains = False" "domainInScope ''.safing.io.'' multicastDomains = False"
  "domainInScope ''.safing.io.'' specialUseDomains = False" "domainInScope ''.safing.io.'' specialServiceDomains = False"
  "Query_checkCompliance sample_renv (web_query\<lparr>dotPrefixedFQDN := ''.safing.io.''\<rparr>) = None"
  by code_simp+

lemma web_result:
  "Resolve sample_renv None web_query sample_loaded = ((web_answer, None), web_state)"
  "cacheResetID web_state = []"
  "activeResolvers sample_loaded (ResolverInfo_ID (r_Info sample_server)) = Some sample_server"
proof -
  have "snd (fst (Resolve sample_renv None web_query sample_loaded)) = None" by code_simp
  then show "Resolve sample_renv None web_query sample_loaded = ((web_answer, None), web_state)"
    by (simp add: web_answer_def web_state_def prod_eq_iff)
  show "cacheResetID web_state = []" by code_simp
  show "activeResolvers sample_loaded (ResolverInfo_ID (r_Info sample_server)) = Some sample_server" by code_simp
qed

lemma web_answer:
  "web_answer = Some \<lparr>rc_Domain = ''safing.io.'', rc_Question = TypeA, RCode = RcodeSuccess, rc_Answer = [sample_rr],
     rc_Ns = [], rc_Extra = [], rc_Expires = 1700000060, rc_Resolver = r_Info sample_server, ServedFromCache = False,
     RequestingNew = False, IsBackup = False, Filtered = False, FilteredEntries = [], rc_Modified = 0\<rparr>"
  by code_simp

lemma web_check: "Query_check sample_renv web_query = Some (web_query\<lparr>dotPrefixedFQDN := ''.safing.io.''\<rparr>)"
  by (simp add: sample_renv_def web_query_def new_query_def Query_check_def Let_def)


section \<open>Failing servers\<close>

text \<open>The failures of a connection at the given times.\<close>

definition fail_at :: "resolver_env \<Rightarrow> Resolver \<Rightarrow> resolver_state \<Rightarrow> int list \<Rightarrow> resolver_state" where
  "fail_at env r s ts = foldl (\<lambda>s t. ReportFailure env r (s\<lparr>now := t\<rparr>)) s ts"

lemma fail_at_counts:
  assumes "r_Conn r = NetConn a" "failingStarted (conns s a) = Some t0" "failing (conns s a) = (FailThreshold < fails (conns s a))"
    and "\<forall>t\<in>set ts. Online env t \<and> t - t0 \<le> FailObserveDuration"
  shows "IsFailing (fail_at env r s ts) r \<longleftrightarrow> FailThreshold < fails (conns s a) + int (length ts)"
  using assms(2-)
proof (induction ts arbitrary: s)
  case Nil
  then show ?case using assms(1) by (simp add: fail_at_def IsFailing_def)
next
  case (Cons t ts)
  let ?s = "ReportFailure env r (s\<lparr>now := t\<rparr>)"
  show ?case
  proof (cases "failing (conns s a)")
    case True
    then have "conns ?s = conns s" using assms(1) by (simp add: ReportFailure_def)
    then show ?thesis using Cons.IH [of ?s] Cons.prems True by (simp add: fail_at_def)
  next
    case False
    have t: "Online env t" "t - t0 \<le> FailObserveDuration" using Cons.prems by auto
    have "conns ?s a = (conns s a)\<lparr>fails := fails (conns s a) + 1, failing := FailThreshold < fails (conns s a) + 1\<rparr>"
      using False Cons.prems(1) assms(1) t by (simp add: ReportFailure_def report_failure_def Let_def)
    then show ?thesis using Cons.IH [of ?s] Cons.prems by (simp add: fail_at_def algebra_simps)
  qed
qed

text \<open>
  Of the reports while the device was online, the last ones since the first of the observation period
  are counted, and a connection fails by six reports within one period.
\<close>

definition in_period :: "int list \<Rightarrow> bool" where
  "in_period ts \<longleftrightarrow> (\<exists>j. j + 5 < length ts \<and> ts ! (j + 5) - ts ! j \<le> FailObserveDuration)"

definition counted :: "int list \<Rightarrow> basic_conn \<Rightarrow> bool" where
  "counted ts c \<longleftrightarrow>
     (if failing c then in_period ts
      else case failingStarted c of
        None \<Rightarrow> ts = []
      | Some st \<Rightarrow> \<exists>i < length ts. ts ! i = st \<and> int i + fails c = int (length ts) \<and> fails c \<le> 5 \<and>
          (\<forall>j. i \<le> j \<and> j < length ts \<longrightarrow> ts ! j - st \<le> FailObserveDuration))"

lemma in_period_snoc: "in_period ts \<Longrightarrow> in_period (ts @ [t])"
  unfolding in_period_def by (elim exE conjE, rule exI, rule conjI) (auto simp: nth_append)

lemma counted_report:
  assumes c: "counted ts c" and n: "\<not> failing c"
  shows "counted (ts @ [t]) (report_failure t c)"
proof (cases "failingStarted c")
  case None
  then show ?thesis using c n
    by (auto simp: counted_def report_failure_def FailObserveDuration_def FailThreshold_def)
next
  case (Some st)
  then obtain i where i: "i < length ts" "ts ! i = st" "int i + fails c = int (length ts)" "fails c \<le> 5"
    "\<And>j. i \<le> j \<Longrightarrow> j < length ts \<Longrightarrow> ts ! j - st \<le> FailObserveDuration"
    using c n by (auto simp: counted_def)
  show ?thesis
  proof (cases "t - st > FailObserveDuration")
    case True
    then show ?thesis using Some n
      by (auto simp: counted_def report_failure_def nth_append FailObserveDuration_def FailThreshold_def intro!: exI [of _ "length ts"])
  next
    case False
    have all: "(ts @ [t]) ! j - st \<le> FailObserveDuration" if "i \<le> j" "j < length (ts @ [t])" for j
      using that i(5) False by (auto simp: nth_append less_Suc_eq)
    show ?thesis
    proof (cases "fails c = 5")
      case True
      then have "(ts @ [t]) ! (i + 5) - (ts @ [t]) ! i \<le> FailObserveDuration"
        using all [of "i + 5"] i by (simp add: nth_append)
      then have "in_period (ts @ [t])" unfolding in_period_def using True i(3) by (intro exI [of _ i]) simp
      then show ?thesis using True Some False n by (simp add: counted_def report_failure_def FailThreshold_def)
    next
      case f: False
      have "\<not> failing (report_failure t c)" "failingStarted (report_failure t c) = Some st" "fails (report_failure t c) = fails c + 1"
        using Some False n f i(4) by (auto simp: report_failure_def FailThreshold_def)
      moreover have "i < length (ts @ [t])" "(ts @ [t]) ! i = st" using i by (simp_all add: nth_append)
      ultimately show ?thesis using i(3,4) f all by (auto simp: counted_def)
    qed
  qed
qed

lemma fail_at_counted:
  assumes "r_Conn r = NetConn a" "counted ts (conns s a)"
  shows "counted (ts @ filter (Online env) us) (conns (fail_at env r s us) a)"
  using assms(2)
proof (induction us arbitrary: s ts)
  case (Cons t us)
  let ?s = "ReportFailure env r (s\<lparr>now := t\<rparr>)"
  have "conns ?s a = (if Online env t \<and> \<not> failing (conns s a) then report_failure t (conns s a) else conns s a)"
    using assms(1) by (simp add: ReportFailure_def Let_def)
  moreover have "counted (ts @ [t]) (conns s a)" if "failing (conns s a)"
    using that Cons.prems by (simp add: counted_def in_period_snoc)
  ultimately have "counted (if Online env t then ts @ [t] else ts) (conns ?s a)"
    using Cons.prems counted_report [OF Cons.prems, of t] by simp
  then show ?case using Cons.IH [of _ ?s] by (cases "Online env t") (force simp: fail_at_def)+
qed (simp add: fail_at_def)



text \<open>The comment at the threshold says that as many errors mark a server as failed; it takes one more.\<close>

lemma threshold_errors_do_not_fail:
  "\<not> IsFailing (fail_at sample_renv sample_server sample_rstate [0, 1, 2, 3, 4]) sample_server"
  by code_simp

section \<open>Life time of responses\<close>

text \<open>Responses are cached for 3 seconds to a day; an answer that is not special for at least a minute.\<close>

lemma cache_ttl_bounds:
  "3 \<le> cache_ttl env t minTTL c" "cache_ttl env t minTTL c \<le> maxTTL"
  by (auto simp: cache_ttl_def Let_def minTTL_def maxTTL_def word_le_nat_alt word_less_nat_alt)

lemma Clean_expires:
  "Unix t + 3 \<le> rc_Expires (Clean env t minTTL c)" "rc_Expires (Clean env t minTTL c) \<le> Unix t + 86400"
proof -
  show "Unix t + 3 \<le> rc_Expires (Clean env t minTTL c)"
    using cache_ttl_bounds(1) [of env t c] by (simp add: Clean_def word_le_def)
  show "rc_Expires (Clean env t minTTL c) \<le> Unix t + 86400"
    using cache_ttl_bounds(2) [of env t c] by (simp add: Clean_def word_le_def maxTTL_def)
qed

text \<open>Responses with an error are cached for less than the time in which they are refreshed early.\<close>

lemma error_responses_expire_soon:
  "RCode c \<noteq> RcodeSuccess \<Longrightarrow> t \<le> t' \<Longrightarrow> ExpiresSoon t' (Clean env t minTTL c)"
  by (simp add: ExpiresSoon_def Clean_def cache_ttl_def refreshTTL_def Unix_def zdiv_mono1 Let_def add_increasing2 add_mono)

end
