(* ===== verification/Resolver_Tcp.thy ===== *)
theory Resolver_Tcp
  imports Resolver_Requests Resolver_Runs "HOL-Library.Multiset"
begin

text \<open>
  The connection of a TCP or TLS resolver, \<^verbatim>\<open>service/resolver/resolver-tcp.go\<close>: one handler
  takes queries from a channel, gives them message IDs, and passes the replies on by their ID, until
  the connection fails or is recycled.

  The steps are the cases of the handler's loop, the reader, the clients that submit queries and
  \<^verbatim>\<open>ForceReconnect\<close>.  A query has a number, which stands for its channel.  The lists of sent,
  delivered and late messages are records of the steps, and the channels that were closed are a
  multiset, as closing a channel twice panics.
\<close>

record tcpQuery =
  tq_Query :: Query
  tq_no :: nat

record tcpResolverConn =
  inFlightQueries :: "16 word \<rightharpoonup> tcpQuery"
  trc_queries :: "tcpQuery list"
  trc_responses :: "(16 word \<times> dns_msg) option list"
  readyToRecycle :: bool
  abandoned :: bool
  trc_stopped :: bool
  trc_cache :: name_db
  trc_next :: nat
  trc_sent :: "(16 word \<times> tcpQuery) list"
  delivered :: "(tcpQuery \<times> 16 word \<times> dns_msg) list"
  late :: "(tcpQuery \<times> dns_msg) list"
  closed_queries :: "tcpQuery multiset"

definition new_trc :: "name_db \<Rightarrow> tcpResolverConn" where
  "new_trc cache = \<lparr>inFlightQueries = Map.empty, trc_queries = [], trc_responses = [], readyToRecycle = False,
     abandoned = False, trc_stopped = False, trc_cache = cache, trc_next = 0, trc_sent = [], delivered = [],
     late = [], closed_queries = {#}\<rparr>"

definition in_flight :: "(16 word \<rightharpoonup> tcpQuery) \<Rightarrow> tcpQuery multiset" where
  "in_flight m = image_mset (\<lambda>i. the (m i)) (mset_set (dom m))"

text \<open>The end of the handler: the channels of all queries in flight are closed.\<close>

definition trc_shutdown :: "tcpResolverConn \<Rightarrow> tcpResolverConn" where
  "trc_shutdown s = s\<lparr>abandoned := True, trc_stopped := True,
     closed_queries := closed_queries s + in_flight (inFlightQueries s)\<rparr>"

text \<open>
  A query from the channel.  The ID of a new message is random; the search for a free one may not
  end.  The handler returns if the query cannot be written.
\<close>

definition trc_take :: "(nat \<Rightarrow> 16 word) \<Rightarrow> 16 word \<Rightarrow> bool \<Rightarrow> tcpQuery \<Rightarrow> tcpResolverConn \<Rightarrow> tcpResolverConn option" where
  "trc_take rnd msgId writeOK tq s =
     (case assignUniqueID rnd (dom (inFlightQueries s)) msgId of
        None \<Rightarrow> None
      | Some i \<Rightarrow>
          let s = s\<lparr>inFlightQueries := (inFlightQueries s)(i \<mapsto> tq)\<rparr>
          in if writeOK then Some (s\<lparr>trc_sent := trc_sent s @ [(i, tq)]\<rparr>) else Some (trc_shutdown s))"

text \<open>
  A reply.  It goes to the query if that still waits for it.  A late reply is put into the cache,
  without the check for upstream blocking.
\<close>

definition handleQueryResponse ::
    "resolver_env \<Rightarrow> ResolverInfo \<Rightarrow> int \<Rightarrow> bool \<Rightarrow> 16 word \<Rightarrow> dns_msg \<Rightarrow> tcpResolverConn \<Rightarrow> tcpResolverConn" where
  "handleQueryResponse env info t listening msgId msg s =
     (case inFlightQueries s msgId of
        None \<Rightarrow> s
      | Some tq \<Rightarrow>
          let s = s\<lparr>inFlightQueries := (inFlightQueries s)(msgId := None)\<rparr>
          in if listening then s\<lparr>delivered := delivered s @ [(tq, msgId, msg)]\<rparr>
             else let s = s\<lparr>late := late s @ [(tq, msg)]\<rparr>
                  in if NoCaching (tq_Query tq) then s
                     else s\<lparr>trc_cache := RRCache_Save env t (Clean env t minTTL (new_RRCache (tq_Query tq) msg info))
                            (trc_cache s)\<rparr>)"

definition trc_respond ::
    "resolver_env \<Rightarrow> ResolverInfo \<Rightarrow> int \<Rightarrow> bool \<Rightarrow> (16 word \<times> dns_msg) option \<Rightarrow> tcpResolverConn \<Rightarrow> tcpResolverConn" where
  "trc_respond env info t listening response s =
     (let s = (case response of None \<Rightarrow> s | Some (msgId, msg) \<Rightarrow> handleQueryResponse env info t listening msgId msg s)
      in if (readyToRecycle s \<or> abandoned s) \<and> inFlightQueries s = Map.empty then trc_shutdown s else s)"

text \<open>The lifetime of the connection is over; a dummy response triggers the check if there is room for it.\<close>

definition trc_ttl :: "tcpResolverConn \<Rightarrow> tcpResolverConn" where
  "trc_ttl s = s\<lparr>readyToRecycle := True,
     trc_responses := (if length (trc_responses s) < 10 then trc_responses s @ [None] else trc_responses s)\<rparr>"

definition trc_submit :: "Query \<Rightarrow> tcpResolverConn \<Rightarrow> tcpResolverConn" where
  "trc_submit q s = s\<lparr>trc_queries := trc_queries s @ [\<lparr>tq_Query = q, tq_no = trc_next s\<rparr>], trc_next := trc_next s + 1\<rparr>"

inductive trc_step :: "resolver_env \<Rightarrow> ResolverInfo \<Rightarrow> tcpResolverConn \<Rightarrow> tcpResolverConn \<Rightarrow> bool"
  for env :: resolver_env and info :: ResolverInfo where
  Submit: "length (trc_queries s) < 10 \<Longrightarrow> trc_step env info s (trc_submit q s)"
| Take: "\<not> trc_stopped s \<Longrightarrow> trc_queries s = tq # tqs \<Longrightarrow>
    trc_take rnd msgId writeOK tq (s\<lparr>trc_queries := tqs\<rparr>) = Some s' \<Longrightarrow> trc_step env info s s'"
| Arrive: "length (trc_responses s) < 10 \<Longrightarrow>
    trc_step env info s (s\<lparr>trc_responses := trc_responses s @ [Some (msgId, msg)]\<rparr>)"
| Respond: "\<not> trc_stopped s \<Longrightarrow> trc_responses s = r # rs \<Longrightarrow>
    trc_step env info s (trc_respond env info t listening r (s\<lparr>trc_responses := rs\<rparr>))"
| TTL: "\<not> trc_stopped s \<Longrightarrow> trc_step env info s (trc_ttl s)"
| Done: "\<not> trc_stopped s \<Longrightarrow> trc_step env info s (trc_shutdown s)"
| Reconnect: "trc_step env info s (s\<lparr>abandoned := True\<rparr>)"
| Drain: "trc_stopped s \<Longrightarrow> trc_queries s = tq # tqs \<Longrightarrow>
    trc_step env info s (s\<lparr>trc_queries := tqs, closed_queries := add_mset tq (closed_queries s)\<rparr>)"

abbreviation trc_run :: "resolver_env \<Rightarrow> ResolverInfo \<Rightarrow> tcpResolverConn \<Rightarrow> tcpResolverConn \<Rightarrow> bool" where
  "trc_run env info \<equiv> (trc_step env info)\<^sup>*\<^sup>*"

section \<open>Every query has one end\<close>

text \<open>The queries that the handler is done with, and all the queries of a connection.\<close>

definition ended :: "tcpResolverConn \<Rightarrow> tcpQuery multiset" where
  "ended s = mset (map fst (delivered s)) + mset (map fst (late s)) + closed_queries s"

definition all_queries :: "tcpResolverConn \<Rightarrow> tcpQuery multiset" where
  "all_queries s = mset (trc_queries s) + (if trc_stopped s then {#} else in_flight (inFlightQueries s)) + ended s"

definition numbered :: "tcpResolverConn \<Rightarrow> bool" where
  "numbered s \<longleftrightarrow> image_mset tq_no (all_queries s) = mset_set {..<trc_next s}"

definition replies_match :: "tcpResolverConn \<Rightarrow> bool" where
  "replies_match s \<longleftrightarrow> (\<forall>i tq. inFlightQueries s i = Some tq \<longrightarrow> \<not> trc_stopped s \<longrightarrow> (i, tq) \<in> set (trc_sent s)) \<and>
     (\<forall>(tq, i, msg)\<in>set (delivered s). (i, tq) \<in> set (trc_sent s))"

lemma in_flight_empty [simp]: "in_flight Map.empty = {#}"
  by (simp add: in_flight_def)

lemma in_flight_insert:
  assumes "m i = None" shows "in_flight (m(i \<mapsto> tq)) = add_mset tq (in_flight m)"
proof -
  have "mset_set (insert i (dom m)) = add_mset i (mset_set (dom m))" using assms by (simp add: domIff)
  moreover have "image_mset (\<lambda>j. the ((m(i \<mapsto> tq)) j)) (mset_set (dom m)) = image_mset (\<lambda>j. the (m j)) (mset_set (dom m))"
    using assms by (intro image_mset_cong) auto
  ultimately show ?thesis by (simp add: in_flight_def)
qed

lemma in_flight_delete:
  assumes "m i = Some tq" shows "in_flight m = add_mset tq (in_flight (m(i := None)))"
  using in_flight_insert [of "m(i := None)" i tq] assms by (simp add: fun_upd_idem)

lemma assigned_free: "assignUniqueID rnd (dom m) msgId = Some i \<Longrightarrow> m i = None"
  by (auto simp: assignUniqueID_def split: option.splits dest: random_id_free search_id_free)

lemmas trc_defs = trc_submit_def trc_take_def trc_respond_def handleQueryResponse_def trc_ttl_def trc_shutdown_def Let_def

lemma numbered_cong:
  "all_queries s' = all_queries s \<Longrightarrow> trc_next s' = trc_next s \<Longrightarrow> numbered s' = numbered s"
  by (simp add: numbered_def)

lemma submit_numbered: "numbered s \<Longrightarrow> numbered (trc_submit q s)"
proof -
  have "all_queries (trc_submit q s) = add_mset \<lparr>tq_Query = q, tq_no = trc_next s\<rparr> (all_queries s)"
    by (simp add: all_queries_def ended_def trc_submit_def)
  then show "numbered s \<Longrightarrow> numbered (trc_submit q s)" by (simp add: numbered_def trc_submit_def lessThan_Suc)
qed

lemma shutdown_all: "\<not> trc_stopped s \<Longrightarrow> all_queries (trc_shutdown s) = all_queries s"
  by (simp add: all_queries_def ended_def trc_shutdown_def)

lemma take_all:
  assumes "trc_take rnd msgId writeOK tq (s\<lparr>trc_queries := tqs\<rparr>) = Some s'" "\<not> trc_stopped s" "trc_queries s = tq # tqs"
  shows "all_queries s' = all_queries s"
  using assms
  by (auto simp: trc_take_def Let_def all_queries_def ended_def trc_shutdown_def in_flight_insert dest!: assigned_free split: option.splits if_splits)

lemma handle_all:
  assumes "\<not> trc_stopped s"
  shows "all_queries (handleQueryResponse env info t listening msgId msg s) = all_queries s"
  using assms in_flight_delete [of "inFlightQueries s" msgId]
  by (auto simp: handleQueryResponse_def Let_def all_queries_def ended_def split: option.split)

lemma handle_frame [simp]:
  "trc_stopped (handleQueryResponse env info t listening msgId msg s) = trc_stopped s"
  "trc_next (handleQueryResponse env info t listening msgId msg s) = trc_next s"
  "trc_sent (handleQueryResponse env info t listening msgId msg s) = trc_sent s"
  by (auto simp: handleQueryResponse_def Let_def split: option.split)

lemma respond_all:
  assumes "\<not> trc_stopped s" shows "all_queries (trc_respond env info t listening r s) = all_queries s"
  using assms by (auto simp: trc_respond_def Let_def handle_all shutdown_all split: option.split)

lemma step_numbered: "trc_step env info s s' \<Longrightarrow> numbered s \<Longrightarrow> numbered s'"
proof (induction rule: trc_step.induct)
  case (Take s tq tqs rnd msgId writeOK s')
  have "trc_next s' = trc_next s" using Take(3) by (auto simp: trc_defs split: option.splits if_splits)
  then show ?case using take_all [OF Take(3,1,2)] Take(4) numbered_cong by blast
next
  case (Respond s r rs t listening)
  let ?s = "s\<lparr>trc_responses := rs\<rparr>"
  have "all_queries (trc_respond env info t listening r ?s) = all_queries s"
    using respond_all [of ?s] Respond(1) by (simp add: all_queries_def ended_def)
  moreover have "trc_next (trc_respond env info t listening r ?s) = trc_next s"
    by (simp add: trc_respond_def Let_def trc_shutdown_def split: option.split prod.split)
  ultimately show ?case using Respond(3) numbered_cong by blast
next
  case (Submit s q)
  then show ?case by (simp add: submit_numbered)
next
  case (Done s)
  have "trc_next (trc_shutdown s) = trc_next s" by (simp add: trc_shutdown_def)
  then show ?case using Done shutdown_all [of s] numbered_cong by blast
qed (auto simp: numbered_def all_queries_def ended_def trc_ttl_def)

lemma handle_replies: "\<not> trc_stopped s \<Longrightarrow> replies_match s \<Longrightarrow> replies_match (handleQueryResponse env info t listening msgId msg s)"
  by (auto simp: replies_match_def handleQueryResponse_def Let_def split: option.split)

lemma shutdown_replies: "replies_match s \<Longrightarrow> replies_match (trc_shutdown s)"
  by (auto simp: replies_match_def trc_shutdown_def)

lemma respond_replies:
  "\<not> trc_stopped s \<Longrightarrow> replies_match s \<Longrightarrow> replies_match (trc_respond env info t listening r s)"
  by (auto simp: trc_respond_def Let_def handle_replies shutdown_replies split: option.split)

lemma take_replies:
  "trc_take rnd msgId writeOK tq s = Some s' \<Longrightarrow> replies_match s \<Longrightarrow> replies_match s'"
  by (auto simp: trc_take_def trc_shutdown_def replies_match_def Let_def split: option.splits if_splits)

lemma replies_frame:
  "inFlightQueries s' = inFlightQueries s \<Longrightarrow> trc_sent s' = trc_sent s \<Longrightarrow> delivered s' = delivered s \<Longrightarrow>
   trc_stopped s' = trc_stopped s \<Longrightarrow> replies_match s' = replies_match s"
  by (simp add: replies_match_def)

lemma step_replies: "trc_step env info s s' \<Longrightarrow> replies_match s \<Longrightarrow> replies_match s'"
proof (induction rule: trc_step.induct)
  case (Take s tq tqs rnd msgId writeOK s')
  have "replies_match (s\<lparr>trc_queries := tqs\<rparr>)" using Take(4) replies_frame [of "s\<lparr>trc_queries := tqs\<rparr>" s] by simp
  then show ?case using take_replies [OF Take(3)] by simp
next
  case (Respond s r rs t listening)
  have "replies_match (s\<lparr>trc_responses := rs\<rparr>)" using Respond(3) replies_frame [of "s\<lparr>trc_responses := rs\<rparr>" s] by simp
  then show ?case using respond_replies Respond(1) by simp
next
  case (Done s)
  then show ?case by (simp add: shutdown_replies)
qed (auto simp: replies_match_def trc_submit_def trc_ttl_def)

lemma run_invariant:
  assumes "trc_run env info (new_trc cache) s" shows "numbered s \<and> replies_match s"
  using assms
proof (induction rule: rtranclp_induct)
  case base
  then show ?case by (simp add: numbered_def replies_match_def all_queries_def ended_def new_trc_def)
next
  case (step s s')
  then show ?case using step_numbered step_replies by blast
qed

lemma count_image_ge: "count A x \<le> count (image_mset f A) (f x)"
  by (induction A) auto

lemma numbered_distinct:
  assumes "numbered s"
  shows "count (all_queries s) tq \<le> 1" "size (all_queries s) = trc_next s"
proof -
  have "count (all_queries s) tq \<le> count (image_mset tq_no (all_queries s)) (tq_no tq)"
    by (rule count_image_ge)
  also have "\<dots> \<le> 1" using assms by (simp add: numbered_def count_mset_set')
  finally show "count (all_queries s) tq \<le> 1" .
  have "size (image_mset tq_no (all_queries s)) = trc_next s" using assms unfolding numbered_def by (simp only: size_mset_set card_lessThan)
  then show "size (all_queries s) = trc_next s" by simp
qed

text \<open>
  C23: Every query on a connection has exactly one end.  Whatever queries are submitted, whatever
  messages the server sends and whenever the connection fails, is recycled or is abandoned: each query
  submitted so far is either still in the channel, in flight, answered, dropped as too late, or its
  channel was closed, and only one of these, so that no channel is used or closed twice.  Once the
  handler has stopped and the channel is empty, no query is left waiting.  An answered query
  got a message with the ID that its own message was sent with.
\<close>

theorem tcp_queries_end_once:
  assumes "trc_run env info (new_trc cache) s"
  shows "size (all_queries s) = trc_next s \<and> count (all_queries s) tq \<le> 1 \<and> count (closed_queries s) tq \<le> 1 \<and>
    (trc_stopped s \<and> trc_queries s = [] \<longrightarrow> size (ended s) = trc_next s) \<and>
    (\<forall>(tq, i, msg)\<in>set (delivered s). (i, tq) \<in> set (trc_sent s) \<and> tq \<notin># closed_queries s)"
proof -
  have inv: "numbered s" "replies_match s" using run_invariant [OF assms] by auto
  note d = numbered_distinct [OF inv(1)]
  have sub: "count (closed_queries s) x + count (mset (map fst (delivered s))) x \<le> 1" for x
    using d(1) [of x] by (simp add: all_queries_def ended_def)
  have "x \<notin># closed_queries s" if "(x, i, msg) \<in> set (delivered s)" for x i msg
  proof -
    have "x \<in># mset (map fst (delivered s))" using that by force
    then have "count (mset (map fst (delivered s))) x \<ge> 1" by (simp only: Suc_le_eq count_greater_zero_iff One_nat_def)
    then have "count (closed_queries s) x = 0" using sub [of x] by linarith
    then show ?thesis by (simp add: not_in_iff)
  qed
  then show ?thesis using d inv(2) sub [of tq] by (auto simp: replies_match_def all_queries_def)
qed

text \<open>A query is submitted and sent, and the connection is closed before the reply.\<close>

definition sample_submitted :: tcpResolverConn where
  "sample_submitted = trc_submit (new_query ''safing.io.'' TypeA) (new_trc Map.empty)"

definition sample_taken :: tcpResolverConn where
  "sample_taken = the (trc_take (\<lambda>_. 0) 7 True (hd (trc_queries sample_submitted)) (sample_submitted\<lparr>trc_queries := []\<rparr>))"

lemma random_first: "msgId \<notin> inFlight \<Longrightarrow> random_id 10000 rnd inFlight msgId = Some msgId"
  using random_id.simps(2) [of 9999 rnd inFlight msgId] by simp

lemma sample_taken_step: "trc_step env info sample_submitted sample_taken"
proof (rule trc_step.Take [of _ "hd (trc_queries sample_submitted)" "[]" "\<lambda>_. 0" 7 True])
  show "\<not> trc_stopped sample_submitted" "trc_queries sample_submitted = [hd (trc_queries sample_submitted)]"
    by (simp_all add: sample_submitted_def trc_submit_def new_trc_def)
  show "trc_take (\<lambda>_. 0) 7 True (hd (trc_queries sample_submitted)) (sample_submitted\<lparr>trc_queries := []\<rparr>) = Some sample_taken"
    by (simp add: sample_taken_def trc_take_def assignUniqueID_def random_first sample_submitted_def trc_submit_def new_trc_def)
qed

theorem tcp_queries_end_once_witness:
  "size (all_queries (trc_shutdown sample_taken)) = 1 \<and> size (ended (trc_shutdown sample_taken)) = 1"
proof -
  let ?env = sample_renv and ?info = "r_Info sample_server"
  have "trc_step ?env ?info (new_trc Map.empty) sample_submitted"
    unfolding sample_submitted_def by (rule trc_step.Submit) (simp add: new_trc_def)
  moreover note sample_taken_step [of ?env ?info]
  moreover have s: "\<not> trc_stopped sample_taken" "trc_queries sample_taken = []" "trc_next sample_taken = 1"
    by (simp_all add: sample_taken_def trc_take_def assignUniqueID_def random_first sample_submitted_def trc_submit_def new_trc_def)
  then have "trc_step ?env ?info sample_taken (trc_shutdown sample_taken)" by (intro trc_step.Done)
  ultimately have "trc_run ?env ?info (new_trc Map.empty) (trc_shutdown sample_taken)"
    by (meson converse_rtranclp_into_rtranclp rtranclp.rtrancl_refl)
  from tcp_queries_end_once [OF this] show ?thesis using s by (simp add: trc_shutdown_def)
qed

section \<open>Late replies\<close>

text \<open>
  A reply that blocks the query upstream ends the query with an error if it is in time.  If it is late it
  is saved like any other, and found when the query is repeated.
\<close>

lemma late_replies_cached:
  assumes "isBlockedUpstream r reply" "ri_Type (r_Info r) = ServerTypeTCP" "exchange env r q t = (d, Inr (Some reply))"
    and "inFlightQueries s i = Some tq" "tq_Query tq = q" "\<not> NoCaching q" "rcodeIsCacheable (m_Rcode reply)"
  shows "net_Query env r q t = (d, Inl (BlockedUpstreamError (DescriptiveName (r_Info r)))) \<and>
    trc_cache (handleQueryResponse env (r_Info r) t False i reply s) =
      NameRecord_Save t (ToNameRecord env (Clean env t minTTL (new_RRCache q reply (r_Info r)))) (trc_cache s)"
  using assms by (simp add: net_Query_def ServerTypeTCP_def ServerTypeDoH_def handleQueryResponse_def Let_def
      RRCache_Save_def Clean_def new_RRCache_def)

end
