(* ===== verification/Dns_Filter.thy ===== *)
theory Dns_Filter
  imports Firewall_Rules Packet_Handler Resolver
begin

text \<open>
  The firewall on DNS responses, \<^verbatim>\<open>service/firewall/dns.go\<close>: addresses that violate the scope of the
  resolver or that the profile blocks are taken out of a response, a response without any address left
  blocks the query, aliases are checked against the rules, and the addresses of a response are saved
  with the name they were resolved for.

  The state is the state \<open>fw\<close> of the decisions.  The text of a record is \<open>RR_String\<close> of the resolver
  environment.
\<close>

section \<open>Filtering\<close>

definition formatRR :: "resolver_env \<Rightarrow> rr \<Rightarrow> string" where
  "formatRR renv x = map (\<lambda>c. if c = CHR 0x09 then CHR '' '' else c) (RR_String renv x)"

text \<open>
  The decision on one address: the key of the option by which the record is filtered, if any.
\<close>

definition blocked_scope :: "fw_env \<Rightarrow> IPScope \<Rightarrow> fw \<Rightarrow> (string option \<times> fw) go" where
  "blocked_scope env ipScope s =
     bind_go (read_option BlockScopeInternet env s) (\<lambda>(internet, s).
       if internet \<and> IsGlobal ipScope then Inr (Some ''filter/blockInternet'', s)
       else bind_go (read_option BlockScopeLAN env s) (\<lambda>(lan, s).
         if lan \<and> IsLAN ipScope then Inr (Some ''filter/blockLAN'', s)
         else bind_go (read_option BlockScopeLocal env s) (\<lambda>(loc, s).
           if loc \<and> IsLocalhost ipScope then Inr (Some ''filter/blockLocal'', s) else Inr (None, s))))"

definition filter_ip :: "fw_env \<Rightarrow> IPScope \<Rightarrow> bool \<Rightarrow> ip \<Rightarrow> fw \<Rightarrow> (string option \<times> fw) go" where
  "filter_ip env resolverScope sysResolver ip s =
     (let ipScope = GetIPScope ip
      in bind_go (read_option RemoveOutOfScopeDNS env s) (\<lambda>(outOfScope, s).
           if outOfScope \<and> (IsLocalhost ipScope \<or> IsGlobal resolverScope \<and> IsLAN ipScope \<and> \<not> sysResolver)
           then Inr (Some ''filter/removeOutOfScopeDNS'', s)
           else bind_go (read_option RemoveBlockedDNS env s) (\<lambda>(removeBlocked, s).
             if removeBlocked \<and> \<not> sysResolver then blocked_scope env ipScope s else Inr (None, s))))"

record section_result =
  goodEntries :: "rr list"
  filteredRecords :: "string list"
  allowedAddressRecords :: nat
  interveningOptionKey :: string

fun filterDNSSection ::
    "resolver_env \<Rightarrow> fw_env \<Rightarrow> IPScope \<Rightarrow> bool \<Rightarrow> rr list \<Rightarrow> section_result \<Rightarrow> fw \<Rightarrow> (section_result \<times> fw) go" where
  "filterDNSSection renv env resolverScope sysResolver [] f s = Inr (f, s)"
| "filterDNSSection renv env resolverScope sysResolver (x # xs) f s =
     (case rr_ips x of
        [] \<Rightarrow> filterDNSSection renv env resolverScope sysResolver xs (f\<lparr>goodEntries := goodEntries f @ [x]\<rparr>) s
      | ip # _ \<Rightarrow>
          bind_go (filter_ip env resolverScope sysResolver ip s) (\<lambda>(key, s).
            filterDNSSection renv env resolverScope sysResolver xs
              (case key of
                 None \<Rightarrow> f\<lparr>goodEntries := goodEntries f @ [x], allowedAddressRecords := allowedAddressRecords f + 1\<rparr>
               | Some key \<Rightarrow> f\<lparr>filteredRecords := filteredRecords f @ [formatRR renv x], interveningOptionKey := key\<rparr>) s))"

definition no_entries :: section_result where
  "no_entries = \<lparr>goodEntries = [], filteredRecords = [], allowedAddressRecords = 0, interveningOptionKey = []\<rparr>"

definition block_message :: "string \<Rightarrow> string" where
  "block_message key =
     (if key = ''filter/blockInternet'' then ''Internet access blocked''
      else if key = ''filter/blockLAN'' then ''LAN access blocked''
      else if key = ''filter/blockLocal'' then ''Localhost access blocked''
      else if key = ''filter/removeOutOfScopeDNS'' then ''DNS global/private split-view violation''
      else ''DNS response only contained to-be-blocked IPs'')"

definition filterDNSResponse ::
    "resolver_env \<Rightarrow> fw_env \<Rightarrow> bool \<Rightarrow> RRCache \<Rightarrow> fw \<Rightarrow> (RRCache \<times> fw) go" where
  "filterDNSResponse renv env sysResolver c s = with_process s (\<lambda>p.
     if Pid p = ownPID env then Inr (c, s)
     else bind_go (read_option RemoveOutOfScopeDNS env s) (\<lambda>(outOfScope, s).
       bind_go (if outOfScope then Inr (True, s) else read_option RemoveBlockedDNS env s) (\<lambda>(active, s).
         if \<not> active then Inr (c, s)
         else let scope = ri_IPScope (rc_Resolver c)
              in bind_go (filterDNSSection renv env scope sysResolver (rc_Answer c) no_entries s) (\<lambda>(answer, s).
                 bind_go (filterDNSSection renv env scope sysResolver (rc_Extra c) no_entries s) (\<lambda>(extra, s).
                   let entries = FilteredEntries c @ filteredRecords answer @ filteredRecords extra;
                       c = c\<lparr>rc_Answer := goodEntries answer, rc_Extra := goodEntries extra,
                             FilteredEntries := entries, Filtered := (entries \<noteq> [] \<or> Filtered c)\<rparr>;
                       key = interveningOptionKey answer
                   in if entries \<noteq> [] \<and> allowedAddressRecords answer = 0
                      then Inr (c, Block (fe_cfg env) (block_message key) key s)
                      else Inr (c, s))))))"

section \<open>Aliases\<close>

definition block_cname :: "fw_env \<Rightarrow> reason option \<Rightarrow> fw \<Rightarrow> (bool \<times> fw) go" where
  "block_cname env reason s =
     (case reason of
        None \<Rightarrow> Inl NilDereference
      | Some r \<Rightarrow> Inr (True, BlockWithContext (fe_cfg env) (reason_String r) ''filter/includeCNAMEs'' (ReasonContext r) s))"

definition match_cname_lists :: "fw_env \<Rightarrow> fw \<Rightarrow> (bool \<times> fw) go" where
  "match_cname_lists env s = with_profile s (\<lambda>p.
     case MatchFilterLists (fe_cfg env) p (entity_of s) of ((result, reason, e), p) \<Rightarrow>
       let s = on_entity (\<lambda>_. e) (s\<lparr>fw_lp := Some p\<rparr>)
       in if result = Denied then block_cname env reason s else Inr (False, s))"

definition match_cname_rules :: "fw_env \<Rightarrow> fw \<Rightarrow> (bool \<times> fw) go" where
  "match_cname_rules env s = with_profile s (\<lambda>p.
     bind_go (match_entity (MatchEndpoint (fe_intel env) (fe_cfg env) p) s) (\<lambda>(result, reason, s).
       if result = Denied then block_cname env reason s
       else if result \<noteq> NoMatch then Inr (False, s)
       else match_cname_lists env s))"

definition mayBlockCNAMEs :: "fw_env \<Rightarrow> fw \<Rightarrow> (bool \<times> fw) go" where
  "mayBlockCNAMEs env s =
     bind_go (read_option FilterCNAMEs env s) (\<lambda>(active, s).
       if \<not> active then Inr (False, s)
       else match_cname_rules env (on_entity (\<lambda>e. EnableCNAMECheck True (ResetLists e)) s))"

text \<open>The result is nil if there is no profile.\<close>

definition FilterResolvedDNS ::
    "resolver_env \<Rightarrow> fw_env \<Rightarrow> RRCache \<Rightarrow> fw \<Rightarrow> (RRCache option \<times> fw) go" where
  "FilterResolvedDNS renv env c s =
     (case fw_lp s of
       None \<Rightarrow> Inr (None, s)
     | Some lp \<Rightarrow>
         if ri_Type (rc_Resolver c) = ServerTypeEnv then Inr (Some c, s)
         else bind_go (checkConnectivityDomain env s) (\<lambda>(granted, s).
           if granted then Inr (Some c, s)
           else let sysResolver = IsSystemResolver (c_process (fw_conn s))
                in bind_go (filterDNSResponse renv env sysResolver c s) (\<lambda>(c, s).
                     if c_Verdict (fw_conn s) = VerdictBlock \<or> sysResolver then Inr (Some c, s)
                     else bind_go (mayBlockCNAMEs env s) (\<lambda>(_, s). Inr (Some c, s)))))"

section \<open>Saving addresses\<close>

definition rr_cname :: "rr \<Rightarrow> (string \<times> string) option" where
  "rr_cname x =
     (case rr_data x of
        RR_CNAME target \<Rightarrow> Some (rr_Name x, target)
      | RR_SVCB target hints \<Rightarrow> if length target \<ge> 2 then Some (rr_Name x, target) else None
      | RR_HTTPS target hints \<Rightarrow> if length target \<ge> 2 then Some (rr_Name x, target) else None
      | _ \<Rightarrow> None)"

definition rr_all_ips :: "rr \<Rightarrow> ip list" where
  "rr_all_ips x =
     (case rr_data x of RR_A ip \<Rightarrow> [ip] | RR_AAAA ip \<Rightarrow> [ip] | RR_SVCB _ hints \<Rightarrow> hints | RR_HTTPS _ hints \<Rightarrow> hints | _ \<Rightarrow> [])"

definition collect_cnames :: "rr list \<Rightarrow> string \<rightharpoonup> string" where
  "collect_cnames rrs = foldl (\<lambda>m x. case rr_cname x of None \<Rightarrow> m | Some (name, target) \<Rightarrow> m(name \<mapsto> target)) Map.empty rrs"

definition collect_ips :: "rr list \<Rightarrow> ip list" where
  "collect_ips rrs = concat (map rr_all_ips rrs)"

definition save_ip :: "int \<Rightarrow> string \<Rightarrow> ResolvedDomain \<Rightarrow> ip \<Rightarrow> ip_db \<Rightarrow> ip_db" where
  "save_ip t profileID rd ip db =
     (if GetIPScope ip = HostLocal then db
      else let info = (case resolver_GetIPInfo t profileID (IP_String ip) db of
                         Some info \<Rightarrow> info
                       | None \<Rightarrow> \<lparr>ii_IP = IP_String ip, ii_ProfileID = profileID, ResolvedDomains = [],
                                  ii_Key = None, ii_meta_Expires = 0\<rparr>)
           in IPInfo_Save t (AddDomain rd info) db)"

definition SaveIPsInCache :: "int \<Rightarrow> ip list \<Rightarrow> string \<Rightarrow> ResolvedDomain \<Rightarrow> ip_db \<Rightarrow> ip_db" where
  "SaveIPsInCache t ips profileID rd db = foldl (\<lambda>db ip. save_ip t profileID rd ip db) db ips"

definition resolved_record :: "resolver_env \<Rightarrow> string \<Rightarrow> RRCache \<Rightarrow> ResolvedDomain" where
  "resolved_record renv fqdn c =
     AddCNAMEs (collect_cnames (rc_Answer c @ rc_Extra c))
       \<lparr>rs_Domain = fqdn, rs_CNAMEs = [], rs_Resolver = rc_Resolver c, rs_Context = ToDNSRequestContext renv c,
        rs_Expires = rc_Expires c\<rparr>"

definition UpdateIPsAndCNAMEs ::
    "resolver_env \<Rightarrow> int \<Rightarrow> Query \<Rightarrow> RRCache \<Rightarrow> fw \<Rightarrow> ip_db \<Rightarrow> (fw \<times> ip_db) go" where
  "UpdateIPsAndCNAMEs renv t q c s db = with_process s (\<lambda>p. with_profile s (\<lambda>lp.
     case localProfile lp of
       None \<Rightarrow> Inl NilDereference
     | Some loc \<Rightarrow>
         let profileID = (if p_ID loc = ''_unidentified'' \<or> p_ID loc = ''_system-resolver'' then ''global'' else p_ID loc);
             rd = resolved_record renv (q_FQDN q) c;
             s = (if c_Type (fw_conn s) = DNSRequest then on_entity (\<lambda>e. e\<lparr>CNAME := rs_CNAMEs rd\<rparr>) s else s)
         in Inr (s, SaveIPsInCache t (collect_ips (rc_Answer c @ rc_Extra c)) profileID rd db)))"

end
