(* ===== verification/Nsutil.thy ===== *)
theory Nsutil
  imports Dns_Filter
begin

text \<open>
  Replies of the nameserver: the ready-made responders and the informational records of
  \<^verbatim>\<open>service/nameserver/nsutil\<close>, the replies of responses (\<^verbatim>\<open>service/resolver/rrcache.go\<close>) and of connections
  (\<^verbatim>\<open>service/network/dns.go\<close>), the records of a list reason (\<^verbatim>\<open>service/intel/block_reason.go\<close>), and writing
  a reply with its retry (\<^verbatim>\<open>service/nameserver/response.go\<close>).

  The interfaces \<^verbatim>\<open>Responder\<close> and \<^verbatim>\<open>RRProvider\<close> are datatypes of their implementations.  A question
  has a name, a type and a class.
\<close>

section \<open>Messages\<close>

type_synonym question = "string \<times> nat \<times> nat"

record dns_request =
  req_Id :: "16 word"
  req_Question :: "question list"

record dns_reply =
  rep_Id :: "16 word"
  rep_Question :: "question list"
  rep_Rcode :: int
  rep_Answer :: "rr list"
  rep_Ns :: "rr list"
  rep_Extra :: "rr list"
  RecursionAvailable :: bool

text \<open>
  What the replies need of the DNS library, which is not part of this repository: parsing a record, and
  \<^verbatim>\<open>Msg.SetRcode\<close>, which turns a message into the reply to a request.
\<close>

record reply_lib =
  lib_NewRR :: "string \<Rightarrow> rr option"
  SetRcode :: "dns_reply \<Rightarrow> dns_request \<Rightarrow> int \<Rightarrow> dns_reply"

definition new_reply :: dns_reply where
  "new_reply = \<lparr>rep_Id = 0, rep_Question = [], rep_Rcode = 0, rep_Answer = [], rep_Ns = [], rep_Extra = [],
     RecursionAvailable = False\<rparr>"

definition MakeMessageRecord :: "reply_lib \<Rightarrow> string \<Rightarrow> string \<Rightarrow> rr option" where
  "MakeMessageRecord env level msg =
     lib_NewRR env (level @ ''.portmaster. 0 IN TXT '' @ [CHR 0x22] @ msg @ [CHR 0x22])"

abbreviation (input) InfoLevel :: string where "InfoLevel \<equiv> ''inf''"
abbreviation (input) ErrorLevel :: string where "ErrorLevel \<equiv> ''err''"

definition message_records :: "reply_lib \<Rightarrow> string \<Rightarrow> string list \<Rightarrow> rr list" where
  "message_records env level msgs = List.map_filter (MakeMessageRecord env level) (filter (\<lambda>m. m \<noteq> []) msgs)"

definition AddMessagesToReply :: "reply_lib \<Rightarrow> string \<Rightarrow> string list \<Rightarrow> dns_reply \<Rightarrow> dns_reply" where
  "AddMessagesToReply env level msgs reply = reply\<lparr>rep_Extra := rep_Extra reply @ message_records env level msgs\<rparr>"

section \<open>Responders\<close>

text \<open>
  The answers to the questions of the request, and whether a record could not be made.
\<close>

definition address_record :: "reply_lib \<Rightarrow> string \<Rightarrow> string \<Rightarrow> question \<Rightarrow> rr option option" where
  "address_record env aAnswer aaaaAnswer question =
     (case question of (name, qtype, _) \<Rightarrow>
        if qtype = TypeA then Some (lib_NewRR env (name @ '' 1 IN A '' @ aAnswer))
        else if qtype = TypeAAAA then Some (lib_NewRR env (name @ '' 1 IN AAAA '' @ aaaaAnswer))
        else None)"

definition createResponderFunc :: "reply_lib \<Rightarrow> string \<Rightarrow> string \<Rightarrow> string list \<Rightarrow> dns_request \<Rightarrow> dns_reply" where
  "createResponderFunc env aAnswer aaaaAnswer msgs request =
     (let records = List.map_filter (address_record env aAnswer aaaaAnswer) (req_Question request);
          answer = List.map_filter id records;
          rcode = (if None \<in> set records \<and> answer = [] then RcodeServerFailure
                   else if answer = [] then RcodeNameError else RcodeSuccess)
      in AddMessagesToReply env InfoLevel msgs (SetRcode env (new_reply\<lparr>rep_Answer := answer\<rparr>) request rcode))"

definition nsutil_BlockIP :: "reply_lib \<Rightarrow> string list \<Rightarrow> dns_request \<Rightarrow> dns_reply" where
  "nsutil_BlockIP env = createResponderFunc env ''0.0.0.17'' ''::17''"

definition ZeroIP :: "reply_lib \<Rightarrow> string list \<Rightarrow> dns_request \<Rightarrow> dns_reply" where
  "ZeroIP env = createResponderFunc env ''0.0.0.0'' ''::''"

definition Localhost :: "reply_lib \<Rightarrow> string list \<Rightarrow> dns_request \<Rightarrow> dns_reply" where
  "Localhost env = createResponderFunc env ''127.0.0.1'' ''::1''"

definition nsutil_NxDomain :: "reply_lib \<Rightarrow> string list \<Rightarrow> dns_request \<Rightarrow> dns_reply" where
  "nsutil_NxDomain env msgs request = AddMessagesToReply env InfoLevel msgs (SetRcode env new_reply request RcodeNameError)"

definition Refused :: "reply_lib \<Rightarrow> string list \<Rightarrow> dns_request \<Rightarrow> dns_reply" where
  "Refused env msgs request = AddMessagesToReply env InfoLevel msgs (SetRcode env new_reply request RcodeRefused)"

definition ServerFailure :: "reply_lib \<Rightarrow> string list \<Rightarrow> dns_request \<Rightarrow> dns_reply" where
  "ServerFailure env msgs request = AddMessagesToReply env InfoLevel msgs (SetRcode env new_reply request RcodeServerFailure)"

datatype responder =
    RespBlockIP "string list" | RespLocalhost "string list" | RespNxDomain "string list"
  | RespRefused "string list" | RespServerFailure "string list"
  | RespConnection connection | RespRRCache RRCache

definition Connection_ReplyWithDNS :: "reply_lib \<Rightarrow> connection \<Rightarrow> dns_request \<Rightarrow> dns_reply option" where
  "Connection_ReplyWithDNS env conn request =
     (if c_Verdict conn = VerdictBlock \<or> c_Verdict conn = VerdictFailed then Some (nsutil_BlockIP env [] request)
      else if c_Verdict conn = VerdictDrop then None
      else Some (AddMessagesToReply env ErrorLevel [''INTERNAL ERROR: incorrect use of Connection DNS Responder'']
                   (ServerFailure env [] request)))"

definition RRCache_ReplyWithDNS :: "reply_lib \<Rightarrow> RRCache \<Rightarrow> dns_request \<Rightarrow> dns_reply" where
  "RRCache_ReplyWithDNS env c request =
     (SetRcode env new_reply request (RCode c))\<lparr>rep_Answer := rc_Answer c, rep_Ns := rc_Ns c, rep_Extra := rc_Extra c\<rparr>"

definition ReplyWithDNS :: "reply_lib \<Rightarrow> responder \<Rightarrow> dns_request \<Rightarrow> dns_reply option" where
  "ReplyWithDNS env responder request =
     (case responder of
        RespBlockIP msgs \<Rightarrow> Some (nsutil_BlockIP env msgs request)
      | RespLocalhost msgs \<Rightarrow> Some (Localhost env msgs request)
      | RespNxDomain msgs \<Rightarrow> Some (nsutil_NxDomain env msgs request)
      | RespRefused msgs \<Rightarrow> Some (Refused env msgs request)
      | RespServerFailure msgs \<Rightarrow> Some (ServerFailure env msgs request)
      | RespConnection conn \<Rightarrow> Connection_ReplyWithDNS env conn request
      | RespRRCache c \<Rightarrow> Some (RRCache_ReplyWithDNS env c request))"

text \<open>A responder for a name that does not exist delays its reply by half a second.\<close>

definition responder_delay :: "responder \<Rightarrow> int" where
  "responder_delay responder = (case responder of RespNxDomain _ \<Rightarrow> 500000000 | _ \<Rightarrow> 0)"

section \<open>Informational records\<close>

text \<open>The text of a duration, rounded to seconds.\<close>

definition round_seconds :: "int \<Rightarrow> int" where
  "round_seconds d = sgn d * ((\<bar>d\<bar> + 500000000) div 1000000000)"

definition seconds_String :: "int \<Rightarrow> string" where
  "seconds_String n =
     (let m = nat \<bar>n\<bar>; h = m div 3600; mins = m div 60 mod 60; secs = m mod 60
      in (if n < 0 then ''-'' else []) @
         (if h > 0 then Itoa h @ ''h'' @ Itoa mins @ ''m'' else if mins > 0 then Itoa mins @ ''m'' else []) @
         Itoa secs @ ''s'')"

text \<open>The text of a duration that is not negative, rounded to milliseconds; a fraction has no zeros at its end.\<close>

definition fraction_String :: "nat \<Rightarrow> string" where
  "fraction_String ms =
     (let digits = rev (dropWhile (\<lambda>c. c = CHR ''0'') (rev (drop 1 (Itoa (1000 + ms)))))
      in if digits = [] then [] else ''.'' @ digits)"

definition millis_String :: "int \<Rightarrow> string" where
  "millis_String d =
     (let ms = nat ((d + 500000) div 1000000); m = ms div 1000; h = m div 3600; mins = m div 60 mod 60
      in if ms = 0 then ''0s''
         else if ms < 1000 then Itoa ms @ ''ms''
         else (if h > 0 then Itoa h @ ''h'' @ Itoa mins @ ''m'' else if mins > 0 then Itoa mins @ ''m'' else []) @
              Itoa (m mod 60) @ fraction_String (ms mod 1000) @ ''s'')"

lemma millis_String_examples:
  "millis_String 1500000000 = ''1.5s''" "millis_String 29999600000 = ''30s''" "millis_String 950000000 = ''950ms''"
  by code_simp+

definition filtered_messages :: "RRCache \<Rightarrow> string list" where
  "filtered_messages c =
     (if Filtered c
      then (Itoa (length (FilteredEntries c)) @
            (if length (FilteredEntries c) > 1 then '' RRs have been filtered:'' else '' RR has been filtered:''))
           # FilteredEntries c
      else [])"

definition RRCache_GetExtraRRs :: "reply_lib \<Rightarrow> int \<Rightarrow> RRCache \<Rightarrow> rr list" where
  "RRCache_GetExtraRRs env t c =
     List.map_filter (MakeMessageRecord env InfoLevel)
       ([(if ServedFromCache c then ''served from cache, resolved by '' else ''freshly resolved by '') @
          DescriptiveName (rc_Resolver c),
         if rc_Expires c = 0 then ''record does not expire''
         else if Expired t c
         then ''record expired since '' @ seconds_String (round_seconds (t - rc_Expires c * 1000000000))
         else ''record valid for '' @ seconds_String (round_seconds (rc_Expires c * 1000000000 - t))] @
        (if RequestingNew c then [''async request to refresh the cache has been started''] else []) @
        (if IsBackup c then [''this record is served because a fresh request was unsuccessful''] else []) @
        filtered_messages c)"

definition list_match_messages :: "list_match \<Rightarrow> string list" where
  "list_match_messages lm =
     [lm_Entity lm @ '' is blocked by filter lists '' @ Join (ActiveLists lm) '', ''] @
     (if InactiveLists lm \<noteq> []
      then [lm_Entity lm @ '' would be blocked by filter lists '' @ Join (InactiveLists lm) '', ''] else [])"

definition ListBlockReason_GetExtraRRs :: "reply_lib \<Rightarrow> list_match list \<Rightarrow> rr list" where
  "ListBlockReason_GetExtraRRs env lms =
     List.map_filter (MakeMessageRecord env InfoLevel) (concat (map list_match_messages lms))"

definition Connection_GetExtraRRs :: "reply_lib \<Rightarrow> connection \<Rightarrow> rr list" where
  "Connection_GetExtraRRs env conn =
     (case MakeMessageRecord env (if c_Verdict conn = VerdictFailed then ErrorLevel else InfoLevel)
             (Verb (c_Verdict conn) @ '': '' @ Msg (Reason conn)) of
        None \<Rightarrow> []
      | Some x \<Rightarrow>
          x # (case reason_Context (Reason conn) of
                 ReasonContext (ListReason lms) \<Rightarrow> ListBlockReason_GetExtraRRs env lms
               | _ \<Rightarrow> []))"

text \<open>A provider that is a nil pointer is not a nil interface: its method is called and panics.\<close>

datatype provider = ConnProvider connection | CacheProvider "RRCache option"

fun GetExtraRRs :: "reply_lib \<Rightarrow> int \<Rightarrow> provider \<Rightarrow> rr list go" where
  "GetExtraRRs env t (ConnProvider conn) = Inr (Connection_GetExtraRRs env conn)"
| "GetExtraRRs env t (CacheProvider None) = Inl NilDereference"
| "GetExtraRRs env t (CacheProvider (Some c)) = Inr (RRCache_GetExtraRRs env t c)"

fun add_extra :: "reply_lib \<Rightarrow> int \<Rightarrow> provider list \<Rightarrow> dns_reply \<Rightarrow> dns_reply go" where
  "add_extra env t [] reply = Inr reply"
| "add_extra env t (p # ps) reply =
     bind_go (GetExtraRRs env t p) (\<lambda>rrs. add_extra env t ps (reply\<lparr>rep_Extra := rep_Extra reply @ rrs\<rparr>))"

section \<open>Sending\<close>

text \<open>
  The connection to the client takes messages or gives an error.  The result of writing is the error
  and the message that was sent, if any.  The code returns the first error exactly if the second
  attempt succeeds; otherwise it returns the named result, which is the first error too.
\<close>

definition writeDNSResponse :: "(dns_reply \<Rightarrow> string option) \<Rightarrow> dns_reply \<Rightarrow> string option \<times> dns_reply option" where
  "writeDNSResponse WriteMsg m =
     (case WriteMsg m of
        None \<Rightarrow> (None, Some m)
      | Some err \<Rightarrow>
          (case WriteMsg (m\<lparr>rep_Extra := []\<rparr>) of
             None \<Rightarrow> (Some (''failed to write dns message without extra section: '' @ err), Some (m\<lparr>rep_Extra := []\<rparr>))
           | Some _ \<Rightarrow> (Some err, None)))"

definition sendResponse ::
    "reply_lib \<Rightarrow> (dns_reply \<Rightarrow> string option) \<Rightarrow> int \<Rightarrow> dns_request \<Rightarrow> responder \<Rightarrow> provider list \<Rightarrow>
     (string option \<times> dns_reply option) go" where
  "sendResponse env WriteMsg t request responder providers =
     (case ReplyWithDNS env responder request of
        None \<Rightarrow> Inr (None, None)
      | Some reply \<Rightarrow>
          bind_go (add_extra env t providers (reply\<lparr>RecursionAvailable := True\<rparr>)) (\<lambda>reply.
            case writeDNSResponse WriteMsg reply of (err, sent) \<Rightarrow>
              Inr (map_option (\<lambda>e. ''failed to send response: '' @ e) err, sent)))"

end
