(* ===== verification/Nameserver.thy ===== *)
theory Nameserver
  imports Nsutil
begin

text \<open>
  The nameserver, \<^verbatim>\<open>service/nameserver/nameserver.go\<close> and \<^verbatim>\<open>failing.go\<close>: it finds the process behind a
  query, asks the firewall, resolves, filters the response and replies.  Further the connections
  that stand for queries (\<^verbatim>\<open>service/network/connection.go\<close>) and the table of queries without a connection so far
  (\<^verbatim>\<open>service/network/dns.go\<close>).

  Left out are the database key and the database of connections (a saved connection is appended to
  \<open>saved_conns\<close>), log output, metrics, and the fields of a connection that are only shown or stored (its identifier, DNS
  context, SPN features and the flag of an established connection).
\<close>

section \<open>State\<close>

record failingQuery =
  fq_Until :: int
  fq_Keep :: int
  fq_Times :: nat
  fq_Err :: string

text \<open>What is read of the connection of a DNS request that the packet handler saved.\<close>

record dns_conn =
  dc_PID :: int
  dc_Ended :: int
  dc_process :: "(process \<times> layered option) option"

record ns =
  ns_res :: resolver_state
  ns_net :: net_state
  failingQueries :: "string \<rightharpoonup> failingQuery"
  failingQueriesNetworkChanged :: bool
  ns_ips :: ip_db
  dnsConns :: "string \<rightharpoonup> dns_conn"
  openDNSRequests :: "string \<rightharpoonup> connection"
  saved_conns :: "connection list"
  ns_sent :: "dns_reply list"

text \<open>
  The environment: the ones of packet handling, the resolver and the DNS library, the name of the host, the setting for
  requests from the network, the connection to the client, the text of errors, the profiles of
  other hosts, the order in which Go visits the keys of a map, and what other requests did to the resolver if
  this one had to wait for an equal one.
\<close>

record ns_env =
  ne_ph :: ph_env
  ne_res :: resolver_env
  ne_dns :: dns_lib
  ne_lib :: reply_lib
  hostname :: string
  networkServiceMode :: bool
  WriteMsg :: "dns_reply \<Rightarrow> string option"
  error_String :: "res_error \<Rightarrow> string"
  GetNetworkHost :: "ip \<Rightarrow> string + process \<times> layered"
  visit_order :: "string list"
  waited :: "(resolver_state \<Rightarrow> resolver_state) option"

section \<open>Failing queries\<close>

definition failingDelay :: int where "failingDelay = 900000000"
definition failingBaseDuration :: int where "failingBaseDuration = 900000000"
definition failingFactorDuration :: int where "failingFactorDuration = 500000000"
definition failingMaxDuration :: int where "failingMaxDuration = 30000000000"
definition failingKeepAddedDuration :: int where "failingKeepAddedDuration = 10000000000"

definition checkIfQueryIsFailing :: "ns_env \<Rightarrow> Query \<Rightarrow> ns \<Rightarrow> (int \<times> string) option \<times> ns" where
  "checkIfQueryIsFailing env q s =
     (if failingQueriesNetworkChanged s
      then (None, s\<lparr>failingQueriesNetworkChanged := False, failingQueries := Map.empty\<rparr>)
      else case failingQueries s (Query_ID (ne_res env) q) of
        None \<Rightarrow> (None, s)
      | Some f \<Rightarrow> if now (ns_res s) > fq_Until f then (None, s) else (Some (fq_Until f, fq_Err f), s))"

definition fail_duration :: "nat \<Rightarrow> int" where
  "fail_duration n =
     (let d = failingBaseDuration + int n * failingFactorDuration
      in if d > failingMaxDuration then failingMaxDuration else d)"

text \<open>A query that fails again keeps the error that it failed with first.\<close>

definition addFailingQuery :: "ns_env \<Rightarrow> Query \<Rightarrow> string \<Rightarrow> ns \<Rightarrow> ns" where
  "addFailingQuery env q err s =
     (let k = Query_ID (ne_res env) q;
          f = (case failingQueries s k of Some f \<Rightarrow> f | None \<Rightarrow> \<lparr>fq_Until = 0, fq_Keep = 0, fq_Times = 0, fq_Err = err\<rparr>);
          until = now (ns_res s) + fail_duration (fq_Times f)
      in s\<lparr>failingQueries := (failingQueries s)(k \<mapsto> f\<lparr>fq_Times := fq_Times f + 1, fq_Until := until,
             fq_Keep := until + failingKeepAddedDuration\<rparr>)\<rparr>)"

fun clean_failing :: "int \<Rightarrow> string list \<Rightarrow> nat \<Rightarrow> nat \<Rightarrow> (string \<rightharpoonup> failingQuery) \<Rightarrow> (string \<rightharpoonup> failingQuery)" where
  "clean_failing t [] maxRemove maxMiss m = m"
| "clean_failing t (k # ks) maxRemove maxMiss m =
     (case m k of
        None \<Rightarrow> clean_failing t ks maxRemove maxMiss m
      | Some f \<Rightarrow>
          if t > fq_Keep f
          then if maxRemove = 1 then m(k := None) else clean_failing t ks (maxRemove - 1) maxMiss (m(k := None))
          else if maxMiss = 1 then m else clean_failing t ks maxRemove (maxMiss - 1) m)"

definition cleanFailingQueries :: "ns_env \<Rightarrow> nat \<Rightarrow> nat \<Rightarrow> ns \<Rightarrow> ns" where
  "cleanFailingQueries env maxRemove maxMiss s =
     s\<lparr>failingQueries := clean_failing (now (ns_res s)) (visit_order env) maxRemove maxMiss (failingQueries s)\<rparr>"

section \<open>Connections of queries\<close>

definition GetDNSRequestConnection :: "packet_info \<Rightarrow> ns \<Rightarrow> dns_conn option" where
  "GetDNSRequestConnection info s = Option.bind (getDNSRequestConnectionKey info) (dnsConns s)"

definition cleanDNSRequestConnections :: "ns \<Rightarrow> ns" where
  "cleanDNSRequestConnections s =
     s\<lparr>dnsConns := (\<lambda>k. case dnsConns s k of
        None \<Rightarrow> None
      | Some dc \<Rightarrow> if dc_Ended dc > 0 \<and> dc_Ended dc < Unix (now (ns_res s)) - 3 then None else Some dc)\<rparr>"

definition new_dns_fw :: "ns_env \<Rightarrow> string \<Rightarrow> process \<Rightarrow> layered option \<Rightarrow> ns \<Rightarrow> fw" where
  "new_dns_fw env fqdn p lp s =
     \<lparr>fw_conn = \<lparr>c_Type = DNSRequest, Inbound = False, c_IPProtocol = 0, LocalIP = [], LocalPort = 0,
        Entity = zero_entity\<lparr>e_Domain := fqdn, e_IPScope := Global\<rparr>, Resolver_IPScope = None,
        c_Verdict = VerdictUndecided,
        Reason = \<lparr>Msg = [], OptionKey = [], reason_Profile = [], reason_Context = NoContext\<rparr>,
        Ended = Unix (now (ns_res s)), Inspecting = False, Tunneled = False, dataComplete = True,
        Internal = (case Option.bind lp localProfile of None \<Rightarrow> False | Some loc \<Rightarrow> profile_Internal (ne_ph env) loc),
        c_process = Some p, saveWhenFinished = False, ProfileRevisionCounter = 0, c_prompt = None\<rparr>,
      fw_lp = lp, fw_net = ns_net s\<rparr>"

definition NewConnectionFromDNSRequest :: "ns_env \<Rightarrow> string \<Rightarrow> ip \<Rightarrow> port \<Rightarrow> ns \<Rightarrow> fw go" where
  "NewConnectionFromDNSRequest env fqdn ip prt s =
     (let info = \<lparr>i_Inbound = False, i_Protocol = 17, i_SrcPort = prt, i_DstPort = 0, i_Src = ip, i_Dst = [],
                  i_PID = UndefinedProcessID\<rparr>;
          (pid, proc) = (case GetDNSRequestConnection info s of
             None \<Rightarrow> (UndefinedProcessID, None)
           | Some dc \<Rightarrow>
               if dc_PID dc < 0 \<or> dc_Ended dc > 0 \<and> dc_Ended dc < Unix (now (ns_res s)) - 3
               then (UndefinedProcessID, None) else (dc_PID dc, dc_process dc));
          pid = (if pid = UndefinedProcessID then fst (GetPidOfConnection (ne_ph env) info) else pid)
      in case (case proc of None \<Rightarrow> GetProcessWithProfile (ne_ph env) pid | Some _ \<Rightarrow> proc) of
           None \<Rightarrow> Inl NilDereference
         | Some (p, lp) \<Rightarrow> Inr (new_dns_fw env fqdn p lp s))"

definition NewConnectionFromExternalDNSRequest :: "ns_env \<Rightarrow> string \<Rightarrow> ip \<Rightarrow> ns \<Rightarrow> string + fw" where
  "NewConnectionFromExternalDNSRequest env fqdn ip s =
     (case GetNetworkHost env ip of Inl err \<Rightarrow> Inl err | Inr (p, lp) \<Rightarrow> Inr (new_dns_fw env fqdn p (Some lp) s))"

definition conn_Save :: "connection \<Rightarrow> ns \<Rightarrow> ns" where
  "conn_Save conn s = (if dataComplete conn then s\<lparr>saved_conns := saved_conns s @ [conn]\<rparr> else s)"

section \<open>Queries without a connection\<close>

definition supportedDomainToIPRecordTypes :: "nat list" where
  "supportedDomainToIPRecordTypes = [TypeA, TypeAAAA, TypeSVCB, TypeHTTPS]"

definition IsSupportDNSRecordType :: "nat \<Rightarrow> bool" where
  "IsSupportDNSRecordType t \<longleftrightarrow> t \<in> set supportedDomainToIPRecordTypes"

definition int_Itoa :: "int \<Rightarrow> string" where
  "int_Itoa n = (if n < 0 then ''-'' @ Itoa (nat (- n)) else Itoa (nat n))"

definition getDNSRequestCacheKey :: "ns_env \<Rightarrow> int \<Rightarrow> string \<Rightarrow> nat \<Rightarrow> string" where
  "getDNSRequestCacheKey env pid fqdn qType = int_Itoa pid @ ''/'' @ fqdn @ type_String (ne_res env) qType"

definition removeOpenDNSRequest :: "ns_env \<Rightarrow> int \<Rightarrow> string \<Rightarrow> ns \<Rightarrow> ns" where
  "removeOpenDNSRequest env pid fqdn s =
     (let keys = (\<lambda>pid. map (getDNSRequestCacheKey env pid fqdn) supportedDomainToIPRecordTypes);
          deleted = keys pid @ (if pid \<noteq> UnidentifiedProcessID then keys UnidentifiedProcessID else [])
      in s\<lparr>openDNSRequests := (openDNSRequests s) |` (- set deleted)\<rparr>)"

definition SaveOpenDNSRequest :: "ns_env \<Rightarrow> Query \<Rightarrow> RRCache option \<Rightarrow> connection \<Rightarrow> ns \<Rightarrow> ns go" where
  "SaveOpenDNSRequest env q rrCache conn s =
     (case rrCache of
        None \<Rightarrow> Inr s
      | Some c \<Rightarrow>
          if ServedFromCache c \<and> \<not> RequestingNew c then Inr s
          else if \<not> IsSupportDNSRecordType (QType q) then Inr (conn_Save conn s)
          else case c_process conn of
            None \<Rightarrow> Inl NilDereference
          | Some p \<Rightarrow> Inr (s\<lparr>openDNSRequests := (openDNSRequests s)
              (getDNSRequestCacheKey env (Pid p) (e_Domain (Entity conn)) (QType q) \<mapsto> conn)\<rparr>))"

fun write_open :: "int \<Rightarrow> string list \<Rightarrow> ns \<Rightarrow> ns" where
  "write_open threshold [] s = s"
| "write_open threshold (k # ks) s =
     (case openDNSRequests s k of
        None \<Rightarrow> write_open threshold ks s
      | Some conn \<Rightarrow>
          if Ended conn < threshold
          then write_open threshold ks ((conn_Save conn s)\<lparr>openDNSRequests := (openDNSRequests s)(k := None)\<rparr>)
          else write_open threshold ks s)"

definition writeOpenDNSRequestsToDB :: "ns_env \<Rightarrow> ns \<Rightarrow> ns" where
  "writeOpenDNSRequestsToDB env s = write_open (Unix (now (ns_res s) - 3000000000)) (visit_order env) s"

section \<open>Handling a request\<close>

text \<open>Sends a reply; the error of sending is only logged.\<close>

definition ns_sleep :: "int \<Rightarrow> ns \<Rightarrow> ns" where
  "ns_sleep d s = s\<lparr>ns_res := (ns_res s)\<lparr>now := now (ns_res s) + d\<rparr>\<rparr>"

definition ns_reply :: "ns_env \<Rightarrow> dns_request \<Rightarrow> responder \<Rightarrow> provider list \<Rightarrow> ns \<Rightarrow> ns go" where
  "ns_reply env request responder providers s =
     (let s = ns_sleep (responder_delay responder) s
      in bind_go (sendResponse (ne_lib env) (WriteMsg env) (now (ns_res s)) request responder providers) (\<lambda>(err, sent).
           Inr (s\<lparr>ns_sent := ns_sent s @ (case sent of None \<Rightarrow> [] | Some m \<Rightarrow> [m])\<rparr>)))"

definition internalError :: string where "internalError = ''internal error: ''"

definition get_question :: "dns_request \<Rightarrow> string + question" where
  "get_question request =
     (case req_Question request of
        [] \<Rightarrow> Inl ''no question provided''
      | [(name, qtype, qclass)] \<Rightarrow> if qclass \<noteq> ClassINET then Inl ''unsupported qclass'' else Inr (name, qtype, qclass)
      | _ \<Rightarrow> Inl ''multiple question provided'')"

text \<open>The connection of a request, or the reply if there is none.\<close>

definition open_request :: "ns_env \<Rightarrow> Query \<Rightarrow> ip \<Rightarrow> port \<Rightarrow> ns \<Rightarrow> ((responder + fw) \<times> ns) go" where
  "open_request env q ip prt s =
     (case IsMyIP (fe_net (pe_fw (ne_ph env))) ip (ns_net s) of (result, net) \<Rightarrow>
        let s = s\<lparr>ns_net := net\<rparr>
        in case result of
             Inl err \<Rightarrow> Inr (Inl (RespServerFailure [internalError @ '' failed to check if request is local'']), s)
           | Inr True \<Rightarrow> bind_go (NewConnectionFromDNSRequest env (q_FQDN q) ip prt s) (\<lambda>w. Inr (Inr w, s))
           | Inr False \<Rightarrow>
               if networkServiceMode env
               then (case NewConnectionFromExternalDNSRequest env (q_FQDN q) ip s of
                       Inl err \<Rightarrow> Inr (Inl (RespServerFailure [internalError @ ''failed to get profile'']), s)
                     | Inr w \<Rightarrow> Inr (Inr w, s))
               else Inr (Inl (RespRefused [''external queries are not permitted'']), s))"

text \<open>The filter on the connection, whose other fields are those of a new connection.\<close>

definition dns_ph :: "fw \<Rightarrow> ph" where
  "dns_ph w = \<lparr>ph_fw = w, ph_PID = (case c_process (fw_conn w) of None \<Rightarrow> 0 | Some p \<Rightarrow> Pid p), hasEntity = True,
     VerdictPermanent = False, Encrypted = False, ConnectionEstablished = False, hasTunnelContext = False,
     firewallHandler = None, pktQueue = [], pktQueueActive = False, pktSeq = 0, activeInspectors = None,
     BytesReceived = 0, BytesSent = 0, preAuthenticatedPorts = {}, dnsRequestConnections = Map.empty,
     infoOnlyPacketsActive = False, packetsAccepted = 0, packetsBlocked = 0, packetsDropped = 0,
     packetsFailed = 0, applied = []\<rparr>"

definition filter_query :: "ns_env \<Rightarrow> fw \<Rightarrow> fw go" where
  "filter_query env w = bind_go (FilterConnection (ne_ph env) True False (dns_ph w)) (\<lambda>s. Inr (ph_fw s))"

definition special_responder :: "fw \<Rightarrow> responder option" where
  "special_responder w =
     (case reason_Context (Reason (fw_conn w)) of
        NxDomain \<Rightarrow> Some (RespNxDomain []) | BlockIP \<Rightarrow> Some (RespBlockIP []) | _ \<Rightarrow> None)"

definition to_act_upon :: "fw \<Rightarrow> bool" where
  "to_act_upon w \<longleftrightarrow> c_Verdict (fw_conn w) \<in> {VerdictBlock, VerdictDrop, VerdictFailed}"

definition makeAlternativeRecord :: "Query \<Rightarrow> string \<Rightarrow> RRCache \<Rightarrow> RRCache" where
  "makeAlternativeRecord q altName c =
     c\<lparr>rc_Answer := rc_Answer c @ map (\<lambda>x. x\<lparr>rr_Name := q_FQDN q\<rparr>)
         (filter (\<lambda>x. ToLower (rr_Name x) = altName) (rc_Answer c)),
       rc_Domain := q_FQDN q\<rparr>"

definition checkAlternativeCaches :: "ns_env \<Rightarrow> Query \<Rightarrow> ns \<Rightarrow> RRCache option" where
  "checkAlternativeCaches env q s =
     (if ICANNSpace q then None
      else let envName = q_FQDN q @ ''local.'' @ InternalSpecialUseDomain;
               c = env_Query (ne_res env) (new_query envName (QType q))
           in if RCode c = RcodeSuccess then Some (makeAlternativeRecord q envName c)
              else let localFQDN = q_FQDN q @ ''local.''
                   in case GetRRCache (ne_res env) (now (ns_res s)) localFQDN (QType q) (name_cache (ns_res s)) of
                        None \<Rightarrow> None
                      | Some c \<Rightarrow> if RCode c = RcodeSuccess then Some (makeAlternativeRecord q localFQDN c) else None)"

text \<open>
  After an error of the resolver: a reply that ends the request, if any, with the response, the
  connection and the state.
\<close>

definition handle_error ::
    "ns_env \<Rightarrow> Query \<Rightarrow> res_error \<Rightarrow> RRCache option \<Rightarrow> fw \<Rightarrow> ns \<Rightarrow> responder option \<times> RRCache option \<times> fw \<times> ns" where
  "handle_error env q err c w s =
     (let cfg = cfg_of (ne_ph env); text = error_String env err
      in if errors_Is err ErrNotFound
         then (case checkAlternativeCaches env q s of
                 None \<Rightarrow> (Some (RespNxDomain [''nxdomain: '' @ text]), None, Failed cfg ''domain does not exist'' [] w, s)
               | Some c \<Rightarrow> (None, Some c, w, s))
         else if errors_Is err ErrBlocked then (Some (RespBlockIP [''blocked: '' @ text]), c, Block cfg text [] w, s)
         else if errors_Is err ErrLocalhost
         then (Some (RespLocalhost []), c, Accept cfg ''allowing query for localhost'' [] w, s)
         else if errors_Is err ErrOffline
         then (case c of
                 None \<Rightarrow> (Some (RespServerFailure [text]), None, Failed cfg ''not resolving, device is offline'' [] w, s)
               | Some c \<Rightarrow> (None, Some (c\<lparr>IsBackup := True\<rparr>), w, s))
         else (Some (RespServerFailure [internalError @ text]), c, Failed cfg (''query failed: '' @ text) [] w,
               addFailingQuery env q text s))"

definition usable_response ::
    "ns_env \<Rightarrow> Query \<Rightarrow> res_error option \<Rightarrow> RRCache option \<Rightarrow> fw \<Rightarrow> ns \<Rightarrow> responder option \<times> RRCache option \<times> fw \<times> ns" where
  "usable_response env q err c w s =
     (case (case err of None \<Rightarrow> (None, c, w, s) | Some e \<Rightarrow> handle_error env q e c w s) of (early, c, w, s) \<Rightarrow>
        (case early of
           Some r \<Rightarrow> (Some r, c, w, s)
         | None \<Rightarrow>
             (case c of
                None \<Rightarrow> (Some (RespServerFailure [internalError @ ''empty reply'']), None, w,
                         addFailingQuery env q ''emptry reply from resolver'' s)
              | Some c \<Rightarrow>
                  if RCode c = RcodeNameError
                  then (case checkAlternativeCaches env q s of
                          Some alt \<Rightarrow> (None, Some alt, w, s)
                        | None \<Rightarrow> (Some (RespNxDomain [''no answer found (NXDomain)'']), Some c, w, s))
                  else (None, Some c, w, s))))"

definition filter_and_reply ::
    "ns_env \<Rightarrow> dns_request \<Rightarrow> string \<Rightarrow> RRCache \<Rightarrow> fw \<Rightarrow> ns \<Rightarrow> (RRCache option \<times> fw \<times> ns) go" where
  "filter_and_reply env request name c w s =
     bind_go (FilterResolvedDNS (ne_res env) (pe_fw (ne_ph env)) c w) (\<lambda>(c, w).
       case special_responder w of
         Some r \<Rightarrow> bind_go (ns_reply env request r [] s) (\<lambda>s. Inr (c, w, s))
       | None \<Rightarrow>
           if to_act_upon w
           then bind_go (ns_reply env request (RespConnection (fw_conn w)) [ConnProvider (fw_conn w), CacheProvider c] s)
                  (\<lambda>s. Inr (c, w, s))
           else case c of
             None \<Rightarrow> Inl NilDereference
           | Some c \<Rightarrow>
               let c = (if ToLower name \<noteq> name then ReplaceAnswerNames name c else c)
               in bind_go (ns_reply env request (RespRRCache c) [ConnProvider (fw_conn w), CacheProvider (Some c)] s)
                    (\<lambda>s. Inr (Some c, w, s)))"

definition resolve_and_reply ::
    "ns_env \<Rightarrow> dns_request \<Rightarrow> string \<Rightarrow> Query \<Rightarrow> fw \<Rightarrow> ns \<Rightarrow> (Query \<times> RRCache option \<times> fw \<times> ns) go" where
  "resolve_and_reply env request name q w s =
     (case Resolve (ne_res env) (waited env) q (ns_res s) of ((c, err), r) \<Rightarrow>
        let q = (case Query_check (ne_res env) q of None \<Rightarrow> q | Some q \<Rightarrow> q)
        in case usable_response env q err c w (s\<lparr>ns_res := r\<rparr>) of (early, c, w, s) \<Rightarrow>
             (case early of
                Some responder \<Rightarrow> bind_go (ns_reply env request responder [] s) (\<lambda>s. Inr (q, c, w, s))
              | None \<Rightarrow>
                  (case c of
                     None \<Rightarrow> Inl NilDereference
                   | Some c \<Rightarrow> bind_go (filter_and_reply env request name c w s) (\<lambda>r. Inr (q, r)))))"

definition answer_query ::
    "ns_env \<Rightarrow> dns_request \<Rightarrow> string \<Rightarrow> Query \<Rightarrow> fw \<Rightarrow> ns \<Rightarrow> (Query \<times> RRCache option \<times> fw \<times> ns) go" where
  "answer_query env request name q w s =
     (case special_responder w of
        Some r \<Rightarrow> bind_go (ns_reply env request r [ConnProvider (fw_conn w)] s) (\<lambda>s. Inr (q, None, w, s))
      | None \<Rightarrow>
          if to_act_upon w
          then bind_go (ns_reply env request (RespConnection (fw_conn w)) [ConnProvider (fw_conn w)] s)
                 (\<lambda>s. Inr (q, None, w, s))
          else resolve_and_reply env request name q w s)"

text \<open>The deferred work: metadata of the connection, and saving it by its verdict.\<close>

definition add_metadata :: "ns_env \<Rightarrow> Query \<Rightarrow> RRCache option \<Rightarrow> fw \<Rightarrow> ns \<Rightarrow> fw" where
  "add_metadata env q c w s =
     (case c of
        Some c \<Rightarrow> on_conn (\<lambda>conn. conn\<lparr>Resolver_IPScope := Some (ri_IPScope (rc_Resolver c)),
                    Entity := (Entity conn)\<lparr>e_IPScope := ri_IPScope (rc_Resolver c)\<rparr>\<rparr>) w
      | None \<Rightarrow>
          (case fst (GetResolversInScope (ne_res env) q (ns_res s)) of
             [] \<Rightarrow> w
           | r # _ \<Rightarrow> on_entity (\<lambda>e. e\<lparr>e_IPScope := ri_IPScope (r_Info r)\<rparr>) w))"

definition finish_request :: "ns_env \<Rightarrow> Query \<Rightarrow> RRCache option \<Rightarrow> fw \<Rightarrow> ns \<Rightarrow> (fw \<times> ns) go" where
  "finish_request env q c w s =
     (let w = add_metadata env q c w s; s = s\<lparr>ns_net := fw_net w\<rparr>; v = c_Verdict (fw_conn w)
      in if v \<in> {VerdictBlock, VerdictDrop, VerdictFailed, VerdictRerouteToNameserver, VerdictRerouteToTunnel}
         then Inr (w, conn_Save (fw_conn w) s)
         else if v \<in> {VerdictUndecided, VerdictAccept}
         then (case c of
                 None \<Rightarrow> Inr (Failed (cfg_of (ne_ph env)) (internalError @ ''no reply'') [] w, s)
               | Some c \<Rightarrow>
                   let w = (if IsSystemResolver (c_process (fw_conn w)) then on_conn (\<lambda>c. c\<lparr>Internal := True\<rparr>) w else w)
                   in bind_go (UpdateIPsAndCNAMEs (ne_res env) (now (ns_res s)) q c w (ns_ips s)) (\<lambda>(w, ips).
                      bind_go (SaveOpenDNSRequest env q (Some c) (fw_conn w) (s\<lparr>ns_ips := ips\<rparr>)) (\<lambda>s. Inr (w, s))))
         else Inr (w, s))"

text \<open>A query that failed recently gets its error again, after a delay.\<close>

definition reply_failing :: "ns_env \<Rightarrow> dns_request \<Rightarrow> int \<Rightarrow> string \<Rightarrow> ns \<Rightarrow> ns go" where
  "reply_failing env request until err s =
     (let remaining = until - now (ns_res s);
          msgs = [internalError @ err, ''delayed failing query to mitigate request flooding'']
      in if remaining < failingDelay then ns_reply env request (RespServerFailure msgs) [] (ns_sleep remaining s)
         else ns_reply env request (RespServerFailure (msgs @ [''error is cached for another '' @ millis_String remaining])) []
                (ns_sleep failingDelay s))"

text \<open>A request that got a connection: filter, answer, and the deferred work.\<close>

definition handle_conn :: "ns_env \<Rightarrow> dns_request \<Rightarrow> string \<Rightarrow> Query \<Rightarrow> fw \<Rightarrow> ns \<Rightarrow> (fw \<times> ns) go" where
  "handle_conn env request name q w s =
     bind_go (filter_query env w) (\<lambda>w.
       bind_go (answer_query env request name q w s) (\<lambda>(q, c, w, s). finish_request env q c w s))"

text \<open>A valid query.\<close>

definition handle_query :: "ns_env \<Rightarrow> dns_request \<Rightarrow> string \<Rightarrow> Query \<Rightarrow> ip \<Rightarrow> port \<Rightarrow> ns \<Rightarrow> ns go" where
  "handle_query env request name q ip prt s =
     (case checkIfQueryIsFailing env q s of (fl, s) \<Rightarrow>
        (case fl of
           Some (until, err) \<Rightarrow> reply_failing env request until err s
         | None \<Rightarrow>
             bind_go (open_request env q ip prt s) (\<lambda>(opened, s).
               case opened of
                 Inl responder \<Rightarrow> ns_reply env request responder [] s
               | Inr w \<Rightarrow> bind_go (handle_conn env request name q w s) (\<lambda>(w, s). Inr s))))"

text \<open>The address of the client, or None if it is not a UDP address.\<close>

definition handleRequest :: "ns_env \<Rightarrow> dns_request \<Rightarrow> (ip \<times> port) option \<Rightarrow> ns \<Rightarrow> ns go" where
  "handleRequest env request remote s =
     (case get_question request of
        Inl msg \<Rightarrow> ns_reply env request (RespRefused [msg]) [] s
      | Inr (name, qtype, _) \<Rightarrow>
          (case remote of
             None \<Rightarrow> ns_reply env request (RespRefused [''unsupported transport'']) [] s
           | Some (ip, prt) \<Rightarrow>
               let q = new_query (ToLower name) qtype
               in if HasSuffix (q_FQDN q) ''localhost.'' \<or> q_FQDN q = hostname env
                  then ns_reply env request (RespLocalhost []) [] s
                  else if \<not> IsValidFqdn (ne_dns env) (q_FQDN q) then ns_reply env request (RespRefused [''invalid domain'']) [] s
                  else bind_go (handle_query env request name (InitPublicSuffixData (ne_res env) q) ip prt s) (\<lambda>s.
                    Inr (cleanFailingQueries env 10 3 s))))"

end
