(* ===== verification/Dns_Filter_Rules.thy ===== *)
theory Dns_Filter_Rules
  imports Dns_Filter
begin

text \<open>
  Properties of the filter for DNS responses: what is taken out of a response and when the query is
  blocked, and that a connection to an address of a response gets the name of the query.
\<close>

section \<open>What is filtered\<close>

text \<open>The option by which an address is filtered, in terms of the current settings.\<close>

definition violates_scope :: "fw_env \<Rightarrow> fw \<Rightarrow> IPScope \<Rightarrow> string option" where
  "violates_scope env s scope =
     (if setting env s ''filter/blockInternet'' \<and> IsGlobal scope then Some ''filter/blockInternet''
      else if setting env s ''filter/blockLAN'' \<and> IsLAN scope then Some ''filter/blockLAN''
      else if setting env s ''filter/blockLocal'' \<and> IsLocalhost scope then Some ''filter/blockLocal''
      else None)"

definition violates :: "fw_env \<Rightarrow> fw \<Rightarrow> IPScope \<Rightarrow> bool \<Rightarrow> ip \<Rightarrow> string option" where
  "violates env s resolverScope sysResolver ip =
     (let scope = GetIPScope ip
      in if setting env s ''filter/removeOutOfScopeDNS'' \<and>
            (IsLocalhost scope \<or> IsGlobal resolverScope \<and> IsLAN scope \<and> \<not> sysResolver)
         then Some ''filter/removeOutOfScopeDNS''
         else if setting env s ''filter/removeBlockedDNS'' \<and> \<not> sysResolver then violates_scope env s scope
         else None)"

definition allowed :: "fw_env \<Rightarrow> fw \<Rightarrow> IPScope \<Rightarrow> bool \<Rightarrow> rr \<Rightarrow> bool" where
  "allowed env s resolverScope sysResolver x \<longleftrightarrow> list_all (\<lambda>ip. violates env s resolverScope sysResolver ip = None) (rr_ips x)"

text \<open>Reading one option after the other, all as of the state \<open>base\<close>.\<close>

lemma read_then:
  assumes "keeps env base s" "\<And>s'. keeps env base s' \<Longrightarrow> ok_go (f (setting env base key, s')) P"
  shows "ok_go (bind_go (read_option (wrapBoolOption key) env s) f) P"
  using read_ok [OF assms(1), of "\<lambda>x. ok_go (f x) P" key] assms(2) by simp

lemma blocked_scope_ok:
  assumes "keeps env base s"
  shows "ok_go (blocked_scope env scope s) (\<lambda>(key, s'). key = violates_scope env base scope \<and> keeps env base s')"
  unfolding blocked_scope_def option_defs
  by (rule read_then [OF assms]) (auto simp: violates_scope_def simp del: ok_go_simps(3) intro!: read_then)

lemma filter_ip_ok:
  assumes "keeps env base s"
  shows "ok_go (filter_ip env scope sys ip s) (\<lambda>(key, s'). key = violates env base scope sys ip \<and> keeps env base s')"
  unfolding filter_ip_def option_defs Let_def
  by (rule read_then [OF assms])
     (auto simp: violates_def Let_def simp del: ok_go_simps(3) intro!: read_then intro: blocked_scope_ok)

lemma rr_ips_cases: "rr_ips x = [] \<or> (\<exists>ip. rr_ips x = [ip])"
  by (auto simp: rr_ips_def split: rdata.split)

lemma filterDNSSection_ok:
  assumes "keeps env base s"
  shows "ok_go (filterDNSSection renv env scope sys xs f s) (\<lambda>(f', s'). keeps env base s' \<and>
    goodEntries f' = goodEntries f @ filter (allowed env base scope sys) xs \<and>
    filteredRecords f' = filteredRecords f @ map (formatRR renv) (filter (\<lambda>x. \<not> allowed env base scope sys x) xs) \<and>
    allowedAddressRecords f' = allowedAddressRecords f +
      length (filter (\<lambda>x. rr_ips x \<noteq> [] \<and> allowed env base scope sys x) xs))"
  using assms
proof (induction xs arbitrary: f s)
  case (Cons x xs)
  show ?case
  proof (cases "rr_ips x")
    case Nil
    then have "allowed env base scope sys x" by (simp add: allowed_def)
    then show ?thesis using Nil by (auto intro!: Cons.IH [OF Cons.prems, THEN ok_go_mono])
  next
    case (Cons ip ips)
    then have al: "allowed env base scope sys x \<longleftrightarrow> violates env base scope sys ip = None"
      using rr_ips_cases [of x] by (auto simp: allowed_def)
    show ?thesis
      using Cons filter_ip_ok [OF Cons.prems, of scope sys ip]
      by (auto simp: al split: option.split elim!: ok_go_mono intro!: Cons.IH [THEN ok_go_mono])
  qed
qed simp

text \<open>All addresses of a response that has been filtered are allowed, and something was taken out of it.\<close>

definition all_removed :: "fw_env \<Rightarrow> fw \<Rightarrow> bool \<Rightarrow> RRCache \<Rightarrow> bool" where
  "all_removed env s sys c =
     (let ok = allowed env s (ri_IPScope (rc_Resolver c)) sys
      in \<not> list_all ok (rc_Answer c @ rc_Extra c) \<and> \<not> list_ex (\<lambda>x. rr_ips x \<noteq> [] \<and> ok x) (rc_Answer c))"

definition is_filtered :: "fw_env \<Rightarrow> fw \<Rightarrow> bool \<Rightarrow> RRCache \<Rightarrow> RRCache \<Rightarrow> bool" where
  "is_filtered env s sys c c' =
     (let ok = allowed env s (ri_IPScope (rc_Resolver c)) sys
      in rc_Answer c' = filter ok (rc_Answer c) \<and> rc_Extra c' = filter ok (rc_Extra c))"

lemma filter_not_empty: "filter (\<lambda>x. \<not> P x) xs = [] \<longleftrightarrow> list_all P xs"
  by (auto simp: filter_empty_conv list_all_iff)

lemma filterDNSResponse_ok:
  assumes ok: "fw_ok env s" and p: "c_process (fw_conn s) = Some p" "Pid p \<noteq> ownPID env"
    and active: "setting env s ''filter/removeOutOfScopeDNS'' \<or> setting env s ''filter/removeBlockedDNS''"
    and c: "FilteredEntries c = []"
  shows "ok_go (filterDNSResponse renv env sys c s) (\<lambda>(c', s'). is_filtered env s sys c c' \<and> fw_ok env s' \<and> core s' = core s \<and>
    c_Verdict (fw_conn s') = (if all_removed env s sys c then VerdictBlock else c_Verdict (fw_conn s)))"
proof -
  let ?ok = "allowed env s (ri_IPScope (rc_Resolver c)) sys"
  let ?sec = "filterDNSSection renv env (ri_IPScope (rc_Resolver c)) sys"
  have none: "length (filter (\<lambda>x. rr_ips x \<noteq> [] \<and> ?ok x) xs) = 0 \<longleftrightarrow> \<not> list_ex (\<lambda>x. rr_ips x \<noteq> [] \<and> ?ok x) xs" for xs
    by (auto simp: filter_empty_conv list_ex_iff)
  have sections: "ok_go (bind_go (?sec (rc_Answer c) no_entries s') (\<lambda>(answer, s'). bind_go (?sec (rc_Extra c) no_entries s') (\<lambda>(extra, s').
      let entries = FilteredEntries c @ filteredRecords answer @ filteredRecords extra;
          c = c\<lparr>rc_Answer := goodEntries answer, rc_Extra := goodEntries extra, FilteredEntries := entries,
                Filtered := (entries \<noteq> [] \<or> Filtered c)\<rparr>;
          key = interveningOptionKey answer
      in if entries \<noteq> [] \<and> allowedAddressRecords answer = 0
         then Inr (c, Block (fe_cfg env) (block_message key) key s') else Inr (c, s'))))
      (\<lambda>(c', s'). is_filtered env s sys c c' \<and> fw_ok env s' \<and> core s' = core s \<and>
        c_Verdict (fw_conn s') = (if all_removed env s sys c then VerdictBlock else c_Verdict (fw_conn s)))"
    (is "ok_go (bind_go _ ?k) ?post") if k: "keeps env s s'" for s'
  proof -
    have "ok_go (?k (a, s1)) ?post"
      if a: "keeps env s s1" "goodEntries a = filter ?ok (rc_Answer c)"
        "filteredRecords a = map (formatRR renv) (filter (\<lambda>x. \<not> ?ok x) (rc_Answer c))"
        "allowedAddressRecords a = length (filter (\<lambda>x. rr_ips x \<noteq> [] \<and> ?ok x) (rc_Answer c))" for a s1
      using filterDNSSection_ok [OF a(1), of renv "ri_IPScope (rc_Resolver c)" sys "rc_Extra c" no_entries] a c none [of "rc_Answer c"]
      by (auto simp: Let_def is_filtered_def all_removed_def no_entries_def verdict_methods keeps_def filter_not_empty
          elim!: ok_go_mono split: if_splits)
    then show ?thesis
      unfolding ok_go_simps(3) by (intro ok_go_mono [OF filterDNSSection_ok [OF k]]) (clarify, simp only: no_entries_def, simp)
  qed
  note sections' = sections [unfolded Let_def ok_go_simps(3)]
  show ?thesis
    unfolding filterDNSResponse_def option_defs with_process_def p(1) option.case if_not_P [OF p(2)] Let_def
    apply (rule read_then [OF keeps_refl [OF ok]], unfold prod.case, cases "setting env s ''filter/removeOutOfScopeDNS''")
    subgoal for s1 by (simp only: if_True ok_go_simps(1, 3) prod.case simp_thms if_False) (rule sections')
    subgoal for s1 using active
      by (simp only: if_False simp_thms) (rule read_then, assumption, simp only: ok_go_simps(1, 3) prod.case simp_thms if_False, rule sections')
    done
qed

section \<open>Aliases\<close>

text \<open>A check of the aliases blocks the query or leaves its verdict as it is; it never fails.\<close>

definition undecided_or_blocked :: "fw_env \<Rightarrow> Verdict \<Rightarrow> bool \<times> fw \<Rightarrow> bool" where
  "undecided_or_blocked env v = (\<lambda>(blocked, s'). fw_ok env s' \<and> c_Verdict (fw_conn s') = (if blocked then VerdictBlock else v))"

lemma reset_ok:
  assumes "fw_ok env s"
  shows "fw_ok env (on_entity (\<lambda>e. EnableCNAMECheck True (ResetLists e)) s)"
    "c_Verdict (fw_conn (on_entity (\<lambda>e. EnableCNAMECheck True (ResetLists e)) s)) = c_Verdict (fw_conn s)"
  using assms
  by (auto simp: fw_ok_def ent_ok_def loc_ok_def on_entity_def EnableCNAMECheck_def ResetLists_def Let_def)

lemma match_lists_step:
  assumes k: "keeps env base s" and lp: "fw_lp s = Some lp"
    and m: "MatchFilterLists (fe_cfg env) lp (entity_of s) = ((res, r, e), lp')"
  shows "keeps env base (on_entity (\<lambda>_. e) (s\<lparr>fw_lp := Some lp'\<rparr>))" "res = Denied \<Longrightarrow> r \<noteq> None"
  using MatchFilterLists_keeps [OF keeps_ok [OF k] lp m] keeps_trans [OF k] by auto

lemma keeps_profile: "keeps env base s \<Longrightarrow> \<exists>lp. fw_lp s = Some lp"
  using keeps_ok by (fastforce simp: fw_ok_def split: option.splits)

lemma block_cname_ok:
  "fw_ok env s \<Longrightarrow> r \<noteq> None \<Longrightarrow> ok_go (block_cname env r s) (undecided_or_blocked env v)"
  by (auto simp: block_cname_def undecided_or_blocked_def verdict_methods)

lemma match_cname_lists_ok:
  assumes k: "keeps env base s"
  shows "ok_go (match_cname_lists env s) (undecided_or_blocked env (c_Verdict (fw_conn base)))"
proof -
  obtain lp where lp: "fw_lp s = Some lp" using keeps_profile [OF k] by blast
  show ?thesis
    using match_lists_step [OF k lp] lp keeps_ok
    by (auto simp: match_cname_lists_def with_profile_def Let_def split: prod.split intro!: block_cname_ok)
       (auto simp: undecided_or_blocked_def keeps_def)
qed

lemma match_cname_rules_ok:
  assumes "fw_ok env s"
  shows "ok_go (match_cname_rules env s) (undecided_or_blocked env (c_Verdict (fw_conn s)))"
proof -
  have k: "keeps env s s" by (rule keeps_refl [OF assms])
  obtain lp where lp: "fw_lp s = Some lp" using keeps_profile [OF k] by blast
  have "ok_go (if res = Denied then block_cname env m s' else if res \<noteq> NoMatch then Inr (False, s') else match_cname_lists env s')
      (undecided_or_blocked env (c_Verdict (fw_conn s)))" if "keeps env s s'" "res \<noteq> NoMatch \<Longrightarrow> m \<noteq> None" for res m s'
    using that keeps_ok [OF that(1)]
    by (auto intro!: block_cname_ok match_cname_lists_ok) (auto simp: undecided_or_blocked_def keeps_def)
  then show ?thesis
    unfolding match_cname_rules_def with_profile_def lp option.case ok_go_simps(3) MatchEndpoint_def [abs_def] match_layers_eq
    by (intro match_ok [OF k]) simp
qed

lemma mayBlockCNAMEs_ok:
  assumes ok: "fw_ok env s"
  shows "ok_go (mayBlockCNAMEs env s) (\<lambda>(blocked, s'). undecided_or_blocked env (c_Verdict (fw_conn s)) (blocked, s') \<and>
    (blocked \<longrightarrow> setting env s ''filter/includeCNAMEs''))"
  unfolding mayBlockCNAMEs_def option_defs
proof (rule read_then [OF keeps_refl [OF ok]], unfold prod.case)
  fix s1 assume k: "keeps env s s1"
  show "ok_go (if \<not> setting env s ''filter/includeCNAMEs'' then Inr (False, s1)
      else match_cname_rules env (on_entity (\<lambda>e. EnableCNAMECheck True (ResetLists e)) s1))
    (\<lambda>(blocked, s'). undecided_or_blocked env (c_Verdict (fw_conn s)) (blocked, s') \<and>
      (blocked \<longrightarrow> setting env s ''filter/includeCNAMEs''))"
    using k match_cname_rules_ok [OF reset_ok(1) [OF keeps_ok [OF k]]] reset_ok(2) [OF keeps_ok [OF k]]
    by (auto simp: keeps_def elim!: ok_go_mono) (auto simp: undecided_or_blocked_def)
qed

section \<open>The whole filter\<close>

lemma ok_go_Some:
  assumes "ok_go m (\<lambda>(r, s'). \<exists>c. r = Some c \<and> P c s')" shows "\<exists>c s'. m = Inr (Some c, s') \<and> P c s'"
proof -
  from assms obtain r s' where "m = Inr (r, s')" "\<exists>c. r = Some c \<and> P c s'" by (auto simp: ok_go_def)
  then show ?thesis by blast
qed

definition connectivity_granted :: "fw_env \<Rightarrow> fw \<Rightarrow> bool" where
  "connectivity_granted env s \<longleftrightarrow> e_Domain (entity_of s) \<noteq> [] \<and> onlineStatus env \<le> 3 \<and> \<not> Inbound (fw_conn s) \<and>
     \<not> setting env s ''filter/blockInternet'' \<and> IsConnectivityDomain (fe_net env) (e_Domain (entity_of s))"

lemma keeps_process: "keeps env s s' \<Longrightarrow> c_process (fw_conn s') = c_process (fw_conn s)"
  by (simp add: keeps_def core_def Let_def)

lemma not_granted:
  assumes "fw_ok env s" "\<not> connectivity_granted env s"
  shows "ok_go (checkConnectivityDomain env s) (\<lambda>(granted, s'). \<not> granted \<and> keeps env s s')"
proof -
  have "e_Domain (entity_of s') = e_Domain (entity_of s)" if "keeps env s s'" for s'
    using that by (auto simp: keeps_def core_def ent_core_def Let_def)
  then show ?thesis
    using assms unfolding checkConnectivityDomain_def option_defs connectivity_granted_def
    by (auto intro!: read_ok [where base = s] intro: keeps_refl)
qed

lemma is_filtered_cong:
  assumes "core s' = core s"
  shows "is_filtered env s' = is_filtered env s" "all_removed env s' = all_removed env s"
proof -
  have "allowed env s' = allowed env s"
    by (intro ext) (simp add: allowed_def violates_def violates_scope_def setting_core [OF assms] cong: if_cong)
  then show "is_filtered env s' = is_filtered env s" "all_removed env s' = all_removed env s"
    by (intro ext, simp add: is_filtered_def all_removed_def)+
qed


text \<open>
  The records of the additional section count for the removed records, but not for the addresses that
  are left: a query for other records is blocked although its answer is complete.
\<close>

lemma extra_blocks_query:
  assumes "list_all (\<lambda>x. rr_ips x = []) (rc_Answer c)"
    and "x \<in> set (rc_Extra c)" "\<not> allowed env s (ri_IPScope (rc_Resolver c)) sys x"
  shows "all_removed env s sys c" "is_filtered env s sys c c' \<Longrightarrow> rc_Answer c' = rc_Answer c"
proof -
  show "all_removed env s sys c"
    using assms by (auto simp: all_removed_def Let_def list_all_iff list_ex_iff)
  have "filter (allowed env s (ri_IPScope (rc_Resolver c)) sys) (rc_Answer c) = rc_Answer c"
    using assms(1) by (auto simp: filter_id_conv list_all_iff allowed_def)
  then show "is_filtered env s sys c c' \<Longrightarrow> rc_Answer c' = rc_Answer c" by (simp add: is_filtered_def Let_def)
qed

section \<open>Addresses are attributed to names\<close>

text \<open>Every entry is stored under its own key, which \<^verbatim>\<open>Save\<close> sets once.\<close>

definition db_ok :: "ip_db \<Rightarrow> bool" where
  "db_ok db \<longleftrightarrow> (\<forall>k info. db k = Some info \<longrightarrow> ii_Key info = Some k)"

text \<open>The entry has the record as its most recent one and is not removed before the time.\<close>

definition recent :: "int \<Rightarrow> ResolvedDomain \<Rightarrow> IPInfo option \<Rightarrow> bool" where
  "recent t rd entry \<longleftrightarrow> (case entry of None \<Rightarrow> False | Some info \<Rightarrow> MostRecentDomain info = Some rd \<and> t \<le> ii_meta_Expires info)"

lemma makeIPInfoKey_inj [simp]: "makeIPInfoKey p ip = makeIPInfoKey p ip' \<longleftrightarrow> ip = ip'"
  by (simp add: makeIPInfoKey_def)

lemma expires_bound: "(a :: int) \<le> foldl (\<lambda>ex rd. if f rd > ex then f rd else ex) a xs"
proof (induction xs rule: rev_induct)
  case (snoc x xs)
  then show ?case by simp
qed simp

lemma MostRecent_AddDomain: "MostRecentDomain (AddDomain rd info) = Some rd"
  by (simp add: MostRecentDomain_def AddDomain_def)

lemma IPInfo_Save_entry:
  assumes "ii_Key info = Some key \<or> ii_Key info = None \<and> ii_ProfileID info \<noteq> [] \<and> key = makeIPInfoKey (ii_ProfileID info) (ii_IP info)"
  shows "\<exists>info'. IPInfo_Save t info db = db(key \<mapsto> info') \<and> ii_Key info' = Some key \<and>
    ResolvedDomains info' = ResolvedDomains info \<and> Unix t + 90000 \<le> ii_meta_Expires info'"
  using assms expires_bound [of "Unix t + 86400" rs_Expires "ResolvedDomains info"]
  by (auto simp: IPInfo_Save_def Let_def)

lemma save_ip_entry:
  assumes db: "db_ok db" and p: "pid \<noteq> []" and "GetIPScope ip \<noteq> HostLocal"
  shows "\<exists>info. save_ip t pid rd ip db = db(makeIPInfoKey pid (IP_String ip) \<mapsto> info) \<and>
    ii_Key info = Some (makeIPInfoKey pid (IP_String ip)) \<and> recent (Unix t + 90000) rd (Some info)"
proof (cases "resolver_GetIPInfo t pid (IP_String ip) db")
  case None
  let ?info = "\<lparr>ii_IP = IP_String ip, ii_ProfileID = pid, ResolvedDomains = [rd], ii_Key = None, ii_meta_Expires = 0\<rparr>"
  have "save_ip t pid rd ip db = IPInfo_Save t ?info db"
    using None assms(3) by (simp add: save_ip_def AddDomain_def)
  then show ?thesis
    using IPInfo_Save_entry [of ?info _ t db] p by (fastforce simp: recent_def MostRecentDomain_def)
next
  case (Some info)
  then have "ii_Key info = Some (makeIPInfoKey pid (IP_String ip))"
    using db by (auto simp: db_ok_def resolver_GetIPInfo_def split: option.splits if_splits)
  moreover have "save_ip t pid rd ip db = IPInfo_Save t (AddDomain rd info) db"
    using Some assms(3) by (simp add: save_ip_def)
  ultimately show ?thesis
    using IPInfo_Save_entry [of "AddDomain rd info" _ t db] MostRecent_AddDomain [of rd info]
    by (fastforce simp: recent_def MostRecentDomain_def AddDomain_def)
qed

lemma save_ip_ok: "db_ok db \<Longrightarrow> pid \<noteq> [] \<Longrightarrow> db_ok (save_ip t pid rd ip db)"
  using save_ip_entry [of db pid ip t rd] by (cases "GetIPScope ip = HostLocal") (auto simp: save_ip_def db_ok_def split: if_splits)

lemma save_ip_recent:
  assumes "db_ok db" "pid \<noteq> []"
    and "recent (Unix t + 90000) rd (db (makeIPInfoKey pid (IP_String ip))) \<or> ip' = ip \<and> GetIPScope ip \<noteq> HostLocal"
  shows "recent (Unix t + 90000) rd (save_ip t pid rd ip' db (makeIPInfoKey pid (IP_String ip)))"
  using save_ip_entry [OF assms(1,2), of ip' t rd] assms(3)
  by (cases "GetIPScope ip' = HostLocal") (auto simp: save_ip_def)

lemma SaveIPsInCache_recent:
  assumes "db_ok db" "pid \<noteq> []" "GetIPScope ip \<noteq> HostLocal"
    and "recent (Unix t + 90000) rd (db (makeIPInfoKey pid (IP_String ip))) \<or> ip \<in> set ips"
  shows "recent (Unix t + 90000) rd (SaveIPsInCache t ips pid rd db (makeIPInfoKey pid (IP_String ip)))"
  using assms
proof (induction ips arbitrary: db)
  case (Cons ip' ips)
  then have "recent (Unix t + 90000) rd (save_ip t pid rd ip' db (makeIPInfoKey pid (IP_String ip))) \<or> ip \<in> set ips"
    using save_ip_recent [of db pid t rd ip ip'] by auto
  then show ?case using Cons.IH [OF save_ip_ok] Cons.prems by (simp add: SaveIPsInCache_def)
qed (simp add: SaveIPsInCache_def)

text \<open>The lookup of the packet handler in the saved addresses.\<close>

definition ip_lookup :: "int \<Rightarrow> ip_db \<Rightarrow> string \<Rightarrow> string \<Rightarrow> resolved_domain option option" where
  "ip_lookup t db profileID ip =
     map_option (\<lambda>info. map_option (\<lambda>rd. \<lparr>rd_Domain = rs_Domain rd, rd_CNAMEs = rs_CNAMEs rd,
                                     rd_Resolver = Some (ri_IPScope (rs_Resolver rd))\<rparr>) (MostRecentDomain info))
       (resolver_GetIPInfo t profileID ip db)"

lemma ip_lookup_recent:
  assumes "recent (Unix t + 90000) rd (db (makeIPInfoKey pid ip))" "Unix t' \<le> Unix t + 90000"
  shows "ip_lookup t' db pid ip = Some (Some \<lparr>rd_Domain = rs_Domain rd, rd_CNAMEs = rs_CNAMEs rd,
    rd_Resolver = Some (ri_IPScope (rs_Resolver rd))\<rparr>)"
  using assms by (auto simp: recent_def ip_lookup_def resolver_GetIPInfo_def split: option.splits)

lemma cname_chain_props:
  "length (cname_chain n start cnames d) \<le> n"
  "start \<notin> set (cname_chain n start cnames d)"
  by (induction n arbitrary: d) (auto split: option.split)

text \<open>
  C14: Connections get the name under which their address was resolved.  Once the response to the
  query of a process has been processed, any connection of the same profile to one of its addresses, within
  the next 25 hours and while the entry is not replaced, is given the name of the query, the scope of
  the resolver and the chain of aliases of the response, which has at most 50 names and never the name
  of the query itself.
\<close>

theorem answered_addresses_attributed:
  assumes db: "db_ok db" and p: "c_process (fw_conn s) \<noteq> None" and lp: "fw_lp s = Some lp" "localProfile lp = Some loc"
    and id: "p_ID loc \<noteq> []" "p_ID loc \<noteq> ''_unidentified''" "p_ID loc \<noteq> ''_system-resolver''"
    and ip: "ip \<in> set (collect_ips (rc_Answer c @ rc_Extra c))" "GetIPScope ip \<noteq> HostLocal"
    and conn: "fw_lp (ph_fw h) = Some lp'" "localProfile lp' = Some loc'" "p_ID loc' = p_ID loc"
      "e_Domain (Entity (ph_conn h)) = []" "info_RemoteIP (pkt_Info pkt) = ip"
    and later: "Unix t' \<le> Unix t + 90000"
  shows "\<exists>s' db' h'. UpdateIPsAndCNAMEs renv t q c s db = Inr (s', db') \<and>
    gather_domain (env\<lparr>GetIPInfo := ip_lookup t' db'\<rparr>) pkt h = Inr h' \<and>
    e_Domain (Entity (ph_conn h')) = q_FQDN q \<and>
    Resolver_IPScope (ph_conn h') = Some (ri_IPScope (rc_Resolver c)) \<and>
    CNAME (Entity (ph_conn h')) = cname_chain 50 (q_FQDN q) (collect_cnames (rc_Answer c @ rc_Extra c)) (q_FQDN q) \<and>
    length (CNAME (Entity (ph_conn h'))) \<le> 50 \<and> q_FQDN q \<notin> set (CNAME (Entity (ph_conn h')))"
proof -
  let ?rd = "resolved_record renv (q_FQDN q) c"
  let ?db = "SaveIPsInCache t (collect_ips (rc_Answer c @ rc_Extra c)) (p_ID loc) ?rd db"
  obtain s' where u: "UpdateIPsAndCNAMEs renv t q c s db = Inr (s', ?db)"
    using p lp id by (auto simp: UpdateIPsAndCNAMEs_def with_process_def with_profile_def Let_def)
  have "recent (Unix t + 90000) ?rd (?db (makeIPInfoKey (p_ID loc) (IP_String ip)))"
    using SaveIPsInCache_recent [OF db id(1) ip(2)] ip(1) by blast
  then have "ip_lookup t' ?db (p_ID loc) (IP_String ip) = Some (Some \<lparr>rd_Domain = rs_Domain ?rd, rd_CNAMEs = rs_CNAMEs ?rd,
    rd_Resolver = Some (ri_IPScope (rs_Resolver ?rd))\<rparr>)" by (rule ip_lookup_recent) (rule later)
  then have "gather_domain (env\<lparr>GetIPInfo := ip_lookup t' ?db\<rparr>) pkt h = Inr (on_fw (on_conn (\<lambda>c. c\<lparr>
      Entity := (Entity c)\<lparr>e_Domain := rs_Domain ?rd, CNAME := rs_CNAMEs ?rd\<rparr>,
      Resolver_IPScope := Some (ri_IPScope (rs_Resolver ?rd))\<rparr>)) h)"
    using conn by (simp add: gather_domain_def Let_def)
  with u show ?thesis
    by (auto simp: resolved_record_def AddCNAMEs_def on_fw_def on_conn_def cname_chain_props)
qed

end
