(* ===== verification/Nameserver_Rules.thy ===== *)
theory Nameserver_Rules
  imports Nameserver Dns_Filter_Rules Packet_Progress
begin

text \<open>
  Properties of the nameserver: every request is answered once, only queries that the firewall let
  pass are resolved, and failing queries are held back for a bounded time.
\<close>

section \<open>Replies\<close>

definition answers :: "dns_request \<Rightarrow> dns_reply \<Rightarrow> bool" where
  "answers req m \<longleftrightarrow> rep_Id m = req_Id req \<and> rep_Question m = take 1 (req_Question req) \<and> RecursionAvailable m"

text \<open>What the library documents: the reply has the identifier and the first question of the request.\<close>

definition replies_match :: "reply_lib \<Rightarrow> bool" where
  "replies_match lib \<longleftrightarrow> (\<forall>m req rcode. rep_Id (SetRcode lib m req rcode) = req_Id req \<and>
     rep_Question (SetRcode lib m req rcode) = take 1 (req_Question req))"

definition silent :: "responder \<Rightarrow> bool" where
  "silent responder = (case responder of RespConnection conn \<Rightarrow> c_Verdict conn = VerdictDrop | _ \<Rightarrow> False)"

lemma reply_header:
  "replies_match env \<Longrightarrow> ReplyWithDNS env responder req = Some m \<Longrightarrow>
     rep_Id m = req_Id req \<and> rep_Question m = take 1 (req_Question req)"
  by (auto simp: ReplyWithDNS_def nsutil_BlockIP_def Localhost_def nsutil_NxDomain_def Refused_def ServerFailure_def
      createResponderFunc_def AddMessagesToReply_def replies_match_def Connection_ReplyWithDNS_def RRCache_ReplyWithDNS_def
      Let_def split: responder.splits if_splits)

lemma reply_silent: "ReplyWithDNS env responder req = None \<longleftrightarrow> silent responder"
  by (auto simp: ReplyWithDNS_def silent_def Connection_ReplyWithDNS_def split: responder.split)

lemma add_extra_ok:
  assumes "CacheProvider None \<notin> set ps"
  shows "ok_go (add_extra env t ps m) (\<lambda>m'. \<exists>extra. m' = m\<lparr>rep_Extra := extra\<rparr>)"
  using assms
proof (induction ps arbitrary: m)
  case Nil
  show ?case by (simp, rule exI [of _ "rep_Extra m"]) simp
next
  case (Cons p ps)
  then obtain rrs where "GetExtraRRs env t p = Inr rrs" by (cases "(env, t, p)" rule: GetExtraRRs.cases) auto
  then show ?case using Cons.IH [of "m\<lparr>rep_Extra := rep_Extra m @ rrs\<rparr>"] Cons.prems by (auto simp: ok_go_def)
qed

text \<open>
  What a reply does to the state: the client gets at most one message, which answers the request, and
  nothing but the time changes otherwise.
\<close>

definition replied :: "dns_request \<Rightarrow> bool \<Rightarrow> ns \<Rightarrow> ns \<Rightarrow> bool" where
  "replied req sure s s' \<longleftrightarrow> (\<exists>r. ns_sent s' = ns_sent s @ r \<and> length r \<le> 1 \<and> (\<forall>m\<in>set r. answers req m) \<and> (sure \<longrightarrow> r \<noteq> []))"

definition idle :: "ns \<Rightarrow> ns \<Rightarrow> bool" where
  "idle s s' \<longleftrightarrow> (\<exists>r t. s' = s\<lparr>ns_sent := ns_sent s @ r, ns_res := (ns_res s)\<lparr>now := t\<rparr>\<rparr>)"

lemma write_sends:
  "writeDNSResponse wr m = (err, sent) \<Longrightarrow> sent \<in> {None, Some m, Some (m\<lparr>rep_Extra := []\<rparr>)} \<and> (wr m = None \<longrightarrow> sent \<noteq> None)"
  by (auto simp: writeDNSResponse_def split: option.splits)

lemma send_ok:
  assumes "replies_match env" "CacheProvider None \<notin> set ps"
  shows "ok_go (sendResponse env wr t req responder ps) (\<lambda>(err, sent). (\<forall>m. sent = Some m \<longrightarrow> answers req m) \<and>
    (silent responder \<or> wr = (\<lambda>_. None) \<longrightarrow> (sent = None \<longleftrightarrow> silent responder)))"
proof (cases "ReplyWithDNS env responder req")
  case None
  moreover from None have "silent responder" using reply_silent by blast
  ultimately show ?thesis by (simp add: sendResponse_def)
next
  case (Some m)
  have m: "answers req (m\<lparr>RecursionAvailable := True, rep_Extra := x\<rparr>)" "\<not> silent responder" for x
    using reply_header [OF assms(1) Some] reply_silent [of env responder req] Some by (auto simp: answers_def)
  have "ok_go (case writeDNSResponse wr m' of (err, sent) \<Rightarrow> Inr (map_option (\<lambda>e. ''failed to send response: '' @ e) err, sent))
      (\<lambda>(err, sent). (\<forall>m. sent = Some m \<longrightarrow> answers req m) \<and>
        (silent responder \<or> wr = (\<lambda>_. None) \<longrightarrow> (sent = None \<longleftrightarrow> silent responder)))"
    if "\<exists>x. m' = (m\<lparr>RecursionAvailable := True\<rparr>)\<lparr>rep_Extra := x\<rparr>" for m'
    using that m write_sends [of wr m'] by (auto split: prod.split)
  note sent = this
  show ?thesis
    unfolding sendResponse_def Some option.case ok_go_simps(3)
    by (rule ok_go_mono [OF add_extra_ok [OF assms(2)]], rule sent)
qed

lemma ns_reply_ok:
  assumes lib: "replies_match (ne_lib env)" and "CacheProvider None \<notin> set ps"
  shows "ok_go (ns_reply env req responder ps s) (\<lambda>s'. idle s s' \<and>
    replied req (WriteMsg env = (\<lambda>_. None) \<and> \<not> silent responder) s s')"
proof -
  let ?s = "ns_sleep (responder_delay responder) s"
  have i: "idle s (?s\<lparr>ns_sent := ns_sent ?s @ r\<rparr>)" for r
    unfolding idle_def ns_sleep_def by (rule exI [of _ r], rule exI [of _ "now (ns_res ?s)"]) (simp add: ns_sleep_def)
  from i [of "[]"] have "idle s ?s" by (simp add: ns_sleep_def)
  with i show ?thesis
    unfolding ns_reply_def Let_def ok_go_simps
    using send_ok [OF assms, of "WriteMsg env" "now (ns_res ?s)" req responder]
    by (elim ok_go_mono) (auto simp: replied_def ns_sleep_def split: option.splits)
qed

section \<open>Failing queries\<close>

lemma fail_duration_bounds: "failingBaseDuration \<le> fail_duration n" "fail_duration n \<le> failingMaxDuration"
  by (auto simp: fail_duration_def failingBaseDuration_def failingMaxDuration_def failingFactorDuration_def Let_def)

lemma fail_duration_mono: "n \<le> k \<Longrightarrow> fail_duration n \<le> fail_duration k"
  by (auto simp: fail_duration_def failingBaseDuration_def failingMaxDuration_def failingFactorDuration_def Let_def)

text \<open>The failures of a query at the given times.\<close>

definition fail_query :: "ns_env \<Rightarrow> Query \<Rightarrow> string \<Rightarrow> ns \<Rightarrow> int list \<Rightarrow> ns" where
  "fail_query env q err s ts = foldl (\<lambda>s t. addFailingQuery env q err (s\<lparr>ns_res := (ns_res s)\<lparr>now := t\<rparr>\<rparr>)) s ts"

lemma fail_query_entry:
  assumes "failingQueries s (Query_ID (ne_res env) q) = None"
  shows "failingQueries (fail_query env q err s (ts @ [t])) (Query_ID (ne_res env) q) =
    Some \<lparr>fq_Until = t + fail_duration (length ts), fq_Keep = t + fail_duration (length ts) + failingKeepAddedDuration,
          fq_Times = length ts + 1, fq_Err = err\<rparr> \<and>
    failingQueriesNetworkChanged (fail_query env q err s (ts @ [t])) = failingQueriesNetworkChanged s"
proof (induction ts arbitrary: t rule: rev_induct)
  case Nil
  then show ?case using assms by (simp add: fail_query_def addFailingQuery_def Let_def)
next
  case (snoc t' ts)
  show ?case using snoc [of t'] by (simp add: fail_query_def addFailingQuery_def Let_def)
qed


section \<open>The filters do not panic\<close>

text \<open>The verdict is kept, or the firewall accepted or blocked.\<close>

definition verdict_from :: "Verdict \<Rightarrow> fw_env \<Rightarrow> fw \<Rightarrow> bool" where
  "verdict_from v env s \<longleftrightarrow> fw_ok env s \<and> c_Verdict (fw_conn s) \<in> {v, VerdictAccept, VerdictBlock}"

lemma keeps_verdict_from: "keeps env s s' \<Longrightarrow> verdict_from (c_Verdict (fw_conn s)) env s'"
  by (simp add: keeps_def verdict_from_def)

lemma sections_safe:
  assumes k: "keeps env base s"
    and f: "\<And>a x s'. keeps env base s' \<Longrightarrow> ok_go (f a x s') (\<lambda>(c', s'). verdict_from (c_Verdict (fw_conn base)) env s')"
  shows "ok_go (bind_go (filterDNSSection renv env scope sys (rc_Answer c) no_entries s) (\<lambda>(answer, s).
      bind_go (filterDNSSection renv env scope sys (rc_Extra c) no_entries s) (\<lambda>(extra, s). f answer extra s)))
    (\<lambda>(c', s'). verdict_from (c_Verdict (fw_conn base)) env s')"
proof -
  have "ok_go (bind_go (filterDNSSection renv env scope sys (rc_Extra c) no_entries s') (\<lambda>(extra, s). f a extra s))
      (\<lambda>(c', s'). verdict_from (c_Verdict (fw_conn base)) env s')" if "keeps env base s'" for a s'
    unfolding ok_go_simps(3) by (rule ok_go_mono [OF filterDNSSection_ok [OF that]]) (auto intro: f)
  then show ?thesis
    unfolding ok_go_simps(3) [of "filterDNSSection renv env scope sys (rc_Answer c) no_entries s"]
    by (intro ok_go_mono [OF filterDNSSection_ok [OF k]]) auto
qed

lemma filterDNSResponse_safe:
  assumes ok: "fw_ok env s"
  shows "ok_go (filterDNSResponse renv env sys c s) (\<lambda>(c', s'). verdict_from (c_Verdict (fw_conn s)) env s')"
proof -
  obtain p where p: "c_process (fw_conn s) = Some p" using ok by (auto simp: fw_ok_def)
  have active: "ok_go (if \<not> active then Inr (c, s1)
      else let scope = ri_IPScope (rc_Resolver c)
           in bind_go (filterDNSSection renv env scope sys (rc_Answer c) no_entries s1) (\<lambda>(answer, s).
              bind_go (filterDNSSection renv env scope sys (rc_Extra c) no_entries s) (\<lambda>(extra, s).
                let entries = FilteredEntries c @ filteredRecords answer @ filteredRecords extra;
                    c = c\<lparr>rc_Answer := goodEntries answer, rc_Extra := goodEntries extra,
                          FilteredEntries := entries, Filtered := (entries \<noteq> [] \<or> Filtered c)\<rparr>;
                    key = interveningOptionKey answer
                in if entries \<noteq> [] \<and> allowedAddressRecords answer = 0
                   then Inr (c, Block (fe_cfg env) (block_message key) key s)
                   else Inr (c, s)))) (\<lambda>(c', s'). verdict_from (c_Verdict (fw_conn s)) env s')"
    if k: "keeps env s s1" for active s1
    using k by (auto simp: Let_def keeps_verdict_from simp del: ok_go_simps(3) intro!: sections_safe [OF k])
       (auto simp: verdict_from_def verdict_methods keeps_def)
  show ?thesis
    unfolding filterDNSResponse_def option_defs with_process_def p option.case
    apply (cases "Pid p = ownPID env")
    subgoal using ok by (simp add: verdict_from_def)
    subgoal
      apply (simp only: if_False)
      apply (rule read_then [OF keeps_refl [OF ok]], unfold prod.case, cases "setting env s ''filter/removeOutOfScopeDNS''")
      subgoal for s1 by (simp only: if_True ok_go_simps(1, 3) prod.case) (rule active)
      subgoal for s1 by (simp only: if_False) (rule read_then, assumption, unfold prod.case, rule active)
      done
    done
qed

lemma connectivity_safe:
  assumes "fw_ok env s"
  shows "ok_go (checkConnectivityDomain env s) (\<lambda>(granted, s'). verdict_from (c_Verdict (fw_conn s)) env s')"
  using assms unfolding checkConnectivityDomain_def option_defs
  by (auto simp: verdict_methods verdict_from_def keeps_def intro!: read_ok [where base = s] intro: keeps_refl)

lemma FilterResolvedDNS_safe:
  assumes ok: "fw_ok env s"
  shows "ok_go (FilterResolvedDNS renv env c s) (\<lambda>(r, s'). r \<noteq> None \<and> verdict_from (c_Verdict (fw_conn s)) env s')"
proof -
  obtain lp where lp: "fw_lp s = Some lp" using keeps_profile [OF keeps_refl [OF ok]] by blast
  have rest: "ok_go (bind_go (filterDNSResponse renv env sys c s1) (\<lambda>(c, s).
      if c_Verdict (fw_conn s) = VerdictBlock \<or> sys then Inr (Some c, s)
      else bind_go (mayBlockCNAMEs env s) (\<lambda>(_, s). Inr (Some c, s))))
      (\<lambda>(r, s'). r \<noteq> None \<and> verdict_from (c_Verdict (fw_conn s)) env s')"
    if v: "verdict_from (c_Verdict (fw_conn s)) env s1" for s1 sys
  proof -
    have ok1: "fw_ok env s1" using v by (simp add: verdict_from_def)
    have cnames: "ok_go (mayBlockCNAMEs env s2) (\<lambda>(_, s'). verdict_from (c_Verdict (fw_conn s)) env s')"
      if "verdict_from (c_Verdict (fw_conn s1)) env s2" for s2
      using mayBlockCNAMEs_ok [of env s2] that v
      by (auto elim!: ok_go_mono simp: verdict_from_def undecided_or_blocked_def split: if_splits)
    have trans: "verdict_from (c_Verdict (fw_conn s)) env s2" if "verdict_from (c_Verdict (fw_conn s1)) env s2" for s2
      using that v by (auto simp: verdict_from_def)
    show ?thesis
      unfolding ok_go_simps(3)
      by (intro ok_go_mono [OF filterDNSResponse_safe [OF ok1]]) (auto simp: trans intro!: ok_go_mono [OF cnames])
  qed
  have "ok_go (bind_go (checkConnectivityDomain env s) (\<lambda>(granted, s1). if granted then Inr (Some c, s1)
      else let sysResolver = IsSystemResolver (c_process (fw_conn s1))
           in bind_go (filterDNSResponse renv env sysResolver c s1) (\<lambda>(c, s).
                if c_Verdict (fw_conn s) = VerdictBlock \<or> sysResolver then Inr (Some c, s)
                else bind_go (mayBlockCNAMEs env s) (\<lambda>(_, s). Inr (Some c, s)))))
      (\<lambda>(r, s'). r \<noteq> None \<and> verdict_from (c_Verdict (fw_conn s)) env s')"
    unfolding ok_go_simps(3) [of "checkConnectivityDomain env s"] Let_def
    by (rule ok_go_mono [OF connectivity_safe [OF ok]]) (clarify, split if_split, intro conjI impI, simp, erule rest)
  then show ?thesis using lp ok by (simp add: FilterResolvedDNS_def verdict_from_def del: ok_go_simps(3))
qed

section \<open>Every request is answered\<close>

text \<open>
  The processes that the nameserver finds have profiles that can be used, as the packet handler assumes
  too, and the filter is enabled.
\<close>

definition good_lp :: "ph_env \<Rightarrow> layered \<Rightarrow> bool" where
  "good_lp env lp \<longleftrightarrow> lp_inv (cfg_of env, lp) \<and> localProfile lp \<noteq> None \<and> RevisionCounter lp \<noteq> -1 \<and>
     list_all (refetchable (GetLocalProfile (pe_fw env))) (layers lp)"

definition ns_ok :: "ns_env \<Rightarrow> ns \<Rightarrow> bool" where
  "ns_ok env s \<longleftrightarrow> profiles_ok (ne_ph env) \<and> filterEnabled (ne_ph env) \<and>
     (\<forall>ip p lp. GetNetworkHost env ip = Inr (p, lp) \<longrightarrow> good_lp (ne_ph env) lp) \<and>
     (\<forall>k dc p lp. dnsConns s k = Some dc \<and> dc_process dc = Some (p, lp) \<longrightarrow> (\<exists>l. lp = Some l \<and> good_lp (ne_ph env) l))"

abbreviation accepts :: "ns_env \<Rightarrow> bool" where
  "accepts env \<equiv> WriteMsg env = (\<lambda>_. None)"

definition fresh_conn :: "ns_env \<Rightarrow> fw \<Rightarrow> bool" where
  "fresh_conn env w \<longleftrightarrow> ready (pe_fw (ne_ph env)) w \<and> dataComplete (fw_conn w) \<and> c_Verdict (fw_conn w) = VerdictUndecided"

lemma new_dns_fresh:
  "profiles_ok (ne_ph env) \<Longrightarrow> good_lp (ne_ph env) lp \<Longrightarrow> fresh_conn env (new_dns_fw env fqdn p (Some lp) s)"
  by (auto simp: fresh_conn_def ready_def good_lp_def new_dns_fw_def ent_ok_def loc_ok_def profiles_ok_def zero_entity_def)

lemma filter_query_ok:
  assumes env: "filterEnabled (ne_ph env)" and w: "fresh_conn env w"
  shows "ok_go (filter_query env w) (\<lambda>w'. fw_ok (pe_fw (ne_ph env)) w' \<and> final (c_Verdict (fw_conn w')))"
proof -
  let ?env = "pe_fw (ne_ph env)"
  have r: "ready ?env w" "dataComplete (fw_conn w)" "c_Verdict (fw_conn w) = VerdictUndecided"
    using w by (auto simp: fresh_conn_def)
  obtain lp where lp: "fw_lp w = Some lp" using r(1) by (auto simp: ready_def split: option.splits)
  obtain w' where w': "decideOnConnection ?env w = Inr w'" "fw_ok ?env w'" "final (c_Verdict (fw_conn w'))"
    using decide_keeps_ok [OF ready_usable [OF r(1) lp]] decide_total_lemma [OF r(1)] r(3) by (auto simp: ok_go_def)
  have "c_Verdict (fw_conn w') \<noteq> VerdictRerouteToTunnel" using w'(3) by (auto simp: final_def)
  then show ?thesis
    using w' r(2) env
    by (simp add: filter_query_def FilterConnection_def dns_ph_def apply_filter_def run_fw_def request_tunnel_def)
qed

lemma NewConnection_fresh:
  assumes "ns_ok env s"
  shows "ok_go (NewConnectionFromDNSRequest env fqdn ip prt s) (fresh_conn env)"
proof -
  let ?info = "\<lparr>i_Inbound = False, i_Protocol = 17, i_SrcPort = prt, i_DstPort = 0, i_Src = ip, i_Dst = [], i_PID = UndefinedProcessID\<rparr>"
  have found: "GetProcessWithProfile (ne_ph env) pid \<noteq> None"
      "GetProcessWithProfile (ne_ph env) pid = Some (p, lp) \<Longrightarrow> fresh_conn env (new_dns_fw env fqdn p lp s)" for pid p lp
  proof -
    obtain p' lp' where "GetProcessWithProfile (ne_ph env) pid = Some (p', Some lp')" "good_lp (ne_ph env) lp'"
      using assms unfolding ns_ok_def profiles_ok_def good_lp_def by blast
    then show "GetProcessWithProfile (ne_ph env) pid \<noteq> None"
      "GetProcessWithProfile (ne_ph env) pid = Some (p, lp) \<Longrightarrow> fresh_conn env (new_dns_fw env fqdn p lp s)"
      using new_dns_fresh assms by (auto simp: ns_ok_def)
  qed
  have saved: "fresh_conn env (new_dns_fw env fqdn p lp s)" 
    if c: "GetDNSRequestConnection ?info s = Some dc" and p: "dc_process dc = Some (p, lp)" for dc p lp
  proof -
    obtain k where "dnsConns s k = Some dc"
      using c by (cases "getDNSRequestConnectionKey ?info") (auto simp: GetDNSRequestConnection_def)
    then obtain l where "lp = Some l" "good_lp (ne_ph env) l" using p assms unfolding ns_ok_def by blast
    then show ?thesis using new_dns_fresh assms by (simp add: ns_ok_def)
  qed
  show ?thesis
    unfolding NewConnectionFromDNSRequest_def Let_def
    using found saved by (auto split: option.split simp del: not_None_eq)
qed

lemma open_request_ok:
  assumes "ns_ok env s"
  shows "ok_go (open_request env q ip prt s) (\<lambda>(opened, s'). ns_sent s' = ns_sent s \<and> asked (ns_res s') = asked (ns_res s) \<and>
    (case opened of Inl r \<Rightarrow> \<not> silent r | Inr w \<Rightarrow> fresh_conn env w))"
proof -
  have ns: "ns_ok env (s\<lparr>ns_net := net\<rparr>)" for net using assms by (simp add: ns_ok_def)
  have ext: "fresh_conn env w" if "NewConnectionFromExternalDNSRequest env fqdn ip (s\<lparr>ns_net := net\<rparr>) = Inr w" for fqdn net w
    using that assms new_dns_fresh by (auto simp: NewConnectionFromExternalDNSRequest_def ns_ok_def split: sum.splits)
  show ?thesis
    using NewConnection_fresh [OF ns] ext
    by (auto simp: open_request_def Let_def silent_def split: prod.split sum.split bool.split elim!: ok_go_mono)
qed

text \<open>What the rest of the request needs of the connection.\<close>

definition known :: "fw \<Rightarrow> bool" where
  "known w \<longleftrightarrow> c_process (fw_conn w) \<noteq> None \<and> has_local w"

lemma fw_ok_known: "fw_ok env w \<Longrightarrow> known w"
  using fw_ok_local [of env w] by (simp add: known_def fw_ok_def)

lemma known_verdict: "known (SetVerdict cfg v m k x w) = known w"
  by (simp add: known_def has_local_def)

lemma special_not_silent: "special_responder w = Some r \<Longrightarrow> \<not> silent r"
  by (auto simp: special_responder_def silent_def split: reason_context.splits)

lemma cache_not_silent: "\<not> silent (RespRRCache c)"
  by (simp add: silent_def)

lemma handle_error_ok:
  assumes "handle_error env q err c w s = (early, c', w', s')" "fw_ok env' w" "c_Verdict (fw_conn w) = VerdictAccept"
  shows "ns_sent s' = ns_sent s \<and> ns_res s' = ns_res s \<and> fw_ok env' w' \<and> (early = None \<longrightarrow> c' \<noteq> None \<and> w' = w) \<and>
    (\<forall>r. early = Some r \<longrightarrow> \<not> silent r)"
  using assms
  by (auto simp: handle_error_def addFailingQuery_def silent_def verdict_methods Let_def split: if_splits option.splits) metis+

lemma usable_response_ok:
  assumes "usable_response env q err c w s = (early, c', w', s')" "fw_ok env' w" "c_Verdict (fw_conn w) = VerdictAccept"
  shows "ns_sent s' = ns_sent s \<and> ns_res s' = ns_res s \<and> fw_ok env' w' \<and> (early = None \<longrightarrow> c' \<noteq> None \<and> w' = w) \<and>
    (\<forall>r. early = Some r \<longrightarrow> \<not> silent r)"
proof -
  obtain early1 c1 w1 s1 where h: "(case err of None \<Rightarrow> (None, c, w, s) | Some e \<Rightarrow> handle_error env q e c w s) = (early1, c1, w1, s1)"
    by (metis prod.exhaust)
  have "ns_sent s1 = ns_sent s \<and> ns_res s1 = ns_res s \<and> fw_ok env' w1 \<and> (early1 = None \<longrightarrow> w1 = w) \<and> (\<forall>r. early1 = Some r \<longrightarrow> \<not> silent r)"
    using h handle_error_ok [of env q _ c w s early1 c1 w1 s1 env'] assms(2,3) by (auto split: option.splits)
  then show ?thesis
    using assms(1) h by (auto simp: usable_response_def addFailingQuery_def silent_def Let_def split: option.splits if_splits) metis+
qed

lemma filter_and_reply_ok:
  assumes lib: "replies_match (ne_lib env)" and "fw_ok (pe_fw (ne_ph env)) w" "c_Verdict (fw_conn w) = VerdictAccept"
  shows "ok_go (filter_and_reply env req name c w s) (\<lambda>(c', w', s'). replied req (accepts env) s s' \<and> known w' \<and> idle s s')"
proof -
  have v: "\<not> silent (RespConnection (fw_conn w'))" "known w'" if "verdict_from VerdictAccept (pe_fw (ne_ph env)) w'" for w'
    using that fw_ok_known by (auto simp: verdict_from_def silent_def)
  have r: "ok_go (ns_reply env req responder ps s) (\<lambda>s'. replied req (accepts env) s s' \<and> idle s s')"
    if "CacheProvider None \<notin> set ps" "\<not> silent responder" for responder ps
    using ns_reply_ok [OF lib that(1), of req responder s] that(2) by (auto elim!: ok_go_mono)
  show ?thesis
    unfolding filter_and_reply_def ok_go_simps(3) [of "FilterResolvedDNS (ne_res env) (pe_fw (ne_ph env)) c w"]
    using FilterResolvedDNS_safe [OF assms(2), of "ne_res env" c] assms(3)
    by (elim ok_go_mono)
       (auto simp: v cache_not_silent Let_def split: option.split intro!: ok_go_mono [OF r] dest: special_not_silent)
qed

lemma reply_then:
  assumes lib: "replies_match (ne_lib env)" and "CacheProvider None \<notin> set ps" "\<not> silent responder"
  shows "ok_go (ns_reply env req responder ps s) (\<lambda>s'. replied req (accepts env) s s')"
  using ns_reply_ok [OF assms(1,2), of req responder s] assms(3) by (auto elim!: ok_go_mono)

lemma resolve_and_reply_ok:
  assumes lib: "replies_match (ne_lib env)" and "fw_ok (pe_fw (ne_ph env)) w" "c_Verdict (fw_conn w) = VerdictAccept"
  shows "ok_go (resolve_and_reply env req name q w s) (\<lambda>(q', c', w', s'). replied req (accepts env) s s' \<and> known w')"
proof -
  obtain c err r where r: "Resolve (ne_res env) (waited env) q (ns_res s) = ((c, err), r)" by (metis prod.exhaust)
  define q' where "q' = (case Query_check (ne_res env) q of None \<Rightarrow> q | Some q \<Rightarrow> q)"
  obtain early c' w' s' where u: "usable_response env q' err c w (s\<lparr>ns_res := r\<rparr>) = (early, c', w', s')" by (metis prod.exhaust)
  note ok = usable_response_ok [OF u assms(2,3)]
  have sent: "replied req b s' s'' = replied req b s s''" "known w'" for b s'' using ok fw_ok_known by (auto simp: replied_def)
  show ?thesis
  proof (cases early)
    case None
    then obtain c1 where c1: "c' = Some c1" "w' = w" using ok by auto
    show ?thesis
      using filter_and_reply_ok [OF assms, of req name c1 s'] r u None c1 sent
      by (auto simp: resolve_and_reply_def q'_def [symmetric] Let_def elim!: ok_go_mono)
  next
    case (Some responder)
    then show ?thesis
      using reply_then [OF lib, of "[]" responder req s'] ok r u sent
      by (auto simp: resolve_and_reply_def q'_def [symmetric] Let_def elim!: ok_go_mono)
  qed
qed

lemma answer_query_ok:
  assumes lib: "replies_match (ne_lib env)" and "fw_ok (pe_fw (ne_ph env)) w" "final (c_Verdict (fw_conn w))"
  shows "ok_go (answer_query env req name q w s)
    (\<lambda>(q', c', w', s'). replied req (accepts env \<and> c_Verdict (fw_conn w) \<noteq> VerdictDrop) s s' \<and> known w')"
proof -
  have weak: "replied req (accepts env \<and> b) s s'" if "replied req (accepts env) s s'" for b s'
    using that by (auto simp: replied_def)
  have conn: "ok_go (ns_reply env req (RespConnection (fw_conn w)) ps s)
      (\<lambda>s'. replied req (accepts env \<and> c_Verdict (fw_conn w) \<noteq> VerdictDrop) s s')" if "CacheProvider None \<notin> set ps" for ps
    using ns_reply_ok [OF lib that, of req "RespConnection (fw_conn w)" s] by (auto simp: silent_def elim!: ok_go_mono)
  have res: "ok_go (resolve_and_reply env req name q w s) (\<lambda>(q', c', w', s'). replied req (accepts env) s s' \<and> known w')"
    if "\<not> to_act_upon w"
    using that assms(3) by (intro resolve_and_reply_ok lib assms(2)) (auto simp: to_act_upon_def final_def)
  show ?thesis
    unfolding answer_query_def
    using fw_ok_known [OF assms(2)]
    by (auto split: option.split dest: special_not_silent intro!: ok_go_mono [OF reply_then [OF lib]] ok_go_mono [OF conn]
        ok_go_mono [OF res] weak)
qed

text \<open>The deferred work ends and sends nothing.\<close>

lemma known_metadata: "known w \<Longrightarrow> known (add_metadata env q c w s)"
  by (cases "fst (GetResolversInScope (ne_res env) q (ns_res s))"; cases c)
     (simp_all add: known_def has_local_def add_metadata_def on_conn_def on_entity_def)

lemma finish_request_ok:
  assumes "known w"
  shows "ok_go (finish_request env q c w s) (\<lambda>(w', s'). ns_sent s' = ns_sent s)"
proof -
  have "ok_go (bind_go (UpdateIPsAndCNAMEs renv t q c w ips) (\<lambda>(w, ips).
      bind_go (SaveOpenDNSRequest env q (Some c) (fw_conn w) (s1\<lparr>ns_ips := ips\<rparr>)) (\<lambda>s. Inr (w, s)))) (\<lambda>(w', s'). ns_sent s' = ns_sent s1)"
    if "known w" for renv t c w ips s1
    using that
    by (auto simp: known_def has_local_def UpdateIPsAndCNAMEs_def with_process_def with_profile_def SaveOpenDNSRequest_def conn_Save_def
        Let_def on_entity_def on_conn_def split: option.splits)
  note rest = this
  have sys: "known (on_conn (\<lambda>c. c\<lparr>Internal := True\<rparr>) w)" if "known w" for w
    using that by (simp add: known_def has_local_def on_conn_def)
  show ?thesis
    using known_metadata [OF assms, of env q c s]
    by (auto simp: finish_request_def Let_def conn_Save_def sys simp del: ok_go_simps(3) split: option.split
        intro!: rest [THEN ok_go_mono])
qed

lemma handle_conn_ok:
  assumes lib: "replies_match (ne_lib env)" and env: "filterEnabled (ne_ph env)" and w: "fresh_conn env w"
  shows "ok_go (handle_conn env req name q w s)
    (\<lambda>(w', s'). \<exists>w1. filter_query env w = Inr w1 \<and> replied req (accepts env \<and> c_Verdict (fw_conn w1) \<noteq> VerdictDrop) s s')"
proof -
  obtain w1 where w1: "filter_query env w = Inr w1" "fw_ok (pe_fw (ne_ph env)) w1" "final (c_Verdict (fw_conn w1))"
    using filter_query_ok [OF env w] by (auto simp: ok_go_def)
  have "ok_go (finish_request env q' c' w' s') (\<lambda>(w', s'). replied req b s s')" if "replied req b s s'" "known w'" for q' c' w' s' b
    using that finish_request_ok [OF that(2), of env q' c' s'] by (auto simp: replied_def elim!: ok_go_mono)
  then show ?thesis
    unfolding handle_conn_def w1(1) bind_go_simps
    unfolding ok_go_simps(3)
    by (intro ok_go_mono [OF answer_query_ok [OF lib w1(2,3)]]) (auto simp: w1(1))
qed

text \<open>The connection of a request after the firewall decided on it, if the request gets that far.\<close>

definition filtered_query :: "ns_env \<Rightarrow> dns_request \<Rightarrow> (ip \<times> port) option \<Rightarrow> ns \<Rightarrow> fw option" where
  "filtered_query env req remote s =
     (case (get_question req, remote) of
        (Inr (name, qtype, _), Some (ip, prt)) \<Rightarrow>
          let q = InitPublicSuffixData (ne_res env) (new_query (ToLower name) qtype)
          in if HasSuffix (ToLower name) ''localhost.'' \<or> ToLower name = hostname env \<or> \<not> IsValidFqdn (ne_dns env) (ToLower name)
             then None
             else (case checkIfQueryIsFailing env q s of
                (None, s) \<Rightarrow>
                  (case open_request env q ip prt s of
                     Inr (Inr w, _) \<Rightarrow> (case filter_query env w of Inr w \<Rightarrow> Some w | Inl _ \<Rightarrow> None)
                   | _ \<Rightarrow> None)
              | _ \<Rightarrow> None)
      | _ \<Rightarrow> None)"

lemma failing_frame: "checkIfQueryIsFailing env q s = (r, s') \<Longrightarrow> ns_sent s' = ns_sent s \<and> ns_res s' = ns_res s \<and> (ns_ok env s' \<longleftrightarrow> ns_ok env s)"
  by (auto simp: checkIfQueryIsFailing_def ns_ok_def split: if_splits option.splits)

lemma reply_failing_ok: 
  assumes "replies_match (ne_lib env)"
  shows "ok_go (reply_failing env req until err s) (\<lambda>s'. replied req (accepts env) s s')"
  using assms unfolding reply_failing_def Let_def
  by (auto simp: silent_def intro!: ok_go_mono [OF reply_then]) (simp_all add: replied_def ns_sleep_def)

lemma handle_query_ok:
  assumes lib: "replies_match (ne_lib env)" and ns: "ns_ok env s"
  shows "ok_go (handle_query env req name q ip prt s) (\<lambda>s'. replied req (accepts env \<and>
    \<not> (\<exists>s1 w s2 w1. checkIfQueryIsFailing env q s = (None, s1) \<and> open_request env q ip prt s1 = Inr (Inr w, s2) \<and>
        filter_query env w = Inr w1 \<and> c_Verdict (fw_conn w1) = VerdictDrop)) s s')"
proof -
  obtain fl s1 where f: "checkIfQueryIsFailing env q s = (fl, s1)" by (metis prod.exhaust)
  note fr = failing_frame [OF f]
  show ?thesis
  proof (cases fl)
    case None
    obtain opened s2 where o: "open_request env q ip prt s1 = Inr (opened, s2)" "ns_sent s2 = ns_sent s1"
        "case opened of Inl r \<Rightarrow> \<not> silent r | Inr w \<Rightarrow> fresh_conn env w"
      using open_request_ok [of env s1 q ip prt] fr ns by (auto simp: ok_go_def)
    have e: "filterEnabled (ne_ph env)" using ns by (simp add: ns_ok_def)
    show ?thesis
    proof (cases opened)
      case (Inl r)
      then show ?thesis
        using reply_then [OF lib, of "[]" r req s2] o fr f None by (auto simp: handle_query_def replied_def elim!: ok_go_mono)
    next
      case (Inr w)
      then show ?thesis
        using handle_conn_ok [OF lib e, of w req name q s2] o fr f None
        by (auto simp: handle_query_def replied_def elim!: ok_go_mono)
    qed
  next
    case (Some x)
    then show ?thesis
      using reply_failing_ok [OF lib, of req "fst x" "snd x" s1] f fr
      by (auto simp: handle_query_def replied_def split: prod.split elim!: ok_go_mono)
  qed
qed

text \<open>
  C7: Every request is answered exactly once, or the firewall dropped it.  Whatever the message holds and
  whatever happens on the way - no question, a foreign host, a recent failure, an error of the resolver, a
  blocked query or response - the handler does not panic, and the client gets one message with the identifier and the
  question of its request.  It gets none only if the verdict on the query is to drop it.  This holds with the filter
  enabled, for processes whose profiles can be fetched, and if the connection to the client takes the message.
\<close>

theorem request_answered:
  assumes "replies_match (ne_lib env)" "ns_ok env s" "WriteMsg env = (\<lambda>_. None)"
  shows "\<exists>s' r. handleRequest env req remote s = Inr s' \<and> ns_sent s' = ns_sent s @ r \<and>
    ((\<exists>m. r = [m] \<and> answers req m) \<or>
     r = [] \<and> (\<exists>w. filtered_query env req remote s = Some w \<and> c_Verdict (fw_conn w) = VerdictDrop))"
proof -
  let ?drop = "\<exists>w. filtered_query env req remote s = Some w \<and> c_Verdict (fw_conn w) = VerdictDrop"
  have "ok_go (handleRequest env req remote s) (\<lambda>s'. replied req (\<not> ?drop) s s')"
  proof (cases "\<exists>name qtype c ip prt. get_question req = Inr (name, qtype, c) \<and> remote = Some (ip, prt) \<and>
      \<not> (HasSuffix (ToLower name) ''localhost.'' \<or> ToLower name = hostname env \<or> \<not> IsValidFqdn (ne_dns env) (ToLower name))")
    case True
    then obtain name qtype c ip prt where q: "get_question req = Inr (name, qtype, c)" "remote = Some (ip, prt)"
      "\<not> (HasSuffix (ToLower name) ''localhost.'' \<or> ToLower name = hostname env \<or> \<not> IsValidFqdn (ne_dns env) (ToLower name))" by blast
    show ?thesis
      using handle_query_ok [OF assms(1,2), of req name "InitPublicSuffixData (ne_res env) (new_query (ToLower name) qtype)" ip prt] q assms(3)
      by (auto simp: handleRequest_def filtered_query_def Let_def replied_def cleanFailingQueries_def new_query_def
          elim!: ok_go_mono)
  next
    case False
    have r: "ok_go (ns_reply env req responder [] s) (replied req b s)" if "\<not> silent responder" for responder b
      using reply_then [OF assms(1), of "[]" responder req s] that assms(3) by (auto simp: replied_def elim!: ok_go_mono)
    show ?thesis
      using False by (auto simp: handleRequest_def Let_def silent_def new_query_def split: sum.split option.split intro!: r)
  qed
  then show ?thesis by (auto simp: ok_go_def replied_def length_Suc_conv le_Suc_eq)
qed

section \<open>What is resolved\<close>

lemma ns_reply_asked: "ns_reply env req responder ps s = Inr s' \<Longrightarrow> asked (ns_res s') = asked (ns_res s)"
  by (auto simp: ns_reply_def ns_sleep_def Let_def bind_go_Inr_iff)

lemma conn_Save_res [simp]: "ns_res (conn_Save conn s) = ns_res s"
  by (simp add: conn_Save_def)

lemma SaveOpen_res: "SaveOpenDNSRequest env q c conn s = Inr s' \<Longrightarrow> ns_res s' = ns_res s"
  by (auto simp: SaveOpenDNSRequest_def split: option.splits if_splits)

lemma finish_request_asked:
  assumes "finish_request env q c w s = Inr (w', s')"
  shows "ns_res s' = ns_res s"
proof (cases "c = None \<or> c_Verdict (fw_conn (add_metadata env q c w s)) \<notin> {VerdictUndecided, VerdictAccept}")
  case True
  then show ?thesis using assms by (auto simp: finish_request_def Let_def split: if_splits)
next
  case False
  then show ?thesis using assms by (auto simp: finish_request_def Let_def bind_go_Inr_iff dest!: SaveOpen_res)
qed

lemma answer_query_asked:
  assumes "answer_query env req name q w s = Inr (q', c', w', s')" "asked (ns_res s') \<noteq> asked (ns_res s)"
  shows "\<not> to_act_upon w \<and> special_responder w = None"
  using assms by (auto simp: answer_query_def bind_go_Inr_iff ns_reply_asked split: option.splits if_splits)

lemma handle_conn_asked:
  assumes "handle_conn env req name q w s = Inr (w', s')" "asked (ns_res s') \<noteq> asked (ns_res s)"
  shows "\<exists>w1. filter_query env w = Inr w1 \<and> \<not> to_act_upon w1 \<and> special_responder w1 = None"
  using assms by (auto simp: handle_conn_def bind_go_Inr_iff dest!: finish_request_asked dest: answer_query_asked)

lemma open_request_asked: "open_request env q ip prt s = Inr (opened, s') \<Longrightarrow> ns_res s' = ns_res s"
  by (auto simp: open_request_def Let_def bind_go_Inr_iff split: prod.splits sum.splits bool.splits if_splits)

lemma open_request_local:
  assumes "open_request env q ip prt s = Inr (Inr w, s')"
  shows "networkServiceMode env \<or> fst (IsMyIP (fe_net (pe_fw (ne_ph env))) ip (ns_net s)) = Inr True"
  using assms
  by (auto simp: open_request_def Let_def bind_go_Inr_iff split: prod.splits sum.splits bool.splits if_splits)

text \<open>
  C8: Only queries that the firewall allowed reach a resolver.  If the handling of a request asked any resolver, then
  it came over UDP from this host, or from a network that this host serves, has a valid name, did not fail recently, and
  the verdict of the firewall on its connection is neither block, drop nor failed.
\<close>

theorem only_allowed_queries_resolved:
  assumes "handleRequest env req remote s = Inr s'" "asked (ns_res s') \<noteq> asked (ns_res s)"
  shows "\<exists>w ip prt name qtype. filtered_query env req remote s = Some w \<and> special_responder w = None \<and>
    c_Verdict (fw_conn w) \<notin> {VerdictBlock, VerdictDrop, VerdictFailed} \<and>
    req_Question req = [(name, qtype, ClassINET)] \<and> IsValidFqdn (ne_dns env) (ToLower name) \<and>
    remote = Some (ip, prt) \<and> (networkServiceMode env \<or> fst (IsMyIP (fe_net (pe_fw (ne_ph env))) ip (ns_net s)) = Inr True)"
proof -
  obtain name qtype c ip prt s1 where h: "get_question req = Inr (name, qtype, c)" "remote = Some (ip, prt)"
      "\<not> (HasSuffix (ToLower name) ''localhost.'' \<or> ToLower name = hostname env \<or> \<not> IsValidFqdn (ne_dns env) (ToLower name))"
      "handle_query env req name (InitPublicSuffixData (ne_res env) (new_query (ToLower name) qtype)) ip prt s = Inr s1"
      "asked (ns_res s1) \<noteq> asked (ns_res s)"
    using assms
    by (auto simp: handleRequest_def Let_def new_query_def cleanFailingQueries_def bind_go_Inr_iff ns_reply_asked
        split: sum.splits option.splits if_splits)
  let ?q = "InitPublicSuffixData (ne_res env) (new_query (ToLower name) qtype)"
  have quest: "req_Question req = [(name, qtype, ClassINET)]"
    using h(1) by (auto simp: get_question_def split: list.splits if_splits)
  obtain fl s2 where f: "checkIfQueryIsFailing env ?q s = (fl, s2)" by (metis prod.exhaust)
  have s2: "ns_res s2 = ns_res s" "ns_net s2 = ns_net s"
    using f by (auto simp: checkIfQueryIsFailing_def split: if_splits option.splits)
  have fl: "fl = None"
    using h(4,5) f s2 by (auto simp: handle_query_def reply_failing_def Let_def ns_sleep_def split: option.splits if_splits dest!: ns_reply_asked)
  obtain opened s3 where o: "open_request env ?q ip prt s2 = Inr (opened, s3)"
    and rest: "(case opened of Inl r \<Rightarrow> ns_reply env req r [] s3 | Inr w \<Rightarrow> bind_go (handle_conn env req name ?q w s3) (\<lambda>(w, s). Inr s)) = Inr s1"
    using h(4) f fl by (auto simp: handle_query_def bind_go_Inr_iff)
  note s3 = open_request_asked [OF o]
  obtain w where w: "opened = Inr w" using rest h(5) s2 s3 by (cases opened) (auto dest!: ns_reply_asked)
  obtain w' where hc: "handle_conn env req name ?q w s3 = Inr (w', s1)" using rest w by (auto simp: bind_go_Inr_iff)
  note loc = open_request_local [OF o [unfolded w]]
  obtain w1 where w1: "filter_query env w = Inr w1" "\<not> to_act_upon w1" "special_responder w1 = None"
    using handle_conn_asked [OF hc] h(5) s2 s3 by auto
  have "filtered_query env req remote s = Some w1"
    using h(1,2,3) f fl o w w1(1) by (simp add: filtered_query_def Let_def)
  then show ?thesis using w1 h(2,3) quest loc s2 by (auto simp: to_act_upon_def)
qed

end
