(* ===== verification/Dns_Filter_Runs.thy ===== *)
theory Dns_Filter_Runs
  imports Dns_Filter_Rules Packet_Runs Resolver_Runs
begin

text \<open>
  Sample responses for the properties of \<open>Dns_Filter_Rules\<close>: a rebinding attempt, in which a public
  resolver answers with a private address, and a response whose address is used by a connection.
\<close>

definition filter_env :: fw_env where
  "filter_env = sample_fw_env\<lparr>fe_cfg := sample_config\<lparr>globalBool := (\<lambda>k. k = ''filter/removeOutOfScopeDNS'')\<rparr>\<rparr>"

definition filter_fw :: fw where
  "filter_fw = sample_fw\<lparr>fw_lp := Some ((NewLayeredProfile sample_profile)\<lparr>globalValidityFlag := Some 1\<rparr>)\<rparr>"

definition private_rr :: rr where
  "private_rr = sample_rr\<lparr>rr_data := RR_A [192, 168, 0, 10]\<rparr>"

definition public_info :: ResolverInfo where
  "public_info = \<lparr>ri_Name = [], ri_Type = ''dns'', ri_Source = ''system'', ri_IP = [9, 9, 9, 9],
     ri_Domain = [], ri_IPScope = Global, ri_Port = 53\<rparr>"

definition sample_response :: "rr list \<Rightarrow> RRCache" where
  "sample_response answer = \<lparr>rc_Domain = ''safing.io.'', rc_Question = TypeA, RCode = 0, rc_Answer = answer,
     rc_Ns = [], rc_Extra = [], rc_Expires = 1700000600, rc_Resolver = public_info, ServedFromCache = False,
     RequestingNew = False, IsBackup = False, Filtered = False, FilteredEntries = [], rc_Modified = 0\<rparr>"

lemma filter_fw_ok: "fw_ok filter_env filter_fw"
  by (simp add: filter_fw_def filter_env_def fw_ok_def lp_ok_def bools.coherent_def NewLayeredProfile_def IsValid_def
      sample_fw_env_def sample_config_def ent_ok_def geo_ok_def loc_ok_def empty_env_def sample_entity_def
      zero_entity_def Init_def)

lemma filter_setting: "setting filter_env filter_fw key \<longleftrightarrow> key = ''filter/removeOutOfScopeDNS'' \<or> key = ''filter/blockInbound''"
  by (simp add: filter_fw_def filter_env_def setting_def bools.value_of_option_def fresh_def GetAsBool_def
      getPerspectiveValueCache_def sample_profile_def NewLayeredProfile_def sample_fw_env_def sample_config_def)


text \<open>The connection of the packet \<open>web_packet\<close> goes to the address of the response.\<close>

definition web_response :: RRCache where
  "web_response = sample_response [sample_rr\<lparr>rr_data := RR_A [9, 9, 9, 9]\<rparr>]"

definition unnamed_ph :: ph where
  "unnamed_ph = empty_ph\<lparr>ph_fw := on_entity (\<lambda>e. e\<lparr>e_Domain := []\<rparr>) filter_fw\<rparr>"

theorem answered_addresses_attributed_witness:
  "\<exists>s' db' h'. UpdateIPsAndCNAMEs sample_renv 1700000000000000000 lan_query web_response filter_fw Map.empty = Inr (s', db') \<and>
     gather_domain ((sample_ph_env sample_profile)\<lparr>GetIPInfo := ip_lookup 1700000003000000000 db'\<rparr>) web_packet
       unnamed_ph = Inr h' \<and>
     e_Domain (Entity (ph_conn h')) = ''printer.lan.''"
proof -
  have ip: "[9, 9, 9, 9] \<in> set (collect_ips (rc_Answer web_response @ rc_Extra web_response))"
    "GetIPScope [9, 9, 9, 9] \<noteq> HostLocal" "Unix 1700000003000000000 \<le> Unix 1700000000000000000 + 90000" by code_simp+
  have db: "db_ok Map.empty" by (simp add: db_ok_def)
  let ?lp = "(NewLayeredProfile sample_profile)\<lparr>globalValidityFlag := Some 1\<rparr>"
  have lp: "c_process (fw_conn filter_fw) \<noteq> None" "fw_lp filter_fw = Some ?lp" "localProfile ?lp = Some sample_profile"
    by (simp_all add: filter_fw_def NewLayeredProfile_def)
  have id: "p_ID sample_profile \<noteq> []" "p_ID sample_profile \<noteq> ''_unidentified''" "p_ID sample_profile \<noteq> ''_system-resolver''"
    by (simp_all add: sample_profile_def)
  have h: "fw_lp (ph_fw unnamed_ph) = Some ?lp" "p_ID sample_profile = p_ID sample_profile"
    "e_Domain (Entity (ph_conn unnamed_ph)) = []" "info_RemoteIP (pkt_Info web_packet) = [9, 9, 9, 9]"
    by (simp_all add: unnamed_ph_def filter_fw_def on_entity_def web_packet_def info_RemoteIP_def)
  have "q_FQDN lan_query = ''printer.lan.''" by (simp add: lan_query_def new_query_def)
  then show ?thesis
    using answered_addresses_attributed [OF db lp id ip(1,2) h(1) lp(3) h(2,3,4) ip(3), of sample_renv lan_query "sample_ph_env sample_profile"]
    by auto
qed

end
