(* ===== verification/Nameserver_Runs.thy ===== *)
theory Nameserver_Runs
  imports Nameserver_Rules Dns_Filter_Runs
begin

text \<open>
  Sample requests to the nameserver, which show that the properties of \<open>Nameserver_Rules\<close> apply: a
  program on this host asks for a printer of the local network.
\<close>

definition sample_ns_env :: ns_env where
  "sample_ns_env = \<lparr>ne_ph = sample_ph_env sample_profile, ne_res = sample_renv,
     ne_dns = \<lparr>dns_IsFqdn = (\<lambda>d. HasSuffix d ''.''), dns_IsDomainName = (\<lambda>_. True), dns_Fqdn = (\<lambda>d. d)\<rparr>,
     ne_lib = \<lparr>lib_NewRR = (\<lambda>x. Some sample_rr), SetRcode = (\<lambda>m req rcode. m\<lparr>rep_Id := req_Id req,
       rep_Question := take 1 (req_Question req), rep_Rcode := rcode\<rparr>)\<rparr>,
     hostname = ''laptop.'', networkServiceMode = False, WriteMsg = (\<lambda>_. None),
     error_String = (\<lambda>_. ''query failed''), GetNetworkHost = (\<lambda>_. Inl ''not found''), visit_order = [], waited = None\<rparr>"

definition sample_ns :: ns where
  "sample_ns = \<lparr>ns_res = sample_loaded, ns_net = sample_net, failingQueries = Map.empty,
     failingQueriesNetworkChanged = False, ns_ips = Map.empty, dnsConns = Map.empty,
     openDNSRequests = Map.empty, saved_conns = [], ns_sent = []\<rparr>"

definition printer_request :: dns_request where
  "printer_request = \<lparr>req_Id = 7, req_Question = [(''Printer.lan.'', TypeA, ClassINET)]\<rparr>"

definition local_client :: "(ip \<times> port) option" where
  "local_client = Some ([127, 0, 0, 1], 40000)"

lemma sample_ns_ok: "ns_ok sample_ns_env sample_ns"
  using sample_profiles_ok [of sample_profile]
  by (simp add: ns_ok_def sample_ns_env_def sample_ns_def sample_ph_env_def sample_profile_def)


theorem request_answered_witness:
  "\<exists>s' m. handleRequest sample_ns_env printer_request local_client sample_ns = Inr s' \<and> ns_sent s' = [m] \<and>
     rep_Id m = 7 \<and> rep_Question m = [(''Printer.lan.'', TypeA, ClassINET)]"
proof -
  have w: "replies_match (ne_lib sample_ns_env)" "WriteMsg sample_ns_env = (\<lambda>_. None)"
    by (simp_all add: replies_match_def sample_ns_env_def)
  have "case filtered_query sample_ns_env printer_request local_client sample_ns of
      None \<Rightarrow> False | Some w \<Rightarrow> c_Verdict (fw_conn w) = VerdictAccept" by code_simp
  then show ?thesis
    using request_answered [OF w(1) sample_ns_ok w(2), of printer_request local_client]
    by (auto simp: answers_def printer_request_def sample_ns_def split: option.splits)
qed

theorem only_allowed_queries_resolved_witness:
  "\<exists>s' w. handleRequest sample_ns_env printer_request local_client sample_ns = Inr s' \<and>
     asked (ns_res s') \<noteq> [] \<and> filtered_query sample_ns_env printer_request local_client sample_ns = Some w \<and>
     c_Verdict (fw_conn w) \<notin> {VerdictBlock, VerdictDrop, VerdictFailed}"
proof -
  have a: "case handleRequest sample_ns_env printer_request local_client sample_ns of
      Inl _ \<Rightarrow> False | Inr s' \<Rightarrow> length (asked (ns_res s')) = 1" by code_simp
  have b: "asked (ns_res sample_ns) = []" by code_simp
  obtain s' where s': "handleRequest sample_ns_env printer_request local_client sample_ns = Inr s'" "asked (ns_res s') \<noteq> []"
    using a by (cases "handleRequest sample_ns_env printer_request local_client sample_ns") (auto simp: length_Suc_conv)
  then show ?thesis using only_allowed_queries_resolved [OF s'(1)] b by auto
qed

end
