(* ===== verification/Spec2Isabelle.thy ===== *)
theory Spec2Isabelle
  imports
    Reference_Tables Netutils Entity_Lists Filter_Index Endpoint_Rules Layered_Rules
    Custom_Lists Dga Netenv Connection Firewall_Decisions Packet_Runs Flow_Progress Terminal
    Resolver_Tcp Nameserver_Runs
begin

text \<open>
  Verification of the Portmaster application firewall, \<^verbatim>\<open>src/\<close>.

  \<^bold>\<open>The program.\<close>  The operating system hands every packet to the Portmaster.  A packet belongs to a
  connection; the worker of the connection collects data about it (the process, the profile of the
  process, the remote entity with its domain, country, network operator and filter lists), decides
  on the connection, and applies the verdict to this and all further packets.  The decision comes
  from a fixed sequence of deciders that consult the layered profile: the rules and options of the
  profile of the application over those of the global configuration.

  \<^bold>\<open>Theories and sources.\<close>  Every theory that models code says in its first paragraph which.

  \<^item> \<open>Go_Base\<close> is the prelude: the result type \<open>'a go\<close> for code that may panic (\<open>Inl\<close> the panic), its
    binding, the predicate \<open>ok_go\<close> for ``returns, with a result that satisfies'', the parts of the Go
    library on strings and numbers that the program uses, and the collection \<open>go_simps\<close>.  \<open>Net_IP\<close>
    is what is used of Go's package net: addresses, networks, parsing and printing.
  \<^item> \<open>Reference_Tables\<close>, \<open>Netutils\<close>: names of ports and protocols, scopes of addresses, broadcast
    addresses, validity of domain names (\<^verbatim>\<open>service/network/reference\<close>, \<^verbatim>\<open>service/network/netutils\<close>).
  \<^item> \<open>Intel_Entity\<close>, \<open>Entity_Lists\<close>, \<open>Filter_Index\<close>: entities with their once-only loading of data
    (\<^verbatim>\<open>service/intel/entity.go\<close>), the lookups in filter lists and the tree of list categories
    (\<^verbatim>\<open>service/intel/filterlists\<close>).
  \<^item> \<open>Custom_Lists\<close>, \<open>Dga\<close>, \<open>Netenv\<close>: the list of the user (\<^verbatim>\<open>service/intel/customlists\<close>), the
    score of generated domains (\<^verbatim>\<open>service/detection/dga\<close>), the addresses of this host
    (\<^verbatim>\<open>service/netenv\<close>).
  \<^item> \<open>Endpoints\<close>, \<open>Endpoint_Rules\<close>: the rule language (\<^verbatim>\<open>service/profile/endpoints\<close>): nine types of
    rules, their parser, printer and matching.
  \<^item> \<open>Layered_Profile\<close>, \<open>Layered_Rules\<close>: profiles, layers, options with their caches
    (\<^verbatim>\<open>service/profile\<close>, \<^verbatim>\<open>base/config\<close>).
  \<^item> \<open>Connection\<close>: verdicts and the part of connections and processes that decisions work on.
  \<^item> \<open>Firewall\<close>, \<open>Firewall_Rules\<close>, \<open>Firewall_Decisions\<close>, \<open>Firewall_Progress\<close>: \<open>decideOnConnection\<close>
    with its deciders, prompting and the choice of a tunnel (\<^verbatim>\<open>service/firewall/master.go\<close> and its
    neighbours).
  \<^item> \<open>Rng\<close>, \<open>Packet_Handler\<close>, \<open>Packet_Rules\<close>, \<open>Packet_Progress\<close>, \<open>Packet_Runs\<close>: the way of a packet,
    from \<open>handlePacket\<close> to the operation that is applied to it
    (\<^verbatim>\<open>service/firewall/packet_handler.go\<close>, \<^verbatim>\<open>service/network/connection_handler.go\<close>).
  \<^item> \<open>Container\<close>, \<open>Container_Rules\<close>: the chunked byte buffers of all wire formats
    (\<^verbatim>\<open>base/container\<close>), with the coding of numbers as a parameter and the coding of the Go library
    as its instance.
  \<^item> \<open>Flow_Control\<close>, \<open>Flow_Rules\<close>, \<open>Flow_Progress\<close>: the flow control between two terminals of the
    SPN (\<^verbatim>\<open>spn/terminal/control_flow.go\<close>): handler, senders, receivers and deliveries as interleaved
    atomic steps of two ends and the wires between them.
  \<^item> \<open>Terminal\<close>: message types and headers, errors and their wire format, terminal options, sessions
    and rate limits of the SPN (\<^verbatim>\<open>spn/terminal\<close>).
  \<^item> \<open>Resolver_Data\<close>, \<open>Resolver_Config\<close>, \<open>Resolver\<close>, \<open>Resolver_Rules\<close>, \<open>Resolver_Runs\<close>: the resolver
    (\<^verbatim>\<open>service/resolver\<close>): its servers and their scopes from the settings, the choice of servers for a
    query, the query loop with failing servers, the cache of responses, reverse lookups.
  \<^item> \<open>Resolver_Requests\<close>, \<open>Resolver_Tcp\<close>: queries that are under way: the deduplication of equal
    queries and the connection of a TCP resolver, as step relations.
  \<^item> \<open>Dns_Filter\<close>, \<open>Dns_Filter_Rules\<close>, \<open>Dns_Filter_Runs\<close>: the firewall on DNS responses and the names
    of addresses (\<^verbatim>\<open>service/firewall/dns.go\<close>).
  \<^item> \<open>Nsutil\<close>, \<open>Nameserver\<close>, \<open>Nameserver_Rules\<close>, \<open>Nameserver_Runs\<close>: the nameserver
    (\<^verbatim>\<open>service/nameserver\<close>), which composes the parts above: a request gets a connection, passes the
    firewall, is resolved, its response is filtered, and the reply is sent.

  \<^bold>\<open>How code is translated.\<close>  A struct is a record, an enumeration a datatype; a machine integer that
  may wrap is a word, other counters are numbers.  A pointer that may be nil is an option, and its
  dereference a panic \<open>NilDereference\<close>; so are index errors and divisions by zero.  A function with
  side effects takes the state and returns the new one; log output, metrics and traces are left
  out.  Concurrency is what the locks of the code leave of it: operations under a lock are single
  steps, and a run is a list of such steps in any order.  Code outside of the repository and the
  operating system are fields of the environments \<open>env\<close>, \<open>fw_env\<close>, \<open>ph_env\<close>, \<open>resolver_env\<close> and \<open>ns_env\<close>, that is, arbitrary
  functions; where a property needs something of them it is a named hypothesis (\<open>geo_ok\<close>: an error of
  the location database has a text; \<open>profiles_ok\<close>: processes have profiles that can be fetched).

  \<^bold>\<open>What is shown.\<close>
  \<^item> Decisions: \<open>decideOnConnection\<close> never panics in a good state and always ends in a final verdict;
    the forced blocks beat every rule; the first decider that decides wins; what each class of
    deciders does to the verdict.
  \<^item> Packets: the first packet of a connection is decided at once; packets of denied connections are
    not accepted, with the exception of inspected DNS; each packet is handled at most once in any
    interleaving of arrivals, worker turns and re-evaluations; pre-authentications are used once.
  \<^item> Profiles: the cached option values are current in every reachable state; rules stack in layer
    order; filter lists deny exactly when a listed source matches.
  \<^item> Rules: parsing and printing are inverse to each other on well-formed rules, the parser yields
    well-formed rules only, matching implements the first decision of an abstract list semantics.
  \<^item> Lists, scopes and tables: lookups return what was stored, tables agree with reference
    definitions.
  \<^item> Containers: every operation implements its counterpart on the plain byte string, whatever the
    division into compartments; blocks that are appended are read back.
  \<^item> Flow control: in every interleaving no receive queue overflows and the data arrives complete and
    in order; from every reachable state some continuation delivers everything that was accepted.
  \<^item> Terminals: headers and errors survive their wire formats; the operations of a session and the
    transfer of data stay below their rates.
  \<^item> Resolver: a query only goes to servers that the settings permit, names of local scopes stay on the
    local network, and a response that was cached is served until it expires.  Equal queries wait
    for one request; every query of a TCP connection has exactly one end, with message IDs that
    are unique.  A server fails by the errors in an observation period only.
  \<^item> DNS responses: exactly the records with allowed addresses remain, and a query without any is
    blocked; a connection gets the name under which its address was resolved.
  \<^item> Nameserver: every request is answered once unless the firewall drops it, without a panic on any
    path; only queries that the firewall allowed reach a resolver; queries that fail are held back for a time
    that grows up to a bound.

  \<^bold>\<open>Interfaces.\<close>  Locales state what one component relies on in another: \<open>handler_contract\<close> and
  \<open>complete_handler\<close> for packet handlers, \<open>decider_contract\<close> for deciders, \<open>rule_matcher\<close> for the types
  of rules, \<open>option_kind\<close> for the three types of cached options.  Each is interpreted on
  the definitions of the model.

  \<^bold>\<open>Bounds and fuel.\<close>  The recursion over categories of filter lists follows parent links that may form
  a cycle; it is a partial function into options.  The search for an unused port makes 1000 tries, as
  in the code.  The rejection loop of the random numbers runs over the list of the numbers drawn.
  The flow control is verified for queues of 2 to 65535 messages, the sizes whose space reports fit
  the 16 bits in which they are read; smaller and larger queues are shown to fail.
  The chain of aliases of a response is followed for 50 names, as in the code.  The search for a free
  message ID has a counter of 16 bits that wraps; it is a partial function, which is shown to return
  exactly if an ID is free.

  \<^bold>\<open>Not modelled.\<close>  Storage, the API and user interface, the packet interception of the operating
  systems, DNS transport, updates and the life cycle of modules: they are input and output or glue
  around goroutines.  Of the resolver, the exchange of
  a message with a server and multicast DNS are fields of \<open>resolver_env\<close>: they are network input and
  output.  Of the nameserver, listening for requests and the building and writing of messages by the DNS library
  (\<open>reply_lib\<close>, with the hypothesis \<open>replies_match\<close>) are left out.
\<close>

end
